(* ===== verification/Errors.thy ===== *)
theory Errors
  imports Main
begin

text \<open>
  \<open>src/sia/errors/codes.py\<close> and \<open>src/sia/errors/exceptions.py\<close>: the error codes with their
  descriptions, and the exception classes derived from \<open>SIAError\<close> with the code that each
  constructor passes to it.  Message texts that are built from values are left out; a class with
  arguments of its own keeps them.
\<close>

section \<open>Codes\<close>

definition E_UNKNOWN :: string where "E_UNKNOWN = ''E0000''"
definition E_NOT_INITIALIZED :: string where "E_NOT_INITIALIZED = ''E0001''"
definition E_INVALID_IDENTITY :: string where "E_INVALID_IDENTITY = ''E0002''"
definition E_BOUNDARY_VIOLATION :: string where "E_BOUNDARY_VIOLATION = ''E0003''"
definition E_POLICY_DENIED :: string where "E_POLICY_DENIED = ''E0004''"
definition E_SIGNATURE_INVALID :: string where "E_SIGNATURE_INVALID = ''E0005''"
definition E_HASH_MISMATCH :: string where "E_HASH_MISMATCH = ''E0006''"
definition E_MEMORY_DECRYPT_FAILED :: string where "E_MEMORY_DECRYPT_FAILED = ''E1000''"
definition E_MEMORY_CONSENT_DENIED :: string where "E_MEMORY_CONSENT_DENIED = ''E1001''"
definition E_MEMORY_SCOPE_MISMATCH :: string where "E_MEMORY_SCOPE_MISMATCH = ''E1002''"
definition E_MEMORY_SCHEMA_INVALID :: string where "E_MEMORY_SCHEMA_INVALID = ''E1003''"
definition E_MEMORY_STORE_FAILED :: string where "E_MEMORY_STORE_FAILED = ''E1004''"
definition E_DELEGATION_EXPIRED :: string where "E_DELEGATION_EXPIRED = ''E2000''"
definition E_DELEGATION_SCOPE_EXCEEDED :: string where "E_DELEGATION_SCOPE_EXCEEDED = ''E2001''"
definition E_DELEGATION_CHAIN_TOO_DEEP :: string where "E_DELEGATION_CHAIN_TOO_DEEP = ''E2002''"
definition E_DELEGATION_REVOKED :: string where "E_DELEGATION_REVOKED = ''E2003''"
definition E_DELEGATION_INVALID :: string where "E_DELEGATION_INVALID = ''E2004''"
definition E_EXPORT_SIGNING_FAILED :: string where "E_EXPORT_SIGNING_FAILED = ''E3000''"
definition E_EXPORT_SCHEMA_INVALID :: string where "E_EXPORT_SCHEMA_INVALID = ''E3001''"
definition E_EXPORT_BUNDLE_INCOMPLETE :: string where "E_EXPORT_BUNDLE_INCOMPLETE = ''E3002''"
definition E_IMPORT_SCHEMA_INVALID :: string where "E_IMPORT_SCHEMA_INVALID = ''E4000''"
definition E_IMPORT_SIGNATURE_INVALID :: string where "E_IMPORT_SIGNATURE_INVALID = ''E4001''"
definition E_IMPORT_VERSION_UNSUPPORTED :: string where "E_IMPORT_VERSION_UNSUPPORTED = ''E4002''"
definition E_IMPORT_DUPLICATE :: string where "E_IMPORT_DUPLICATE = ''E4003''"
definition E_IMPORT_LOAD_FAILED :: string where "E_IMPORT_LOAD_FAILED = ''E4004''"
definition E_AUDIT_CHAIN_BROKEN :: string where "E_AUDIT_CHAIN_BROKEN = ''E5000''"
definition E_AUDIT_TAMPERED :: string where "E_AUDIT_TAMPERED = ''E5001''"
definition E_AUDIT_WRITE_FAILED :: string where "E_AUDIT_WRITE_FAILED = ''E5002''"
definition E_CONFORMANCE_ASSERTION_FAILED :: string where "E_CONFORMANCE_ASSERTION_FAILED = ''E6000''"
definition E_CONFORMANCE_EVIDENCE_INVALID :: string where "E_CONFORMANCE_EVIDENCE_INVALID = ''E6001''"
definition E_CONFORMANCE_RFC_MISSING :: string where "E_CONFORMANCE_RFC_MISSING = ''E6002''"
definition E_REGISTRY_NOT_FOUND :: string where "E_REGISTRY_NOT_FOUND = ''E7000''"
definition E_REGISTRY_DUPLICATE :: string where "E_REGISTRY_DUPLICATE = ''E7001''"
definition E_REGISTRY_CONVERSION_DENIED :: string where "E_REGISTRY_CONVERSION_DENIED = ''E7002''"
definition E_REGISTRY_CREATOR_LOCKED :: string where "E_REGISTRY_CREATOR_LOCKED = ''E7003''"
definition E_BANNED_PROVIDER :: string where "E_BANNED_PROVIDER = ''E8000''"
definition E_PROVIDER_CONFIG :: string where "E_PROVIDER_CONFIG = ''E8001''"
definition E_PROVIDER_CALL_FAILED :: string where "E_PROVIDER_CALL_FAILED = ''E8002''"

lemmas error_codes =
  E_UNKNOWN_def E_NOT_INITIALIZED_def E_INVALID_IDENTITY_def E_BOUNDARY_VIOLATION_def
  E_POLICY_DENIED_def E_SIGNATURE_INVALID_def E_HASH_MISMATCH_def E_MEMORY_DECRYPT_FAILED_def
  E_MEMORY_CONSENT_DENIED_def E_MEMORY_SCOPE_MISMATCH_def E_MEMORY_SCHEMA_INVALID_def E_MEMORY_STORE_FAILED_def
  E_DELEGATION_EXPIRED_def E_DELEGATION_SCOPE_EXCEEDED_def E_DELEGATION_CHAIN_TOO_DEEP_def E_DELEGATION_REVOKED_def
  E_DELEGATION_INVALID_def E_EXPORT_SIGNING_FAILED_def E_EXPORT_SCHEMA_INVALID_def E_EXPORT_BUNDLE_INCOMPLETE_def
  E_IMPORT_SCHEMA_INVALID_def E_IMPORT_SIGNATURE_INVALID_def E_IMPORT_VERSION_UNSUPPORTED_def E_IMPORT_DUPLICATE_def
  E_IMPORT_LOAD_FAILED_def E_AUDIT_CHAIN_BROKEN_def E_AUDIT_TAMPERED_def E_AUDIT_WRITE_FAILED_def
  E_CONFORMANCE_ASSERTION_FAILED_def E_CONFORMANCE_EVIDENCE_INVALID_def E_CONFORMANCE_RFC_MISSING_def E_REGISTRY_NOT_FOUND_def
  E_REGISTRY_DUPLICATE_def E_REGISTRY_CONVERSION_DENIED_def E_REGISTRY_CREATOR_LOCKED_def E_BANNED_PROVIDER_def
  E_PROVIDER_CONFIG_def E_PROVIDER_CALL_FAILED_def

text \<open>The bytes of the dash that one of the descriptions contains.\<close>

definition em_dash :: string where
  "em_dash = [CHR 0xE2, CHR 0x80, CHR 0x94]"

definition DESCRIPTIONS :: "(string \<times> string) list" where
  "DESCRIPTIONS = [
    (E_UNKNOWN, ''Unknown error''),
    (E_NOT_INITIALIZED, ''Authority not initialized''),
    (E_INVALID_IDENTITY, ''Invalid identity material''),
    (E_BOUNDARY_VIOLATION, ''Boundary policy violation''),
    (E_POLICY_DENIED, ''Action denied by authority policy''),
    (E_SIGNATURE_INVALID, ''Cryptographic signature is invalid''),
    (E_HASH_MISMATCH, ''Hash does not match expected value''),
    (E_MEMORY_DECRYPT_FAILED, ''Memory decryption failed''),
    (E_MEMORY_CONSENT_DENIED, ''Cross-model memory access denied '' @ em_dash @ '' no user consent''),
    (E_MEMORY_SCOPE_MISMATCH, ''Memory scope does not match requesting model''),
    (E_MEMORY_SCHEMA_INVALID, ''Memory record schema is invalid''),
    (E_MEMORY_STORE_FAILED, ''Failed to persist memory record''),
    (E_DELEGATION_EXPIRED, ''Delegation token has expired''),
    (E_DELEGATION_SCOPE_EXCEEDED, ''Delegation would exceed granted scope''),
    (E_DELEGATION_CHAIN_TOO_DEEP, ''Delegation chain depth limit exceeded''),
    (E_DELEGATION_REVOKED, ''Delegation has been revoked''),
    (E_DELEGATION_INVALID, ''Delegation token is structurally invalid''),
    (E_EXPORT_SIGNING_FAILED, ''Failed to sign export bundle''),
    (E_EXPORT_SCHEMA_INVALID, ''Export bundle schema is invalid''),
    (E_EXPORT_BUNDLE_INCOMPLETE, ''Export bundle is missing required fields''),
    (E_IMPORT_SCHEMA_INVALID, ''Imported bundle schema is invalid''),
    (E_IMPORT_SIGNATURE_INVALID, ''Imported bundle signature verification failed''),
    (E_IMPORT_VERSION_UNSUPPORTED, ''Imported bundle version is not supported''),
    (E_IMPORT_DUPLICATE, ''Bundle with this ID already imported''),
    (E_IMPORT_LOAD_FAILED, ''Failed to load import bundle''),
    (E_AUDIT_CHAIN_BROKEN, ''Audit ledger chain integrity check failed''),
    (E_AUDIT_TAMPERED, ''Audit ledger entry has been tampered with''),
    (E_AUDIT_WRITE_FAILED, ''Failed to write audit ledger entry''),
    (E_CONFORMANCE_ASSERTION_FAILED, ''Conformance assertion failed''),
    (E_CONFORMANCE_EVIDENCE_INVALID, ''Conformance evidence record is invalid''),
    (E_CONFORMANCE_RFC_MISSING, ''Referenced RFC is not registered''),
    (E_REGISTRY_NOT_FOUND, ''Boundary not found in registry''),
    (E_REGISTRY_DUPLICATE, ''Boundary already registered''),
    (E_REGISTRY_CONVERSION_DENIED, ''Boundary type conversion is not permitted''),
    (E_REGISTRY_CREATOR_LOCKED, ''Creator boundary is locked and cannot be modified''),
    (E_BANNED_PROVIDER, ''Provider is on the banned list and cannot be used''),
    (E_PROVIDER_CONFIG, ''Provider configuration is missing or invalid (API key not found)''),
    (E_PROVIDER_CALL_FAILED, ''Provider HTTP call failed'')]"

definition describe :: "string \<Rightarrow> string" where
  "describe code =
     (case map_of DESCRIPTIONS code of
        Some t \<Rightarrow> t
      | None \<Rightarrow> ''Unknown code: '' @ code)"

section \<open>Exception classes\<close>

datatype sia_error =
    SIAError string
  | AuthorityFailure string
  | NotInitializedError
  | InvalidIdentityError
  | BoundaryViolationError
  | PolicyDeniedError
  | SignatureInvalidError
  | HashMismatchError
  | MemoryDecryptError
  | MemoryConsentDeniedError
  | MemorySchemaError
  | DelegationExpiredError
  | DelegationScopeError
  | DelegationRevokedError
  | DelegationInvalidError
  | ExportError string
  | ImportError string
  | AuditChainError
  | AuditTamperedError
  | ConformanceAssertionError
  | RegistryNotFoundError
  | RegistryDuplicateError
  | CreatorLockedError
  | BannedProviderError string
  | ProviderConfigError string
  | ProviderCallError string "int option"

fun sia_error_code :: "sia_error \<Rightarrow> string" where
  "sia_error_code (SIAError c) = c"
| "sia_error_code (AuthorityFailure c) = c"
| "sia_error_code NotInitializedError = E_NOT_INITIALIZED"
| "sia_error_code InvalidIdentityError = E_INVALID_IDENTITY"
| "sia_error_code BoundaryViolationError = E_BOUNDARY_VIOLATION"
| "sia_error_code PolicyDeniedError = E_POLICY_DENIED"
| "sia_error_code SignatureInvalidError = E_SIGNATURE_INVALID"
| "sia_error_code HashMismatchError = E_HASH_MISMATCH"
| "sia_error_code MemoryDecryptError = E_MEMORY_DECRYPT_FAILED"
| "sia_error_code MemoryConsentDeniedError = E_MEMORY_CONSENT_DENIED"
| "sia_error_code MemorySchemaError = E_MEMORY_SCHEMA_INVALID"
| "sia_error_code DelegationExpiredError = E_DELEGATION_EXPIRED"
| "sia_error_code DelegationScopeError = E_DELEGATION_SCOPE_EXCEEDED"
| "sia_error_code DelegationRevokedError = E_DELEGATION_REVOKED"
| "sia_error_code DelegationInvalidError = E_DELEGATION_INVALID"
| "sia_error_code (ExportError c) = c"
| "sia_error_code (ImportError c) = c"
| "sia_error_code AuditChainError = E_AUDIT_CHAIN_BROKEN"
| "sia_error_code AuditTamperedError = E_AUDIT_TAMPERED"
| "sia_error_code ConformanceAssertionError = E_CONFORMANCE_ASSERTION_FAILED"
| "sia_error_code RegistryNotFoundError = E_REGISTRY_NOT_FOUND"
| "sia_error_code RegistryDuplicateError = E_REGISTRY_DUPLICATE"
| "sia_error_code CreatorLockedError = E_REGISTRY_CREATOR_LOCKED"
| "sia_error_code (BannedProviderError p) = E_BANNED_PROVIDER"
| "sia_error_code (ProviderConfigError p) = E_PROVIDER_CONFIG"
| "sia_error_code (ProviderCallError p s) = E_PROVIDER_CALL_FAILED"

text \<open>\<open>SIAError(code)\<close> without a message: the text of the exception.\<close>

definition sia_str :: "string \<Rightarrow> string option \<Rightarrow> string" where
  "sia_str code message =
     ''['' @ code @ ''] '' @
     (case message of
        None \<Rightarrow> describe code
      | Some m \<Rightarrow> if m = [] then describe code else m)"

lemma code_of_class:
  "sia_error_code e \<in> fst ` set DESCRIPTIONS \<or>
   (\<exists>c. e = SIAError c \<or> e = AuthorityFailure c \<or> e = ExportError c \<or> e = ImportError c)"
  by (cases e) (simp_all add: DESCRIPTIONS_def)

end
