(* ===== verification/Prelude.thy ===== *)
theory Prelude
  imports Errors "HOL-Library.AList" "HOL-Library.Char_ord" "HOL-Library.List_Lexorder"
begin

text \<open>
  Shared vocabulary of the development.

  \<^item> A Python \<open>str\<close> is the list of the bytes of its UTF-8 encoding (\<open>string\<close>, a char list),
    and \<open>bytes\<close> values are char lists too, so that \<open>s.encode("utf-8")\<close> is the identity.  UTF-8
    preserves the code point order, so Python's string order is the lexicographic order here.
  \<^item> A Python \<open>dict\<close> is an association list in insertion order: \<open>d[k] = v\<close> is
    \<open>AList.update k v d\<close> (in place if the key is there, else at the end), \<open>d.get(k)\<close> is
    \<open>map_of d k\<close>.
  \<^item> An exception is a value of \<open>pyexc\<close>; an operation that can raise returns
    \<open>pyexc + 'a\<close> (\<open>Inl\<close> the exception), and an operation of an object that can raise returns
    that result together with the object's state at the moment it returned or raised.
\<close>

named_theorems dict_simps \<open>dictionary lookups after the dictionary operations\<close>
named_theorems res_simps \<open>splitting and sequencing of results\<close>

section \<open>Exceptions and results\<close>

text \<open>
  The built-in exceptions that the sources raise or catch, the package's hierarchy below
  \<open>SIAError\<close>, and the other classes of the repository by class name with \<open>AppError\<close>.
\<close>

datatype pyexc =
    ValueError string
  | TypeError string
  | KeyError string
  | IndexError string
  | PermissionError string
  | OverflowError string
  | RuntimeError string string     \<comment> \<open>class name, message\<close>
  | AppError string string         \<comment> \<open>class name, message\<close>
  | SIAErr sia_error

type_synonym 'a res = "pyexc + 'a"

definition bindE :: "'a res \<Rightarrow> ('a \<Rightarrow> 'b res) \<Rightarrow> 'b res" where
  "bindE m k = (case m of Inl e \<Rightarrow> Inl e | Inr x \<Rightarrow> k x)"

definition guardE :: "bool \<Rightarrow> pyexc \<Rightarrow> unit res" where
  "guardE b e = (if b then Inr () else Inl e)"

lemma bindE_simps [simp, res_simps]:
  "bindE (Inl e) k = Inl e"
  "bindE (Inr x) k = k x"
  by (simp_all add: bindE_def)

lemma bindE_Inr_conv [res_simps]:
  "(bindE m k = Inr y) \<longleftrightarrow> (\<exists>x. m = Inr x \<and> k x = Inr y)"
  by (cases m) simp_all

lemma bindE_Inl_conv [res_simps]:
  "(bindE m k = Inl e) \<longleftrightarrow> (m = Inl e \<or> (\<exists>x. m = Inr x \<and> k x = Inl e))"
  by (cases m) simp_all

lemma guardE_Inr [simp, res_simps]: "(guardE b e = Inr u) \<longleftrightarrow> b"
  by (simp add: guardE_def)

lemma guardE_Inl [simp, res_simps]: "(guardE b e = Inl e') \<longleftrightarrow> \<not> b \<and> e' = e"
  by (auto simp: guardE_def)

lemma guardE_simps [simp]:
  "guardE True e = Inr ()"
  "guardE False e = Inl e"
  by (simp_all add: guardE_def)

lemma bindE_cong [fundef_cong]:
  "m = m' \<Longrightarrow> (\<And>x. m' = Inr x \<Longrightarrow> k x = k' x) \<Longrightarrow> bindE m k = bindE m' k'"
  by (cases m') simp_all

text \<open>\<open>[f(x) for x in xs]\<close> where \<open>f\<close> may raise: the first exception wins.\<close>

fun mapE :: "('a \<Rightarrow> 'b res) \<Rightarrow> 'a list \<Rightarrow> 'b list res" where
  "mapE f [] = Inr []"
| "mapE f (x # xs) = bindE (f x) (\<lambda>y. bindE (mapE f xs) (\<lambda>ys. Inr (y # ys)))"

lemma mapE_cong [fundef_cong]:
  "xs = ys \<Longrightarrow> (\<And>x. x \<in> set ys \<Longrightarrow> f x = g x) \<Longrightarrow> mapE f xs = mapE g ys"
  by (induction ys arbitrary: xs) auto

lemma mapE_Inr_iff: "mapE f xs = Inr ys \<longleftrightarrow> list_all2 (\<lambda>x y. f x = Inr y) xs ys"
proof (induction xs arbitrary: ys)
  case Nil
  then show ?case by auto
next
  case (Cons x xs)
  then show ?case by (cases ys) (auto simp: res_simps list_all2_Cons1)
qed

lemma mapE_pure [simp]: "mapE (\<lambda>x. Inr (f x)) xs = Inr (map f xs)"
  by (induction xs) simp_all

lemma length_mapE: "mapE f xs = Inr ys \<Longrightarrow> length ys = length xs"
  by (simp add: mapE_Inr_iff list_all2_lengthD)

text \<open>Slices of lists: \<open>xs[i:]\<close> with a negative index counted from the end.\<close>

definition slice_from :: "int \<Rightarrow> 'a list \<Rightarrow> 'a list" where
  "slice_from i xs = drop (if i < 0 then length xs - nat (- i) else nat i) xs"

section \<open>Dictionaries\<close>

lemma map_of_update [simp, dict_simps]: "map_of (AList.update k v d) = (map_of d)(k \<mapsto> v)"
  by (rule update_conv')

lemma keys_update_mem [dict_simps]:
  "k \<in> fst ` set d \<Longrightarrow> map fst (AList.update k v d) = map fst d"
  by (induction d) auto

lemma keys_update_new [dict_simps]:
  "k \<notin> fst ` set d \<Longrightarrow> AList.update k v d = d @ [(k, v)]"
  by (induction d) auto

lemma map_of_None_keys: "map_of d k = None \<longleftrightarrow> k \<notin> fst ` set d"
  by (rule map_of_eq_None_iff)

lemma update_fresh: "map_of d k = None \<Longrightarrow> AList.update k v d = d @ [(k, v)]"
  by (simp add: map_of_None_keys keys_update_new)

text \<open>\<open>{**a, **b}\<close> and \<open>dict(pairs)\<close>.\<close>

definition dict_merge :: "('k \<times> 'v) list \<Rightarrow> ('k \<times> 'v) list \<Rightarrow> ('k \<times> 'v) list" where
  "dict_merge a b = foldl (\<lambda>d p. AList.update (fst p) (snd p) d) a b"

lemma dict_merge_simps [simp]:
  "dict_merge a [] = a"
  "dict_merge a (p # b) = dict_merge (AList.update (fst p) (snd p) a) b"
  by (simp_all add: dict_merge_def)

lemma map_of_dict_merge [dict_simps]:
  "distinct (map fst b) \<Longrightarrow> map_of (dict_merge a b) = map_of a ++ map_of b"
proof (induction b arbitrary: a)
  case Nil
  then show ?case by simp
next
  case (Cons p b)
  then have "map_of b (fst p) = None"
    by (simp add: map_of_None_keys)
  with Cons show ?case
    by (cases p) (auto simp: fun_eq_iff map_add_def split: option.splits)
qed

text \<open>\<open>list(dict.fromkeys(xs))\<close>: the distinct elements in the order of their first occurrence.\<close>

fun fromkeys :: "'a list \<Rightarrow> 'a list" where
  "fromkeys [] = []"
| "fromkeys (x # xs) = x # filter (\<lambda>y. y \<noteq> x) (fromkeys xs)"

lemma set_fromkeys [simp]: "set (fromkeys xs) = set xs"
  by (induction xs) auto

lemma distinct_fromkeys [simp]: "distinct (fromkeys xs)"
  by (induction xs) auto

text \<open>\<open>sorted(set(xs))\<close>: the canonical listing of a set of strings.\<close>

definition sorted_set :: "string list \<Rightarrow> string list" where
  "sorted_set xs = sort (remdups xs)"

lemma sorted_set_props [simp]:
  "sorted (sorted_set xs)"
  "distinct (sorted_set xs)"
  "set (sorted_set xs) = set xs"
  by (simp_all add: sorted_set_def)

lemma sorted_set_unique:
  "sorted ys \<Longrightarrow> distinct ys \<Longrightarrow> set ys = set xs \<Longrightarrow> sorted_set xs = ys"
  by (simp add: sorted_distinct_set_unique)

lemma sorted_set_cong: "set xs = set ys \<Longrightarrow> sorted_set xs = sorted_set ys"
  by (rule sorted_set_unique) simp_all

lemma sorted_set_id: "sorted xs \<Longrightarrow> distinct xs \<Longrightarrow> sorted_set xs = xs"
  by (rule sorted_set_unique) simp_all

text \<open>\<open>E(value)\<close> of a string-valued enumeration: the member with that value.\<close>

definition enum_of :: "('a \<Rightarrow> string) \<Rightarrow> 'a list \<Rightarrow> string \<Rightarrow> 'a option" where
  "enum_of val members s = List.find (\<lambda>x. val x = s) members"

lemma enum_of_Some: "enum_of val members s = Some c \<Longrightarrow> val c = s \<and> c \<in> set members"
  by (auto simp: enum_of_def find_Some_iff)

lemma enum_of_value:
  "inj_on val (set members) \<Longrightarrow> c \<in> set members \<Longrightarrow> enum_of val members (val c) = Some c"
proof (induction members)
  case Nil
  then show ?case by simp
next
  case (Cons x xs)
  then show ?case by (auto simp: enum_of_def inj_on_def)
qed

section \<open>Strings\<close>

text \<open>\<open>s or t\<close> for strings, and \<open>x or y\<close> for an optional string.\<close>

definition str_or :: "string \<Rightarrow> string \<Rightarrow> string" where
  "str_or s t = (if s = [] then t else s)"

definition ostr_or :: "string option \<Rightarrow> string \<Rightarrow> string" where
  "ostr_or s t = (case s of None \<Rightarrow> t | Some x \<Rightarrow> str_or x t)"

definition startswith :: "string \<Rightarrow> string \<Rightarrow> bool" where
  "startswith s p = (take (length p) s = p)"

definition endswith :: "string \<Rightarrow> string \<Rightarrow> bool" where
  "endswith s p = (length p \<le> length s \<and> drop (length s - length p) s = p)"

text \<open>\<open>s.replace(old, new)\<close> for a non-empty \<open>old\<close>.\<close>

fun str_replace :: "string \<Rightarrow> string \<Rightarrow> string \<Rightarrow> string" where
  "str_replace old new [] = []"
| "str_replace old new (c # cs) =
     (if old \<noteq> [] \<and> startswith (c # cs) old
      then new @ str_replace old new (drop (length old - 1) cs)
      else c # str_replace old new cs)"

text \<open>\<open>s.lower()\<close> on ASCII letters.\<close>

definition lower_char :: "char \<Rightarrow> char" where
  "lower_char c =
     (let n = of_char c :: nat in if 65 \<le> n \<and> n \<le> 90 then char_of (n + 32) else c)"

definition str_lower :: "string \<Rightarrow> string" where
  "str_lower s = map lower_char s"

text \<open>\<open>str(n)\<close> of a natural number and of an integer.\<close>

fun nat_digits :: "nat \<Rightarrow> string" where
  "nat_digits n =
     (if n < 10 then [char_of (48 + n)]
      else nat_digits (n div 10) @ [char_of (48 + n mod 10)])"

declare nat_digits.simps [simp del]

definition int_str :: "int \<Rightarrow> string" where
  "int_str i = (if i < 0 then CHR ''-'' # nat_digits (nat (- i)) else nat_digits (nat i))"

definition digit_chars :: "char set" where
  "digit_chars = char_of ` {48..57::nat}"

lemma char_of_inject256: "m < 256 \<Longrightarrow> n < 256 \<Longrightarrow> char_of m = (char_of n :: char) \<longleftrightarrow> m = (n::nat)"
  by (metis of_char_of mod_less)

lemma digit_in [simp]: "(n::nat) < 10 \<Longrightarrow> char_of (48 + n) \<in> digit_chars"
  by (auto simp: digit_chars_def intro!: imageI)

lemma nat_digits_ne [simp]: "nat_digits n \<noteq> []"
  by (subst nat_digits.simps) simp

lemma nat_digits_chars: "set (nat_digits n) \<subseteq> digit_chars"
proof (induction n rule: nat_digits.induct)
  case (1 n)
  have "n mod 10 < 10" by simp
  with "1" show ?case
    by (subst nat_digits.simps) (auto simp del: One_nat_def)
qed

lemma nat_digits_inj: "nat_digits m = nat_digits n \<Longrightarrow> m = n"
proof (induction m arbitrary: n rule: nat_digits.induct)
  case (1 m)
  show ?case
  proof (cases "m < 10")
    case True
    then have "length (nat_digits m) = 1" by (subst nat_digits.simps) simp
    with "1.prems" have "n < 10"
      by (metis One_nat_def append_is_Nil_conv butlast_snoc length_butlast length_0_conv
          nat_digits.simps nat_digits_ne diff_Suc_1)
    with True "1.prems" show ?thesis
      by (simp add: nat_digits.simps char_of_inject256)
  next
    case False
    have "\<not> n < 10"
    proof
      assume "n < 10"
      with False "1.prems" show False
        by (simp add: nat_digits.simps [of m] nat_digits.simps [of n])
    qed
    with False "1.prems" have d: "nat_digits (m div 10) = nat_digits (n div 10)"
      and c: "char_of (48 + m mod 10) = (char_of (48 + n mod 10) :: char)"
      by (simp_all add: nat_digits.simps [of m] nat_digits.simps [of n])
    from c have "m mod 10 = n mod 10"
      using mod_less_divisor [of 10 m] mod_less_divisor [of 10 n]
      by (subst (asm) char_of_inject256) simp_all
    moreover from False d have "m div 10 = n div 10" by (rule "1.IH")
    ultimately show ?thesis by (metis div_mult_mod_eq)
  qed
qed

lemma minus_not_digit [simp]: "CHR ''-'' \<notin> digit_chars"
proof
  assume "CHR ''-'' \<in> digit_chars"
  then obtain k :: nat where "k \<le> 57" "48 \<le> k" "CHR ''-'' = char_of k"
    by (auto simp: digit_chars_def)
  moreover have "CHR ''-'' = char_of (45::nat)" by code_simp
  ultimately show False
    using char_of_inject256 [of 45 k] by simp
qed

lemma int_str_inj: "int_str i = int_str j \<Longrightarrow> i = j"
proof -
  have hd: "hd (nat_digits n) \<noteq> CHR ''-''" for n
    using nat_digits_chars [of n] hd_in_set [OF nat_digits_ne, of n] minus_not_digit by force
  assume "int_str i = int_str j"
  then show ?thesis
    using hd [of "nat i"] hd [of "nat j"]
    by (auto simp: int_str_def dest!: nat_digits_inj split: if_splits)
       (metis list.sel(1))+
qed

section \<open>Hexadecimal\<close>

text \<open>\<open>bytes.hex()\<close>: two lower-case digits per byte.\<close>

definition hexdigit :: "nat \<Rightarrow> char" where
  "hexdigit n = char_of (if n < 10 then 48 + n else 87 + n)"

definition hex_byte :: "char \<Rightarrow> string" where
  "hex_byte c = [hexdigit (of_char c div 16), hexdigit (of_char c mod 16)]"

definition hex :: "string \<Rightarrow> string" where
  "hex bs = concat (map hex_byte bs)"

definition unhexdigit :: "char \<Rightarrow> nat option" where
  "unhexdigit c =
     (let n = of_char c :: nat in
      if 48 \<le> n \<and> n \<le> 57 then Some (n - 48)
      else if 97 \<le> n \<and> n \<le> 102 then Some (n - 87)
      else if 65 \<le> n \<and> n \<le> 70 then Some (n - 55)
      else None)"

definition ascii_space :: "char \<Rightarrow> bool" where
  "ascii_space c = (let n = of_char c :: nat in n = 32 \<or> (9 \<le> n \<and> n \<le> 13))"

text \<open>
  \<open>bytes.fromhex(s)\<close>: pairs of digits of either case, ASCII white space skipped between pairs;
  \<open>None\<close> is the \<open>ValueError\<close> it raises.
\<close>

fun fromhex :: "string \<Rightarrow> string option" where
  "fromhex [] = Some []"
| "fromhex (c # cs) =
     (if ascii_space c then fromhex cs
      else case cs of
        [] \<Rightarrow> None
      | d # ds \<Rightarrow>
          (case (unhexdigit c, unhexdigit d) of
             (Some h, Some l) \<Rightarrow> map_option (Cons (char_of (16 * h + l))) (fromhex ds)
           | _ \<Rightarrow> None))"

lemma unhexdigit_hexdigit [simp]: "n < 16 \<Longrightarrow> unhexdigit (hexdigit n) = Some n"
  by (auto simp: unhexdigit_def hexdigit_def Let_def)

lemma hexdigit_not_space [simp]: "n < 16 \<Longrightarrow> \<not> ascii_space (hexdigit n)"
  by (auto simp: ascii_space_def hexdigit_def Let_def)

lemma of_char_lt [simp]: "of_char c < (256::nat)"
  by (metis of_char_mod_256 mod_less_divisor zero_less_numeral)

lemma fromhex_hex [simp]: "fromhex (hex bs) = Some bs"
proof (induction bs)
  case Nil
  then show ?case by (simp add: hex_def)
next
  case (Cons b bs)
  have "of_char b div 16 < (16::nat)"
    using of_char_lt [of b] by (simp add: less_mult_imp_div_less)
  with Cons show ?case
    by (simp add: hex_def hex_byte_def)
qed

lemma hex_inj: "hex a = hex b \<Longrightarrow> a = b"
  by (metis fromhex_hex option.inject)

lemma length_hex [simp]: "length (hex bs) = 2 * length bs"
  by (induction bs) (simp_all add: hex_def hex_byte_def)

lemma hex_eq_Nil [simp]: "hex bs = [] \<longleftrightarrow> bs = []"
  using length_hex [of bs] by (cases bs) (auto simp: hex_def hex_byte_def)

end
