(* ===== verification/Canonical.thy ===== *)
theory Canonical
  imports Prelude
begin

text \<open>
  \<open>src/sia/utils/canonical.py\<close> and \<open>src/sia/utils/hashing.py\<close>: the universe of Python values
  that enter a signed or hashed document, their canonicalisation, JSON text, canonical bytes and
  the hash helpers.  The main lemmas are that canonicalisation yields a normal form, that JSON
  text can be decoded in one way only, hence that canonical bytes determine the canonical value.
\<close>

section \<open>Values\<close>

text \<open>
  A float is given by its class and, if finite, by \<open>repr\<close>; a \<open>Decimal\<close> by the text of
  \<open>format(d.normalize(), "f")\<close> (\<open>None\<close> when it is not finite); a \<open>date\<close> by \<open>isoformat()\<close>;
  a \<open>datetime\<close> by its wall clock reading in microseconds and, when aware, its UTC offset.
  Dictionaries have string keys, as every document built by the sources has.
\<close>

datatype pyfloat = Finite string | NaN | PosInf | NegInf

datatype pydatetime = Naive int | Aware int int

datatype pyval =
    VNone
  | VBool bool
  | VInt int
  | VFloat pyfloat
  | VStr string
  | VList "pyval list"
  | VTuple "pyval list"
  | VDict "(string \<times> pyval) list"
  | VDatetime pydatetime
  | VDate string
  | VDecimal "string option"

type_synonym pydict = "(string \<times> pyval) list"

definition opt_str :: "string option \<Rightarrow> pyval" where
  "opt_str s = (case s of None \<Rightarrow> VNone | Some t \<Rightarrow> VStr t)"

definition opt_int :: "int option \<Rightarrow> pyval" where
  "opt_int s = (case s of None \<Rightarrow> VNone | Some t \<Rightarrow> VInt t)"

definition str_list :: "string list \<Rightarrow> pyval" where
  "str_list xs = VList (map VStr xs)"

lemma opt_str_inj [simp]: "opt_str a = opt_str b \<longleftrightarrow> a = b"
  by (auto simp: opt_str_def split: option.splits)

lemma opt_int_inj [simp]: "opt_int a = opt_int b \<longleftrightarrow> a = b"
  by (auto simp: opt_int_def split: option.splits)

lemma str_list_inj [simp]: "str_list a = str_list b \<longleftrightarrow> a = b"
  by (auto simp: str_list_def inj_map_eq_map inj_def)

section \<open>The runtime\<close>

text \<open>
  The digest functions, Unicode normalisation and time formatting of the runtime.  Every statement
  holds for whatever functions these are, unless it names a law of them as a hypothesis.
  \<open>rt_digest\<close> is \<open>hashlib.sha3_512(b).digest()\<close>; \<open>rt_isoformat\<close> is \<open>isoformat()\<close> of the aware
  UTC datetime at an instant; \<open>rt_fromiso\<close> is \<open>datetime.fromisoformat\<close> (\<open>None\<close>: ValueError);
  \<open>rt_str\<close> is \<open>str(v)\<close> of a float or a container.
\<close>

record runtime =
  rt_digest :: "string \<Rightarrow> string"
  rt_nfc :: "string \<Rightarrow> string"
  rt_isoformat :: "int \<Rightarrow> string"
  rt_fromiso :: "string \<Rightarrow> pydatetime option"
  rt_str :: "pyval \<Rightarrow> string"

text \<open>\<open>str(v)\<close>\<close>

fun py_str :: "runtime \<Rightarrow> pyval \<Rightarrow> string" where
  "py_str rt (VStr s) = s"
| "py_str rt VNone = ''None''"
| "py_str rt (VBool b) = (if b then ''True'' else ''False'')"
| "py_str rt (VInt i) = int_str i"
| "py_str rt v = rt_str rt v"

text \<open>\<open>hashlib.sha3_512(b).hexdigest()\<close>\<close>

definition hexdigest :: "runtime \<Rightarrow> string \<Rightarrow> string" where
  "hexdigest rt b = hex (rt_digest rt b)"

section \<open>Canonicalisation\<close>

definition replace_utc :: "string \<Rightarrow> string" where
  "replace_utc s = str_replace ''+00:00'' ''Z'' s"

lemma size_dict_mem [termination_simp]:
  "p \<in> set d \<Longrightarrow> size (snd p) < Suc (size_list (size_prod (\<lambda>x. 0) size) d)"
  by (induction d) (auto simp: less_Suc_eq)

function canonicalize :: "runtime \<Rightarrow> pyval \<Rightarrow> pyval res" where
  "canonicalize rt (VDict d) =
     bindE (mapE (\<lambda>p. bindE (canonicalize rt (snd p)) (\<lambda>v. Inr (fst p, v))) (sort_key fst d))
       (\<lambda>d'. Inr (VDict d'))"
| "canonicalize rt (VList xs) = bindE (mapE (canonicalize rt) xs) (\<lambda>ys. Inr (VList ys))"
| "canonicalize rt (VTuple xs) = bindE (mapE (canonicalize rt) xs) (\<lambda>ys. Inr (VList ys))"
| "canonicalize rt (VStr s) = Inr (VStr (rt_nfc rt s))"
| "canonicalize rt (VDatetime dt) =
     (case dt of
        Naive w \<Rightarrow> Inr (VStr (replace_utc (rt_isoformat rt w)))
      | Aware w off \<Rightarrow> Inr (VStr (replace_utc (rt_isoformat rt (w - off)))))"
| "canonicalize rt (VDate s) = Inr (VStr s)"
| "canonicalize rt (VDecimal t) =
     (case t of
        None \<Rightarrow> Inl (ValueError ''Non-finite decimal values are not allowed in canonical bytes'')
      | Some s \<Rightarrow> Inr (VStr s))"
| "canonicalize rt (VFloat f) =
     (case f of
        Finite s \<Rightarrow> Inr (VFloat (Finite s))
      | _ \<Rightarrow> Inl (ValueError ''Non-finite float values are not allowed in canonical bytes''))"
| "canonicalize rt VNone = Inr VNone"
| "canonicalize rt (VBool b) = Inr (VBool b)"
| "canonicalize rt (VInt i) = Inr (VInt i)"
  by pat_completeness auto
termination
  by (relation "measure (\<lambda>(rt, v). size v)") (auto simp: size_dict_mem less_Suc_eq_le size_list_estimation')

section \<open>JSON text\<close>

fun esc_char :: "char \<Rightarrow> string" where
  "esc_char c =
     (let n = of_char c :: nat; bs = CHR 0x5C in
      if n = 34 then [bs, CHR 0x22]
      else if n = 92 then [bs, bs]
      else if n = 10 then [bs, CHR ''n'']
      else if n = 13 then [bs, CHR ''r'']
      else if n = 9 then [bs, CHR ''t'']
      else if n = 12 then [bs, CHR ''f'']
      else if n = 8 then [bs, CHR ''b'']
      else if n < 32 then bs # ''u00'' @ hex_byte c
      else [c])"

text \<open>A string literal with \<open>ensure_ascii=False\<close>.\<close>

definition quote_utf8 :: "string \<Rightarrow> string" where
  "quote_utf8 s = CHR 0x22 # concat (map esc_char s) @ [CHR 0x22]"

fun sep_by :: "string \<Rightarrow> string list \<Rightarrow> string" where
  "sep_by sp [] = []"
| "sep_by sp [x] = x"
| "sep_by sp (x # y # zs) = x @ sp @ sep_by sp (y # zs)"

text \<open>
  The options of \<open>json.dumps\<close>: the string encoder chosen by \<open>ensure_ascii\<close>, \<open>allow_nan\<close>, the
  two separators and \<open>sort_keys\<close>.
\<close>

record json_style =
  js_quote :: "string \<Rightarrow> string"
  js_nan :: bool
  js_item :: string
  js_key :: string
  js_sort :: bool

function dumps :: "json_style \<Rightarrow> pyval \<Rightarrow> string res" where
  "dumps st VNone = Inr ''null''"
| "dumps st (VBool b) = Inr (if b then ''true'' else ''false'')"
| "dumps st (VInt i) = Inr (int_str i)"
| "dumps st (VFloat f) =
     (case f of
        Finite s \<Rightarrow> Inr s
      | _ \<Rightarrow> if js_nan st
            then Inr (case f of PosInf \<Rightarrow> ''Infinity'' | NegInf \<Rightarrow> ''-Infinity'' | _ \<Rightarrow> ''NaN'')
            else Inl (ValueError ''Out of range float values are not JSON compliant''))"
| "dumps st (VStr s) = Inr (js_quote st s)"
| "dumps st (VList xs) =
     bindE (mapE (dumps st) xs) (\<lambda>ts. Inr (''['' @ sep_by (js_item st) ts @ '']''))"
| "dumps st (VTuple xs) =
     bindE (mapE (dumps st) xs) (\<lambda>ts. Inr (''['' @ sep_by (js_item st) ts @ '']''))"
| "dumps st (VDict d) =
     bindE (mapE (\<lambda>p. bindE (dumps st (snd p)) (\<lambda>t. Inr (js_quote st (fst p) @ js_key st @ t)))
              (if js_sort st then sort_key fst d else d))
       (\<lambda>ts. Inr (''{'' @ sep_by (js_item st) ts @ ''}''))"
| "dumps st (VDatetime dt) = Inl (TypeError ''Object of type datetime is not JSON serializable'')"
| "dumps st (VDate s) = Inl (TypeError ''Object of type date is not JSON serializable'')"
| "dumps st (VDecimal t) = Inl (TypeError ''Object of type Decimal is not JSON serializable'')"
  by pat_completeness auto
termination
  by (relation "measure (\<lambda>(st, v). size v)")
     (auto simp: size_dict_mem less_Suc_eq_le size_list_estimation' split: if_splits)

definition compact :: json_style where
  "compact = \<lparr>js_quote = quote_utf8, js_nan = False, js_item = '','', js_key = '':'', js_sort = True\<rparr>"

definition canonical_bytes :: "runtime \<Rightarrow> pyval \<Rightarrow> string res" where
  "canonical_bytes rt v = bindE (canonicalize rt v) (dumps compact)"

definition canonical_json :: "runtime \<Rightarrow> pyval \<Rightarrow> string res" where
  "canonical_json rt v = canonical_bytes rt v"

definition canonical_dict :: "runtime \<Rightarrow> pyval \<Rightarrow> pyval res" where
  "canonical_dict rt v = canonicalize rt v"

section \<open>Hash helpers\<close>

definition default_domain :: string where
  "default_domain = ''SIA_ARTIFACT''"

definition hash_bytes :: "runtime \<Rightarrow> string \<Rightarrow> string" where
  "hash_bytes rt b = rt_digest rt b"

definition hash_hex :: "runtime \<Rightarrow> string \<Rightarrow> string" where
  "hash_hex rt b = hexdigest rt b"

definition canonical_hash :: "runtime \<Rightarrow> string \<Rightarrow> pyval \<Rightarrow> string res" where
  "canonical_hash rt domain v =
     bindE (canonical_bytes rt v) (\<lambda>b. Inr (hash_hex rt (domain @ [CHR 0x00] @ b)))"

definition hash_object :: "runtime \<Rightarrow> pyval \<Rightarrow> string res" where
  "hash_object rt v = canonical_hash rt default_domain v"

definition chain_hash :: "runtime \<Rightarrow> string \<Rightarrow> string \<Rightarrow> pyval \<Rightarrow> string res" where
  "chain_hash rt domain prev v =
     bindE (canonical_bytes rt v)
       (\<lambda>b. Inr (hash_hex rt (domain @ [CHR 0x00] @ prev @ [CHR 0x00] @ b)))"

section \<open>Canonical values are normal\<close>

definition numchars :: "char set" where
  "numchars = digit_chars \<union> {CHR ''-'', CHR ''+'', CHR ''.'', CHR ''e''}"

text \<open>
  \<open>repr\<close> of a finite float starts with a digit or a minus sign, consists of number characters
  and has a point or an exponent, which no integer text has.
\<close>

definition float_text :: "string \<Rightarrow> bool" where
  "float_text t \<longleftrightarrow>
     t \<noteq> [] \<and> hd t \<in> digit_chars \<union> {CHR ''-''} \<and> set t \<subseteq> numchars \<and>
     (CHR ''.'' \<in> set t \<or> CHR ''e'' \<in> set t)"

fun wf_pyval :: "pyval \<Rightarrow> bool" where
  "wf_pyval (VFloat (Finite t)) = float_text t"
| "wf_pyval (VList xs) = list_all wf_pyval xs"
| "wf_pyval (VTuple xs) = list_all wf_pyval xs"
| "wf_pyval (VDict d) = (distinct (map fst d) \<and> list_all (\<lambda>p. wf_pyval (snd p)) d)"
| "wf_pyval _ = True"

fun json_normal :: "pyval \<Rightarrow> bool" where
  "json_normal VNone = True"
| "json_normal (VBool b) = True"
| "json_normal (VInt i) = True"
| "json_normal (VFloat (Finite t)) = float_text t"
| "json_normal (VStr s) = True"
| "json_normal (VList xs) = list_all json_normal xs"
| "json_normal (VDict d) =
     (sorted (map fst d) \<and> distinct (map fst d) \<and> list_all (\<lambda>p. json_normal (snd p)) d)"
| "json_normal _ = False"

lemma canonicalize_keys:
  assumes "mapE (\<lambda>p. bindE (f (snd p)) (\<lambda>v. Inr (fst p, v))) d = Inr d'"
  shows "map fst d' = map fst d"
  using assms by (induction d arbitrary: d') (auto simp: res_simps)

lemma canonicalize_vals:
  assumes "mapE (\<lambda>p. bindE (f (snd p)) (\<lambda>v. Inr (fst p, v))) d = Inr d'" and "q \<in> set d'"
  shows "\<exists>p \<in> set d. f (snd p) = Inr (snd q)"
  using assms by (induction d arbitrary: d') (auto simp: res_simps)

lemma mapE_set: "mapE f xs = Inr ys \<Longrightarrow> y \<in> set ys \<Longrightarrow> \<exists>x \<in> set xs. f x = Inr y"
  by (induction xs arbitrary: ys) (auto simp: res_simps)

lemma distinct_keys_sort: "distinct (map fst (sort_key fst d)) = distinct (map fst d)"
  by (simp add: distinct_map)

lemma canonicalize_normal:
  "canonicalize rt v = Inr w \<Longrightarrow> wf_pyval v \<Longrightarrow> json_normal w"
proof (induction rt v arbitrary: w rule: canonicalize.induct)
  case (1 rt d)
  from "1.prems"(1) obtain d' where w: "w = VDict d'" and
    m: "mapE (\<lambda>p. bindE (canonicalize rt (snd p)) (\<lambda>v. Inr (fst p, v))) (sort_key fst d) = Inr d'"
    by (auto simp: res_simps)
  have "sorted (map fst d') \<and> distinct (map fst d')"
    using canonicalize_keys [OF m] "1.prems"(2) by (simp add: distinct_keys_sort)
  moreover have "json_normal (snd q)" if "q \<in> set d'" for q
  proof -
    from canonicalize_vals [OF m that] obtain p
      where p: "p \<in> set (sort_key fst d)" "canonicalize rt (snd p) = Inr (snd q)" by blast
    with "1.prems"(2) have "wf_pyval (snd p)" by (auto simp: list_all_iff)
    with p show ?thesis by (rule "1.IH")
  qed
  ultimately show ?case by (auto simp: w list_all_iff)
next
  case (2 rt xs)
  then show ?case by (fastforce simp: res_simps list_all_iff dest: mapE_set)
next
  case (3 rt xs)
  then show ?case by (fastforce simp: res_simps list_all_iff dest: mapE_set)
qed (auto split: option.splits pydatetime.splits pyfloat.splits)

section \<open>JSON text is uniquely decodable\<close>

text \<open>Reading one escaped character back.\<close>

definition unesc_hex :: "string \<Rightarrow> (char \<times> string) option" where
  "unesc_hex r =
     (case r of
        z0 # z1 # h # l # r' \<Rightarrow>
          (case (unhexdigit h, unhexdigit l) of
             (Some a, Some b) \<Rightarrow> Some (char_of (16 * a + b), r')
           | _ \<Rightarrow> None)
      | _ \<Rightarrow> None)"

definition unesc :: "string \<Rightarrow> (char \<times> string) option" where
  "unesc s =
     (case s of
        [] \<Rightarrow> None
      | c # r \<Rightarrow>
          if c \<noteq> CHR 0x5C then Some (c, r)
          else case r of
            [] \<Rightarrow> None
          | t # r' \<Rightarrow>
              if t = CHR 0x22 then Some (CHR 0x22, r')
              else if t = CHR 0x5C then Some (CHR 0x5C, r')
              else if t = CHR ''n'' then Some (char_of (10::nat), r')
              else if t = CHR ''r'' then Some (char_of (13::nat), r')
              else if t = CHR ''t'' then Some (char_of (9::nat), r')
              else if t = CHR ''f'' then Some (char_of (12::nat), r')
              else if t = CHR ''b'' then Some (char_of (8::nat), r')
              else if t = CHR ''u'' then unesc_hex r'
              else None)"

lemma char_eq_of_char: "(of_char c :: nat) = n \<Longrightarrow> c = char_of n"
  by auto

lemma unesc_hex_byte: "unesc_hex (z0 # z1 # hex_byte c @ x) = Some (c, x)"
proof -
  have "of_char c div 16 < (16::nat)"
    using of_char_lt [of c] by (simp add: less_mult_imp_div_less)
  then show ?thesis by (simp add: unesc_hex_def hex_byte_def)
qed

lemma of_char_code: "(of_char c0 :: nat) = n \<Longrightarrow> (of_char c = n) \<longleftrightarrow> c = c0"
  by auto

lemma special_codes:
  "(of_char c :: nat) = 34 \<longleftrightarrow> c = CHR 0x22"
  "(of_char c :: nat) = 92 \<longleftrightarrow> c = CHR 0x5C"
  "(of_char c :: nat) = 10 \<longleftrightarrow> c = CHR 0x0A"
  "(of_char c :: nat) = 13 \<longleftrightarrow> c = CHR 0x0D"
  "(of_char c :: nat) = 9 \<longleftrightarrow> c = CHR 0x09"
  "(of_char c :: nat) = 12 \<longleftrightarrow> c = CHR 0x0C"
  "(of_char c :: nat) = 8 \<longleftrightarrow> c = CHR 0x08"
  by (rule of_char_code, code_simp)+

lemma special_chars:
  "char_of (10::nat) = CHR 0x0A" "char_of (13::nat) = CHR 0x0D" "char_of (9::nat) = CHR 0x09"
  "char_of (12::nat) = CHR 0x0C" "char_of (8::nat) = CHR 0x08"
  by code_simp+

lemma esc_char_eq:
  "esc_char c =
     (if c = CHR 0x22 then [CHR 0x5C, CHR 0x22]
      else if c = CHR 0x5C then [CHR 0x5C, CHR 0x5C]
      else if c = CHR 0x0A then [CHR 0x5C, CHR ''n'']
      else if c = CHR 0x0D then [CHR 0x5C, CHR ''r'']
      else if c = CHR 0x09 then [CHR 0x5C, CHR ''t'']
      else if c = CHR 0x0C then [CHR 0x5C, CHR ''f'']
      else if c = CHR 0x08 then [CHR 0x5C, CHR ''b'']
      else if (of_char c :: nat) < 32 then CHR 0x5C # ''u00'' @ hex_byte c
      else [c])"
  unfolding esc_char.simps Let_def special_codes by (rule refl)

declare esc_char.simps [simp del]

lemma unesc_esc_char: "unesc (esc_char c @ x) = Some (c, x)"
  by (simp add: esc_char_eq unesc_def unesc_hex_byte special_chars)

lemma esc_char_prefix: "esc_char c @ x = esc_char d @ y \<Longrightarrow> c = d \<and> x = y"
  by (metis unesc_esc_char option.inject prod.inject)

lemma esc_char_hd: "\<exists>d ds. esc_char c = d # ds \<and> d \<noteq> CHR 0x22"
  by (simp add: esc_char_eq)

lemma quote_prefix:
  "quote_utf8 s @ r = quote_utf8 t @ r' \<Longrightarrow> s = t \<and> r = r'"
proof -
  have body: "concat (map esc_char s) @ CHR 0x22 # r = concat (map esc_char t) @ CHR 0x22 # r' \<Longrightarrow>
      s = t \<and> r = r'" for s t
  proof (induction s arbitrary: t)
    case Nil
    then show ?case
      using esc_char_hd [of "hd t"] by (cases t) auto
  next
    case (Cons c s)
    show ?case
    proof (cases t)
      case Nil
      with Cons.prems show ?thesis using esc_char_hd [of c] by auto
    next
      case (Cons d t')
      with Cons.prems have "c = d" and
        "concat (map esc_char s) @ CHR 0x22 # r = concat (map esc_char t') @ CHR 0x22 # r'"
        using esc_char_prefix [of c "concat (map esc_char s) @ CHR 0x22 # r" d
            "concat (map esc_char t') @ CHR 0x22 # r'"] by simp_all
      with Cons.IH Cons show ?thesis by blast
    qed
  qed
  assume "quote_utf8 s @ r = quote_utf8 t @ r'"
  then show ?thesis by (intro body) (simp add: quote_utf8_def)
qed

text \<open>
  A text is followed by the end or by a character that cannot continue a number; the head
  character of a text tells the constructor of its value.
\<close>

definition delimited :: "string \<Rightarrow> bool" where
  "delimited r \<longleftrightarrow> r = [] \<or> hd r \<notin> numchars"

lemma digit_chars_eq: "digit_chars = set ''0123456789''"
proof -
  have "digit_chars = set (map char_of [48..<58::nat])"
    by (simp only: digit_chars_def set_map set_upt) (auto simp: atLeastLessThan_def)
  also have "map char_of [48..<58::nat] = ''0123456789''" by code_simp
  finally show ?thesis .
qed

lemma numchars_eq: "numchars = set ''0123456789-+.e''"
  by (auto simp: numchars_def digit_chars_eq)

lemma number_split:
  "set a \<subseteq> numchars \<Longrightarrow> set b \<subseteq> numchars \<Longrightarrow> delimited r \<Longrightarrow> delimited r' \<Longrightarrow>
   a @ r = b @ r' \<Longrightarrow> a = b \<and> r = r'"
proof (induction a arbitrary: b)
  case Nil
  then show ?case by (cases b) (auto simp: delimited_def)
next
  case (Cons x a)
  then show ?case by (cases b) (auto simp: delimited_def)
qed

lemma int_str_set: "set (int_str i) \<subseteq> digit_chars \<union> {CHR ''-''}"
  using nat_digits_chars [of "nat i"] nat_digits_chars [of "nat (- i)"]
  by (auto simp: int_str_def)

lemma int_str_ne [simp]: "int_str i \<noteq> []"
  by (simp add: int_str_def)

lemma int_str_hd: "hd (int_str i) \<in> digit_chars \<union> {CHR ''-''}"
  using subsetD [OF int_str_set, OF hd_in_set [OF int_str_ne]] .

lemma int_str_not_float: "int_str i \<noteq> t" if "float_text t"
proof
  assume "int_str i = t"
  with int_str_set [of i] that show False
    by (auto simp: float_text_def digit_chars_eq)
qed

datatype json_kind = KNull | KTrue | KFalse | KNum | KStr | KArr | KObj

fun kind :: "pyval \<Rightarrow> json_kind" where
  "kind VNone = KNull"
| "kind (VBool b) = (if b then KTrue else KFalse)"
| "kind (VStr s) = KStr"
| "kind (VList xs) = KArr"
| "kind (VTuple xs) = KArr"
| "kind (VDict d) = KObj"
| "kind _ = KNum"

definition kind_of_char :: "char \<Rightarrow> json_kind" where
  "kind_of_char c =
     (if c = CHR ''n'' then KNull else if c = CHR ''t'' then KTrue
      else if c = CHR ''f'' then KFalse else if c = CHR 0x22 then KStr
      else if c = CHR ''['' then KArr else if c = CHR ''{'' then KObj else KNum)"

lemma digit_kind: "c \<in> digit_chars \<union> {CHR ''-''} \<Longrightarrow> kind_of_char c = KNum \<and> c \<notin> set '']},''"
  by (auto simp: digit_chars_eq kind_of_char_def)

lemma dumps_hd:
  assumes "dumps compact v = Inr t" and "json_normal v"
  shows "t \<noteq> [] \<and> kind_of_char (hd t) = kind v \<and> hd t \<notin> set '']},''"
proof (cases v)
  case (VInt i)
  with assms digit_kind [OF int_str_hd [of i]] int_str_ne [of i] show ?thesis by auto
next
  case (VFloat f)
  with assms have "float_text t" by (cases f) auto
  with VFloat digit_kind [of "hd t"] show ?thesis by (auto simp: float_text_def)
qed (use assms in \<open>auto simp: res_simps kind_of_char_def compact_def quote_utf8_def split: if_splits\<close>)

lemma sep_by_Cons: "sep_by sp (x # xs) = x @ (if xs = [] then [] else sp @ sep_by sp xs)"
  by (cases xs) simp_all

lemma sep_unique:
  assumes el: "\<And>x y s t r r'. x \<in> set xs \<Longrightarrow> N x \<Longrightarrow> N y \<Longrightarrow> enc x = Inr s \<Longrightarrow> enc y = Inr t \<Longrightarrow>
      delimited r \<Longrightarrow> delimited r' \<Longrightarrow> s @ r = t @ r' \<Longrightarrow> x = y \<and> r = r'"
    and ne: "\<And>x s. N x \<Longrightarrow> enc x = Inr s \<Longrightarrow> s \<noteq> [] \<and> hd s \<noteq> c"
    and c: "c = CHR '']'' \<or> c = CHR ''}''"
    and "mapE enc xs = Inr ss" and "mapE enc ys = Inr ts" and "list_all N xs" and "list_all N ys"
    and "sep_by '','' ss @ c # r = sep_by '','' ts @ c # r'"
  shows "xs = ys \<and> r = r'"
  using assms(1) assms(4-8)
proof (induction xs arbitrary: ys ss ts)
  case Nil
  show ?case
  proof (cases ys)
    case Nil
    with Nil.prems show ?thesis by simp
  next
    case (Cons y ys')
    with Nil.prems obtain t ts' where t: "ts = t # ts'" "enc y = Inr t" "N y"
      by (auto simp: res_simps)
    from ne [OF t(3,2)] Nil.prems t(1) have False by (cases t) (auto simp: sep_by_Cons)
    then show ?thesis ..
  qed
next
  case (Cons x xs)
  from Cons.prems obtain s ss' where s: "ss = s # ss'" "enc x = Inr s" "N x" "mapE enc xs = Inr ss'"
    by (auto simp: res_simps)
  show ?case
  proof (cases ys)
    case Nil
    with ne [OF s(3,2)] Cons.prems s(1) have False by (cases s) (auto simp: sep_by_Cons)
    then show ?thesis ..
  next
    case (Cons y ys')
    with Cons.prems obtain t ts' where t: "ts = t # ts'" "enc y = Inr t" "N y" "mapE enc ys' = Inr ts'"
      by (auto simp: res_simps)
    define u where "u = (if ss' = [] then c # r else CHR '','' # sep_by '','' ss' @ c # r)"
    define u' where "u' = (if ts' = [] then c # r' else CHR '','' # sep_by '','' ts' @ c # r')"
    have comma: "CHR '','' \<notin> numchars" and close: "c \<notin> numchars"
      using c by (auto simp: numchars_eq)
    then have "delimited u" "delimited u'"
      by (simp_all add: u_def u'_def delimited_def)
    moreover have "s @ u = t @ u'"
      using Cons.prems(6)
      by (cases "ss' = []"; cases "ts' = []") (simp_all add: s(1) t(1) u_def u'_def sep_by_Cons)
    ultimately have xy: "x = y" and u: "u = u'"
      using Cons.prems(1) [of x y s t u u'] s(2,3) t(2,3) by auto
    have len: "length ss' = length xs" "length ts' = length ys'"
      using s(4) t(4) by (simp_all add: length_mapE)
    show ?thesis
    proof (cases "xs = []")
      case True
      with len have "ss' = []" by simp
      with u c have "ts' = []" "r = r'" by (auto simp: u_def u'_def split: if_splits)
      with len True xy Cons show ?thesis by simp
    next
      case False
      with len have "ss' \<noteq> []" by auto
      with u c have eq: "sep_by '','' ss' @ c # r = sep_by '','' ts' @ c # r'"
        by (auto simp: u_def u'_def split: if_splits)
      have "list_all N xs" "list_all N ys'"
        using Cons.prems(4,5) \<open>ys = y # ys'\<close> by simp_all
      have el': "\<And>x y s t r r'. x \<in> set xs \<Longrightarrow> N x \<Longrightarrow> N y \<Longrightarrow> enc x = Inr s \<Longrightarrow> enc y = Inr t \<Longrightarrow>
          delimited r \<Longrightarrow> delimited r' \<Longrightarrow> s @ r = t @ r' \<Longrightarrow> x = y \<and> r = r'"
        by (rule Cons.prems(1)) simp_all
      have "xs = ys' \<and> r = r'"
        by (rule Cons.IH [OF el' s(4) t(4) \<open>list_all N xs\<close> \<open>list_all N ys'\<close> eq])
      with xy \<open>ys = y # ys'\<close> show ?thesis by simp
    qed
  qed
qed

lemma kind_eq:
  assumes "dumps compact v = Inr s" "dumps compact w = Inr t" "json_normal v" "json_normal w"
    and "s @ r = t @ r'"
  shows "kind v = kind w"
  using dumps_hd [OF assms(1,3)] dumps_hd [OF assms(2,4)] assms(5)
  by (metis hd_append2)

lemma number_cases:
  assumes "json_normal w" "kind w = KNum" "dumps compact w = Inr t"
  obtains i where "w = VInt i" "t = int_str i" | "w = VFloat (Finite t)" "float_text t"
proof (cases w)
  case (VFloat f)
  with assms that show ?thesis by (cases f) auto
qed (use assms that in \<open>auto split: if_splits\<close>)

lemma number_text: "float_text t \<Longrightarrow> set t \<subseteq> numchars" "set (int_str i) \<subseteq> numchars"
  using int_str_set [of i] by (auto simp: float_text_def numchars_def)

lemma number_unique:
  assumes "json_normal v" "kind v = KNum" "dumps compact v = Inr s"
    and "json_normal w" "kind w = KNum" "dumps compact w = Inr t"
    and "delimited r" "delimited r'" "s @ r = t @ r'"
  shows "v = w \<and> r = r'"
proof -
  have "set s \<subseteq> numchars" "set t \<subseteq> numchars"
    using number_cases [OF assms(1-3)] number_cases [OF assms(4-6)] number_text by metis+
  then have st: "s = t" "r = r'"
    using number_split assms(7-9) by blast+
  consider i j where "v = VInt i" "w = VInt j" "s = int_str i" "t = int_str j"
    | i where "s = int_str i" "float_text t" | j where "t = int_str j" "float_text s"
    | "v = VFloat (Finite s)" "w = VFloat (Finite t)"
    using number_cases [OF assms(1-3)] number_cases [OF assms(4-6)] by metis
  then show ?thesis
  proof cases
    case 1
    with st show ?thesis using int_str_inj [of i j] by simp
  next
    case 2
    with st int_str_not_float [of t i] show ?thesis by simp
  next
    case 3
    with st int_str_not_float [of s j] show ?thesis by simp
  next
    case 4
    with st show ?thesis by simp
  qed
qed

definition enc_pair :: "string \<times> pyval \<Rightarrow> string res" where
  "enc_pair p = bindE (dumps compact (snd p)) (\<lambda>t. Inr (quote_utf8 (fst p) @ '':'' @ t))"

lemma compact_style [simp]:
  "js_quote compact = quote_utf8" "js_item compact = '',''" "js_key compact = '':''" "js_sort compact"
  by (simp_all add: compact_def)

lemma dumps_compact [simp]:
  "dumps compact (VStr x) = Inr (quote_utf8 x)"
  "dumps compact (VList xs) = bindE (mapE (dumps compact) xs) (\<lambda>ts. Inr (''['' @ sep_by '','' ts @ '']''))"
  "dumps compact (VDict d) =
     bindE (mapE enc_pair (sort_key fst d)) (\<lambda>ts. Inr (''{'' @ sep_by '','' ts @ ''}''))"
  by (simp_all add: enc_pair_def [abs_def])

text \<open>One container, given that the texts of its elements determine them.\<close>

lemma list_unique:
  assumes el: "\<And>x y a b u u'. x \<in> set xs \<Longrightarrow> json_normal x \<Longrightarrow> json_normal y \<Longrightarrow> dumps compact x = Inr a \<Longrightarrow>
      dumps compact y = Inr b \<Longrightarrow> delimited u \<Longrightarrow> delimited u' \<Longrightarrow> a @ u = b @ u' \<Longrightarrow> x = y \<and> u = u'"
    and "json_normal (VList xs)" "json_normal (VList ys)" "dumps compact (VList xs) = Inr s" "dumps compact (VList ys) = Inr t"
    and "s @ r = t @ r'"
  shows "xs = ys \<and> r = r'"
proof -
  from assms(4,5) obtain ss ts where ss: "mapE (dumps compact) xs = Inr ss" "s = ''['' @ sep_by '','' ss @ '']''"
    and ts: "mapE (dumps compact) ys = Inr ts" "t = ''['' @ sep_by '','' ts @ '']''"
    by (auto simp: res_simps)
  show ?thesis
  proof (rule sep_unique [where N = json_normal and c = "CHR '']''", OF _ _ _ ss(1) ts(1)])
    show "s \<noteq> [] \<and> hd s \<noteq> CHR '']''" if "json_normal x" "dumps compact x = Inr s" for x s
      using dumps_hd [OF that(2,1)] by simp
    show "sep_by '','' ss @ CHR '']'' # r = sep_by '','' ts @ CHR '']'' # r'" using assms(6) ss(2) ts(2) by simp
  qed (use assms(2,3) in simp_all, rule el, simp_all)
qed

lemma pair_unique:
  assumes el: "\<And>y a b u u'. json_normal (snd p) \<Longrightarrow> json_normal y \<Longrightarrow> dumps compact (snd p) = Inr a \<Longrightarrow>
      dumps compact y = Inr b \<Longrightarrow> delimited u \<Longrightarrow> delimited u' \<Longrightarrow> a @ u = b @ u' \<Longrightarrow> snd p = y \<and> u = u'"
    and "json_normal (snd p)" "json_normal (snd q)" "enc_pair p = Inr a" "enc_pair q = Inr b"
    and "delimited u" "delimited u'" "a @ u = b @ u'"
  shows "p = q \<and> u = u'"
proof -
  from assms(4,5) obtain a' b' where a: "dumps compact (snd p) = Inr a'" "a = quote_utf8 (fst p) @ '':'' @ a'"
    and b: "dumps compact (snd q) = Inr b'" "b = quote_utf8 (fst q) @ '':'' @ b'"
    by (auto simp: enc_pair_def res_simps)
  with assms(8) quote_prefix [of "fst p" "'':'' @ a' @ u" "fst q" "'':'' @ b' @ u'"]
  have k: "fst p = fst q" "a' @ u = b' @ u'" by simp_all
  from el [OF assms(2,3) a(1) b(1) assms(6,7) k(2)] k(1) show ?thesis by (simp add: prod_eq_iff)
qed

lemma dict_unique:
  assumes el: "\<And>p y a b u u'. p \<in> set d \<Longrightarrow> json_normal (snd p) \<Longrightarrow> json_normal y \<Longrightarrow> dumps compact (snd p) = Inr a \<Longrightarrow>
      dumps compact y = Inr b \<Longrightarrow> delimited u \<Longrightarrow> delimited u' \<Longrightarrow> a @ u = b @ u' \<Longrightarrow> snd p = y \<and> u = u'"
    and "json_normal (VDict d)" "json_normal (VDict e)" "dumps compact (VDict d) = Inr s" "dumps compact (VDict e) = Inr t"
    and "s @ r = t @ r'"
  shows "d = e \<and> r = r'"
proof -
  have "sort_key fst d = d" "sort_key fst e = e" using assms(2,3) by (auto intro: sort_key_id_if_sorted)
  with assms(4,5) obtain ss ts where ss: "mapE enc_pair d = Inr ss" "s = ''{'' @ sep_by '','' ss @ ''}''"
    and ts: "mapE enc_pair e = Inr ts" "t = ''{'' @ sep_by '','' ts @ ''}''"
    by (auto simp: res_simps dumps_compact simp del: dumps.simps)
  show ?thesis
  proof (rule sep_unique [where N = "\<lambda>p. json_normal (snd p)" and c = "CHR ''}''", OF _ _ _ ss(1) ts(1)])
    show "s \<noteq> [] \<and> hd s \<noteq> CHR ''}''" if "json_normal (snd p)" "enc_pair p = Inr s" for p s
      using that by (auto simp: enc_pair_def res_simps quote_utf8_def)
    show "list_all (\<lambda>p. json_normal (snd p)) d" "list_all (\<lambda>p. json_normal (snd p)) e" using assms(2,3) by simp_all
    show "sep_by '','' ss @ CHR ''}'' # r = sep_by '','' ts @ CHR ''}'' # r'" using assms(6) ss(2) ts(2) by simp
  qed (rule pair_unique, rule el, simp_all)
qed

lemma dumps_unique:
  "json_normal v \<Longrightarrow> json_normal w \<Longrightarrow> dumps compact v = Inr s \<Longrightarrow> dumps compact w = Inr t \<Longrightarrow>
   delimited r \<Longrightarrow> delimited r' \<Longrightarrow> s @ r = t @ r' \<Longrightarrow> v = w \<and> r = r'"
proof (induction v arbitrary: w s t r r')
  case (VStr x)
  have "kind w = KStr" using kind_eq [OF VStr.prems(3,4,1,2,7)] by simp
  with VStr.prems(2) obtain y where "w = VStr y" by (cases w) (auto split: if_splits)
  with VStr.prems show ?case using quote_prefix [of x r y r'] by simp
next
  case (VList xs)
  have "kind w = KArr" using kind_eq [OF VList.prems(3,4,1,2,7)] by simp
  with VList.prems(2) obtain ys where w: "w = VList ys" by (cases w) (auto split: if_splits)
  from list_unique [OF VList.IH VList.prems(1) VList.prems(2) [unfolded w] VList.prems(3) VList.prems(4) [unfolded w] VList.prems(7)]
  show ?case using w by simp
next
  case (VDict d)
  have "kind w = KObj" using kind_eq [OF VDict.prems(3,4,1,2,7)] by simp
  with VDict.prems(2) obtain e where w: "w = VDict e" by (cases w) (auto split: if_splits)
  from dict_unique [OF VDict.IH [OF _ snds.intros] VDict.prems(1) VDict.prems(2) [unfolded w] VDict.prems(3) VDict.prems(4) [unfolded w] VDict.prems(7)]
  show ?case using w by simp
next
  case VNone
  have "kind w = KNull" using kind_eq [OF VNone.prems(3,4,1,2,7)] by simp
  with VNone.prems(2) have "w = VNone" by (cases w) (auto split: if_splits)
  with VNone.prems(3,4,7) show ?case by simp
next
  case (VBool b)
  have "kind w = kind (VBool b)" using kind_eq [OF VBool.prems(3,4,1,2,7)] by simp
  with VBool.prems(2) have "w = VBool b" by (cases w) (auto split: if_splits)
  with VBool.prems(3,4,7) show ?case by simp
next
  case (VInt i)
  have "kind w = KNum" using kind_eq [OF VInt.prems(3,4,1,2,7)] by simp
  with VInt.prems show ?case by (intro number_unique [of "VInt i" s w t]) simp_all
next
  case (VFloat f)
  have "kind w = KNum" using kind_eq [OF VFloat.prems(3,4,1,2,7)] by simp
  with VFloat.prems show ?case by (intro number_unique [of "VFloat f" s w t]) simp_all
qed auto

section \<open>Canonical bytes and hashes determine the canonical value\<close>

lemma canonical_bytes_Inr:
  assumes "canonical_bytes rt v = Inr b" and "wf_pyval v"
  obtains u where "canonicalize rt v = Inr u" "json_normal u" "dumps compact u = Inr b"
  using assms canonicalize_normal by (auto simp: canonical_bytes_def res_simps)

lemma canonical_bytes_inj:
  assumes "canonical_bytes rt v = Inr b" "canonical_bytes rt w = Inr b" "wf_pyval v" "wf_pyval w"
  shows "canonicalize rt v = canonicalize rt w"
proof -
  obtain u u' where u: "canonicalize rt v = Inr u" "json_normal u" "dumps compact u = Inr b"
    and u': "canonicalize rt w = Inr u'" "json_normal u'" "dumps compact u' = Inr b"
    using canonical_bytes_Inr assms by metis
  have "u = u'"
    using dumps_unique [OF u(2) u'(2) u(3) u'(3), of "[]" "[]"] by (simp add: delimited_def)
  with u u' show ?thesis by simp
qed

text \<open>The bytes that \<open>hash_object\<close> feeds to the digest.\<close>

definition object_bytes :: "runtime \<Rightarrow> pyval \<Rightarrow> string" where
  "object_bytes rt v =
     (case canonical_bytes rt v of
        Inr b \<Rightarrow> default_domain @ [CHR 0x00] @ b
      | Inl e \<Rightarrow> [])"

lemma hash_object_bytes: "hash_object rt v = Inr h \<Longrightarrow> h = hexdigest rt (object_bytes rt v)"
  by (auto simp: hash_object_def canonical_hash_def object_bytes_def hash_hex_def res_simps)

lemma object_bytes_inj:
  assumes "hash_object rt v = Inr h" "hash_object rt w = Inr k" "wf_pyval v" "wf_pyval w"
    and "object_bytes rt v = object_bytes rt w"
  shows "canonicalize rt v = canonicalize rt w"
proof -
  obtain b c where b: "canonical_bytes rt v = Inr b" "canonical_bytes rt w = Inr c"
    using assms(1,2) by (auto simp: hash_object_def canonical_hash_def res_simps)
  with assms(5) have "b = c" by (simp add: object_bytes_def)
  with b assms(3,4) canonical_bytes_inj show ?thesis by blast
qed

section \<open>Canonicalisation succeeds on finite values\<close>

fun canonicalizable :: "pyval \<Rightarrow> bool" where
  "canonicalizable (VFloat f) = (case f of Finite _ \<Rightarrow> True | _ \<Rightarrow> False)"
| "canonicalizable (VDecimal t) = (t \<noteq> None)"
| "canonicalizable (VList xs) = list_all canonicalizable xs"
| "canonicalizable (VTuple xs) = list_all canonicalizable xs"
| "canonicalizable (VDict d) = list_all (\<lambda>p. canonicalizable (snd p)) d"
| "canonicalizable _ = True"

fun encodable :: "pyval \<Rightarrow> bool" where
  "encodable (VFloat f) = (case f of Finite _ \<Rightarrow> True | _ \<Rightarrow> False)"
| "encodable (VList xs) = list_all encodable xs"
| "encodable (VTuple xs) = list_all encodable xs"
| "encodable (VDict d) = list_all (\<lambda>p. encodable (snd p)) d"
| "encodable (VDatetime _) = False"
| "encodable (VDate _) = False"
| "encodable (VDecimal _) = False"
| "encodable _ = True"

lemma mapE_total: "(\<And>x. x \<in> set xs \<Longrightarrow> \<exists>y. f x = Inr y \<and> P y) \<Longrightarrow> \<exists>ys. mapE f xs = Inr ys \<and> list_all P ys"
proof (induction xs)
  case Nil
  then show ?case by simp
next
  case (Cons x xs)
  obtain y where "f x = Inr y \<and> P y" using Cons.prems [of x] by auto
  moreover obtain ys where "mapE f xs = Inr ys \<and> list_all P ys"
    using Cons.IH Cons.prems by (metis list.set_intros(2))
  ultimately show ?case by auto
qed

lemma canonicalize_total: "canonicalizable v \<Longrightarrow> \<exists>w. canonicalize rt v = Inr w \<and> encodable w"
proof (induction rt v rule: canonicalize.induct)
  case (1 rt d)
  have "\<exists>q. bindE (canonicalize rt (snd p)) (\<lambda>v. Inr (fst p, v)) = Inr q \<and> encodable (snd q)"
    if "p \<in> set (sort_key fst d)" for p
    using "1.IH" [OF that] "1.prems" that by (auto simp: list_all_iff)
  from mapE_total [where xs = "sort_key fst d" and P = "\<lambda>q. encodable (snd q)"
      and f = "\<lambda>p. bindE (canonicalize rt (snd p)) (\<lambda>v. Inr (fst p, v))", OF this]
  show ?case by auto
next
  case (2 rt xs)
  then show ?case using mapE_total [of xs "canonicalize rt" encodable] by (auto simp: list_all_iff)
next
  case (3 rt xs)
  then show ?case using mapE_total [of xs "canonicalize rt" encodable] by (auto simp: list_all_iff)
qed (auto split: pydatetime.splits option.splits pyfloat.splits)

lemma dumps_total: "encodable v \<Longrightarrow> \<exists>s. dumps st v = Inr s"
proof (induction st v rule: dumps.induct)
  case (6 st xs)
  then show ?case using mapE_total [of xs "dumps st" "\<lambda>_. True"] by (auto simp: list_all_iff)
next
  case (7 st xs)
  then show ?case using mapE_total [of xs "dumps st" "\<lambda>_. True"] by (auto simp: list_all_iff)
next
  case (8 st d)
  let ?d = "if js_sort st then sort_key fst d else d"
  have "\<exists>q. bindE (dumps st (snd p)) (\<lambda>t. Inr (js_quote st (fst p) @ js_key st @ t)) = Inr q \<and> True"
    if "p \<in> set ?d" for p
    using "8.IH" [OF that] "8.prems" that by (auto simp: list_all_iff split: if_splits)
  from mapE_total [where xs = ?d and P = "\<lambda>_. True"
      and f = "\<lambda>p. bindE (dumps st (snd p)) (\<lambda>t. Inr (js_quote st (fst p) @ js_key st @ t))", OF this]
  show ?case by auto
qed (auto split: pyfloat.splits)

lemma canonical_bytes_total: "canonicalizable v \<Longrightarrow> \<exists>b. canonical_bytes rt v = Inr b"
  using canonicalize_total [of v rt] dumps_total by (auto simp: canonical_bytes_def)

lemma hash_object_total: "canonicalizable v \<Longrightarrow> \<exists>h. hash_object rt v = Inr h \<and> (\<exists>b. h = hexdigest rt b)"
  using canonical_bytes_total [of v rt]
  by (auto simp: hash_object_def canonical_hash_def hash_hex_def)

lemma hash_object_hexdigest: "hash_object rt v = Inr h \<Longrightarrow> \<exists>b. h = hexdigest rt b"
  by (auto simp: hash_object_def canonical_hash_def hash_hex_def res_simps)

lemma simple_values [simp]:
  "canonicalizable (opt_str x)" "wf_pyval (opt_str x)"
  "canonicalizable (opt_int i)" "wf_pyval (opt_int i)"
  "canonicalizable (str_list xs)" "wf_pyval (str_list xs)"
  by (auto simp: opt_str_def opt_int_def str_list_def list_all_iff split: option.splits)

section \<open>Other styles of JSON text\<close>

text \<open>
  The default \<open>ensure_ascii=True\<close>: every code point outside the printable ASCII range becomes a
  \<open>\u\<close> escape, with a surrogate pair above the basic plane.  The first function decodes UTF-8.
\<close>

function utf8_points :: "string \<Rightarrow> nat list" where
  "utf8_points [] = []"
| "utf8_points (c # cs) =
     (let n = of_char c :: nat;
          k = (if n < 128 then 0 else if n < 224 then 1 else if n < 240 then 2 else 3);
          lead = (if k = 0 then n else n mod 2 ^ (6 - k))
      in foldl (\<lambda>a d. a * 64 + of_char d mod 64) lead (take k cs) # utf8_points (drop k cs))"
  by pat_completeness auto
termination
  by (relation "measure length") (auto simp: Let_def)

definition hex4 :: "nat \<Rightarrow> string" where
  "hex4 n = [hexdigit (n div 4096 mod 16), hexdigit (n div 256 mod 16), hexdigit (n div 16 mod 16),
     hexdigit (n mod 16)]"

definition esc_point :: "nat \<Rightarrow> string" where
  "esc_point n =
     (if n < 127 then esc_char (char_of n)
      else if n < 65536 then CHR 0x5C # ''u'' @ hex4 n
      else (let m = n - 65536 in
        CHR 0x5C # ''u'' @ hex4 (55296 + m div 1024) @ CHR 0x5C # ''u'' @ hex4 (56320 + m mod 1024)))"

definition quote_ascii :: "string \<Rightarrow> string" where
  "quote_ascii s = CHR 0x22 # concat (map esc_point (utf8_points s)) @ [CHR 0x22]"

text \<open>\<open>json.dumps(v, sort_keys=True, separators=(",", ":"))\<close>, without and with UTF-8 output.\<close>

definition compact_ascii :: json_style where
  "compact_ascii = \<lparr>js_quote = quote_ascii, js_nan = True, js_item = '','', js_key = '':'', js_sort = True\<rparr>"

definition compact_nan :: json_style where
  "compact_nan = \<lparr>js_quote = quote_utf8, js_nan = True, js_item = '','', js_key = '':'', js_sort = True\<rparr>"

text \<open>
  On values of JSON's own types this text is the canonical text of the same value without Unicode
  normalisation.
\<close>

fun json_value :: "pyval \<Rightarrow> bool" where
  "json_value (VFloat f) = (case f of Finite _ \<Rightarrow> True | _ \<Rightarrow> False)"
| "json_value (VList xs) = list_all json_value xs"
| "json_value (VTuple xs) = list_all json_value xs"
| "json_value (VDict d) = list_all (\<lambda>p. json_value (snd p)) d"
| "json_value (VDatetime _) = False"
| "json_value (VDate _) = False"
| "json_value (VDecimal _) = False"
| "json_value _ = True"

definition raw_runtime :: "runtime \<Rightarrow> runtime" where
  "raw_runtime rt = rt\<lparr>rt_nfc := (\<lambda>s. s)\<rparr>"

lemma mapE_compose:
  assumes "\<And>x. x \<in> set xs \<Longrightarrow> \<exists>y. g x = Inr y \<and> f x = h y"
  obtains ys where "mapE g xs = Inr ys" "mapE f xs = mapE h ys"
proof -
  from assms have "\<exists>ys. mapE g xs = Inr ys \<and> mapE f xs = mapE h ys" by (induction xs) fastforce+
  with that show thesis by blast
qed

lemma json_value_text:
  "json_value v \<Longrightarrow> \<exists>u. canonicalize (raw_runtime rt) v = Inr u \<and> dumps compact_nan v = dumps compact u"
proof (induction "raw_runtime rt" v rule: canonicalize.induct)
  case (1 d)
  let ?g = "\<lambda>p. bindE (canonicalize (raw_runtime rt) (snd p)) (\<lambda>v. Inr (fst p, v))"
  have "\<exists>q. ?g p = Inr q \<and> bindE (dumps compact_nan (snd p)) (\<lambda>t. Inr (quote_utf8 (fst p) @ '':'' @ t)) =
      bindE (dumps compact (snd q)) (\<lambda>t. Inr (quote_utf8 (fst q) @ '':'' @ t))" if "p \<in> set (sort_key fst d)" for p
    using 1 that by (fastforce simp: list_all_iff)
  then obtain d' where d': "mapE ?g (sort_key fst d) = Inr d'"
    "mapE (\<lambda>p. bindE (dumps compact_nan (snd p)) (\<lambda>t. Inr (quote_utf8 (fst p) @ '':'' @ t))) (sort_key fst d) =
     mapE (\<lambda>p. bindE (dumps compact (snd p)) (\<lambda>t. Inr (quote_utf8 (fst p) @ '':'' @ t))) d'"
    by (rule mapE_compose)
  moreover have "sort_key fst d' = d'"
    using canonicalize_keys [OF d'(1)] by (intro sort_key_id_if_sorted) simp
  ultimately show ?case by (simp add: compact_nan_def compact_def)
next
  case (2 xs)
  then have "\<And>x. x \<in> set xs \<Longrightarrow> \<exists>u. canonicalize (raw_runtime rt) x = Inr u \<and> dumps compact_nan x = dumps compact u"
    by (fastforce simp: list_all_iff)
  then obtain ys where "mapE (canonicalize (raw_runtime rt)) xs = Inr ys" "mapE (dumps compact_nan) xs = mapE (dumps compact) ys"
    by (rule mapE_compose)
  then show ?case by (simp add: compact_nan_def compact_def)
next
  case (3 xs)
  then have "\<And>x. x \<in> set xs \<Longrightarrow> \<exists>u. canonicalize (raw_runtime rt) x = Inr u \<and> dumps compact_nan x = dumps compact u"
    by (fastforce simp: list_all_iff)
  then obtain ys where "mapE (canonicalize (raw_runtime rt)) xs = Inr ys" "mapE (dumps compact_nan) xs = mapE (dumps compact) ys"
    by (rule mapE_compose)
  then show ?case by (simp add: compact_nan_def compact_def)
qed (auto simp: compact_nan_def compact_def raw_runtime_def split: pyfloat.splits)

lemma json_value_text_inj:
  assumes "dumps compact_nan v = Inr b" "dumps compact_nan w = Inr b"
    and "json_value v" "json_value w" "wf_pyval v" "wf_pyval w"
  shows "canonicalize (raw_runtime rt) v = canonicalize (raw_runtime rt) w"
proof -
  have "canonical_bytes (raw_runtime rt) v = Inr b" "canonical_bytes (raw_runtime rt) w = Inr b"
    using json_value_text [OF assms(3), of rt] json_value_text [OF assms(4), of rt] assms(1,2)
    by (auto simp: canonical_bytes_def)
  from canonical_bytes_inj [OF this assms(5,6)] show ?thesis .
qed

section \<open>Values with one canonical form\<close>

lemma insort_key_map: "insort_key k (f x) (map f xs) = map f (insort_key (\<lambda>y. k (f y)) x xs)"
  by (induction xs) simp_all

lemma sort_key_map: "sort_key k (map f xs) = map f (sort_key (\<lambda>y. k (f y)) xs)"
  by (induction xs) (simp_all add: insort_key_map)

lemma mapE_map: "mapE g (map f xs) = mapE (\<lambda>x. g (f x)) xs"
  by (induction xs) simp_all

text \<open>Dictionaries with the same keys in the same order whose values canonicalise alike do so too.\<close>

lemma canonicalize_dict_cong:
  assumes "\<And>x. x \<in> set xs \<Longrightarrow> canonicalize rt (f x) = canonicalize rt (g x)"
  shows "canonicalize rt (VDict (map (\<lambda>x. (k x, f x)) xs)) = canonicalize rt (VDict (map (\<lambda>x. (k x, g x)) xs))"
proof -
  have "mapE (\<lambda>x. bindE (canonicalize rt (f x)) (\<lambda>v. Inr (k x, v))) (sort_key k xs) =
      mapE (\<lambda>x. bindE (canonicalize rt (g x)) (\<lambda>v. Inr (k x, v))) (sort_key k xs)"
    by (rule mapE_cong) (simp_all add: assms)
  then show ?thesis by (simp add: sort_key_map mapE_map)
qed

lemma canonicalize_list_cong:
  "(\<And>x. x \<in> set xs \<Longrightarrow> canonicalize rt (f x) = canonicalize rt (g x)) \<Longrightarrow>
   mapE (canonicalize rt) (map f xs) = mapE (canonicalize rt) (map g xs)"
  unfolding mapE_map by (rule mapE_cong) simp_all

text \<open>Replacing one value of a dictionary by one with the same canonical form.\<close>

lemma canonicalize_dict_replace:
  assumes "canonicalize rt v = canonicalize rt w"
  shows "canonicalize rt (VDict (d @ (k, v) # e)) = canonicalize rt (VDict (d @ (k, w) # e))"
proof -
  let ?z = "map (\<lambda>p. (fst p, snd p, snd p)) d @ (k, v, w) # map (\<lambda>p. (fst p, snd p, snd p)) e"
  have "canonicalize rt (VDict (map (\<lambda>x. (fst x, fst (snd x))) ?z)) =
      canonicalize rt (VDict (map (\<lambda>x. (fst x, snd (snd x))) ?z))"
    using assms by (intro canonicalize_dict_cong) auto
  then show ?thesis by (simp add: comp_def del: canonicalize.simps)
qed

end
