(* ===== verification/HashChain.thy ===== *)
theory HashChain
  imports Canonical
begin

text \<open>
  The contract that every append-only log of the repository has (the authority ledger, the SBP
  audit chain, the SCAR ledger, the memory chain): entries that carry the hash of the entry before
  them, a verification loop from a genesis sentinel, and a hash that covers the whole entry.
  The lemmas proved in the locale, once for all of them, are the append law, that verification is
  closed under prefixes, and that two verified logs of the same length with the same head hash
  have the same content when the digest is injective on the finitely many byte strings that were
  hashed for their entries.
\<close>

section \<open>The verification loop\<close>

text \<open>
  \<open>for n, e in enumerate(entries): check n e; check e.prev == expected; expected = e.hash\<close>
\<close>

fun chain_from ::
  "(nat \<Rightarrow> 'e \<Rightarrow> bool) \<Rightarrow> ('e \<Rightarrow> string) \<Rightarrow> ('e \<Rightarrow> string) \<Rightarrow> nat \<Rightarrow> string \<Rightarrow> 'e list \<Rightarrow> bool" where
  "chain_from ok prv h n p [] = True"
| "chain_from ok prv h n p (e # es) =
     (ok n e \<and> prv e = p \<and> chain_from ok prv h (Suc n) (h e) es)"

definition head_hash :: "('e \<Rightarrow> string) \<Rightarrow> string \<Rightarrow> 'e list \<Rightarrow> string" where
  "head_hash h g es = (if es = [] then g else h (last es))"

lemma head_hash_simps [simp]:
  "head_hash h g [] = g"
  "head_hash h g (es @ [e]) = h e"
  by (simp_all add: head_hash_def)

lemma chain_from_append:
  "chain_from ok prv h n p (es @ fs) \<longleftrightarrow>
   chain_from ok prv h n p es \<and> chain_from ok prv h (n + length es) (head_hash h p es) fs"
proof (induction es arbitrary: n p)
  case Nil
  then show ?case by simp
next
  case (Cons e es)
  then show ?case by (cases "es = []") (auto simp: head_hash_def)
qed

lemma chain_from_nth:
  "chain_from ok prv h n p es \<Longrightarrow> i < length es \<Longrightarrow>
   ok (n + i) (es ! i) \<and> prv (es ! i) = (if i = 0 then p else h (es ! (i - 1)))"
proof (induction es arbitrary: n p i)
  case Nil
  then show ?case by simp
next
  case (Cons e es)
  show ?case
  proof (cases i)
    case 0
    with Cons.prems show ?thesis by simp
  next
    case (Suc j)
    with Cons.prems Cons.IH [of "Suc n" "h e" j] show ?thesis
      by (cases j) auto
  qed
qed

lemma chain_from_cong:
  "(\<And>n e. e \<in> set es \<Longrightarrow> ok n e = ok' n e) \<Longrightarrow> chain_from ok prv h n p es = chain_from ok' prv h n p es"
  by (induction es arbitrary: n p) auto

section \<open>The contract\<close>

text \<open>
  \<open>rep\<close> says that an entry represents Python values (dictionaries have distinct keys),
  \<open>law\<close> stands for the documented behaviour of the runtime that a log relies on, \<open>pre\<close> gives the
  bytes that are hashed for an entry, \<open>is_hash\<close> the shape of digest texts.
\<close>

locale hash_chain =
  fixes prv :: "'e \<Rightarrow> string"
    and hsh :: "'e \<Rightarrow> string"
    and genesis :: string
    and entry_ok :: "nat \<Rightarrow> 'e \<Rightarrow> bool"
    and verify :: "'e list \<Rightarrow> bool"
    and content :: "'e \<Rightarrow> 'c"
    and rep :: "'e \<Rightarrow> bool"
    and is_hash :: "string \<Rightarrow> bool"
    and law :: bool
    and digest :: "string \<Rightarrow> string"
    and pre :: "'e \<Rightarrow> string"
  assumes verify_loop: "verify es \<longleftrightarrow> chain_from entry_ok prv hsh 0 genesis es"
    and genesis_hash: "is_hash genesis"
    and entry_hash: "entry_ok n e \<Longrightarrow> hsh e = digest (pre e) \<and> is_hash (hsh e)"
    and pre_binds: "law \<Longrightarrow> rep e \<Longrightarrow> rep e' \<Longrightarrow> entry_ok n e \<Longrightarrow> entry_ok n e' \<Longrightarrow> pre e = pre e' \<Longrightarrow>
      is_hash (prv e) \<Longrightarrow> is_hash (prv e') \<Longrightarrow> content e = content e' \<and> prv e = prv e'"
begin

lemma verify_Nil [simp]: "verify []"
  by (simp add: verify_loop)

lemma verify_snoc:
  "verify (es @ [e]) \<longleftrightarrow> verify es \<and> entry_ok (length es) e \<and> prv e = head_hash hsh genesis es"
  by (auto simp: verify_loop chain_from_append)

lemma verify_prefix: "verify (es @ fs) \<Longrightarrow> verify es"
  by (simp add: verify_loop chain_from_append)

lemma verify_entry: "verify es \<Longrightarrow> i < length es \<Longrightarrow> entry_ok i (es ! i)"
  using chain_from_nth [of entry_ok prv hsh 0 genesis es i] by (simp add: verify_loop)

lemma verify_link:
  "verify es \<Longrightarrow> Suc i < length es \<Longrightarrow> prv (es ! Suc i) = hsh (es ! i)"
  using chain_from_nth [of entry_ok prv hsh 0 genesis es "Suc i"] by (simp add: verify_loop)

lemma head_is_hash: "verify es \<Longrightarrow> is_hash (head_hash hsh genesis es)"
  by (cases es rule: rev_cases) (auto simp: verify_snoc genesis_hash dest: entry_hash)

lemma head_determines_content:
  assumes law
  shows "inj_on digest (pre ` (set es \<union> set fs)) \<Longrightarrow> list_all rep es \<Longrightarrow> list_all rep fs \<Longrightarrow>
    verify es \<Longrightarrow> verify fs \<Longrightarrow> length es = length fs \<Longrightarrow>
    head_hash hsh genesis es = head_hash hsh genesis fs \<Longrightarrow> map content es = map content fs"
proof (induction es arbitrary: fs rule: rev_induct)
  case Nil
  then show ?case by simp
next
  case (snoc e es)
  then obtain f fs' where fs: "fs = fs' @ [f]"
    by (cases fs rule: rev_cases) auto
  from snoc.prems fs have
    e: "verify es" "entry_ok (length es) e" "prv e = head_hash hsh genesis es" and
    f: "verify fs'" "entry_ok (length es) f" "prv f = head_hash hsh genesis fs'" and
    h: "hsh e = hsh f" and len: "length es = length fs'" and
    r: "rep e" "rep f" "list_all rep es" "list_all rep fs'"
    by (auto simp: verify_snoc)
  have "digest (pre e) = digest (pre f)"
    using entry_hash e(2) f(2) h by metis
  then have p: "pre e = pre f" by (rule inj_onD [OF snoc.prems(1)]) (simp_all add: fs)
  have "is_hash (prv e)" "is_hash (prv f)"
    using e f by (simp_all add: head_is_hash)
  from pre_binds [OF assms r(1,2) e(2) f(2) p this]
  have c: "content e = content f" "head_hash hsh genesis es = head_hash hsh genesis fs'"
    using e(3) f(3) by simp_all
  have "inj_on digest (pre ` (set es \<union> set fs'))"
    by (rule inj_on_subset [OF snoc.prems(1)]) (auto simp: fs)
  from snoc.IH [OF this r(3,4) e(1) f(1) len c(2)] c(1) fs show ?case by simp
qed

text \<open>
  An entry cannot be rewritten under an unchanged head: replacing it by one with other content
  makes verification fail or moves the head hash, unless the digests collide.
\<close>

lemma rewrite_detected:
  assumes law and "inj_on digest (pre ` insert e (set es))" "list_all rep es" "rep e"
    and "verify es" "i < length es" "content e \<noteq> content (es ! i)"
    and "head_hash hsh genesis (es[i := e]) = head_hash hsh genesis es"
  shows "\<not> verify (es[i := e])"
proof
  assume v: "verify (es[i := e])"
  have s: "set (es[i := e]) \<subseteq> insert e (set es)" by (rule set_update_subset_insert)
  with assms(3,4) have r: "list_all rep (es[i := e])" by (auto simp: list_all_iff)
  have "inj_on digest (pre ` (set (es[i := e]) \<union> set es))"
    by (rule inj_on_subset [OF assms(2)]) (use s in auto)
  from head_determines_content [OF assms(1) this r assms(3) v assms(5)] assms(8)
  have "map content (es[i := e]) = map content es" by simp
  then have "map content (es[i := e]) ! i = map content es ! i" by simp
  with assms(6,7) show False by simp
qed

end

section \<open>Digest texts\<close>

text \<open>The texts that \<open>hexdigest\<close> and the genesis sentinels have, and the runtime's law for them.\<close>

definition hex_text :: "string \<Rightarrow> bool" where
  "hex_text s \<longleftrightarrow> set s \<subseteq> hexdigit ` {..<16}"

definition nfc_keeps_hex :: "runtime \<Rightarrow> bool" where
  "nfc_keeps_hex rt \<longleftrightarrow> (\<forall>s. hex_text s \<longrightarrow> rt_nfc rt s = s)"

definition genesis_hash :: string where
  "genesis_hash = replicate 128 (CHR ''0'')"

lemma hex_text_hex: "hex_text (hex bs)"
proof (induction bs)
  case Nil
  then show ?case by (simp add: hex_text_def hex_def)
next
  case (Cons b bs)
  have "of_char b div 16 < (16::nat)"
    using of_char_lt [of b] by (simp add: less_mult_imp_div_less)
  then have "hexdigit (of_char b div 16) \<in> hexdigit ` {..<16}" by (intro imageI) simp
  moreover have "hexdigit (of_char b mod 16) \<in> hexdigit ` {..<16}" by (intro imageI) simp
  ultimately show ?case
    using Cons by (simp add: hex_text_def hex_def hex_byte_def)
qed

lemma hex_text_hexdigest [simp]: "hex_text (hexdigest rt b)"
  by (simp add: hexdigest_def hex_text_hex)

lemma hex_text_genesis [simp]: "hex_text genesis_hash"
proof -
  have "CHR ''0'' = hexdigit 0" by code_simp
  then have "CHR ''0'' \<in> hexdigit ` {..<16}" by (metis imageI lessThan_iff zero_less_numeral)
  then show ?thesis by (simp add: hex_text_def genesis_hash_def)
qed

lemma nfc_hex: "nfc_keeps_hex rt \<Longrightarrow> hex_text s \<Longrightarrow> rt_nfc rt s = s"
  by (simp add: nfc_keeps_hex_def)

text \<open>SHA3-512 digests have 64 bytes.\<close>

definition digest_length :: "runtime \<Rightarrow> bool" where
  "digest_length rt \<longleftrightarrow> (\<forall>b. length (rt_digest rt b) = 64)"

lemma length_hexdigest: "digest_length rt \<Longrightarrow> length (hexdigest rt b) = 128"
  by (simp add: digest_length_def hexdigest_def)

section \<open>Hashed documents\<close>

text \<open>A field of a canonicalised dictionary is the canonicalised field.\<close>

lemma canonicalize_field:
  assumes "canonicalize rt (VDict d) = Inr u" "distinct (map fst d)" "map_of d k = Some v"
  obtains d' w where "u = VDict d'" "canonicalize rt v = Inr w" "map_of d' k = Some w"
proof -
  let ?f = "\<lambda>p. bindE (canonicalize rt (snd p)) (\<lambda>v. Inr (fst p, v))"
  from assms(1) obtain d' where u: "u = VDict d'" and m: "mapE ?f (sort_key fst d) = Inr d'"
    by (auto simp: res_simps)
  have dist: "distinct (map fst (sort_key fst d))" using assms(2) by (simp add: distinct_keys_sort)
  have "(k, v) \<in> set (sort_key fst d)" using assms(3) by (simp add: map_of_SomeD)
  then obtain i where i: "i < length (sort_key fst d)" "sort_key fst d ! i = (k, v)"
    by (metis in_set_conv_nth)
  from m have l: "list_all2 (\<lambda>p q. ?f p = Inr q) (sort_key fst d) d'" by (simp add: mapE_Inr_iff)
  from list_all2_nthD [OF l i(1)] i(2) obtain w where w: "canonicalize rt v = Inr w" "d' ! i = (k, w)"
    by (auto simp: res_simps)
  have "length d' = length (sort_key fst d)" using list_all2_lengthD [OF l] by simp
  with i(1) w(2) have "(k, w) \<in> set d'" by (metis nth_mem)
  moreover have "map fst d' = map fst (sort_key fst d)" by (rule canonicalize_keys [OF m])
  ultimately have "map_of d' k = Some w" using dist by (metis map_of_is_SomeI)
  with u w(1) that show thesis by blast
qed

text \<open>Documents with equal canonical forms agree on every field, up to canonical form.\<close>

lemma canonical_same_field:
  assumes "canonicalize rt (VDict d) = canonicalize rt (VDict e)" "canonicalize rt (VDict d) = Inr u"
    and "distinct (map fst d)" "distinct (map fst e)" "map_of d k = Some v" "map_of e k = Some w"
  shows "canonicalize rt v = canonicalize rt w"
proof -
  obtain d' x where d: "u = VDict d'" "canonicalize rt v = Inr x" "map_of d' k = Some x"
    using canonicalize_field [OF assms(2,3,5)] by blast
  obtain e' y where e: "u = VDict e'" "canonicalize rt w = Inr y" "map_of e' k = Some y"
    using canonicalize_field [OF assms(2) [unfolded assms(1)] assms(4,6)] by blast
  from d e show ?thesis by simp
qed

lemma canonical_text_field:
  assumes "canonicalize rt (VDict d) = canonicalize rt (VDict e)" "canonicalize rt (VDict d) = Inr u"
    and "distinct (map fst d)" "distinct (map fst e)"
    and "map_of d k = Some (VStr s)" "map_of e k = Some (VStr t)"
  shows "rt_nfc rt s = rt_nfc rt t"
  using canonical_same_field [OF assms] by simp

text \<open>Records with one canonical text have one canonical form and one back link.\<close>

lemma canonical_bytes_binds:
  assumes "canonical_bytes rt (VDict d) = Inr b" "canonical_bytes rt (VDict e) = Inr b"
    and "wf_pyval (VDict d)" "wf_pyval (VDict e)"
    and "map_of d f = Some (VStr s)" "map_of e f = Some (VStr t)"
    and "nfc_keeps_hex rt" "hex_text s" "hex_text t"
  shows "canonicalize rt (VDict d) = canonicalize rt (VDict e) \<and> s = t"
proof -
  from canonical_bytes_inj [OF assms(1-4)]
  have c: "canonicalize rt (VDict d) = canonicalize rt (VDict e)" .
  obtain u where u: "canonicalize rt (VDict d) = Inr u"
    using assms(1) by (auto simp: canonical_bytes_def res_simps simp del: canonicalize.simps)
  from canonical_text_field [OF c u _ _ assms(5,6)] assms(3,4) have "rt_nfc rt s = rt_nfc rt t" by simp
  with assms(7-9) c show ?thesis by (simp add: nfc_hex del: canonicalize.simps)
qed

lemma hash_object_canonical:
  assumes "hash_object rt v = Inr h"
  obtains u where "canonicalize rt v = Inr u"
  using assms by (auto simp: hash_object_def canonical_hash_def canonical_bytes_def res_simps)

text \<open>Documents with one hash have one canonical form, unless the digest collides on them.\<close>

lemma hash_object_binds:
  assumes "hash_object rt v = Inr h" "hash_object rt w = Inr h" "wf_pyval v" "wf_pyval w"
    and "inj_on (hexdigest rt) {object_bytes rt v, object_bytes rt w}"
  shows "canonicalize rt v = canonicalize rt w"
proof -
  have "hexdigest rt (object_bytes rt v) = hexdigest rt (object_bytes rt w)"
    using hash_object_bytes [OF assms(1)] hash_object_bytes [OF assms(2)] by simp
  then have "object_bytes rt v = object_bytes rt w" by (rule inj_onD [OF assms(5)]) simp_all
  from object_bytes_inj [OF assms(1-4) this] show ?thesis .
qed

text \<open>Documents that are hashed from the same bytes have one canonical form and one back link.\<close>

lemma object_bytes_binds:
  assumes "hash_object rt (VDict d) = Inr h" "hash_object rt (VDict e) = Inr k"
    and "wf_pyval (VDict d)" "wf_pyval (VDict e)"
    and "map_of d f = Some (VStr s)" "map_of e f = Some (VStr t)"
    and "nfc_keeps_hex rt" "object_bytes rt (VDict d) = object_bytes rt (VDict e)" "hex_text s" "hex_text t"
  shows "canonicalize rt (VDict d) = canonicalize rt (VDict e) \<and> s = t"
proof -
  from object_bytes_inj [OF assms(1-4,8)]
  have c: "canonicalize rt (VDict d) = canonicalize rt (VDict e)" .
  obtain u where "canonicalize rt (VDict d) = Inr u" using hash_object_canonical [OF assms(1)] .
  from canonical_text_field [OF c this _ _ assms(5,6)] assms(3,4) have "rt_nfc rt s = rt_nfc rt t" by simp
  with assms(7,9,10) c show ?thesis by (simp add: nfc_hex del: canonicalize.simps)
qed

section \<open>A concrete runtime\<close>

text \<open>
  A runtime on which statements are evaluated: the digest and the normalisation are identities,
  so that no two byte strings collide and digest texts are kept.
\<close>

definition plain_runtime :: runtime where
  "plain_runtime = \<lparr>rt_digest = (\<lambda>b. b), rt_nfc = (\<lambda>s. s), rt_isoformat = int_str,
     rt_fromiso = (\<lambda>s. None), rt_str = (\<lambda>v. [])\<rparr>"

lemma plain_runtime_laws [simp]:
  "nfc_keeps_hex plain_runtime" "inj_on (hexdigest plain_runtime) S"
  by (auto simp: nfc_keeps_hex_def plain_runtime_def hexdigest_def inj_on_def dest: hex_inj)

end
