(* ===== verification/AuditLedger.thy ===== *)
theory AuditLedger
  imports HashChain
begin

text \<open>
  \<open>src/sia/audit/ledger.py\<close>: the authority's append-only, hash-chained ledger.  The lemmas show
  that appending keeps a ledger verifiable, that every history of appends verifies with entry
  ids counting from zero, and (through the \<open>hash_chain\<close> contract) that the head hash commits to
  every entry.
\<close>

section \<open>Entries\<close>

record ledger_entry =
  le_id :: int
  le_event :: string
  le_payload :: pydict
  le_actor :: string
  le_ts :: string
  le_prev :: string
  le_hash :: string

type_synonym ledger = "ledger_entry list"

definition entry_dict :: "ledger_entry \<Rightarrow> pydict" where
  "entry_dict e =
     [(''entry_id'', VInt (le_id e)),
      (''event_type'', VStr (le_event e)),
      (''payload'', VDict (le_payload e)),
      (''actor_id'', VStr (le_actor e)),
      (''timestamp'', VStr (le_ts e)),
      (''prev_hash'', VStr (le_prev e))]"

definition compute_hash :: "runtime \<Rightarrow> ledger_entry \<Rightarrow> string res" where
  "compute_hash rt e = hash_object rt (VDict (entry_dict e))"

definition entry_verify :: "runtime \<Rightarrow> ledger_entry \<Rightarrow> unit res" where
  "entry_verify rt e =
     bindE (compute_hash rt e) (\<lambda>expected.
       guardE (le_hash e = expected) (SIAErr AuditTamperedError))"

section \<open>The ledger\<close>

definition ledger_init :: ledger where
  "ledger_init = []"

definition append :: "runtime \<Rightarrow> string \<Rightarrow> string \<Rightarrow> pydict \<Rightarrow> string \<Rightarrow> string option \<Rightarrow> ledger
    \<Rightarrow> ledger_entry res \<times> ledger" where
  "append rt now event_type payload actor_id timestamp L =
     (let prev_hash = (if L = [] then genesis_hash else le_hash (last L));
          ts = ostr_or timestamp now;
          entry = \<lparr>le_id = int (length L), le_event = event_type, le_payload = payload,
                   le_actor = actor_id, le_ts = ts, le_prev = prev_hash, le_hash = []\<rparr>
      in case compute_hash rt entry of
           Inl ex \<Rightarrow> (Inl ex, L)
         | Inr h \<Rightarrow> (let entry' = entry\<lparr>le_hash := h\<rparr> in (Inr entry', L @ [entry'])))"

fun verify_from :: "runtime \<Rightarrow> string \<Rightarrow> ledger \<Rightarrow> unit res" where
  "verify_from rt prev_hash [] = Inr ()"
| "verify_from rt prev_hash (entry # rest) =
     bindE (entry_verify rt entry) (\<lambda>_.
       if le_prev entry \<noteq> prev_hash then Inl (SIAErr AuditChainError)
       else verify_from rt (le_hash entry) rest)"

definition verify_chain :: "runtime \<Rightarrow> ledger \<Rightarrow> unit res" where
  "verify_chain rt L = verify_from rt genesis_hash L"

definition tail :: "int \<Rightarrow> ledger \<Rightarrow> ledger" where
  "tail n L = slice_from (- n) L"

definition all_entries :: "ledger \<Rightarrow> ledger" where
  "all_entries L = L"

definition ledger_len :: "ledger \<Rightarrow> int" where
  "ledger_len L = int (length L)"

section \<open>The ledger as a hash chain\<close>

definition entry_ok :: "runtime \<Rightarrow> nat \<Rightarrow> ledger_entry \<Rightarrow> bool" where
  "entry_ok rt n e = (entry_verify rt e = Inr ())"

definition entry_rep :: "ledger_entry \<Rightarrow> bool" where
  "entry_rep e = wf_pyval (VDict (le_payload e))"

definition entry_canon :: "runtime \<Rightarrow> ledger_entry \<Rightarrow> pyval res" where
  "entry_canon rt e = canonicalize rt (VDict (entry_dict e))"

lemma entry_ok_hash: "entry_ok rt n e \<longleftrightarrow> compute_hash rt e = Inr (le_hash e)"
  by (auto simp: entry_ok_def entry_verify_def res_simps)

lemma entry_dict_wf: "entry_rep e \<Longrightarrow> wf_pyval (VDict (entry_dict e))"
  by (simp add: entry_dict_def entry_rep_def)

lemma entry_dict_prev: "map_of (entry_dict e) ''prev_hash'' = Some (VStr (le_prev e))"
  by (simp add: entry_dict_def)

lemma verify_from_loop:
  "verify_from rt p L = Inr () \<longleftrightarrow> chain_from (entry_ok rt) le_prev le_hash n p L"
  by (induction L arbitrary: p n) (auto simp: res_simps entry_ok_def)

definition entry_bytes :: "runtime \<Rightarrow> ledger_entry \<Rightarrow> string" where
  "entry_bytes rt e = object_bytes rt (VDict (entry_dict e))"

interpretation ledger: hash_chain le_prev le_hash genesis_hash "entry_ok rt"
    "\<lambda>L. verify_chain rt L = Inr ()" "entry_canon rt" entry_rep hex_text "nfc_keeps_hex rt"
    "hexdigest rt" "entry_bytes rt"
  for rt
proof unfold_locales
  show "verify_chain rt es = Inr () \<longleftrightarrow> chain_from (entry_ok rt) le_prev le_hash 0 genesis_hash es" for es
    unfolding verify_chain_def by (rule verify_from_loop)
  show "hex_text genesis_hash" by simp
  show "entry_ok rt n e \<Longrightarrow> le_hash e = hexdigest rt (entry_bytes rt e) \<and> hex_text (le_hash e)" for n e
    by (metis entry_ok_hash compute_hash_def entry_bytes_def hash_object_bytes hex_text_hexdigest)
  fix e e' n
  assume a: "nfc_keeps_hex rt" "entry_rep e" "entry_rep e'" "entry_ok rt n e" "entry_ok rt n e'"
    "entry_bytes rt e = entry_bytes rt e'" "hex_text (le_prev e)" "hex_text (le_prev e')"
  from a(4,5) have "hash_object rt (VDict (entry_dict e)) = Inr (le_hash e)"
    "hash_object rt (VDict (entry_dict e')) = Inr (le_hash e')"
    by (simp_all add: entry_ok_hash compute_hash_def)
  from object_bytes_binds [OF this entry_dict_wf [OF a(2)] entry_dict_wf [OF a(3)]
      entry_dict_prev entry_dict_prev a(1) a(6) [unfolded entry_bytes_def] a(7,8)]
  show "entry_canon rt e = entry_canon rt e' \<and> le_prev e = le_prev e'"
    unfolding entry_canon_def .
qed

section \<open>Appending\<close>

lemma entry_ok_update: "entry_ok rt n (e\<lparr>le_hash := h\<rparr>) \<longleftrightarrow> compute_hash rt e = Inr h"
  by (simp add: entry_ok_hash compute_hash_def entry_dict_def)

lemma append_cases:
  obtains (fails) ex where "append rt now ev pl a ts L = (Inl ex, L)"
  | (appends) e where "append rt now ev pl a ts L = (Inr e, L @ [e])" "entry_ok rt (length L) e"
      "le_prev e = head_hash le_hash genesis_hash L" "le_id e = int (length L)" "le_payload e = pl"
      "le_event e = ev" "le_actor e = a" "le_ts e = ostr_or ts now"
proof -
  define e where "e = \<lparr>le_id = int (length L), le_event = ev, le_payload = pl, le_actor = a,
    le_ts = ostr_or ts now, le_prev = if L = [] then genesis_hash else le_hash (last L), le_hash = []\<rparr>"
  have app: "append rt now ev pl a ts L =
      (case compute_hash rt e of Inl ex \<Rightarrow> (Inl ex, L)
       | Inr h \<Rightarrow> (Inr (e\<lparr>le_hash := h\<rparr>), L @ [e\<lparr>le_hash := h\<rparr>]))"
    unfolding append_def Let_def e_def by (rule refl)
  show thesis
  proof (cases "compute_hash rt e")
    case (Inl ex)
    with app fails show thesis by simp
  next
    case (Inr h)
    show thesis
      by (rule appends [of "e\<lparr>le_hash := h\<rparr>"])
         (simp add: app Inr, simp only: entry_ok_update Inr, simp_all add: e_def head_hash_def)
  qed
qed

lemma append_verified:
  "verify_chain rt L = Inr () \<Longrightarrow> verify_chain rt (snd (append rt now ev pl a ts L)) = Inr ()"
  by (rule append_cases [of rt now ev pl a ts L]) (auto simp: ledger.verify_snoc)

lemma append_total:
  "canonicalizable (VDict pl) \<Longrightarrow> \<exists>e. append rt now ev pl a ts L = (Inr e, L @ [e])"
proof -
  let ?e = "\<lparr>le_id = int (length L), le_event = ev, le_payload = pl, le_actor = a,
    le_ts = ostr_or ts now, le_prev = if L = [] then genesis_hash else le_hash (last L), le_hash = []\<rparr>"
  assume "canonicalizable (VDict pl)"
  then have "canonicalizable (VDict (entry_dict ?e))" by (simp add: entry_dict_def)
  from hash_object_total [OF this, of rt] obtain h where "compute_hash rt ?e = Inr h"
    by (auto simp: compute_hash_def)
  then show ?thesis by (simp add: append_def Let_def)
qed

text \<open>Histories of the ledger: every entry got there through \<open>append\<close>.\<close>

inductive ledger_history :: "runtime \<Rightarrow> ledger \<Rightarrow> bool" for rt where
  init: "ledger_history rt ledger_init"
| step: "ledger_history rt L \<Longrightarrow> ledger_history rt (snd (append rt now ev pl a ts L))"

lemma history_invariant:
  "ledger_history rt L \<Longrightarrow>
     verify_chain rt L = Inr () \<and> map le_id L = map int [0..<length L]"
proof (induction rule: ledger_history.induct)
  case init
  then show ?case by (simp add: ledger_init_def)
next
  case (step L now ev pl a ts)
  then show ?case
    by (cases rule: append_cases [of rt now ev pl a ts L]) (auto simp: ledger.verify_snoc)
qed

section \<open>Properties\<close>

text \<open>
  Whatever sequence of \<open>append\<close> calls built a ledger (any event types, payloads, actors,
  explicit or default timestamps, failing calls included), \<open>verify_chain\<close> accepts it and the
  entry ids are 0, 1, 2, ... in order.
\<close>

theorem ledger_history_verifies:
  assumes "ledger_history rt L"
  shows "verify_chain rt L = Inr () \<and> map le_id L = map int [0..<length L]"
  using assms by (rule history_invariant)

definition demo_ledger :: ledger where
  "demo_ledger = snd (append plain_runtime ''t0'' ''authority.init'' [(''version'', VStr ''1'')] ''u'' None ledger_init)"

definition forged_entry :: ledger_entry where
  "forged_entry = (demo_ledger ! 0)\<lparr>le_actor := ''mallory''\<rparr>"

lemma demo_ledger_history: "ledger_history plain_runtime demo_ledger"
  by (simp add: demo_ledger_def ledger_history.intros)

lemma demo_ledger_entry:
  obtains h where "demo_ledger = [\<lparr>le_id = 0, le_event = ''authority.init'',
    le_payload = [(''version'', VStr ''1'')], le_actor = ''u'', le_ts = ''t0'', le_prev = genesis_hash,
    le_hash = h\<rparr>]"
  using append_total [of "[(''version'', VStr ''1'')]" plain_runtime "''t0''" "''authority.init''" "''u''" None "[]"]
  by (auto simp: demo_ledger_def ledger_init_def append_def Let_def ostr_or_def split: sum.splits)

lemma demo_ledger_facts:
  "length demo_ledger = 1" "list_all entry_rep demo_ledger" "le_actor (demo_ledger ! 0) = ''u''"
  "entry_rep forged_entry" "le_hash forged_entry = le_hash (last demo_ledger)"
proof -
  obtain h where d: "demo_ledger = [\<lparr>le_id = 0, le_event = ''authority.init'',
    le_payload = [(''version'', VStr ''1'')], le_actor = ''u'', le_ts = ''t0'', le_prev = genesis_hash,
    le_hash = h\<rparr>]"
    by (rule demo_ledger_entry)
  show "length demo_ledger = 1" "list_all entry_rep demo_ledger" "le_actor (demo_ledger ! 0) = ''u''"
    "entry_rep forged_entry" "le_hash forged_entry = le_hash (last demo_ledger)"
    by (simp_all add: d entry_rep_def forged_entry_def)
qed

theorem ledger_history_verifies_witness:
  "verify_chain plain_runtime demo_ledger = Inr () \<and> map le_id demo_ledger = [0]"
  using ledger_history_verifies [OF demo_ledger_history] by (simp add: demo_ledger_facts(1))



text \<open>
  An entry cannot be rewritten in place: if an entry of a verified ledger is replaced by one
  with other canonical content while the head hash stays the same, \<open>verify_chain\<close> raises
  (\<open>AuditTamperedError\<close>, \<open>AuditChainError\<close>, or the encoding error of the new entry), provided
  SHA3-512 does not collide on the bytes hashed for the ledger and the new entry.
\<close>

theorem ledger_rewrite_detected:
  assumes "nfc_keeps_hex rt" "inj_on (hexdigest rt) (entry_bytes rt ` insert e (set L))"
    and "list_all entry_rep L" "entry_rep e"
    and "verify_chain rt L = Inr ()" "i < length L" "entry_canon rt e \<noteq> entry_canon rt (L ! i)"
    and "head_hash le_hash genesis_hash (L[i := e]) = head_hash le_hash genesis_hash L"
  shows "verify_chain rt (L[i := e]) \<noteq> Inr ()"
  using ledger.rewrite_detected [OF assms] .

lemma forged_entry_differs:
  "entry_canon plain_runtime forged_entry \<noteq> entry_canon plain_runtime (demo_ledger ! 0)"
proof
  assume eq: "entry_canon plain_runtime forged_entry = entry_canon plain_runtime (demo_ledger ! 0)"
  let ?e = "demo_ledger ! 0"
  have ok: "entry_ok plain_runtime 0 ?e"
    using ledger.verify_entry [of plain_runtime demo_ledger 0] history_invariant [OF demo_ledger_history]
    by (simp add: demo_ledger_facts)
  then obtain u where u: "entry_canon plain_runtime ?e = Inr u"
    using hash_object_canonical [of plain_runtime "VDict (entry_dict ?e)" "le_hash ?e"]
    unfolding entry_ok_hash compute_hash_def entry_canon_def by blast
  have a: "map_of (entry_dict forged_entry) ''actor_id'' = Some (VStr ''mallory'')"
    "map_of (entry_dict ?e) ''actor_id'' = Some (VStr ''u'')"
    by (simp_all add: entry_dict_def forged_entry_def demo_ledger_facts)
  have d: "distinct (map fst (entry_dict x))" for x by (simp add: entry_dict_def)
  from eq u have "entry_canon plain_runtime forged_entry = Inr u" by (rule trans)
  from canonical_text_field [OF eq [unfolded entry_canon_def] this [unfolded entry_canon_def] d d a]
  have "rt_nfc plain_runtime ''mallory'' = rt_nfc plain_runtime ''u''" .
  then show False by (simp add: plain_runtime_def)
qed

theorem ledger_rewrite_detected_witness:
  "verify_chain plain_runtime (demo_ledger[0 := forged_entry]) \<noteq> Inr ()"
proof (rule ledger_rewrite_detected)
  show "inj_on (hexdigest plain_runtime) (entry_bytes plain_runtime ` insert forged_entry (set demo_ledger))"
    by (rule plain_runtime_laws)
  show "verify_chain plain_runtime demo_ledger = Inr ()"
    using history_invariant [OF demo_ledger_history] by simp
  show "head_hash le_hash genesis_hash (demo_ledger[0 := forged_entry]) = head_hash le_hash genesis_hash demo_ledger"
  proof -
    have "last [x] = x" "[x][0 := y] = [y]" for x y :: ledger_entry by simp_all
    moreover obtain e where "demo_ledger = [e]"
      using demo_ledger_facts(1) by (metis One_nat_def length_0_conv length_Suc_conv)
    ultimately show ?thesis
      using demo_ledger_facts(5) unfolding head_hash_def by (metis list.distinct(1))
  qed
qed (simp_all add: demo_ledger_facts forged_entry_differs)

end
