(* ===== verification/AuditRecorder.thy ===== *)
theory AuditRecorder
  imports AuditLedger
begin

text \<open>
  \<open>src/sia/context/request_context.py\<close>, \<open>src/sia/audit/provider_events.py\<close> and
  \<open>src/sia/audit/recorder.py\<close>: the request context, the provider lifecycle events and the typed
  helpers that write authority events to the ledger.  Every helper is one ledger append, so a
  ledger that is only written through the recorder verifies.
\<close>

section \<open>Request contexts\<close>

record request_context =
  rc_request :: string
  rc_correlation :: string
  rc_session :: string
  rc_operation :: string
  rc_subject :: string
  rc_capability :: "string option"
  rc_policy_hash :: string
  rc_timestamp :: string
  rc_sequence :: int

definition advance :: "int \<Rightarrow> request_context \<Rightarrow> request_context" where
  "advance authority_sequence ctx = ctx\<lparr>rc_sequence := authority_sequence\<rparr>"

definition context_create :: "string \<Rightarrow> string \<Rightarrow> string \<Rightarrow> string \<Rightarrow> string \<Rightarrow> string \<Rightarrow>
    string option \<Rightarrow> string \<Rightarrow> request_context" where
  "context_create now request_id correlation_id session_id operation subject_id capability_id policy_hash =
     \<lparr>rc_request = request_id, rc_correlation = correlation_id, rc_session = session_id,
      rc_operation = operation, rc_subject = subject_id, rc_capability = capability_id,
      rc_policy_hash = policy_hash, rc_timestamp = now, rc_sequence = 1\<rparr>"

section \<open>Provider events\<close>

datatype provider_event_type = REQUESTED | APPROVED | COMPLETED | FAILED

fun event_type_value :: "provider_event_type \<Rightarrow> string" where
  "event_type_value REQUESTED = ''requested''"
| "event_type_value APPROVED = ''approved''"
| "event_type_value COMPLETED = ''completed''"
| "event_type_value FAILED = ''failed''"

record provider_scar_event =
  pe_type :: provider_event_type
  pe_context :: request_context
  pe_provider :: string
  pe_code :: "string option"
  pe_category :: "string option"
  pe_retryable :: "bool option"

definition to_payload :: "provider_scar_event \<Rightarrow> pydict" where
  "to_payload ev =
     (let c = pe_context ev in
      [(''event_type'', VStr (event_type_value (pe_type ev))),
       (''request_id'', VStr (rc_request c)),
       (''correlation_id'', VStr (rc_correlation c)),
       (''session_id'', VStr (rc_session c)),
       (''operation'', VStr (rc_operation c)),
       (''subject_id'', VStr (rc_subject c)),
       (''capability_id'', opt_str (rc_capability c)),
       (''policy_hash'', VStr (rc_policy_hash c)),
       (''authority_sequence'', VInt (rc_sequence c)),
       (''provider_id'', VStr (pe_provider ev)),
       (''error_code'', opt_str (pe_code ev)),
       (''error_category'', opt_str (pe_category ev)),
       (''retryable'', case pe_retryable ev of None \<Rightarrow> VNone | Some b \<Rightarrow> VBool b)])"

definition create_provider_scar_event :: "provider_event_type \<Rightarrow> request_context \<Rightarrow> string \<Rightarrow>
    string option \<Rightarrow> string option \<Rightarrow> bool option \<Rightarrow> provider_scar_event" where
  "create_provider_scar_event event_type ctx provider_id error_code error_category retryable =
     \<lparr>pe_type = event_type, pe_context = ctx, pe_provider = provider_id, pe_code = error_code,
      pe_category = error_category, pe_retryable = retryable\<rparr>"

section \<open>The recorder\<close>

text \<open>A recorder holds its ledger; each helper discards the entry that \<open>append\<close> returns.\<close>

definition record_event :: "runtime \<Rightarrow> string \<Rightarrow> string \<Rightarrow> pydict \<Rightarrow> string \<Rightarrow> string option \<Rightarrow> ledger
    \<Rightarrow> unit res \<times> ledger" where
  "record_event rt now event_type payload actor_id timestamp L =
     (case append rt now event_type payload actor_id timestamp L of
        (Inl ex, L') \<Rightarrow> (Inl ex, L')
      | (Inr e, L') \<Rightarrow> (Inr (), L'))"

definition record_authority_init where
  "record_authority_init rt now actor_id version =
     record_event rt now ''authority.init'' [(''version'', VStr version)] actor_id None"

definition record_boundary_registered where
  "record_boundary_registered rt now actor_id boundary_id boundary_type model_id =
     record_event rt now ''boundary.registered''
       [(''boundary_id'', VStr boundary_id), (''boundary_type'', VStr boundary_type),
        (''model_id'', VStr model_id)] actor_id None"

definition record_delegation_issued where
  "record_delegation_issued rt now actor_id token_id grantee_id scope =
     record_event rt now ''delegation.issued''
       [(''token_id'', VStr token_id), (''grantee_id'', VStr grantee_id), (''scope'', str_list scope)]
       actor_id None"

definition record_delegation_revoked where
  "record_delegation_revoked rt now actor_id token_id =
     record_event rt now ''delegation.revoked'' [(''token_id'', VStr token_id)] actor_id None"

definition record_memory_access where
  "record_memory_access rt now actor_id record_id model_id access_type =
     record_event rt now ''memory.access''
       [(''record_id'', VStr record_id), (''model_id'', VStr model_id), (''access_type'', VStr access_type)]
       actor_id None"

definition record_export where
  "record_export rt now actor_id bundle_id =
     record_event rt now ''export.created'' [(''bundle_id'', VStr bundle_id)] actor_id None"

definition record_import where
  "record_import rt now actor_id bundle_id =
     record_event rt now ''import.loaded'' [(''bundle_id'', VStr bundle_id)] actor_id None"

definition record_conformance_result where
  "record_conformance_result rt now actor_id rfc passed details =
     record_event rt now ''conformance.result''
       [(''rfc'', VStr rfc), (''passed'', VBool passed),
        (''details'', VDict (case details of None \<Rightarrow> [] | Some d \<Rightarrow> d))] actor_id None"

definition record_provider_scar_event where
  "record_provider_scar_event rt now ev =
     record_event rt now (''provider.'' @ event_type_value (pe_type ev)) (to_payload ev)
       (rc_subject (pe_context ev)) (Some (rc_timestamp (pe_context ev)))"

definition record_mcp_operation where
  "record_mcp_operation rt now actor_id event_type payload =
     record_event rt now event_type payload actor_id None"

text \<open>The optional arguments of \<open>record_tool_operation\<close>.\<close>

record tool_evidence =
  te_request :: "string option"
  te_authorization :: "string option"
  te_identity :: "string option"
  te_workspace :: "string option"
  te_binding :: "string option"
  te_branch :: "string option"
  te_task :: "string option"
  te_capability :: "string option"
  te_tool :: "string option"
  te_operation :: "string option"
  te_decision :: "string option"
  te_status :: "string option"
  te_failure :: "string option"
  te_timestamp :: "string option"

definition tool_payload :: "tool_evidence \<Rightarrow> (string \<times> string option) list" where
  "tool_payload t =
     [(''request_id'', te_request t), (''authorization_id'', te_authorization t),
      (''identity_id'', te_identity t), (''workspace_id'', te_workspace t),
      (''binding_id'', te_binding t), (''branch'', te_branch t), (''task_id'', te_task t),
      (''capability_id'', te_capability t), (''tool_name'', te_tool t),
      (''operation'', te_operation t), (''decision'', te_decision t),
      (''execution_status'', te_status t), (''failure_reason'', te_failure t),
      (''timestamp'', te_timestamp t)]"

definition drop_none :: "(string \<times> string option) list \<Rightarrow> pydict" where
  "drop_none d = map (\<lambda>p. (fst p, opt_str (snd p))) (filter (\<lambda>p. snd p \<noteq> None) d)"

definition record_tool_operation where
  "record_tool_operation rt now actor_id event_type t =
     record_event rt now event_type (drop_none (tool_payload t)) actor_id None"

section \<open>Recording keeps the ledger verifiable\<close>

lemma record_event_snd: "snd (record_event rt now ev pl a ts L) = snd (append rt now ev pl a ts L)"
  by (simp add: record_event_def split: prod.splits sum.splits)

lemma record_event_verified:
  "verify_chain rt L = Inr () \<Longrightarrow> verify_chain rt (snd (record_event rt now ev pl a ts L)) = Inr ()"
  by (simp add: record_event_snd append_verified)

lemma record_event_total:
  assumes "canonicalizable (VDict pl)"
  obtains e where "record_event rt now ev pl a ts L = (Inr (), L @ [e])" "le_event e = ev"
    "le_payload e = pl" "le_actor e = a" "le_ts e = ostr_or ts now" "le_id e = int (length L)"
    "le_prev e = head_hash le_hash genesis_hash L"
  using append_total [OF assms, of rt now ev a ts L]
  by (cases rule: append_cases [of rt now ev pl a ts L]) (auto simp: record_event_def)

lemma record_event_Inr:
  assumes "record_event rt now ev pl a ts L = (Inr (), L')"
  obtains e where "L' = L @ [e]" "le_event e = ev" "le_payload e = pl" "le_actor e = a"
    "le_ts e = ostr_or ts now" "le_id e = int (length L)"
  using assms by (cases rule: append_cases [of rt now ev pl a ts L]) (auto simp: record_event_def)

lemma record_event_Inl:
  "record_event rt now ev pl a ts L = (Inl ex, L') \<Longrightarrow> L' = L"
  by (cases rule: append_cases [of rt now ev pl a ts L]) (auto simp: record_event_def)

lemma to_payload_canonicalizable [simp]: "canonicalizable (VDict (to_payload ev))"
  by (simp add: to_payload_def Let_def split: option.splits)

lemma drop_none_canonicalizable [simp]: "canonicalizable (VDict (drop_none d))"
  by (simp add: drop_none_def list_all_iff)

lemma map_of_drop_none:
  "distinct (map fst d) \<Longrightarrow> map_of (drop_none d) k = map_option VStr (Option.bind (map_of d k) id)"
proof (induction d)
  case Nil
  then show ?case by (simp add: drop_none_def)
next
  case (Cons p d)
  then have "map_of (drop_none (p # d)) k =
      (if snd p \<noteq> None \<and> k = fst p then Some (opt_str (snd p)) else map_of (drop_none d) k)"
    by (auto simp: drop_none_def)
  moreover have "map_of d (fst p) = None" using Cons.prems by (simp add: map_of_None_keys)
  ultimately show ?case using Cons by (cases p) (auto simp: opt_str_def)
qed

end
