(* ===== verification/TrustRoot.thy ===== *)
theory TrustRoot
  imports HashChain
begin

text \<open>
  \<open>src/sovereignty_core/identity/root_of_trust.py\<close>: the trust backend contract, the software
  Ed25519 backend and the root of trust on top of it.  Ed25519 itself is a parameter.  The lemmas
  show that signatures made by the root verify, that a signed object verifies for its own payload
  only, and the exact key material that key derivation returns.
\<close>

section \<open>Ed25519\<close>

text \<open>
  The functions of \<open>cryptography.hazmat\<close> that the backend calls: the raw public key and the
  signature of a 32-byte private key, and whether verification returns without an exception.
  \<open>ed_correct\<close> is the documented law that a signature verifies under its own key.
\<close>

record ed25519 =
  ed_public :: "string \<Rightarrow> string"
  ed_sign :: "string \<Rightarrow> string \<Rightarrow> string"
  ed_verify :: "string \<Rightarrow> string \<Rightarrow> string \<Rightarrow> bool"

definition ed_correct :: "ed25519 \<Rightarrow> bool" where
  "ed_correct ed \<longleftrightarrow> (\<forall>k m. ed_verify ed (ed_public ed k) (ed_sign ed k m) m)"

section \<open>The backend contract\<close>

text \<open>The methods of \<open>TrustBackend\<close>, as one object of the interface.\<close>

record trust_backend =
  tb_name :: string
  tb_hardware :: bool
  tb_algorithm :: string
  tb_public_key :: string
  tb_sign :: "string \<Rightarrow> string res"
  tb_verify :: "string \<Rightarrow> string \<Rightarrow> bool"
  tb_derive :: "string \<Rightarrow> int \<Rightarrow> string res"

locale signing_key =
  fixes sign :: "string \<Rightarrow> string res"
    and verify :: "string \<Rightarrow> string \<Rightarrow> bool"
    and law :: bool
  assumes sign_verify: "law \<Longrightarrow> sign m = Inr s \<Longrightarrow> verify m s"
begin

lemma unverifiable_not_signed: "law \<Longrightarrow> \<not> verify m s \<Longrightarrow> sign m \<noteq> Inr s"
  using sign_verify by blast

text \<open>Documents: the signature of the canonical bytes verifies on any equal canonical bytes.\<close>

lemma document_verifies:
  assumes law "canonical_bytes rt d = Inr b" "sign b = Inr s" "canonical_bytes rt e = Inr c"
    and "canonicalize rt d = canonicalize rt e"
  shows "verify c s"
proof -
  have "c = b" using assms(2,4,5) by (auto simp: canonical_bytes_def res_simps)
  with assms(1,3) sign_verify show ?thesis by simp
qed

end

section \<open>The software backend\<close>

definition RootTrustError :: pyexc where
  "RootTrustError = RuntimeError ''RootTrustError'' []"

record software_backend =
  sb_root_secret :: string
  sb_private_key :: "string option"
  sb_public_key :: string

definition software_init :: "runtime \<Rightarrow> ed25519 \<Rightarrow> string option \<Rightarrow> string \<Rightarrow> software_backend" where
  "software_init rt ed root_secret random32 =
     (let secret = ostr_or root_secret random32;
          private_bytes = take 32 (rt_digest rt (''SAMA_ED25519_PRIVATE:'' @ secret))
      in \<lparr>sb_root_secret = secret, sb_private_key = Some private_bytes,
          sb_public_key = ed_public ed private_bytes\<rparr>)"

definition software_sign :: "ed25519 \<Rightarrow> software_backend \<Rightarrow> string \<Rightarrow> string res" where
  "software_sign ed sb payload =
     (case sb_private_key sb of
        None \<Rightarrow> Inl (AppError ''AttributeError'' ''sign'')
      | Some k \<Rightarrow> Inr (hex (ed_sign ed k payload)))"

definition software_verify :: "ed25519 \<Rightarrow> software_backend \<Rightarrow> string \<Rightarrow> string \<Rightarrow> bool" where
  "software_verify ed sb payload signature =
     (case fromhex signature of
        None \<Rightarrow> False
      | Some raw \<Rightarrow> ed_verify ed (sb_public_key sb) raw payload)"

text \<open>\<open>counter.to_bytes(4, "big")\<close>, which raises from \<open>2 ^ 32\<close> on.\<close>

definition to_bytes4 :: "nat \<Rightarrow> string" where
  "to_bytes4 n = [char_of (n div 16777216), char_of (n div 65536), char_of (n div 256), char_of n]"

definition derive_block :: "runtime \<Rightarrow> string \<Rightarrow> string \<Rightarrow> nat \<Rightarrow> string" where
  "derive_block rt secret context counter =
     rt_digest rt (''SAMA_DERIVE:'' @ to_bytes4 counter @ context @ secret)"

function derive_loop :: "runtime \<Rightarrow> string \<Rightarrow> string \<Rightarrow> nat \<Rightarrow> nat \<Rightarrow> string \<Rightarrow> string res" where
  "derive_loop rt secret context len counter out =
     (if length out < len
      then if counter \<ge> 4294967296 then Inl (OverflowError ''int too big to convert'')
           else derive_loop rt secret context len (Suc counter) (out @ derive_block rt secret context counter)
      else Inr (take len out))"
  by pat_completeness auto
termination
  by (relation "measure (\<lambda>(rt, secret, context, len, counter, out). 4294967296 - counter)") auto

declare derive_loop.simps [simp del]

definition software_derive_key :: "runtime \<Rightarrow> software_backend \<Rightarrow> string \<Rightarrow> int \<Rightarrow> string res" where
  "software_derive_key rt sb context len =
     (if len \<le> 0 then Inl RootTrustError
      else derive_loop rt (sb_root_secret sb) context (nat len) 0 [])"

definition software_destroy :: "software_backend \<Rightarrow> software_backend" where
  "software_destroy sb = sb\<lparr>sb_root_secret := [], sb_private_key := None\<rparr>"

definition software_trust_backend :: "runtime \<Rightarrow> ed25519 \<Rightarrow> software_backend \<Rightarrow> trust_backend" where
  "software_trust_backend rt ed sb =
     \<lparr>tb_name = ''software-ed25519'', tb_hardware = False, tb_algorithm = ''Ed25519'',
      tb_public_key = sb_public_key sb, tb_sign = software_sign ed sb,
      tb_verify = software_verify ed sb, tb_derive = software_derive_key rt sb\<rparr>"

text \<open>The key pair of a backend belongs together, from construction on and after destruction.\<close>

definition keypair_ok :: "ed25519 \<Rightarrow> software_backend \<Rightarrow> bool" where
  "keypair_ok ed sb = (case sb_private_key sb of None \<Rightarrow> True | Some k \<Rightarrow> sb_public_key sb = ed_public ed k)"

lemma keypair_init [simp]: "keypair_ok ed (software_init rt ed s r)"
  by (simp add: keypair_ok_def software_init_def Let_def)

lemma keypair_destroy [simp]: "keypair_ok ed (software_destroy sb)"
  by (simp add: keypair_ok_def software_destroy_def)

interpretation software: signing_key "software_sign ed sb" "software_verify ed sb" "ed_correct ed \<and> keypair_ok ed sb"
  for ed sb
  by unfold_locales
     (auto simp: software_sign_def software_verify_def ed_correct_def keypair_ok_def split: option.splits)

section \<open>The root of trust\<close>

record device_identity =
  di_identity :: string
  di_public_key :: string
  di_backend :: string
  di_hardware :: bool
  di_created :: int
  di_version :: int

record signed_object =
  so_payload_hash :: string
  so_signature :: string
  so_signer :: string
  so_timestamp :: int
  so_algorithm :: string

record root_of_trust =
  rot_backend :: trust_backend
  rot_identity :: device_identity

definition create_identity :: "runtime \<Rightarrow> int \<Rightarrow> trust_backend \<Rightarrow> device_identity" where
  "create_identity rt now b =
     (let public_material = tb_public_key b in
      \<lparr>di_identity = hexdigest rt (''SAMA_IDENTITY:'' @ public_material), di_public_key = hex public_material,
       di_backend = tb_name b, di_hardware = tb_hardware b, di_created = now, di_version = 1\<rparr>)"

definition root_init :: "runtime \<Rightarrow> int \<Rightarrow> trust_backend \<Rightarrow> root_of_trust" where
  "root_init rt now b = \<lparr>rot_backend = b, rot_identity = create_identity rt now b\<rparr>"

definition derive_identity_key :: "root_of_trust \<Rightarrow> string res" where
  "derive_identity_key r = tb_derive (rot_backend r) ''SAMA_IDENTITY_KEY'' 32"

definition derive_vault_key :: "root_of_trust \<Rightarrow> string res" where
  "derive_vault_key r = tb_derive (rot_backend r) ''SAMA_VAULT_KEY'' 32"

definition root_sign :: "runtime \<Rightarrow> int \<Rightarrow> root_of_trust \<Rightarrow> string \<Rightarrow> signed_object res" where
  "root_sign rt now r payload =
     (let payload_hash = hexdigest rt payload in
      bindE (tb_sign (rot_backend r) payload) (\<lambda>signature.
        Inr \<lparr>so_payload_hash = payload_hash, so_signature = signature,
             so_signer = di_identity (rot_identity r), so_timestamp = now,
             so_algorithm = tb_algorithm (rot_backend r)\<rparr>))"

definition root_verify :: "runtime \<Rightarrow> root_of_trust \<Rightarrow> string \<Rightarrow> signed_object \<Rightarrow> bool" where
  "root_verify rt r payload signed =
     (if hexdigest rt payload \<noteq> so_payload_hash signed then False
      else tb_verify (rot_backend r) payload (so_signature signed))"

definition verify_signature :: "root_of_trust \<Rightarrow> string \<Rightarrow> string \<Rightarrow> bool" where
  "verify_signature r payload signature = tb_verify (rot_backend r) payload signature"

definition export_public_identity :: "root_of_trust \<Rightarrow> pydict" where
  "export_public_identity r =
     (let i = rot_identity r in
      [(''identity_id'', VStr (di_identity i)), (''public_key'', VStr (di_public_key i)),
       (''backend_name'', VStr (di_backend i)), (''hardware_backed'', VBool (di_hardware i)),
       (''created_at'', VInt (di_created i)), (''version'', VInt (di_version i))])"

text \<open>Law of a root: what its backend signs, it verifies.\<close>

definition root_sound :: "root_of_trust \<Rightarrow> bool" where
  "root_sound r \<longleftrightarrow> (\<forall>m s. tb_sign (rot_backend r) m = Inr s \<longrightarrow> tb_verify (rot_backend r) m s)"

definition root_sign_text :: "runtime \<Rightarrow> int \<Rightarrow> root_of_trust \<Rightarrow> string \<Rightarrow> string res" where
  "root_sign_text rt now r payload = bindE (root_sign rt now r payload) (\<lambda>s. Inr (so_signature s))"

interpretation root: signing_key "root_sign_text rt now r" "verify_signature r" "root_sound r" for rt now r
  by unfold_locales
     (auto simp: root_sign_text_def root_sign_def verify_signature_def root_sound_def Let_def res_simps)

lemma root_sound_software:
  "ed_correct ed \<Longrightarrow> keypair_ok ed sb \<Longrightarrow> root_sound (root_init rt now (software_trust_backend rt ed sb))"
  using software.sign_verify by (simp add: root_sound_def root_init_def software_trust_backend_def)

section \<open>Key derivation\<close>

definition derived :: "runtime \<Rightarrow> string \<Rightarrow> string \<Rightarrow> nat \<Rightarrow> nat \<Rightarrow> string" where
  "derived rt secret context a b = concat (map (derive_block rt secret context) [a..<b])"

lemma length_derived: "digest_length rt \<Longrightarrow> length (derived rt s c a b) = 64 * (b - a)"
proof (induction b)
  case 0
  then show ?case by (simp add: derived_def)
next
  case (Suc b)
  then show ?case
    by (cases "a \<le> b") (auto simp: derived_def derive_block_def digest_length_def)
qed

lemma derived_snoc: "a \<le> b \<Longrightarrow> derived rt s c a (Suc b) = derived rt s c a b @ derive_block rt s c b"
  by (simp add: derived_def)

lemma derive_loop_eq:
  assumes "digest_length rt" "len \<le> 64 * 4294967296"
  shows "counter \<le> (len + 63) div 64 \<Longrightarrow> out = derived rt secret context 0 counter \<Longrightarrow>
    derive_loop rt secret context len counter out =
    Inr (take len (derived rt secret context 0 ((len + 63) div 64)))"
proof (induction "(len + 63) div 64 - counter" arbitrary: counter out)
  case 0
  then have "counter = (len + 63) div 64" "\<not> length out < len"
    by (auto simp: length_derived [OF assms(1)])
  with 0 show ?case by (simp add: derive_loop.simps)
next
  case (Suc n)
  then have lt: "counter < (len + 63) div 64" by simp
  then have l: "length out < len" "counter < 4294967296"
    using assms(2) Suc.prems(2) by (auto simp: length_derived [OF assms(1)])
  with Suc.hyps(1) [of "Suc counter" "out @ derive_block rt secret context counter"] Suc.hyps(2) Suc.prems lt
  show ?case by (subst derive_loop.simps) (simp add: derived_snoc)
qed

lemma derive_key_eq:
  assumes "digest_length rt" "0 < len" "len \<le> 274877906944"
  shows "software_derive_key rt sb context len =
    Inr (take (nat len) (derived rt (sb_root_secret sb) context 0 ((nat len + 63) div 64)))"
  using derive_loop_eq [OF assms(1), of "nat len" 0 "[]"] assms(2,3)
  by (simp add: software_derive_key_def derived_def)

section \<open>Properties\<close>

text \<open>
  C40.  Key derivation returns exactly the requested number of bytes for every positive length up
  to \<open>2 ^ 32\<close> digests, and a shorter key for the same context is a prefix of a longer one; the
  loop ends and never reaches the counter overflow in that range.
\<close>

theorem derive_key_exact:
  assumes "digest_length rt" "0 < m" "m \<le> n" "n \<le> 274877906944"
  shows "\<exists>k l. software_derive_key rt sb context m = Inr k \<and> software_derive_key rt sb context n = Inr l \<and>
    length k = nat m \<and> length l = nat n \<and> k = take (nat m) l"
proof -
  let ?d = "\<lambda>n. derived rt (sb_root_secret sb) context 0 ((nat n + 63) div 64)"
  have e: "software_derive_key rt sb context m = Inr (take (nat m) (?d m))"
    "software_derive_key rt sb context n = Inr (take (nat n) (?d n))"
    using derive_key_eq assms by simp_all
  obtain x where x: "?d n = ?d m @ x"
  proof -
    have "(nat m + 63) div 64 \<le> (nat n + 63) div 64"
      using assms(3) by (intro div_le_mono) simp
    then have "[0..<(nat n + 63) div 64] = [0..<(nat m + 63) div 64] @ [(nat m + 63) div 64..<(nat n + 63) div 64]"
      using upt_add_eq_append [of 0 "(nat m + 63) div 64" "(nat n + 63) div 64 - (nat m + 63) div 64"] by simp
    with that show thesis by (simp add: derived_def)
  qed
  have l: "nat m \<le> length (?d m)" "nat n \<le> length (?d n)" "nat m \<le> nat n"
    using assms(3) by (simp_all add: length_derived [OF assms(1)])
  then have "take (nat m) (?d m) = take (nat m) (take (nat n) (?d n))"
    by (simp add: x min_def)
  moreover have "length (take (nat m) (?d m)) = nat m" "length (take (nat n) (?d n)) = nat n"
    using l by simp_all
  ultimately show ?thesis using e by blast
qed

definition zero_runtime :: runtime where
  "zero_runtime = plain_runtime\<lparr>rt_digest := (\<lambda>b. replicate 64 (CHR 0x00))\<rparr>"

definition demo_ed :: ed25519 where
  "demo_ed = \<lparr>ed_public = (\<lambda>k. k), ed_sign = (\<lambda>k m. k @ m), ed_verify = (\<lambda>p s m. s = p @ m)\<rparr>"

lemma demo_ed_correct [simp]: "ed_correct demo_ed"
  by (simp add: ed_correct_def demo_ed_def)

theorem derive_key_exact_witness:
  "\<exists>k l. software_derive_key zero_runtime (software_init zero_runtime demo_ed (Some ''root'') []) ''ctx'' 32 = Inr k \<and>
     software_derive_key zero_runtime (software_init zero_runtime demo_ed (Some ''root'') []) ''ctx'' 100 = Inr l \<and>
     length k = nat 32 \<and> length l = nat 100 \<and> k = take (nat 32) l"
  by (rule derive_key_exact) (simp_all add: digest_length_def zero_runtime_def)

text \<open>
  A root of trust on the software backend signs every payload, and the signed object verifies
  for a payload exactly when it is the one that was signed (given that Ed25519 verifies its own
  signatures and SHA3-512 does not collide on the two payloads).
\<close>

theorem root_signature_binds:
  assumes "ed_correct ed" "r = root_init rt t0 (software_trust_backend rt ed (software_init rt ed secret rand))"
    and "inj_on (hexdigest rt) {p, q}"
  shows "\<exists>so. root_sign rt now r p = Inr so \<and> so_signer so = di_identity (rot_identity r) \<and>
    (root_verify rt r q so \<longleftrightarrow> q = p)"
proof -
  let ?b = "software_init rt ed secret rand"
  obtain s where s: "software_sign ed ?b p = Inr s"
    by (simp add: software_sign_def software_init_def Let_def)
  have v: "software_verify ed ?b p s"
    by (rule software.sign_verify) (simp_all add: assms(1) s)
  have "hexdigest rt q = hexdigest rt p \<longleftrightarrow> q = p" using assms(3) by (auto simp: inj_on_def)
  with s v show ?thesis
    by (auto simp: root_sign_def root_verify_def assms(2) root_init_def software_trust_backend_def Let_def)
qed

definition demo_root :: root_of_trust where
  "demo_root = root_init plain_runtime 5
     (software_trust_backend plain_runtime demo_ed (software_init plain_runtime demo_ed (Some ''root'') []))"

theorem root_signature_binds_witness:
  "\<exists>so. root_sign plain_runtime 7 demo_root ''m'' = Inr so \<and>
     so_signer so = di_identity (rot_identity demo_root) \<and>
     (root_verify plain_runtime demo_root ''x'' so \<longleftrightarrow> ''x'' = ''m'')"
  by (rule root_signature_binds [OF demo_ed_correct demo_root_def plain_runtime_laws(2)])

end
