(* ===== verification/Capability.thy ===== *)
theory Capability
  imports HashChain
begin

text \<open>
  \<open>src/sovereignty_core/permissions/capability.py\<close> and
  \<open>src/sovereignty_core/permissions/consent.py\<close>: temporary provider capability tokens and explicit
  user consent records.  The lemmas show which tokens can be constructed, exactly when a token
  or a consent allows a scope, and that revocation is final.  \<open>now\<close> is the clock reading that a
  call makes when no time is passed to it.
\<close>

section \<open>Scopes\<close>

datatype capability_scope =
    READ_PREFERENCE
  | READ_CONTEXT_WINDOW
  | APPEND_MEMORY_SUGGESTION
  | WRITE_CONFIRMED_MEMORY
  | ROOT_ACCESS
  | ADMIN_MEMORY_ACCESS
  | EXPORT_VAULT
  | EXPORT_PRIVATE_KEYS
  | MINT_IDENTITY

fun scope_value :: "capability_scope \<Rightarrow> string" where
  "scope_value READ_PREFERENCE = ''READ_PREFERENCE''"
| "scope_value READ_CONTEXT_WINDOW = ''READ_CONTEXT_WINDOW''"
| "scope_value APPEND_MEMORY_SUGGESTION = ''APPEND_MEMORY_SUGGESTION''"
| "scope_value WRITE_CONFIRMED_MEMORY = ''WRITE_CONFIRMED_MEMORY''"
| "scope_value ROOT_ACCESS = ''ROOT_ACCESS''"
| "scope_value ADMIN_MEMORY_ACCESS = ''ADMIN_MEMORY_ACCESS''"
| "scope_value EXPORT_VAULT = ''EXPORT_VAULT''"
| "scope_value EXPORT_PRIVATE_KEYS = ''EXPORT_PRIVATE_KEYS''"
| "scope_value MINT_IDENTITY = ''MINT_IDENTITY''"

definition all_scopes :: "capability_scope list" where
  "all_scopes = [READ_PREFERENCE, READ_CONTEXT_WINDOW, APPEND_MEMORY_SUGGESTION, WRITE_CONFIRMED_MEMORY,
     ROOT_ACCESS, ADMIN_MEMORY_ACCESS, EXPORT_VAULT, EXPORT_PRIVATE_KEYS, MINT_IDENTITY]"

text \<open>\<open>CapabilityScope(value)\<close>\<close>

definition scope_of :: "string \<Rightarrow> capability_scope res" where
  "scope_of s =
     (case enum_of scope_value all_scopes s of
        Some c \<Rightarrow> Inr c
      | None \<Rightarrow> Inl (ValueError (s @ '' is not a valid CapabilityScope'')))"

definition allowed_scopes :: "capability_scope list" where
  "allowed_scopes = [READ_PREFERENCE, READ_CONTEXT_WINDOW, APPEND_MEMORY_SUGGESTION, WRITE_CONFIRMED_MEMORY]"

definition forbidden_scopes :: "capability_scope list" where
  "forbidden_scopes = [ROOT_ACCESS, ADMIN_MEMORY_ACCESS, EXPORT_VAULT, EXPORT_PRIVATE_KEYS, MINT_IDENTITY]"

lemma inj_scope_value: "inj_on scope_value S"
proof (rule inj_onI)
  show "scope_value x = scope_value y \<Longrightarrow> x = y" for x y
    by (cases x; cases y; simp)
qed

lemma scope_of_value [simp]: "scope_of (scope_value c) = Inr c"
proof -
  have "c \<in> set all_scopes" by (cases c) (simp_all add: all_scopes_def)
  from enum_of_value [OF inj_scope_value this] show ?thesis by (simp add: scope_of_def)
qed

lemma scope_of_Inr: "scope_of s = Inr c \<longleftrightarrow> s = scope_value c"
proof
  assume "scope_of s = Inr c"
  then have "enum_of scope_value all_scopes s = Some c"
    by (simp add: scope_of_def split: option.splits)
  from enum_of_Some [OF this] show "s = scope_value c" by simp
qed simp

lemma allowed_not_forbidden: "set allowed_scopes \<inter> set forbidden_scopes = {}"
  by (simp add: allowed_scopes_def forbidden_scopes_def)

section \<open>Tokens\<close>

record capability_audit =
  ca_issuer_device :: string
  ca_created_by :: string
  ca_reason :: string
  ca_metadata :: pydict

text \<open>A frozenset is the list of its elements without repetition.\<close>

record capability_token =
  ct_id :: string
  ct_provider :: string
  ct_owner :: string
  ct_scopes :: "capability_scope list"
  ct_forbidden :: "capability_scope list"
  ct_issued :: int
  ct_expires :: int
  ct_device :: string
  ct_signature :: string
  ct_issuer :: string
  ct_source :: string
  ct_revoked :: bool
  ct_revocation :: "string option"
  ct_revoked_at :: "int option"
  ct_audit :: capability_audit
  ct_metadata :: pydict

definition token_assert_invariants :: "capability_token \<Rightarrow> unit res" where
  "token_assert_invariants t =
     (if ct_provider t = ct_owner t then Inl (ValueError ''PROVIDER must not equal OWNER'')
      else if ct_provider t = ct_source t then Inl (ValueError ''PROVIDER must not equal AUTHORITY_SOURCE'')
      else if ct_issuer t \<noteq> ''HUMAN_DEVICE'' then Inl (ValueError ''Capability issuer must be HUMAN_DEVICE'')
      else if ct_scopes t = [] then Inl (ValueError ''Capability must include at least one scope'')
      else if \<not> set (ct_scopes t) \<subseteq> set allowed_scopes
      then Inl (ValueError ''Capability scopes must be least-privilege allowed scopes only'')
      else if set (ct_scopes t) \<inter> set (ct_forbidden t) \<noteq> {}
      then Inl (ValueError ''Capability scopes must not include forbidden scopes'')
      else if ROOT_ACCESS \<in> set (ct_scopes t)
      then Inl (ValueError ''Capability scope must not include ROOT_ACCESS'')
      else if ct_expires t \<le> ct_issued t
      then Inl (ValueError ''Capability expiration must be after issue time'')
      else Inr ())"

definition make_token :: "capability_token \<Rightarrow> capability_token res" where
  "make_token t = bindE (token_assert_invariants t) (\<lambda>_. Inr t)"

definition token_create :: "int \<Rightarrow> string \<Rightarrow> string \<Rightarrow> string \<Rightarrow> string list \<Rightarrow> string \<Rightarrow> string \<Rightarrow> int \<Rightarrow>
    string \<Rightarrow> pydict option \<Rightarrow> capability_token res" where
  "token_create now uuid provider_id owner_identity scopes issuer_device signature ttl_seconds reason md =
     bindE (mapE scope_of scopes) (\<lambda>normalized.
       (let metadata_dict = (case md of None \<Rightarrow> [] | Some m \<Rightarrow> m) in
        make_token
          \<lparr>ct_id = uuid, ct_provider = provider_id, ct_owner = owner_identity,
           ct_scopes = remdups normalized, ct_forbidden = forbidden_scopes, ct_issued = now,
           ct_expires = now + ttl_seconds, ct_device = issuer_device, ct_signature = signature,
           ct_issuer = ''HUMAN_DEVICE'', ct_source = ''ROOT_OF_TRUST'', ct_revoked = False,
           ct_revocation = None, ct_revoked_at = None,
           ct_audit = \<lparr>ca_issuer_device = issuer_device, ca_created_by = ''HUMAN'',
             ca_reason = reason, ca_metadata = metadata_dict\<rparr>,
           ct_metadata = metadata_dict\<rparr>))"

text \<open>\<open>int(time.time()) if now is None else int(now)\<close>\<close>

definition time_or :: "int option \<Rightarrow> int \<Rightarrow> int" where
  "time_or given clock = (case given of None \<Rightarrow> clock | Some t \<Rightarrow> t)"

definition token_is_expired :: "int \<Rightarrow> capability_token \<Rightarrow> int option \<Rightarrow> bool" where
  "token_is_expired clock t now = (time_or now clock \<ge> ct_expires t)"

definition token_is_active :: "int \<Rightarrow> capability_token \<Rightarrow> int option \<Rightarrow> bool" where
  "token_is_active clock t now = (\<not> ct_revoked t \<and> \<not> token_is_expired clock t now)"

definition token_revoke :: "int \<Rightarrow> string \<Rightarrow> string option \<Rightarrow> int option \<Rightarrow> capability_token \<Rightarrow> capability_token" where
  "token_revoke clock uuid revocation_id revoked_at t =
     t\<lparr>ct_revoked := True, ct_revocation := Some (ostr_or revocation_id uuid),
       ct_revoked_at := Some (time_or revoked_at clock)\<rparr>"

definition token_allows :: "int \<Rightarrow> capability_token \<Rightarrow> string \<Rightarrow> int option \<Rightarrow> bool res" where
  "token_allows clock t scope now =
     bindE (scope_of scope) (\<lambda>normalized.
       Inr (token_is_active clock t now \<and> normalized \<in> set (ct_scopes t)))"

definition scope_values :: "capability_scope list \<Rightarrow> pyval" where
  "scope_values cs = str_list (sorted_set (map scope_value cs))"

definition signing_payload :: "capability_token \<Rightarrow> string res" where
  "signing_payload t = dumps compact_ascii (VDict
     [(''token_id'', VStr (ct_id t)), (''provider_id'', VStr (ct_provider t)),
      (''owner_identity'', VStr (ct_owner t)), (''scopes'', scope_values (ct_scopes t)),
      (''forbidden_scopes'', scope_values (ct_forbidden t)), (''issued_at'', VInt (ct_issued t)),
      (''expires_at'', VInt (ct_expires t)), (''issuer_device'', VStr (ct_device t)),
      (''issuer'', VStr (ct_issuer t)), (''authority_source'', VStr (ct_source t)),
      (''metadata'', VDict (ct_metadata t))])"

definition token_verify_signature :: "(string \<Rightarrow> string \<Rightarrow> bool) \<Rightarrow> capability_token \<Rightarrow> bool res" where
  "token_verify_signature verifier t =
     bindE (signing_payload t) (\<lambda>b. Inr (verifier b (ct_signature t)))"

definition token_to_dict :: "capability_token \<Rightarrow> pydict" where
  "token_to_dict t =
     [(''token_id'', VStr (ct_id t)), (''provider_id'', VStr (ct_provider t)),
      (''owner_identity'', VStr (ct_owner t)), (''scopes'', scope_values (ct_scopes t)),
      (''forbidden_scopes'', scope_values (ct_forbidden t)), (''issued_at'', VInt (ct_issued t)),
      (''expires_at'', VInt (ct_expires t)), (''issuer_device'', VStr (ct_device t)),
      (''signature'', VStr (ct_signature t)), (''issuer'', VStr (ct_issuer t)),
      (''authority_source'', VStr (ct_source t)), (''revoked'', VBool (ct_revoked t)),
      (''revocation_id'', opt_str (ct_revocation t)), (''revoked_at'', opt_int (ct_revoked_at t)),
      (''audit'', VDict
        [(''issuer_device'', VStr (ca_issuer_device (ct_audit t))),
         (''created_by'', VStr (ca_created_by (ct_audit t))),
         (''reason'', VStr (ca_reason (ct_audit t))),
         (''metadata'', VDict (ca_metadata (ct_audit t)))]),
      (''metadata'', VDict (ct_metadata t))]"

section \<open>Consent\<close>

datatype consent_status = ACTIVE | REVOKED | EXPIRED

fun status_value :: "consent_status \<Rightarrow> string" where
  "status_value ACTIVE = ''ACTIVE''"
| "status_value REVOKED = ''REVOKED''"
| "status_value EXPIRED = ''EXPIRED''"

record consent_record =
  cr_id :: string
  cr_owner :: string
  cr_grantee :: string
  cr_scopes :: "string list"
  cr_purpose :: string
  cr_issued :: int
  cr_device :: string
  cr_expires :: "int option"
  cr_status :: consent_status
  cr_revoked_at :: "int option"
  cr_reason :: "string option"
  cr_metadata :: pydict

definition consent_grant :: "int \<Rightarrow> string \<Rightarrow> string \<Rightarrow> string \<Rightarrow> string list \<Rightarrow> string \<Rightarrow> string \<Rightarrow>
    int option \<Rightarrow> pydict option \<Rightarrow> consent_record res" where
  "consent_grant now uuid owner_identity grantee_id scopes purpose issuer_device expires_at md =
     (if (case expires_at of None \<Rightarrow> False | Some e \<Rightarrow> e \<le> now)
      then Inl (ValueError ''Consent expiry must be after issue time'')
      else Inr
        \<lparr>cr_id = uuid, cr_owner = owner_identity, cr_grantee = grantee_id, cr_scopes = scopes,
         cr_purpose = purpose, cr_issued = now, cr_device = issuer_device, cr_expires = expires_at,
         cr_status = ACTIVE, cr_revoked_at = None, cr_reason = None,
         cr_metadata = (case md of None \<Rightarrow> [] | Some m \<Rightarrow> m)\<rparr>)"

definition consent_is_active :: "int \<Rightarrow> consent_record \<Rightarrow> int option \<Rightarrow> bool" where
  "consent_is_active clock c now =
     (let current = time_or now clock in
      if cr_status c = REVOKED then False
      else case cr_expires c of None \<Rightarrow> True | Some e \<Rightarrow> \<not> current \<ge> e)"

definition consent_current_status :: "int \<Rightarrow> consent_record \<Rightarrow> int option \<Rightarrow> consent_status" where
  "consent_current_status clock c now =
     (if cr_status c = REVOKED then REVOKED
      else case cr_expires c of
             Some e \<Rightarrow> if time_or now clock \<ge> e then EXPIRED else ACTIVE
           | None \<Rightarrow> ACTIVE)"

definition consent_revoke :: "int \<Rightarrow> string \<Rightarrow> int option \<Rightarrow> consent_record \<Rightarrow> consent_record" where
  "consent_revoke clock reason revoked_at c =
     c\<lparr>cr_status := REVOKED, cr_reason := Some reason, cr_revoked_at := Some (time_or revoked_at clock)\<rparr>"

definition consent_allows :: "int \<Rightarrow> consent_record \<Rightarrow> string \<Rightarrow> int option \<Rightarrow> bool" where
  "consent_allows clock c scope now = (consent_is_active clock c now \<and> scope \<in> set (cr_scopes c))"

definition consent_to_dict :: "int \<Rightarrow> consent_record \<Rightarrow> pydict" where
  "consent_to_dict clock c =
     [(''consent_id'', VStr (cr_id c)), (''owner_identity'', VStr (cr_owner c)),
      (''grantee_id'', VStr (cr_grantee c)), (''scopes'', str_list (cr_scopes c)),
      (''purpose'', VStr (cr_purpose c)), (''issued_at'', VInt (cr_issued c)),
      (''issuer_device'', VStr (cr_device c)), (''expires_at'', opt_int (cr_expires c)),
      (''status'', VStr (status_value (consent_current_status clock c None))),
      (''revoked_at'', opt_int (cr_revoked_at c)), (''revocation_reason'', opt_str (cr_reason c)),
      (''metadata'', VDict (cr_metadata c))]"

section \<open>Lemmas\<close>

lemma make_token_Inr:
  "make_token t = Inr t' \<Longrightarrow> t' = t \<and> ct_provider t \<noteq> ct_owner t \<and> ct_provider t \<noteq> ct_source t \<and>
     ct_scopes t \<noteq> [] \<and> set (ct_scopes t) \<subseteq> set allowed_scopes \<and> ct_issued t < ct_expires t"
  by (simp add: make_token_def token_assert_invariants_def split: if_splits)

lemma token_create_Inr:
  assumes "token_create now uuid p ow scopes dev sig ttl reason md = Inr t"
  shows "\<exists>cs. mapE scope_of scopes = Inr cs \<and> ct_scopes t = remdups cs \<and> ct_issued t = now \<and>
      ct_expires t = now + ttl \<and> \<not> ct_revoked t \<and> set cs \<subseteq> set allowed_scopes \<and> 0 < ttl \<and> cs \<noteq> [] \<and>
      ct_provider t = p \<and> ct_owner t = ow \<and> p \<noteq> ow"
proof -
  from assms obtain cs where cs: "mapE scope_of scopes = Inr cs"
    by (auto simp: token_create_def res_simps)
  with assms make_token_Inr show ?thesis
    by (fastforce simp: token_create_def Let_def)
qed

lemma scopes_set: "mapE scope_of scopes = Inr cs \<Longrightarrow> set scopes = scope_value ` set cs"
  by (induction scopes arbitrary: cs) (auto simp: res_simps scope_of_Inr)

lemma scope_value_inj [simp]: "scope_value a = scope_value b \<longleftrightarrow> a = b"
  using inj_onD [OF inj_scope_value] by blast

lemma token_revoke_inactive:
  "\<not> token_is_active clock (token_revoke c u i a t) now"
  by (simp add: token_is_active_def token_revoke_def)

section \<open>Properties\<close>

text \<open>
  C36.  A token that \<open>CapabilityToken.create\<close> returns allows a named scope at a time exactly when
  that scope was requested, is one of the four least-privilege scopes, and the time is before
  issue time plus ttl; a root, admin, export or mint scope is never allowed.
\<close>

theorem token_allows_exactly:
  assumes "token_create now uuid p ow scopes dev sig ttl reason md = Inr t"
  shows "token_allows clock t (scope_value c) at_time =
      Inr (scope_value c \<in> set scopes \<and> time_or at_time clock < now + ttl) \<and>
    (scope_value c \<in> set scopes \<longrightarrow> c \<in> set allowed_scopes)"
proof -
  from token_create_Inr [OF assms] obtain cs where cs: "mapE scope_of scopes = Inr cs"
    "ct_scopes t = remdups cs" "ct_expires t = now + ttl" "\<not> ct_revoked t" "set cs \<subseteq> set allowed_scopes"
    by blast
  from scopes_set [OF cs(1)] have s: "scope_value c \<in> set scopes \<longleftrightarrow> c \<in> set cs" by auto
  with cs(5) show ?thesis
    by (auto simp: token_allows_def token_is_active_def token_is_expired_def cs(2-4))
qed

theorem token_allows_exactly_witness:
  "\<exists>t. token_create 10 ''u'' ''prov'' ''owner'' [''READ_PREFERENCE''] ''d'' ''s'' 60 [] None = Inr t \<and>
     token_allows 0 t (scope_value READ_PREFERENCE) (Some 69) = Inr True \<and>
     token_allows 0 t (scope_value READ_PREFERENCE) (Some 70) = Inr False \<and>
     token_allows 0 t (scope_value ROOT_ACCESS) (Some 20) = Inr False"
proof -
  have sc: "mapE scope_of [''READ_PREFERENCE''] = Inr [READ_PREFERENCE]"
    using scope_of_value [of READ_PREFERENCE] by simp
  obtain t where t: "token_create 10 ''u'' ''prov'' ''owner'' [''READ_PREFERENCE''] ''d'' ''s'' 60 [] None = Inr t"
    unfolding token_create_def sc
    by (simp add: make_token_def token_assert_invariants_def allowed_scopes_def forbidden_scopes_def)
  show ?thesis
    using t token_allows_exactly [OF t, of 0 READ_PREFERENCE "Some 69"]
      token_allows_exactly [OF t, of 0 READ_PREFERENCE "Some 70"]
      token_allows_exactly [OF t, of 0 ROOT_ACCESS "Some 20"]
    by (simp add: time_or_def)
qed

text \<open>
  Revocation is final: a revoked token allows no scope at any time, with any clock, whatever
  further revocations follow, and its signing payload is the one that was signed at issuance.
\<close>

theorem token_revocation_final:
  "token_allows clock (token_revoke c2 u2 i2 a2 (token_revoke c1 u1 i1 a1 t)) (scope_value s) now = Inr False \<and>
   token_allows clock (token_revoke c1 u1 i1 a1 t) (scope_value s) now = Inr False \<and>
   signing_payload (token_revoke c1 u1 i1 a1 t) = signing_payload t"
  by (simp add: token_allows_def token_revoke_inactive)
     (simp add: signing_payload_def token_revoke_def)

text \<open>
  A granted consent allows a scope exactly while it has not expired and the scope was granted,
  its reported status is \<open>ACTIVE\<close> exactly when it is active, and after revocation it allows
  nothing and reports \<open>REVOKED\<close> even when it has also expired.
\<close>

theorem consent_lifecycle:
  assumes "consent_grant now uuid ow g scopes purpose dev expires md = Inr c"
  shows "consent_allows clock c s at_time =
      (s \<in> set scopes \<and> (\<forall>e \<in> set_option expires. time_or at_time clock < e)) \<and>
    (consent_current_status clock c at_time = ACTIVE) = consent_is_active clock c at_time \<and>
    \<not> consent_allows clock (consent_revoke rc reason rat c) s at_time \<and>
    consent_current_status clock (consent_revoke rc reason rat c) at_time = REVOKED"
  using assms
  by (auto simp: consent_grant_def consent_allows_def consent_is_active_def consent_current_status_def
      consent_revoke_def Let_def split: option.splits if_splits)

theorem consent_lifecycle_witness:
  "\<exists>c. consent_grant 5 ''u'' ''o'' ''g'' [''read''] ''p'' ''d'' (Some 9) None = Inr c \<and>
     consent_allows 0 c ''read'' (Some 8) \<and> \<not> consent_allows 0 c ''read'' (Some 9) \<and>
     consent_current_status 0 c (Some 9) \<noteq> ACTIVE"
proof -
  obtain c where c: "consent_grant 5 ''u'' ''o'' ''g'' [''read''] ''p'' ''d'' (Some 9) None = Inr c"
    by (simp add: consent_grant_def)
  show ?thesis
    using c consent_lifecycle [OF c, of 0 "''read''" "Some 8"] consent_lifecycle [OF c, of 0 "''read''" "Some 9"]
    by (auto simp: time_or_def consent_allows_def)
qed

end
