(* ===== verification/MemoryChain.thy ===== *)
theory MemoryChain
  imports TrustRoot
begin

text \<open>
  \<open>src/sovereignty_core/vault/memory_chain.py\<close>: the append-only chain of memory blocks with
  optional block signatures.  The lemmas show that appending keeps a chain valid, and, through the
  \<open>hash_chain\<close> contract, that the hash of the last block commits to all blocks.
\<close>

datatype memory_classification = USER_CONFIRMED | AI_SUGGESTED | TEMPORARY_CONTEXT

fun class_value :: "memory_classification \<Rightarrow> string" where
  "class_value USER_CONFIRMED = ''USER_CONFIRMED''"
| "class_value AI_SUGGESTED = ''AI_SUGGESTED''"
| "class_value TEMPORARY_CONTEXT = ''TEMPORARY_CONTEXT''"

definition class_of :: "string \<Rightarrow> memory_classification res" where
  "class_of s =
     (case enum_of class_value [USER_CONFIRMED, AI_SUGGESTED, TEMPORARY_CONTEXT] s of
        Some c \<Rightarrow> Inr c
      | None \<Rightarrow> Inl (ValueError (s @ '' is not a valid MemoryClassification'')))"

record memory_provenance =
  mv_owner :: string
  mv_source_type :: string
  mv_source_id :: string
  mv_issuer_device :: "string option"
  mv_token :: "string option"
  mv_consent :: "string option"
  mv_metadata :: pydict

record memory_block =
  mb_id :: string
  mb_index :: int
  mb_prev :: string
  mb_hash :: string
  mb_class :: memory_classification
  mb_content :: pyval
  mb_provenance :: memory_provenance
  mb_created :: int
  mb_signature :: "string option"
  mb_signer :: "string option"
  mb_metadata :: pydict

type_synonym memory_chain = "memory_block list"

definition provenance_dict :: "memory_provenance \<Rightarrow> pyval" where
  "provenance_dict v = VDict
     [(''owner_identity'', VStr (mv_owner v)), (''source_type'', VStr (mv_source_type v)),
      (''source_id'', VStr (mv_source_id v)), (''issuer_device'', opt_str (mv_issuer_device v)),
      (''capability_token_id'', opt_str (mv_token v)), (''consent_id'', opt_str (mv_consent v)),
      (''metadata'', VDict (mv_metadata v))]"

definition block_payload :: "memory_block \<Rightarrow> pydict" where
  "block_payload b =
     [(''block_id'', VStr (mb_id b)), (''index'', VInt (mb_index b)),
      (''previous_hash'', VStr (mb_prev b)), (''classification'', VStr (class_value (mb_class b))),
      (''content'', mb_content b), (''provenance'', provenance_dict (mb_provenance b)),
      (''created_at'', VInt (mb_created b)), (''metadata'', VDict (mb_metadata b))]"

definition chain_canonical_bytes :: "pyval \<Rightarrow> string res" where
  "chain_canonical_bytes v = dumps compact_nan v"

definition chain_init :: "memory_block list option \<Rightarrow> memory_chain" where
  "chain_init blocks = (case blocks of None \<Rightarrow> [] | Some bs \<Rightarrow> bs)"

definition chain_append :: "runtime \<Rightarrow> int \<Rightarrow> string \<Rightarrow> string \<Rightarrow> pyval \<Rightarrow> memory_provenance \<Rightarrow>
    string option \<Rightarrow> (string \<Rightarrow> string res) option \<Rightarrow> int option \<Rightarrow> pydict option \<Rightarrow> memory_chain \<Rightarrow>
    memory_block res \<times> memory_chain" where
  "chain_append rt clock uuid classification content provenance signer sign_payload created_at md C =
     (let index = int (length C);
          previous_hash = (if C = [] then genesis_hash else mb_hash (last C));
          timestamp = (case created_at of None \<Rightarrow> clock | Some t \<Rightarrow> t);
          r = bindE (class_of classification) (\<lambda>normalized.
                (let block = \<lparr>mb_id = uuid, mb_index = index, mb_prev = previous_hash, mb_hash = [],
                       mb_class = normalized, mb_content = content, mb_provenance = provenance,
                       mb_created = timestamp, mb_signature = None, mb_signer = signer,
                       mb_metadata = (case md of None \<Rightarrow> [] | Some m \<Rightarrow> m)\<rparr> in
                 bindE (chain_canonical_bytes (VDict (block_payload block))) (\<lambda>payload_bytes.
                   (let block_hash = hexdigest rt (previous_hash @ payload_bytes) in
                    bindE (case sign_payload of
                             None \<Rightarrow> Inr None
                           | Some sign \<Rightarrow> bindE (sign payload_bytes) (\<lambda>s. Inr (Some s)))
                      (\<lambda>signature. Inr (block\<lparr>mb_hash := block_hash, mb_signature := signature\<rparr>))))))
      in case r of Inl ex \<Rightarrow> (Inl ex, C) | Inr block \<Rightarrow> (Inr block, C @ [block]))"

text \<open>The signature check of one block: made only with a verifier and a signature.\<close>

definition signature_ok :: "(string \<Rightarrow> string \<Rightarrow> bool) option \<Rightarrow> string \<Rightarrow> memory_block \<Rightarrow> bool" where
  "signature_ok verify payload_bytes b =
     (case (verify, mb_signature b) of (Some v, Some s) \<Rightarrow> v payload_bytes s | _ \<Rightarrow> True)"

fun validate_from :: "runtime \<Rightarrow> (string \<Rightarrow> string \<Rightarrow> bool) option \<Rightarrow> nat \<Rightarrow> string \<Rightarrow> memory_chain \<Rightarrow> bool res" where
  "validate_from rt verify index expected_previous [] = Inr True"
| "validate_from rt verify index expected_previous (b # bs) =
     (if mb_index b \<noteq> int index then Inr False
      else if mb_prev b \<noteq> expected_previous then Inr False
      else bindE (chain_canonical_bytes (VDict (block_payload b))) (\<lambda>payload_bytes.
        if hexdigest rt (mb_prev b @ payload_bytes) \<noteq> mb_hash b then Inr False
        else if \<not> signature_ok verify payload_bytes b then Inr False
        else validate_from rt verify (Suc index) (mb_hash b) bs))"

definition validate :: "runtime \<Rightarrow> (string \<Rightarrow> string \<Rightarrow> bool) option \<Rightarrow> memory_chain \<Rightarrow> bool res" where
  "validate rt verify C = validate_from rt verify 0 genesis_hash C"

definition block_dict :: "memory_block \<Rightarrow> pyval" where
  "block_dict b = VDict
     [(''block_id'', VStr (mb_id b)), (''index'', VInt (mb_index b)),
      (''previous_hash'', VStr (mb_prev b)), (''block_hash'', VStr (mb_hash b)),
      (''classification'', VStr (class_value (mb_class b))), (''content'', mb_content b),
      (''provenance'', provenance_dict (mb_provenance b)), (''created_at'', VInt (mb_created b)),
      (''signature'', opt_str (mb_signature b)), (''signer'', opt_str (mb_signer b)),
      (''metadata'', VDict (mb_metadata b))]"

definition chain_to_dict :: "memory_chain \<Rightarrow> pydict" where
  "chain_to_dict C = [(''blocks'', VList (map block_dict C))]"

section \<open>The chain as a hash chain\<close>

definition block_bytes :: "memory_block \<Rightarrow> string" where
  "block_bytes b = mb_prev b @
     (case chain_canonical_bytes (VDict (block_payload b)) of Inr p \<Rightarrow> p | Inl e \<Rightarrow> [])"

definition block_ok :: "runtime \<Rightarrow> (string \<Rightarrow> string \<Rightarrow> bool) option \<Rightarrow> nat \<Rightarrow> memory_block \<Rightarrow> bool" where
  "block_ok rt verify n b \<longleftrightarrow> mb_index b = int n \<and>
     (case chain_canonical_bytes (VDict (block_payload b)) of
        Inl e \<Rightarrow> False
      | Inr p \<Rightarrow> hexdigest rt (mb_prev b @ p) = mb_hash b \<and> signature_ok verify p b)"

definition block_rep :: "memory_block \<Rightarrow> bool" where
  "block_rep b \<longleftrightarrow> json_value (VDict (block_payload b)) \<and> wf_pyval (VDict (block_payload b))"

definition block_canon :: "runtime \<Rightarrow> memory_block \<Rightarrow> pyval res" where
  "block_canon rt b = canonicalize (raw_runtime rt) (VDict (block_payload b))"

lemma validate_loop:
  "validate_from rt verify n p C = Inr True \<longleftrightarrow> chain_from (block_ok rt verify) mb_prev mb_hash n p C"
  by (induction C arbitrary: n p) (auto simp: block_ok_def res_simps split: sum.splits)

lemma hex_prefix_unique:
  assumes "hex_text a" "hex_text b" "a @ CHR ''{'' # x = b @ CHR ''{'' # y"
  shows "a = b \<and> x = y"
proof -
  have no: "CHR ''{'' \<notin> hexdigit ` {..<16}"
  proof
    assume "CHR ''{'' \<in> hexdigit ` {..<16}"
    then obtain n :: nat where n: "n < 16" "CHR ''{'' = hexdigit n" by auto
    have "unhexdigit (CHR ''{'') = None" by code_simp
    with n unhexdigit_hexdigit [of n] show False by simp
  qed
  have tw: "takeWhile (\<lambda>c. c \<noteq> CHR ''{'') (s @ CHR ''{'' # z) = s" if "hex_text s" for s z
    using that no by (intro takeWhile_tail [THEN trans]) (auto simp: hex_text_def takeWhile_append2)
  have "a = b" using tw [OF assms(1), of x] tw [OF assms(2), of y] assms(3) by metis
  with assms(3) show ?thesis by simp
qed

lemma dumps_dict_brace:
  "dumps compact_nan (VDict d) = Inr p \<Longrightarrow> \<exists>x. p = CHR ''{'' # x"
  by (auto simp: res_simps)

interpretation memory: hash_chain mb_prev mb_hash genesis_hash "block_ok rt verify"
    "\<lambda>C. validate rt verify C = Inr True" "block_canon rt" block_rep hex_text True "hexdigest rt" block_bytes
  for rt verify
proof unfold_locales
  show "validate rt verify es = Inr True \<longleftrightarrow> chain_from (block_ok rt verify) mb_prev mb_hash 0 genesis_hash es" for es
    unfolding validate_def by (rule validate_loop)
  show "hex_text genesis_hash" by simp
  show "block_ok rt verify n e \<Longrightarrow> mb_hash e = hexdigest rt (block_bytes e) \<and> hex_text (mb_hash e)" for n e
    by (auto simp: block_ok_def block_bytes_def split: sum.splits) (metis hex_text_hexdigest)
  fix e e' n
  assume a: "block_rep e" "block_rep e'" "block_ok rt verify n e" "block_ok rt verify n e'"
    "block_bytes e = block_bytes e'" "hex_text (mb_prev e)" "hex_text (mb_prev e')"
  from a(3,4) obtain p q where p: "dumps compact_nan (VDict (block_payload e)) = Inr p"
    and q: "dumps compact_nan (VDict (block_payload e')) = Inr q"
    by (auto simp: block_ok_def chain_canonical_bytes_def simp del: dumps.simps split: sum.splits)
  obtain x y where xy: "p = CHR ''{'' # x" "q = CHR ''{'' # y"
    using dumps_dict_brace [OF p] dumps_dict_brace [OF q] by blast
  have "mb_prev e @ CHR ''{'' # x = mb_prev e' @ CHR ''{'' # y"
    using a(5) p q xy by (simp add: block_bytes_def chain_canonical_bytes_def del: dumps.simps)
  from hex_prefix_unique [OF a(6,7) this] xy have e: "mb_prev e = mb_prev e'" "p = q" by simp_all
  with json_value_text_inj [OF p q [folded e(2)]] a(1,2)
  show "block_canon rt e = block_canon rt e' \<and> mb_prev e = mb_prev e'"
    unfolding block_canon_def block_rep_def by blast
qed

section \<open>Appending\<close>

lemma block_payload_update [simp]:
  "block_payload (b\<lparr>mb_hash := h\<rparr>) = block_payload b"
  "block_payload (b\<lparr>mb_signature := s\<rparr>) = block_payload b"
  by (simp_all add: block_payload_def)

lemma chain_append_cases:
  obtains (fails) ex where "chain_append rt clock uuid cl content pv signer sign created md C = (Inl ex, C)"
  | (appends) b p where "chain_append rt clock uuid cl content pv signer sign created md C = (Inr b, C @ [b])"
      "mb_index b = int (length C)" "mb_prev b = head_hash mb_hash genesis_hash C"
      "chain_canonical_bytes (VDict (block_payload b)) = Inr p" "mb_hash b = hexdigest rt (mb_prev b @ p)"
      "mb_content b = content" "mb_provenance b = pv" "mb_metadata b = (case md of None \<Rightarrow> [] | Some m \<Rightarrow> m)" "cl = class_value (mb_class b)"
      "case sign of None \<Rightarrow> mb_signature b = None | Some f \<Rightarrow> \<exists>s. f p = Inr s \<and> mb_signature b = Some s"
proof -
  define b0 where "b0 c = \<lparr>mb_id = uuid, mb_index = int (length C),
      mb_prev = if C = [] then genesis_hash else mb_hash (last C), mb_hash = [],
      mb_class = c, mb_content = content, mb_provenance = pv,
      mb_created = (case created of None \<Rightarrow> clock | Some t \<Rightarrow> t), mb_signature = None, mb_signer = signer,
      mb_metadata = (case md of None \<Rightarrow> [] | Some m \<Rightarrow> m)\<rparr>" for c
  define r where "r = bindE (class_of cl) (\<lambda>c.
      bindE (chain_canonical_bytes (VDict (block_payload (b0 c)))) (\<lambda>p.
        bindE (case sign of None \<Rightarrow> Inr None | Some f \<Rightarrow> bindE (f p) (\<lambda>s. Inr (Some s)))
          (\<lambda>sg. Inr ((b0 c)\<lparr>mb_hash := hexdigest rt ((if C = [] then genesis_hash else mb_hash (last C)) @ p),
             mb_signature := sg\<rparr>))))"
  have app: "chain_append rt clock uuid cl content pv signer sign created md C =
      (case r of Inl ex \<Rightarrow> (Inl ex, C) | Inr b \<Rightarrow> (Inr b, C @ [b]))"
    unfolding chain_append_def r_def b0_def Let_def by (rule refl)
  show thesis
  proof (cases r)
    case (Inl ex)
    with app fails show thesis by simp
  next
    case (Inr b)
    then obtain c p sg where c: "class_of cl = Inr c" "chain_canonical_bytes (VDict (block_payload (b0 c))) = Inr p"
      "(case sign of None \<Rightarrow> Inr None | Some f \<Rightarrow> bindE (f p) (\<lambda>s. Inr (Some s))) = Inr sg" and
      b: "b = (b0 c)\<lparr>mb_hash := hexdigest rt ((if C = [] then genesis_hash else mb_hash (last C)) @ p),
        mb_signature := sg\<rparr>"
      unfolding r_def by (auto simp: res_simps simp del: block_payload_update)
    have cl: "cl = class_value c"
      using c(1) enum_of_Some [of class_value _ cl c] by (auto simp: class_of_def split: option.splits)
    show thesis
    proof (rule appends)
      show "chain_append rt clock uuid cl content pv signer sign created md C = (Inr b, C @ [b])"
        by (simp add: app Inr)
      show "chain_canonical_bytes (VDict (block_payload b)) = Inr p" using c(2) by (simp add: b)
      show "case sign of None \<Rightarrow> mb_signature b = None | Some f \<Rightarrow> \<exists>s. f p = Inr s \<and> mb_signature b = Some s"
        using c(3) by (auto simp: b res_simps split: option.splits)
    qed (simp_all add: b b0_def head_hash_def cl)
  qed
qed

lemma chain_append_valid:
  assumes "validate rt verify C = Inr True"
    and key: "signing_key f v True" and "sign = None \<or> sign = Some f" "verify = None \<or> verify = Some v"
  shows "validate rt verify (snd (chain_append rt clock uuid cl content pv signer sign created md C)) = Inr True"
proof (cases rule: chain_append_cases [of rt clock uuid cl content pv signer sign created md C])
  case (fails ex)
  with assms(1) show ?thesis by simp
next
  case (appends b p)
  have "signature_ok verify p b"
    using appends(10) assms(3,4) signing_key.sign_verify [OF key TrueI]
    by (auto simp: signature_ok_def split: option.splits)
  with appends assms(1) show ?thesis
    by (simp add: memory.verify_snoc block_ok_def)
qed

lemma chain_append_total:
  assumes "json_value content" "json_value (VDict (mv_metadata pv))" "\<forall>m \<in> set_option md. json_value (VDict m)"
  shows "\<exists>b. chain_append rt clock uuid (class_value c) content pv signer None created md C = (Inr b, C @ [b])"
proof -
  have cl: "class_of (class_value c) = Inr c"
  proof -
    have "inj_on class_value S" for S
      by (rule inj_onI, rename_tac x y, case_tac x; case_tac y; simp)
    moreover have "c \<in> set [USER_CONFIRMED, AI_SUGGESTED, TEMPORARY_CONTEXT]" by (cases c) simp_all
    ultimately have "enum_of class_value [USER_CONFIRMED, AI_SUGGESTED, TEMPORARY_CONTEXT] (class_value c) = Some c"
      by (rule enum_of_value)
    then show ?thesis by (simp add: class_of_def)
  qed
  have dt: "\<exists>p. chain_canonical_bytes v = Inr p" if jv: "json_value v" for v
  proof -
    obtain u where u: "canonicalize (raw_runtime plain_runtime) v = Inr u" "dumps compact_nan v = dumps compact u"
      using json_value_text [OF jv] by blast
    have "canonicalizable v" using jv by (induction v) (auto simp: list_all_iff snds.simps)
    with canonicalize_total [of v "raw_runtime plain_runtime"] u dumps_total show ?thesis
      by (auto simp: chain_canonical_bytes_def)
  qed
  show ?thesis
  proof (cases rule: chain_append_cases [of rt clock uuid "class_value c" content pv signer None created md C])
    case (fails ex)
    let ?b = "\<lparr>mb_id = uuid, mb_index = int (length C),
      mb_prev = if C = [] then genesis_hash else mb_hash (last C), mb_hash = [],
      mb_class = c, mb_content = content, mb_provenance = pv,
      mb_created = (case created of None \<Rightarrow> clock | Some t \<Rightarrow> t), mb_signature = None, mb_signer = signer,
      mb_metadata = (case md of None \<Rightarrow> [] | Some m \<Rightarrow> m)\<rparr>"
    have "json_value (VDict (block_payload ?b))"
      using assms by (auto simp: block_payload_def provenance_dict_def opt_str_def split: option.splits)
    from dt [OF this] obtain p where "chain_canonical_bytes (VDict (block_payload ?b)) = Inr p" by blast
    with fails have False by (simp add: chain_append_def cl Let_def)
    then show ?thesis ..
  next
    case (appends b p)
    then show ?thesis by blast
  qed
qed

section \<open>Properties\<close>

text \<open>
  Appending to a valid chain leaves it valid, whatever the classification text, content,
  metadata and signing function (a call that raises changes nothing): \<open>validate\<close> answers true
  with no verifier, and with the verifier that belongs to the signing function.
\<close>

theorem chain_append_keeps_valid:
  assumes "validate rt verify C = Inr True"
    and "\<forall>m s. f m = Inr s \<longrightarrow> v m s" "sign = None \<or> sign = Some f" "verify = None \<or> verify = Some v"
  shows "validate rt verify (snd (chain_append rt clock uuid cl content pv signer sign created md C)) = Inr True \<and>
    (\<forall>ex. fst (chain_append rt clock uuid cl content pv signer sign created md C) = Inl ex \<longrightarrow>
      snd (chain_append rt clock uuid cl content pv signer sign created md C) = C)"
proof
  have "signing_key f v True" using assms(2) by unfold_locales blast
  from chain_append_valid [OF assms(1) this assms(3,4)]
  show "validate rt verify (snd (chain_append rt clock uuid cl content pv signer sign created md C)) = Inr True" .
  show "\<forall>ex. fst (chain_append rt clock uuid cl content pv signer sign created md C) = Inl ex \<longrightarrow>
      snd (chain_append rt clock uuid cl content pv signer sign created md C) = C"
    by (cases rule: chain_append_cases [of rt clock uuid cl content pv signer sign created md C]) simp_all
qed

definition demo_provenance :: memory_provenance where
  "demo_provenance = \<lparr>mv_owner = ''o'', mv_source_type = ''human'', mv_source_id = ''s'',
     mv_issuer_device = None, mv_token = None, mv_consent = None, mv_metadata = []\<rparr>"

definition demo_chain :: memory_chain where
  "demo_chain = snd (chain_append plain_runtime 1 ''b0'' (class_value USER_CONFIRMED) (VStr ''hello'')
     demo_provenance None None None None [])"

theorem chain_append_keeps_valid_witness:
  "validate plain_runtime None demo_chain = Inr True"
  unfolding demo_chain_def
  by (rule chain_append_keeps_valid [where f = "\<lambda>m. Inr m" and v = "\<lambda>m s. True", THEN conjunct1])
     (simp_all add: validate_def)

text \<open>
  The hash of the last block commits to the whole chain: two valid chains of one length with
  the same last hash have the same canonical payload in every block (content, provenance,
  classification, metadata, times), provided SHA3-512 does not collide on the bytes hashed for
  their blocks.  The blocks must hold JSON values.
\<close>

theorem chain_head_commits:
  assumes "inj_on (hexdigest rt) (block_bytes ` (set C \<union> set D))"
    and "list_all block_rep C" "list_all block_rep D"
    and "validate rt verify C = Inr True" "validate rt verify D = Inr True"
    and "length C = length D" "head_hash mb_hash genesis_hash C = head_hash mb_hash genesis_hash D"
  shows "map (block_canon rt) C = map (block_canon rt) D"
  by (rule memory.head_determines_content [OF TrueI assms])

theorem chain_head_commits_witness:
  "map (block_canon plain_runtime) demo_chain = map (block_canon plain_runtime) demo_chain"
proof (rule chain_head_commits)
  have v: "validate plain_runtime None [] = Inr True" by (simp add: validate_def)
  have key: "signing_key (\<lambda>m. Inr m) (\<lambda>m s. True) True" by unfold_locales simp
  show "validate plain_runtime None demo_chain = Inr True"
    unfolding demo_chain_def by (rule chain_append_valid [OF v key]) simp_all
  then show "validate plain_runtime None demo_chain = Inr True" .
  show "list_all block_rep demo_chain"
    unfolding demo_chain_def
    by (cases rule: chain_append_cases [of plain_runtime 1 "''b0''" "class_value USER_CONFIRMED" "VStr ''hello''"
          demo_provenance None None None None "[]"])
       (simp_all add: block_rep_def block_payload_def provenance_dict_def demo_provenance_def opt_str_def)
  then show "list_all block_rep demo_chain" .
qed (rule plain_runtime_laws, simp_all)

end
