(* ===== verification/Merkle.thy ===== *)
theory Merkle
  imports AuditLedger
begin

text \<open>
  \<open>src/sovereignty_core/audit/merkle.py\<close>: the Merkle tree over an append-only log, inclusion
  proofs and their verification.  The lemmas show that construction terminates with a single root,
  that every generated proof verifies (completeness), and that a verifying proof for a position
  fixes the leaf (soundness) when the digest does not collide on the strings that were hashed.
\<close>

definition MerkleError :: pyexc where
  "MerkleError = AppError ''MerkleError'' []"

record merkle_proof =
  mp_leaf_hash :: string
  mp_siblings :: "(string \<times> string) list"
  mp_root :: string

record merkle_tree =
  mt_root :: string
  mt_leaves :: "string list"
  mt_levels :: "string list list"
  mt_algorithm :: string

section \<open>Hashing\<close>

definition merkle_canonicalize :: "runtime \<Rightarrow> pydict \<Rightarrow> string res" where
  "merkle_canonicalize rt entry = canonical_bytes rt (VDict entry)"

definition hash_entry :: "runtime \<Rightarrow> pydict \<Rightarrow> string res" where
  "hash_entry rt entry = bindE (merkle_canonicalize rt entry) (\<lambda>b. Inr (hexdigest rt b))"

definition hash_pair :: "runtime \<Rightarrow> string \<Rightarrow> string \<Rightarrow> string" where
  "hash_pair rt left right = hexdigest rt (left @ right)"

section \<open>Construction\<close>

text \<open>\<open>current.append(current[-1])\<close> on an odd layer.\<close>

definition pad :: "string list \<Rightarrow> string list" where
  "pad xs = (if odd (length xs) then xs @ [last xs] else xs)"

fun pair_level :: "runtime \<Rightarrow> string list \<Rightarrow> string list" where
  "pair_level rt (a # b # rest) = hash_pair rt a b # pair_level rt rest"
| "pair_level rt _ = []"

lemma length_pair_level: "length (pair_level rt xs) = length xs div 2"
  by (induction rt xs rule: pair_level.induct) simp_all

lemma length_pad: "length (pad xs) = 2 * ((length xs + 1) div 2)"
  by (auto simp: pad_def elim!: oddE evenE)

text \<open>
  The loop of \<open>_build_merkle_levels\<close>.  From the second round on \<open>current\<close> is the list object
  that was appended to \<open>levels\<close>, so padding it in place pads that level as well; the result is
  the list of levels from \<open>current\<close> upwards as they are when the loop ends.
\<close>

function build_loop :: "runtime \<Rightarrow> string list \<Rightarrow> string list list" where
  "build_loop rt current =
     (if length current > 1
      then (let current = pad current in current # build_loop rt (pair_level rt current))
      else [current])"
  by pat_completeness auto
termination
  by (relation "measure (\<lambda>(rt, c). length c)") (auto simp: length_pair_level length_pad)

declare build_loop.simps [simp del]

text \<open>The first level is a separate copy of the leaves, which is not padded.\<close>

definition build_merkle_levels :: "runtime \<Rightarrow> string list \<Rightarrow> string list list res" where
  "build_merkle_levels rt leaves =
     (if leaves = [] then Inl MerkleError else Inr (leaves # tl (build_loop rt leaves)))"

definition build_merkle_from_scarlog :: "runtime \<Rightarrow> pydict list \<Rightarrow> merkle_tree res" where
  "build_merkle_from_scarlog rt scarlog =
     (if scarlog = [] then Inl MerkleError
      else bindE (mapE (hash_entry rt) scarlog) (\<lambda>leaves.
           bindE (build_merkle_levels rt leaves) (\<lambda>levels.
             Inr \<lparr>mt_root = hd (last levels), mt_leaves = leaves, mt_levels = levels,
                  mt_algorithm = ''SHA3-512''\<rparr>)))"

definition build_merkle_from_audit_ledger :: "runtime \<Rightarrow> ledger \<Rightarrow> merkle_tree res" where
  "build_merkle_from_audit_ledger rt L =
     (if all_entries L = [] then Inl MerkleError
      else build_merkle_from_scarlog rt (map entry_dict (all_entries L)))"

section \<open>Proofs\<close>

fun proof_siblings :: "string list list \<Rightarrow> nat \<Rightarrow> (string \<times> string) list res" where
  "proof_siblings [] position = Inr []"
| "proof_siblings (level # levels) position =
     (let padded = pad level;
          (sibling_pos, direction) =
            (if even position then (position + 1, ''RIGHT'') else (position - 1, ''LEFT''))
      in bindE (guardE (sibling_pos < length padded) (IndexError ''list index out of range'')) (\<lambda>_.
         bindE (proof_siblings levels (position div 2)) (\<lambda>rest.
           Inr ((direction, padded ! sibling_pos) # rest))))"

definition generate_proof :: "merkle_tree \<Rightarrow> int \<Rightarrow> merkle_proof res" where
  "generate_proof tree index =
     (if index < 0 \<or> index \<ge> int (length (mt_leaves tree))
      then Inl (IndexError ''Leaf index is out of range'')
      else bindE (proof_siblings (butlast (mt_levels tree)) (nat index)) (\<lambda>siblings.
        Inr \<lparr>mp_leaf_hash = mt_leaves tree ! nat index, mp_siblings = siblings,
             mp_root = mt_root tree\<rparr>))"

fun fold_proof :: "runtime \<Rightarrow> string \<Rightarrow> (string \<times> string) list \<Rightarrow> string res" where
  "fold_proof rt current [] = Inr current"
| "fold_proof rt current ((direction, sibling) # rest) =
     (if direction = ''RIGHT'' then fold_proof rt (hash_pair rt current sibling) rest
      else if direction = ''LEFT'' then fold_proof rt (hash_pair rt sibling current) rest
      else Inl MerkleError)"

definition verify_merkle_proof :: "runtime \<Rightarrow> merkle_proof \<Rightarrow> bool res" where
  "verify_merkle_proof rt p =
     bindE (fold_proof rt (mp_leaf_hash p) (mp_siblings p)) (\<lambda>current. Inr (current = mp_root p))"

section \<open>Levels\<close>

lemma pad_pad [simp]: "pad (pad xs) = pad xs"
  by (simp add: pad_def)

lemma pad_nth: "i < length xs \<Longrightarrow> pad xs ! i = xs ! i"
  by (simp add: pad_def nth_append)

lemma pad_ne [simp]: "pad xs = [] \<longleftrightarrow> xs = []"
  by (auto simp: pad_def)

lemma even_length_pad [simp]: "even (length (pad xs))"
  by (simp add: length_pad)

lemma pair_level_nth:
  "k < length xs div 2 \<Longrightarrow> pair_level rt xs ! k = hash_pair rt (xs ! (2 * k)) (xs ! (2 * k + 1))"
proof (induction rt xs arbitrary: k rule: pair_level.induct)
  case (1 rt a b rest)
  then show ?case by (cases k) simp_all
qed simp_all

lemma build_loop_ne [simp]: "build_loop rt c \<noteq> []"
  by (subst build_loop.simps) (simp add: Let_def)

lemma build_loop_hd: "hd (build_loop rt c) = (if length c > 1 then pad c else c)"
  by (subst build_loop.simps) (simp add: Let_def)

lemma build_loop_step:
  "length c > 1 \<Longrightarrow> build_loop rt c = pad c # build_loop rt (pair_level rt (pad c))"
  by (subst build_loop.simps) (simp add: Let_def)

lemma build_loop_single: "length c \<le> 1 \<Longrightarrow> build_loop rt c = [c]"
  by (subst build_loop.simps) simp

lemma build_loop_root: "c \<noteq> [] \<Longrightarrow> \<exists>r. last (build_loop rt c) = [r]"
proof (induction rt c rule: build_loop.induct)
  case (1 rt c)
  show ?case
  proof (cases "length c > 1")
    case True
    then have "pair_level rt (pad c) \<noteq> []"
      using length_pair_level [of rt "pad c"] length_pad [of c] by auto
    with "1.IH" True show ?thesis by (simp add: build_loop_step)
  next
    case False
    with "1.prems" show ?thesis
      by (cases c) (simp_all add: build_loop_single)
  qed
qed

text \<open>The siblings collected for a position lead from that node to the root.\<close>

definition sibling_dir :: "nat \<Rightarrow> string" where
  "sibling_dir pos = (if even pos then ''RIGHT'' else ''LEFT'')"

lemma build_loop_siblings:
  "pos < length c \<Longrightarrow> \<exists>sibs. proof_siblings (butlast (build_loop rt c)) pos = Inr sibs \<and>
     fold_proof rt (c ! pos) sibs = Inr (hd (last (build_loop rt c)))"
proof (induction rt c arbitrary: pos rule: build_loop.induct)
  case (1 rt c)
  show ?case
  proof (cases "length c > 1")
    case False
    with "1.prems" have "length c = 1" "pos = 0" by auto
    then show ?thesis by (cases c) (simp_all add: build_loop_single)
  next
    case True
    let ?c = "pad c" and ?n = "pair_level rt (pad c)" and ?k = "pos div 2"
    have len: "length ?n = (length c + 1) div 2"
      by (simp add: length_pair_level length_pad)
    with "1.prems" have k: "?k < length ?n" by auto
    from "1.IH" [OF True refl this] obtain sibs where
      s: "proof_siblings (butlast (build_loop rt ?n)) ?k = Inr sibs"
      "fold_proof rt (?n ! ?k) sibs = Inr (hd (last (build_loop rt ?n)))" by blast
    have lt: "2 * ?k + 1 < length ?c" using k by (simp add: length_pair_level)
    then have nk: "?n ! ?k = hash_pair rt (?c ! (2 * ?k)) (?c ! (2 * ?k + 1))"
      using k by (intro pair_level_nth) (simp add: length_pair_level)
    have cp: "?c ! pos = c ! pos" using "1.prems" by (rule pad_nth)
    show ?thesis
    proof (cases "even pos")
      case True': True
      then have p: "2 * ?k = pos" by simp
      with s lt nk cp True' True show ?thesis by (simp add: build_loop_step Let_def)
    next
      case False
      then have p: "2 * ?k + 1 = pos" "2 * ?k = pos - 1" by (auto elim: oddE)
      with lt have "pos - 1 < length ?c" by simp
      with p s lt nk cp False True show ?thesis by (simp add: build_loop_step Let_def)
    qed
  qed
qed

text \<open>Padding the first level or not makes no difference to the siblings.\<close>

lemma proof_siblings_pad: "proof_siblings (pad l # ls) pos = proof_siblings (l # ls) pos"
  by simp

lemma build_levels_eq:
  assumes "leaves \<noteq> []"
  shows "build_merkle_levels rt leaves = Inr (leaves # tl (build_loop rt leaves))"
    "last (leaves # tl (build_loop rt leaves)) = last (build_loop rt leaves)"
    "proof_siblings (butlast (leaves # tl (build_loop rt leaves))) pos =
     proof_siblings (butlast (build_loop rt leaves)) pos"
proof -
  show "build_merkle_levels rt leaves = Inr (leaves # tl (build_loop rt leaves))"
    using assms by (simp add: build_merkle_levels_def)
  show "last (leaves # tl (build_loop rt leaves)) = last (build_loop rt leaves)"
    "proof_siblings (butlast (leaves # tl (build_loop rt leaves))) pos =
     proof_siblings (butlast (build_loop rt leaves)) pos"
    by (cases "length leaves > 1"; simp add: build_loop_step build_loop_single not_less Let_def)+
qed

section \<open>Completeness and soundness of proofs\<close>

lemma build_merkle_Inr:
  assumes "build_merkle_from_scarlog rt log = Inr tree"
  shows "mapE (hash_entry rt) log = Inr (mt_leaves tree)" "mt_leaves tree \<noteq> []"
    "length (mt_leaves tree) = length log"
    "mt_levels tree = mt_leaves tree # tl (build_loop rt (mt_leaves tree))"
    "mt_root tree = hd (last (build_loop rt (mt_leaves tree)))" "mt_algorithm tree = ''SHA3-512''"
proof -
  from assms obtain leaves levels where l: "log \<noteq> []" "mapE (hash_entry rt) log = Inr leaves"
    "build_merkle_levels rt leaves = Inr levels"
    and t: "tree = \<lparr>mt_root = hd (last levels), mt_leaves = leaves, mt_levels = levels,
      mt_algorithm = ''SHA3-512''\<rparr>"
    by (auto simp: build_merkle_from_scarlog_def res_simps split: if_splits)
  from length_mapE [OF l(2)] l(1) have ne: "leaves \<noteq> []" by auto
  from l(3) build_levels_eq(1) [OF ne] have lv: "levels = leaves # tl (build_loop rt leaves)" by simp
  show "mapE (hash_entry rt) log = Inr (mt_leaves tree)" "mt_leaves tree \<noteq> []"
    "length (mt_leaves tree) = length log" "mt_algorithm tree = ''SHA3-512''"
    "mt_levels tree = mt_leaves tree # tl (build_loop rt (mt_leaves tree))"
    using l ne lv length_mapE [OF l(2)] by (simp_all add: t)
  show "mt_root tree = hd (last (build_loop rt (mt_leaves tree)))"
    using build_levels_eq(2) [OF ne, of rt] by (simp add: t lv del: last.simps)
qed

lemma generate_proof_complete:
  assumes "build_merkle_from_scarlog rt log = Inr tree" "0 \<le> i" "i < int (length log)"
  obtains p where "generate_proof tree i = Inr p" "mp_leaf_hash p = mt_leaves tree ! nat i"
    "mp_root p = mt_root tree" "fold_proof rt (mp_leaf_hash p) (mp_siblings p) = Inr (mp_root p)"
    "proof_siblings (butlast (build_loop rt (mt_leaves tree))) (nat i) = Inr (mp_siblings p)"
proof -
  note b = build_merkle_Inr [OF assms(1)]
  have i: "nat i < length (mt_leaves tree)" using assms(2,3) b(3) by simp
  from build_loop_siblings [OF i, of rt] obtain sibs where
    s: "proof_siblings (butlast (build_loop rt (mt_leaves tree))) (nat i) = Inr sibs"
      "fold_proof rt (mt_leaves tree ! nat i) sibs = Inr (mt_root tree)"
    by (auto simp: b(5))
  have "proof_siblings (butlast (mt_levels tree)) (nat i) = Inr sibs"
    using s(1) build_levels_eq(3) [OF b(2), of rt "nat i"] by (simp only: b(4))
  with assms(2,3) b(3) have "generate_proof tree i = Inr \<lparr>mp_leaf_hash = mt_leaves tree ! nat i,
      mp_siblings = sibs, mp_root = mt_root tree\<rparr>"
    by (simp add: generate_proof_def)
  from that [OF this] s show thesis by simp
qed

text \<open>The strings that are hashed while a proof is folded.\<close>

fun fold_inputs :: "runtime \<Rightarrow> string \<Rightarrow> (string \<times> string) list \<Rightarrow> string list" where
  "fold_inputs rt current [] = []"
| "fold_inputs rt current ((direction, sibling) # rest) =
     (let w = (if direction = ''RIGHT'' then current @ sibling else sibling @ current)
      in w # fold_inputs rt (hexdigest rt w) rest)"

definition proof_inputs :: "runtime \<Rightarrow> merkle_proof \<Rightarrow> string list" where
  "proof_inputs rt p = fold_inputs rt (mp_leaf_hash p) (mp_siblings p)"

definition tree_inputs :: "runtime \<Rightarrow> merkle_tree \<Rightarrow> string list" where
  "tree_inputs rt tree =
     concat (map (\<lambda>i. case generate_proof tree (int i) of Inr p \<Rightarrow> proof_inputs rt p | Inl _ \<Rightarrow> [])
       [0..<length (mt_leaves tree)])"

lemma fold_proof_inj:
  assumes "digest_length rt"
  shows "map fst s = map fst t \<Longrightarrow> fold_proof rt x s = Inr r \<Longrightarrow> fold_proof rt y t = Inr r \<Longrightarrow>
    length x = length y \<Longrightarrow>
    inj_on (hexdigest rt) (set (fold_inputs rt x s) \<union> set (fold_inputs rt y t)) \<Longrightarrow> x = y \<and> s = t"
proof (induction s arbitrary: t x y)
  case Nil
  then show ?case by simp
next
  case (Cons p s)
  then obtain d a b t' where t: "t = (d, b) # t'" "p = (d, a)"
    by (cases p; cases t) auto
  let ?u = "if d = ''RIGHT'' then x @ a else a @ x" and ?v = "if d = ''RIGHT'' then y @ b else b @ y"
  have d: "d = ''RIGHT'' \<or> d = ''LEFT''"
    using Cons.prems(2) t by (auto split: if_splits)
  have "hexdigest rt ?u = hexdigest rt ?v \<and> s = t'"
  proof (rule Cons.IH)
    show "map fst s = map fst t'" using Cons.prems(1) t by simp
    show "fold_proof rt (hexdigest rt ?u) s = Inr r" "fold_proof rt (hexdigest rt ?v) t' = Inr r"
      using Cons.prems(2,3) t d by (auto simp: hash_pair_def)
    show "length (hexdigest rt ?u) = length (hexdigest rt ?v)"
      by (simp only: length_hexdigest [OF assms])
    show "inj_on (hexdigest rt) (set (fold_inputs rt (hexdigest rt ?u) s) \<union>
        set (fold_inputs rt (hexdigest rt ?v) t'))"
      by (rule inj_on_subset [OF Cons.prems(5)]) (auto simp: t Let_def)
  qed
  then have h: "hexdigest rt ?u = hexdigest rt ?v" "s = t'" by blast+
  have m: "?u \<in> set (fold_inputs rt x (p # s))" "?v \<in> set (fold_inputs rt y t)"
    by (simp_all add: t Let_def)
  have "?u = ?v"
    by (rule inj_onD [OF Cons.prems(5) h(1) UnI1 [OF m(1)] UnI2 [OF m(2)]])
  moreover have "x @ a = y @ b \<Longrightarrow> x = y \<and> a = b" "a @ x = b @ y \<Longrightarrow> x = y \<and> a = b"
    using Cons.prems(4) by simp_all
  ultimately have "x = y \<and> a = b" using d by presburger
  with h(2) t show ?case by simp
qed

lemma proof_siblings_dirs:
  "proof_siblings ls pos = Inr s \<Longrightarrow> proof_siblings ms pos = Inr t \<Longrightarrow> length ls = length ms \<Longrightarrow>
   map fst s = map fst t"
proof (induction ls arbitrary: ms pos s t)
  case Nil
  then show ?case by simp
next
  case (Cons l ls)
  then obtain m ms' where "ms = m # ms'" by (cases ms) auto
  with Cons.prems Cons.IH [of "pos div 2"] show ?case
    by (auto simp: res_simps Let_def split: if_splits)
qed

lemma length_build_loop: "length c = length d \<Longrightarrow> length (build_loop rt c) = length (build_loop rt d)"
proof (induction rt c arbitrary: d rule: build_loop.induct)
  case (1 rt c)
  show ?case
  proof (cases "length c > 1")
    case True
    have "length (pair_level rt (pad c)) = length (pair_level rt (pad d))"
      using "1.prems" by (simp add: length_pair_level length_pad)
    with "1.IH" [OF True refl this] True "1.prems" show ?thesis by (simp add: build_loop_step)
  next
    case False
    with "1.prems" show ?thesis by (simp add: build_loop_single)
  qed
qed

lemma proof_inputs_tree:
  assumes "generate_proof tree i = Inr p"
  shows "set (proof_inputs rt p) \<subseteq> set (tree_inputs rt tree)"
proof -
  from assms have "0 \<le> i" "i < int (length (mt_leaves tree))"
    by (auto simp: generate_proof_def split: if_splits)
  then have "nat i < length (mt_leaves tree)" "int (nat i) = i" by simp_all
  with assms show ?thesis
    by (auto simp: tree_inputs_def intro!: bexI [of _ "nat i"])
qed

lemma hash_entry_total: "canonicalizable (VDict d) \<Longrightarrow> \<exists>h. hash_entry rt d = Inr h"
  using canonical_bytes_total [of "VDict d" rt] by (auto simp: hash_entry_def merkle_canonicalize_def)

lemma build_merkle_total:
  assumes "log \<noteq> []" "list_all (\<lambda>d. canonicalizable (VDict d)) log"
  obtains tree where "build_merkle_from_scarlog rt log = Inr tree"
proof -
  have "\<exists>h. hash_entry rt d = Inr h \<and> True" if "d \<in> set log" for d
    using assms(2) that hash_entry_total [of d rt] by (simp add: list_all_iff del: canonicalizable.simps)
  from mapE_total [where xs = log and f = "hash_entry rt" and P = "\<lambda>_. True", OF this]
  obtain leaves where l: "mapE (hash_entry rt) log = Inr leaves" by auto
  with length_mapE [OF l] assms(1) have "leaves \<noteq> []" by auto
  with l assms(1) that show thesis by (simp add: build_merkle_from_scarlog_def build_levels_eq(1))
qed

section \<open>Properties\<close>

text \<open>
  C17.  Completeness: for every log whose tree can be built, whatever its length (odd layers are
  padded), \<open>generate_proof\<close> succeeds at each index of the log, the proof carries the leaf hash at
  that index and the root, and \<open>verify_merkle_proof\<close> accepts it.
\<close>

theorem merkle_proof_complete:
  assumes "build_merkle_from_scarlog rt log = Inr tree" "0 \<le> i" "i < int (length log)"
  shows "\<exists>p. generate_proof tree i = Inr p \<and> mp_leaf_hash p = mt_leaves tree ! nat i \<and>
    mp_root p = mt_root tree \<and> verify_merkle_proof rt p = Inr True"
proof -
  obtain p where p: "generate_proof tree i = Inr p" "mp_leaf_hash p = mt_leaves tree ! nat i"
    "mp_root p = mt_root tree" "fold_proof rt (mp_leaf_hash p) (mp_siblings p) = Inr (mp_root p)"
    using generate_proof_complete [OF assms] by metis
  then have "verify_merkle_proof rt p = Inr True" by (simp add: verify_merkle_proof_def)
  with p show ?thesis by blast
qed

definition demo_log :: "pydict list" where
  "demo_log = [[(''n'', VInt 1)], [(''n'', VInt 20)], [(''n'', VInt 300)]]"

theorem merkle_proof_complete_witness:
  "\<exists>tree p. build_merkle_from_scarlog plain_runtime demo_log = Inr tree \<and>
     generate_proof tree 2 = Inr p \<and> verify_merkle_proof plain_runtime p = Inr True"
proof -
  obtain tree where t: "build_merkle_from_scarlog plain_runtime demo_log = Inr tree"
    by (rule build_merkle_total [of demo_log plain_runtime]) (simp_all add: demo_log_def)
  from merkle_proof_complete [OF this, of 2] t show ?thesis by (auto simp: demo_log_def)
qed


definition short_runtime :: runtime where
  "short_runtime = plain_runtime\<lparr>rt_digest := (\<lambda>b. replicate 63 (CHR 0x00) @ [char_of (length b)])\<rparr>"

lemma short_runtime_length: "digest_length short_runtime"
  by (simp add: digest_length_def short_runtime_def)


lemma merkle_leaves_commit:
  assumes "digest_length rt" "length log = length log'"
    and "build_merkle_from_scarlog rt log = Inr tree" "build_merkle_from_scarlog rt log' = Inr tree'"
    and "mt_root tree = mt_root tree'"
    and "inj_on (hexdigest rt) (set (tree_inputs rt tree) \<union> set (tree_inputs rt tree'))"
    and "i < length log"
  shows "mt_leaves tree ! i = mt_leaves tree' ! i"
proof -
  have b: "0 \<le> int i" "int i < int (length log)" "int i < int (length log')" using assms(2,7) by simp_all
  note t = build_merkle_Inr [OF assms(3)] and t' = build_merkle_Inr [OF assms(4)]
  obtain p where p: "generate_proof tree (int i) = Inr p" "mp_leaf_hash p = mt_leaves tree ! i"
    "mp_root p = mt_root tree" "fold_proof rt (mp_leaf_hash p) (mp_siblings p) = Inr (mp_root p)"
    "proof_siblings (butlast (build_loop rt (mt_leaves tree))) i = Inr (mp_siblings p)"
    by (rule generate_proof_complete [OF assms(3) b(1,2)]) simp
  obtain q where q: "generate_proof tree' (int i) = Inr q" "mp_leaf_hash q = mt_leaves tree' ! i"
    "mp_root q = mt_root tree'" "fold_proof rt (mp_leaf_hash q) (mp_siblings q) = Inr (mp_root q)"
    "proof_siblings (butlast (build_loop rt (mt_leaves tree'))) i = Inr (mp_siblings q)"
    by (rule generate_proof_complete [OF assms(4) b(1,3)]) simp
  have l: "length (mt_leaves tree) = length (mt_leaves tree')" using t(3) t'(3) assms(2) by simp
  have dirs: "map fst (mp_siblings p) = map fst (mp_siblings q)"
    by (rule proof_siblings_dirs [OF p(5) q(5)]) (simp add: length_build_loop [OF l])
  have "hash_entry rt (log ! i) = Inr (mt_leaves tree ! i)" "hash_entry rt (log' ! i) = Inr (mt_leaves tree' ! i)"
    using t(1) t'(1) assms(2,7) by (auto simp: mapE_Inr_iff dest: list_all2_nthD)
  then have len: "length (mp_leaf_hash p) = length (mp_leaf_hash q)"
    unfolding p(2) q(2) by (auto simp: hash_entry_def res_simps length_hexdigest [OF assms(1)] dest!: arg_cong [of _ _ length])
  have "mp_leaf_hash p = mp_leaf_hash q \<and> mp_siblings p = mp_siblings q"
  proof (rule fold_proof_inj [OF assms(1) dirs p(4) _ len])
    show "fold_proof rt (mp_leaf_hash q) (mp_siblings q) = Inr (mp_root p)"
      using q(3,4) p(3) assms(5) by simp
    show "inj_on (hexdigest rt) (set (fold_inputs rt (mp_leaf_hash p) (mp_siblings p)) \<union>
        set (fold_inputs rt (mp_leaf_hash q) (mp_siblings q)))"
      using proof_inputs_tree [OF p(1), of rt] proof_inputs_tree [OF q(1), of rt]
      by (intro inj_on_subset [OF assms(6)]) (auto simp: proof_inputs_def)
  qed
  then show ?thesis by (simp add: p(2) q(2))
qed


lemma two_leaf_inputs:
  assumes "build_merkle_from_scarlog rt log = Inr tree" "mt_leaves tree = [a, b]"
  shows "set (tree_inputs rt tree) = {a @ b}"
proof -
  have "butlast (build_loop rt [a, b]) = [[a, b]]"
    by (simp add: build_loop_step build_loop_single pad_def)
  moreover have "butlast (mt_levels tree) = [[a, b]]"
    using build_merkle_Inr(4) [OF assms(1)] by (simp add: assms(2) build_loop_step build_loop_single pad_def)
  ultimately have "generate_proof tree 0 =
      Inr \<lparr>mp_leaf_hash = a, mp_siblings = [(''RIGHT'', b)], mp_root = mt_root tree\<rparr>"
    "generate_proof tree 1 =
      Inr \<lparr>mp_leaf_hash = b, mp_siblings = [(''LEFT'', a)], mp_root = mt_root tree\<rparr>"
    by (simp_all add: generate_proof_def assms(2) pad_def Let_def)
  moreover have "[0..<length (mt_leaves tree)] = [0, 1]" by (simp add: assms(2) upt_rec)
  ultimately show ?thesis
    by (simp add: tree_inputs_def proof_inputs_def Let_def)
qed

definition twin_log :: "pydict list" where
  "twin_log = [hd demo_log, hd demo_log]"


text \<open>
  The root alone does not commit to the length of the log: because an odd layer repeats its
  last node, the logs \<open>[a, b, c]\<close> and \<open>[a, b, c, c]\<close> always have the same root.
\<close>

theorem merkle_root_repeats_last:
  assumes "build_merkle_from_scarlog rt [a, b, c] = Inr tree"
  shows "\<exists>tree'. build_merkle_from_scarlog rt [a, b, c, c] = Inr tree' \<and> mt_root tree' = mt_root tree \<and>
    length (mt_leaves tree') = 4 \<and> length (mt_leaves tree) = 3"
proof -
  from build_merkle_Inr [OF assms] obtain x y z where
    h: "hash_entry rt a = Inr x" "hash_entry rt b = Inr y" "hash_entry rt c = Inr z" and
    t: "mt_leaves tree = [x, y, z]" "mt_root tree = hd (last (build_loop rt (mt_leaves tree)))"
    by (auto simp: res_simps)
  obtain tree' where t': "build_merkle_from_scarlog rt [a, b, c, c] = Inr tree'"
    by (auto simp: build_merkle_from_scarlog_def h build_levels_eq(1))
  have l': "mt_leaves tree' = [x, y, z, z]"
    using build_merkle_Inr(1) [OF t'] by (simp add: h)
  have "last (build_loop rt [x, y, z, z]) = last (build_loop rt [x, y, z])"
    by (simp add: build_loop_step pad_def)
  with build_merkle_Inr(5) [OF t'] t l' have "mt_root tree' = mt_root tree" by simp
  with t' l' t show ?thesis by simp
qed

theorem merkle_root_repeats_last_witness:
  "\<exists>tree tree'. build_merkle_from_scarlog plain_runtime demo_log = Inr tree \<and>
     build_merkle_from_scarlog plain_runtime (demo_log @ [last demo_log]) = Inr tree' \<and>
     mt_root tree' = mt_root tree"
proof -
  obtain tree where t: "build_merkle_from_scarlog plain_runtime demo_log = Inr tree"
    by (rule build_merkle_total [of demo_log plain_runtime]) (simp_all add: demo_log_def)
  from merkle_root_repeats_last [OF t [unfolded demo_log_def]] t show ?thesis
    by (auto simp: demo_log_def)
qed

end
