(* ===== verification/Scar.thy ===== *)
theory Scar
  imports TrustRoot Capability MemoryChain Merkle
begin

text \<open>
  \<open>src/sovereignty_core/audit/scar.py\<close>: the device-signed, hash-chained SCAR ledger with its
  Merkle attestations.  The lemmas show that freezing and thawing metadata does not change what
  was signed, that every ledger built by the recording operations passes \<open>verify_integrity\<close>,
  that its head commits to the events (the \<open>hash_chain\<close> contract), and that an attestation is
  valid for the ledger it was made for and for no longer one.
\<close>

definition SCARLedgerError :: pyexc where
  "SCARLedgerError = RuntimeError ''SCARLedgerError'' []"

datatype scar_actor = HUMAN_ACTOR | PROVIDER_ACTOR | DEVICE_ACTOR

fun actor_value :: "scar_actor \<Rightarrow> string" where
  "actor_value HUMAN_ACTOR = ''HUMAN''"
| "actor_value PROVIDER_ACTOR = ''PROVIDER''"
| "actor_value DEVICE_ACTOR = ''DEVICE''"

definition actor_of :: "string \<Rightarrow> scar_actor res" where
  "actor_of s =
     (case enum_of actor_value [HUMAN_ACTOR, PROVIDER_ACTOR, DEVICE_ACTOR] s of
        Some a \<Rightarrow> Inr a
      | None \<Rightarrow> Inl (ValueError (s @ '' is not a valid SCARActor'')))"

section \<open>Frozen metadata\<close>

text \<open>A mapping proxy is the dictionary it wraps; \<open>deepcopy\<close> of a value is the value.\<close>

fun freeze :: "pyval \<Rightarrow> pyval" where
  "freeze (VDict d) = VDict (map (\<lambda>p. (fst p, freeze (snd p))) d)"
| "freeze (VList xs) = VTuple (map freeze xs)"
| "freeze (VTuple xs) = VTuple (map freeze xs)"
| "freeze v = v"

fun thaw :: "pyval \<Rightarrow> pyval" where
  "thaw (VDict d) = VDict (map (\<lambda>p. (fst p, thaw (snd p))) d)"
| "thaw (VTuple xs) = VList (map thaw xs)"
| "thaw v = v"

definition freeze_dict :: "pydict \<Rightarrow> pydict" where
  "freeze_dict d = map (\<lambda>p. (fst p, freeze (snd p))) d"

definition thaw_dict :: "pydict \<Rightarrow> pydict" where
  "thaw_dict d = map (\<lambda>p. (fst p, thaw (snd p))) d"

section \<open>Events and attestations\<close>

record scar_event =
  se_sequence :: int
  se_id :: string
  se_type :: string
  se_timestamp :: string
  se_identity :: string
  se_actor :: scar_actor
  se_capability :: "string option"
  se_memory :: "string option"
  se_prev :: string
  se_signature :: string
  se_hash :: string
  se_metadata :: pydict

text \<open>The signed document of an event, for given metadata.\<close>

definition scar_document :: "scar_event \<Rightarrow> pydict \<Rightarrow> pydict" where
  "scar_document e md =
     [(''sequence'', VInt (se_sequence e)), (''event_id'', VStr (se_id e)),
      (''event_type'', VStr (se_type e)), (''timestamp'', VStr (se_timestamp e)),
      (''identity_id'', VStr (se_identity e)), (''actor'', VStr (actor_value (se_actor e))),
      (''capability_id'', opt_str (se_capability e)), (''memory_hash'', opt_str (se_memory e)),
      (''previous_event_hash'', VStr (se_prev e)), (''metadata'', VDict md)]"

definition event_signing_document :: "scar_event \<Rightarrow> pydict" where
  "event_signing_document e = scar_document e (thaw_dict (se_metadata e))"

definition event_to_dict :: "scar_event \<Rightarrow> pydict" where
  "event_to_dict e =
     event_signing_document e @ [(''signature'', VStr (se_signature e)), (''event_hash'', VStr (se_hash e))]"

definition scar_hash_event :: "runtime \<Rightarrow> pydict \<Rightarrow> string \<Rightarrow> string res" where
  "scar_hash_event rt document signature =
     bindE (canonical_bytes rt (VDict (document @ [(''signature'', VStr signature)])))
       (\<lambda>b. Inr (hexdigest rt b))"

record scar_attestation =
  sa_root_hash :: string
  sa_algorithm :: string
  sa_count :: int
  sa_created :: string
  sa_identity :: string
  sa_device :: string
  sa_signature :: string
  sa_version :: int
  sa_sig_algorithm :: string

definition attestation_document :: "scar_attestation \<Rightarrow> pydict" where
  "attestation_document a =
     [(''version'', VInt (sa_version a)), (''algorithm'', VStr (sa_algorithm a)),
      (''signature_algorithm'', VStr (sa_sig_algorithm a)), (''root_hash'', VStr (sa_root_hash a)),
      (''entry_count'', VInt (sa_count a)), (''created_at'', VStr (sa_created a)),
      (''identity_id'', VStr (sa_identity a)), (''device_id'', VStr (sa_device a))]"

definition attestation_to_dict :: "scar_attestation \<Rightarrow> pydict" where
  "attestation_to_dict a = attestation_document a @ [(''signature'', VStr (sa_signature a))]"

section \<open>The ledger\<close>

record scar_ledger =
  sl_identity :: string
  sl_root :: root_of_trust
  sl_events :: "scar_event list"

definition scar_init :: "string \<Rightarrow> root_of_trust \<Rightarrow> scar_ledger res" where
  "scar_init identity_id root =
     (if identity_id = [] then Inl (ValueError ''SCAR ledger requires a human identity_id'')
      else Inr \<lparr>sl_identity = identity_id, sl_root = root, sl_events = []\<rparr>)"

definition sl_device :: "scar_ledger \<Rightarrow> string" where
  "sl_device L = di_identity (rot_identity (sl_root L))"

text \<open>\<open>clock\<close>, \<open>iso\<close> and \<open>uuid\<close> of an operation: its readings of the clock and the random id.\<close>

record moment =
  mo_clock :: int
  mo_iso :: string
  mo_uuid :: string

definition utc_timestamp :: "moment \<Rightarrow> string" where
  "utc_timestamp m = replace_utc (mo_iso m)"

definition append_event :: "runtime \<Rightarrow> moment \<Rightarrow> string \<Rightarrow> string \<Rightarrow> string option \<Rightarrow> string option \<Rightarrow>
    pydict option \<Rightarrow> string option \<Rightarrow> scar_ledger \<Rightarrow> scar_event res \<times> scar_ledger" where
  "append_event rt m event_type actor capability_id memory_hash metadata timestamp L =
     (let r =
        (if event_type = [] then Inl (ValueError ''SCAR event_type must not be empty'')
         else bindE (actor_of actor) (\<lambda>normalized_actor.
           if normalized_actor = PROVIDER_ACTOR \<and> capability_id = None then Inl SCARLedgerError
           else (let md = (case metadata of None \<Rightarrow> [] | Some d \<Rightarrow> d);
                     event = \<lparr>se_sequence = int (length (sl_events L)), se_id = mo_uuid m,
                       se_type = event_type, se_timestamp = ostr_or timestamp (utc_timestamp m),
                       se_identity = sl_identity L, se_actor = normalized_actor,
                       se_capability = capability_id, se_memory = memory_hash,
                       se_prev = (if sl_events L = [] then genesis_hash else se_hash (last (sl_events L))),
                       se_signature = [], se_hash = [], se_metadata = freeze_dict md\<rparr>;
                     document = scar_document event md
                 in bindE (canonical_bytes rt (VDict document)) (\<lambda>b.
                    bindE (root_sign rt (mo_clock m) (sl_root L) b) (\<lambda>signed.
                    bindE (scar_hash_event rt document (so_signature signed)) (\<lambda>event_hash.
                      Inr (event\<lparr>se_signature := so_signature signed, se_hash := event_hash\<rparr>)))))))
      in case r of
           Inl ex \<Rightarrow> (Inl ex, L)
         | Inr event \<Rightarrow> (Inr event, L\<lparr>sl_events := sl_events L @ [event]\<rparr>))"

definition assert_identity :: "scar_ledger \<Rightarrow> string \<Rightarrow> unit res" where
  "assert_identity L identity_id = guardE (identity_id = sl_identity L) SCARLedgerError"

definition record_memory_change :: "runtime \<Rightarrow> moment \<Rightarrow> memory_block \<Rightarrow> scar_ledger \<Rightarrow> scar_event res \<times> scar_ledger" where
  "record_memory_change rt m b L =
     (let v = mb_provenance b in
      case assert_identity L (mv_owner v) of
        Inl ex \<Rightarrow> (Inl ex, L)
      | Inr u \<Rightarrow>
          append_event rt m ''MEMORY_CHANGE''
            (actor_value (if str_lower (mv_source_type v) = ''provider'' then PROVIDER_ACTOR else HUMAN_ACTOR))
            (mv_token v) (Some (mb_hash b))
            (Some [(''block_id'', VStr (mb_id b)), (''classification'', VStr (class_value (mb_class b))),
                   (''memory_index'', VInt (mb_index b))])
            None L)"

definition record_capability_issue :: "runtime \<Rightarrow> moment \<Rightarrow> capability_token \<Rightarrow> scar_ledger \<Rightarrow> scar_event res \<times> scar_ledger" where
  "record_capability_issue rt m t L =
     (case assert_identity L (ct_owner t) of
        Inl ex \<Rightarrow> (Inl ex, L)
      | Inr u \<Rightarrow>
          append_event rt m ''CAPABILITY_ISSUED'' (actor_value HUMAN_ACTOR) (Some (ct_id t)) None
            (Some [(''provider_id'', VStr (ct_provider t)), (''scopes'', scope_values (ct_scopes t)),
                   (''issuer_device'', VStr (ct_device t)), (''expires_at'', VInt (ct_expires t))])
            None L)"

definition record_provider_access :: "runtime \<Rightarrow> moment \<Rightarrow> capability_token \<Rightarrow> string option \<Rightarrow> pydict option \<Rightarrow>
    int option \<Rightarrow> scar_ledger \<Rightarrow> scar_event res \<times> scar_ledger" where
  "record_provider_access rt m t memory_hash metadata now L =
     (case assert_identity L (ct_owner t) of
        Inl ex \<Rightarrow> (Inl ex, L)
      | Inr u \<Rightarrow>
          if \<not> token_is_active (mo_clock m) t now then (Inl SCARLedgerError, L)
          else append_event rt m ''PROVIDER_ACCESS'' (actor_value PROVIDER_ACTOR) (Some (ct_id t)) memory_hash
            (Some (dict_merge [(''provider_id'', VStr (ct_provider t))]
                     (case metadata of None \<Rightarrow> [] | Some d \<Rightarrow> d)))
            None L)"

definition canonical_events :: "scar_ledger \<Rightarrow> pydict list" where
  "canonical_events L = map event_to_dict (sl_events L)"

definition get_merkle_root :: "runtime \<Rightarrow> scar_ledger \<Rightarrow> merkle_tree res" where
  "get_merkle_root rt L =
     (if sl_events L = [] then Inl SCARLedgerError
      else build_merkle_from_scarlog rt (canonical_events L))"

definition prove_event :: "runtime \<Rightarrow> scar_ledger \<Rightarrow> int \<Rightarrow> merkle_proof res" where
  "prove_event rt L index = bindE (get_merkle_root rt L) (\<lambda>tree. generate_proof tree index)"

definition attest_merkle_root :: "runtime \<Rightarrow> moment \<Rightarrow> string option \<Rightarrow> scar_ledger \<Rightarrow> scar_attestation res" where
  "attest_merkle_root rt m created_at L =
     bindE (get_merkle_root rt L) (\<lambda>tree.
       (let a = \<lparr>sa_root_hash = mt_root tree, sa_algorithm = mt_algorithm tree,
              sa_count = int (length (mt_leaves tree)), sa_created = ostr_or created_at (utc_timestamp m),
              sa_identity = sl_identity L, sa_device = sl_device L, sa_signature = [], sa_version = 1,
              sa_sig_algorithm = ''ML-DSA-87''\<rparr> in
        bindE (canonical_bytes rt (VDict (attestation_document a))) (\<lambda>b.
        bindE (root_sign rt (mo_clock m) (sl_root L) b) (\<lambda>signed.
          (let a' = a\<lparr>sa_sig_algorithm := so_algorithm signed\<rparr> in
           bindE (canonical_bytes rt (VDict (attestation_document a'))) (\<lambda>b'.
           bindE (root_sign rt (mo_clock m) (sl_root L) b') (\<lambda>signed'.
             Inr (a'\<lparr>sa_signature := so_signature signed'\<rparr>))))))))"

definition verify_attestation :: "runtime \<Rightarrow> scar_attestation \<Rightarrow> scar_ledger \<Rightarrow> bool res" where
  "verify_attestation rt a L =
     (if sa_identity a \<noteq> sl_identity L \<or> sa_device a \<noteq> sl_device L then Inr False
      else bindE (canonical_bytes rt (VDict (attestation_document a))) (\<lambda>b.
        if \<not> verify_signature (sl_root L) b (sa_signature a) then Inr False
        else case get_merkle_root rt L of
               Inl ex \<Rightarrow> if ex = SCARLedgerError then Inr False else Inl ex
             | Inr tree \<Rightarrow>
                 Inr (sa_root_hash a = mt_root tree \<and> sa_count a = int (length (mt_leaves tree)) \<and>
                      sa_algorithm a = mt_algorithm tree)))"

fun integrity_from :: "runtime \<Rightarrow> scar_ledger \<Rightarrow> nat \<Rightarrow> string \<Rightarrow> scar_event list \<Rightarrow> bool res" where
  "integrity_from rt L sequence expected [] = Inr True"
| "integrity_from rt L sequence expected (e # es) =
     (let document = event_signing_document e in
      if se_sequence e \<noteq> int sequence \<or> se_identity e \<noteq> sl_identity L \<or> se_prev e \<noteq> expected \<or>
         (se_actor e = PROVIDER_ACTOR \<and> se_capability e = None)
      then Inr False
      else bindE (canonical_bytes rt (VDict document)) (\<lambda>b.
        if \<not> verify_signature (sl_root L) b (se_signature e) then Inr False
        else bindE (scar_hash_event rt document (se_signature e)) (\<lambda>h.
          if se_hash e \<noteq> h then Inr False
          else integrity_from rt L (Suc sequence) (se_hash e) es)))"

definition verify_integrity :: "runtime \<Rightarrow> scar_ledger \<Rightarrow> bool res" where
  "verify_integrity rt L = integrity_from rt L 0 genesis_hash (sl_events L)"

definition export_audit_bundle :: "runtime \<Rightarrow> moment \<Rightarrow> scar_ledger \<Rightarrow> pydict res" where
  "export_audit_bundle rt m L =
     (let bundle = [(''format'', VStr ''SAMA-SCAR-AUDIT-BUNDLE-1''), (''identity_id'', VStr (sl_identity L)),
            (''device_id'', VStr (sl_device L)), (''entries'', VList (map VDict (canonical_events L)))]
      in if sl_events L = [] then Inr bundle
         else bindE (get_merkle_root rt L) (\<lambda>tree.
              bindE (attest_merkle_root rt m None L) (\<lambda>a.
                Inr (bundle @ [(''merkle_root'', VStr (mt_root tree)),
                  (''merkle_algorithm'', VStr (mt_algorithm tree)),
                  (''attestation'', VDict (attestation_to_dict a))]))))"

fun invariants_from :: "scar_ledger \<Rightarrow> nat \<Rightarrow> scar_event list \<Rightarrow> bool" where
  "invariants_from L sequence [] = True"
| "invariants_from L sequence (e # es) =
     (se_sequence e = int sequence \<and> se_identity e = sl_identity L \<and> se_signature e \<noteq> [] \<and>
      se_hash e \<noteq> [] \<and> (se_actor e = PROVIDER_ACTOR \<longrightarrow> se_capability e \<noteq> None) \<and>
      invariants_from L (Suc sequence) es)"

definition assert_scar_invariants :: "runtime \<Rightarrow> scar_ledger \<Rightarrow> unit res" where
  "assert_scar_invariants rt L =
     bindE (verify_integrity rt L) (\<lambda>ok.
       guardE (ok \<and> invariants_from L 0 (sl_events L)) (AppError ''AssertionError'' []))"

section \<open>Freezing does not change what is signed\<close>

lemma canonicalize_thaw_freeze: "canonicalize rt (thaw (freeze v)) = canonicalize rt v"
proof (induction v)
  case (VDict d)
  have "canonicalize rt (VDict (map (\<lambda>p. (fst p, thaw (freeze (snd p)))) d)) =
      canonicalize rt (VDict (map (\<lambda>p. (fst p, snd p)) d))"
    by (rule canonicalize_dict_cong) (metis VDict.IH snds.intros prod.collapse)
  then show ?case by (simp add: comp_def del: canonicalize.simps)
next
  case (VList xs)
  then have "mapE (canonicalize rt) (map (\<lambda>x. thaw (freeze x)) xs) = mapE (canonicalize rt) (map (\<lambda>x. x) xs)"
    by (intro canonicalize_list_cong) simp
  then show ?case by (simp add: comp_def)
next
  case (VTuple xs)
  then have "mapE (canonicalize rt) (map (\<lambda>x. thaw (freeze x)) xs) = mapE (canonicalize rt) (map (\<lambda>x. x) xs)"
    by (intro canonicalize_list_cong) simp
  then show ?case by (simp add: comp_def)
qed simp_all

lemma thaw_freeze_dict: "canonicalize rt (VDict (thaw_dict (freeze_dict d))) = canonicalize rt (VDict d)"
  using canonicalize_thaw_freeze [of rt "VDict d"]
  by (simp add: thaw_dict_def freeze_dict_def comp_def del: canonicalize.simps)

lemma thawed_document:
  "canonical_bytes rt (VDict (scar_document e (thaw_dict (freeze_dict md)) @ x)) =
   canonical_bytes rt (VDict (scar_document e md @ x))"
  using canonicalize_dict_replace [OF thaw_freeze_dict [of rt md], of
      "butlast (scar_document e md)" "''metadata''" x]
  by (simp add: canonical_bytes_def scar_document_def del: canonicalize.simps)

section \<open>The ledger as a hash chain\<close>

definition event_ok :: "runtime \<Rightarrow> string \<Rightarrow> root_of_trust \<Rightarrow> nat \<Rightarrow> scar_event \<Rightarrow> bool" where
  "event_ok rt i r n e \<longleftrightarrow> se_sequence e = int n \<and> se_identity e = i \<and>
     (se_actor e = PROVIDER_ACTOR \<longrightarrow> se_capability e \<noteq> None) \<and>
     (\<exists>b. canonical_bytes rt (VDict (event_signing_document e)) = Inr b \<and> verify_signature r b (se_signature e)) \<and>
     scar_hash_event rt (event_signing_document e) (se_signature e) = Inr (se_hash e)"

definition event_record :: "scar_event \<Rightarrow> pydict" where
  "event_record e = event_signing_document e @ [(''signature'', VStr (se_signature e))]"

definition event_bytes :: "runtime \<Rightarrow> scar_event \<Rightarrow> string" where
  "event_bytes rt e = (case canonical_bytes rt (VDict (event_record e)) of Inr b \<Rightarrow> b | Inl ex \<Rightarrow> [])"

definition event_rep :: "scar_event \<Rightarrow> bool" where
  "event_rep e \<longleftrightarrow> wf_pyval (VDict (thaw_dict (se_metadata e)))"

definition event_canon :: "runtime \<Rightarrow> scar_event \<Rightarrow> pyval res" where
  "event_canon rt e = canonicalize rt (VDict (event_record e))"

lemma integrity_loop:
  "integrity_from rt L n p es = Inr True \<longleftrightarrow>
   chain_from (event_ok rt (sl_identity L) (sl_root L)) se_prev se_hash n p es"
  by (induction es arbitrary: n p) (auto simp: event_ok_def res_simps Let_def)

lemma event_record_wf: "event_rep e \<Longrightarrow> wf_pyval (VDict (event_record e))"
  by (simp add: event_rep_def event_record_def event_signing_document_def scar_document_def)

lemma event_record_prev: "map_of (event_record e) ''previous_event_hash'' = Some (VStr (se_prev e))"
  by (simp add: event_record_def event_signing_document_def scar_document_def)

lemma event_ok_bytes:
  assumes "event_ok rt i r n e"
  shows "canonical_bytes rt (VDict (event_record e)) = Inr (event_bytes rt e)"
    "se_hash e = hexdigest rt (event_bytes rt e)"
  using assms by (auto simp: event_ok_def scar_hash_event_def event_bytes_def event_record_def res_simps)

interpretation scar: hash_chain se_prev se_hash genesis_hash "event_ok rt i r"
    "\<lambda>es. verify_integrity rt \<lparr>sl_identity = i, sl_root = r, sl_events = es\<rparr> = Inr True"
    "event_canon rt" event_rep hex_text "nfc_keeps_hex rt" "hexdigest rt" "event_bytes rt"
  for rt i r
proof unfold_locales
  show "verify_integrity rt \<lparr>sl_identity = i, sl_root = r, sl_events = es\<rparr> = Inr True \<longleftrightarrow>
      chain_from (event_ok rt i r) se_prev se_hash 0 genesis_hash es" for es
    by (simp add: verify_integrity_def integrity_loop)
  show "hex_text genesis_hash" by simp
  show "event_ok rt i r n e \<Longrightarrow> se_hash e = hexdigest rt (event_bytes rt e) \<and> hex_text (se_hash e)" for n e
    using event_ok_bytes [of rt i r n e] by (metis hex_text_hexdigest)
  fix e e' n
  assume a: "nfc_keeps_hex rt" "event_rep e" "event_rep e'" "event_ok rt i r n e" "event_ok rt i r n e'"
    "event_bytes rt e = event_bytes rt e'" "hex_text (se_prev e)" "hex_text (se_prev e')"
  note b = event_ok_bytes(1) [OF a(4)] event_ok_bytes(1) [OF a(5), folded a(6)]
  from canonical_bytes_binds [OF b event_record_wf [OF a(2)] event_record_wf [OF a(3)] event_record_prev event_record_prev a(1,7,8)]
  show "event_canon rt e = event_canon rt e' \<and> se_prev e = se_prev e'" unfolding event_canon_def .
qed

lemma verify_integrity_events:
  "verify_integrity rt L = Inr True \<longleftrightarrow>
   verify_integrity rt \<lparr>sl_identity = sl_identity L, sl_root = sl_root L, sl_events = sl_events L\<rparr> = Inr True"
  by (simp add: verify_integrity_def integrity_loop)

section \<open>Appending\<close>

lemma scar_document_update [simp]:
  "scar_document (e\<lparr>se_signature := s\<rparr>) md = scar_document e md"
  "scar_document (e\<lparr>se_hash := h\<rparr>) md = scar_document e md"
  "scar_document (e\<lparr>se_metadata := m\<rparr>) md = scar_document e md"
  by (simp_all add: scar_document_def)

lemma actor_of_value [simp]: "actor_of (actor_value a) = Inr a"
proof -
  have "inj_on actor_value S" for S
    by (rule inj_onI, rename_tac x y, case_tac x; case_tac y; simp)
  moreover have "a \<in> set [HUMAN_ACTOR, PROVIDER_ACTOR, DEVICE_ACTOR]" by (cases a) simp_all
  ultimately have "enum_of actor_value [HUMAN_ACTOR, PROVIDER_ACTOR, DEVICE_ACTOR] (actor_value a) = Some a"
    by (rule enum_of_value)
  then show ?thesis by (simp add: actor_of_def)
qed

text \<open>The event before it is signed, and the steps that sign it.\<close>

lemma append_event_steps:
  assumes "e0 = (\<lambda>a. \<lparr>se_sequence = int (length (sl_events L)), se_id = mo_uuid m,
      se_type = ty, se_timestamp = ostr_or ts (utc_timestamp m), se_identity = sl_identity L, se_actor = a,
      se_capability = cap, se_memory = mem, se_prev = head_hash se_hash genesis_hash (sl_events L),
      se_signature = [], se_hash = [], se_metadata = freeze_dict (case md of None \<Rightarrow> [] | Some d \<Rightarrow> d)\<rparr>)"
    and "doc = (\<lambda>a. scar_document (e0 a) (case md of None \<Rightarrow> [] | Some d \<Rightarrow> d))"
  obtains (fails) ex where "append_event rt m ty actor cap mem md ts L = (Inl ex, L)"
  | (appends) a b signed h where "ty \<noteq> []" "actor_of actor = Inr a" "a = PROVIDER_ACTOR \<longrightarrow> cap \<noteq> None"
      "canonical_bytes rt (VDict (doc a)) = Inr b" "root_sign rt (mo_clock m) (sl_root L) b = Inr signed"
      "scar_hash_event rt (doc a) (so_signature signed) = Inr h"
      "append_event rt m ty actor cap mem md ts L =
        (let e = (e0 a)\<lparr>se_signature := so_signature signed, se_hash := h\<rparr> in (Inr e, L\<lparr>sl_events := sl_events L @ [e]\<rparr>))"
proof -
  define r where "r = (if ty = [] then Inl (ValueError ''SCAR event_type must not be empty'')
         else bindE (actor_of actor) (\<lambda>a.
           if a = PROVIDER_ACTOR \<and> cap = None then Inl SCARLedgerError
           else bindE (canonical_bytes rt (VDict (doc a))) (\<lambda>b.
             bindE (root_sign rt (mo_clock m) (sl_root L) b) (\<lambda>signed.
             bindE (scar_hash_event rt (doc a) (so_signature signed)) (\<lambda>h.
               Inr ((e0 a)\<lparr>se_signature := so_signature signed, se_hash := h\<rparr>))))))"
  have app: "append_event rt m ty actor cap mem md ts L =
      (case r of Inl ex \<Rightarrow> (Inl ex, L) | Inr e \<Rightarrow> (Inr e, L\<lparr>sl_events := sl_events L @ [e]\<rparr>))"
    unfolding append_event_def r_def assms head_hash_def Let_def by (rule refl)
  show thesis
  proof (cases r)
    case (Inl ex)
    with app fails show thesis by simp
  next
    case (Inr e)
    then obtain a b signed h where "ty \<noteq> []" "actor_of actor = Inr a" "a = PROVIDER_ACTOR \<longrightarrow> cap \<noteq> None"
      "canonical_bytes rt (VDict (doc a)) = Inr b" "root_sign rt (mo_clock m) (sl_root L) b = Inr signed"
      "scar_hash_event rt (doc a) (so_signature signed) = Inr h"
      "e = (e0 a)\<lparr>se_signature := so_signature signed, se_hash := h\<rparr>"
      unfolding r_def by (auto simp: res_simps split: if_splits)
    with app Inr show thesis by (intro appends) (simp_all add: Let_def)
  qed
qed

lemma append_event_cases:
  obtains (fails) ex where "append_event rt m ty actor cap mem md ts L = (Inl ex, L)"
  | (appends) e where "append_event rt m ty actor cap mem md ts L = (Inr e, L\<lparr>sl_events := sl_events L @ [e]\<rparr>)"
      "se_sequence e = int (length (sl_events L))" "se_identity e = sl_identity L" "ty \<noteq> []"
      "se_prev e = head_hash se_hash genesis_hash (sl_events L)"
      "actor_of actor = Inr (se_actor e)" "se_capability e = cap" "se_memory e = mem" "se_type e = ty"
      "se_actor e = PROVIDER_ACTOR \<longrightarrow> cap \<noteq> None"
      "\<exists>b. canonical_bytes rt (VDict (event_signing_document e)) = Inr b \<and>
         root_sign_text rt (mo_clock m) (sl_root L) b = Inr (se_signature e)"
      "scar_hash_event rt (event_signing_document e) (se_signature e) = Inr (se_hash e)"
      "se_metadata e = freeze_dict (case md of None \<Rightarrow> [] | Some d \<Rightarrow> d)"
proof -
  define e0 where "e0 = (\<lambda>a. \<lparr>se_sequence = int (length (sl_events L)), se_id = mo_uuid m,
      se_type = ty, se_timestamp = ostr_or ts (utc_timestamp m), se_identity = sl_identity L, se_actor = a,
      se_capability = cap, se_memory = mem, se_prev = head_hash se_hash genesis_hash (sl_events L),
      se_signature = [], se_hash = [], se_metadata = freeze_dict (case md of None \<Rightarrow> [] | Some d \<Rightarrow> d)\<rparr>)"
  show thesis
  proof (cases rule: append_event_steps [OF e0_def refl, of rt actor])
    case (1 ex)
    then show thesis by (rule fails)
  next
    case (2 a b signed h)
    let ?md = "case md of None \<Rightarrow> [] | Some d \<Rightarrow> d"
    define e where "e = (e0 a)\<lparr>se_signature := so_signature signed, se_hash := h\<rparr>"
    have md: "se_metadata e = freeze_dict ?md" by (simp add: e_def e0_def)
    have doc: "event_signing_document e = scar_document (e0 a) (thaw_dict (freeze_dict ?md))"
      by (simp add: event_signing_document_def md) (simp add: e_def)
    have sig: "se_signature e = so_signature signed" "se_hash e = h" by (simp_all add: e_def)
    have "canonical_bytes rt (VDict (event_signing_document e)) = Inr b"
      using thawed_document [of rt "e0 a" ?md "[]"] 2(4) by (simp only: doc append_Nil2)
    moreover have "root_sign_text rt (mo_clock m) (sl_root L) b = Inr (se_signature e)"
      using 2(5) by (simp add: root_sign_text_def sig)
    moreover have "scar_hash_event rt (event_signing_document e) (se_signature e) = Inr (se_hash e)"
      using 2(6) by (simp only: scar_hash_event_def doc thawed_document sig)
    ultimately show thesis
      using 2(1-3,7) md by (intro appends [of e]) (simp_all add: e_def e0_def Let_def)
  qed
qed

lemma append_event_integrity:
  assumes "verify_integrity rt L = Inr True" "root_sound (sl_root L)"
  shows "verify_integrity rt (snd (append_event rt m ty actor cap mem md ts L)) = Inr True"
proof (cases rule: append_event_cases [of rt m ty actor cap mem md ts L])
  case (fails ex)
  with assms(1) show ?thesis by simp
next
  case (appends e)
  from appends(11) root.sign_verify [OF assms(2)]
  have "\<exists>b. canonical_bytes rt (VDict (event_signing_document e)) = Inr b \<and>
      verify_signature (sl_root L) b (se_signature e)" by blast
  with appends have "event_ok rt (sl_identity L) (sl_root L) (length (sl_events L)) e"
    by (simp add: event_ok_def)
  with appends(1,5) assms(1) scar.verify_snoc [of rt "sl_identity L" "sl_root L" "sl_events L" e]
  show ?thesis
    using verify_integrity_events [of rt L] verify_integrity_events [of rt "L\<lparr>sl_events := sl_events L @ [e]\<rparr>"]
    by simp
qed

text \<open>An append returns when its document can be encoded and the root signs.\<close>

lemma append_event_total:
  assumes sign: "\<And>b. \<exists>so. root_sign rt (mo_clock m) (sl_root L) b = Inr so"
    and "ty \<noteq> []" "a \<noteq> PROVIDER_ACTOR \<or> cap \<noteq> None"
    and md: "\<forall>d \<in> set_option md. canonicalizable (VDict d)"
  shows "\<exists>e. append_event rt m ty (actor_value a) cap mem md ts L = (Inr e, L\<lparr>sl_events := sl_events L @ [e]\<rparr>)"
proof -
  define d where "d = (case md of None \<Rightarrow> [] | Some d \<Rightarrow> d)"
  have d: "canonicalizable (VDict d)" using md by (simp add: d_def split: option.splits)
  have c: "canonicalizable (VDict (scar_document e d))"
    "canonicalizable (VDict (scar_document e d @ [(k, VStr s)]))" for e k s
    using d by (simp_all add: scar_document_def)
  define e0 where "e0 = \<lparr>se_sequence = int (length (sl_events L)), se_id = mo_uuid m, se_type = ty,
      se_timestamp = ostr_or ts (utc_timestamp m),
      se_identity = sl_identity L, se_actor = a, se_capability = cap, se_memory = mem,
      se_prev = (if sl_events L = [] then genesis_hash else se_hash (last (sl_events L))),
      se_signature = [], se_hash = [], se_metadata = freeze_dict d\<rparr>"
  obtain b where b: "canonical_bytes rt (VDict (scar_document e0 d)) = Inr b"
    using canonical_bytes_total [OF c(1)] by blast
  obtain so where so: "root_sign rt (mo_clock m) (sl_root L) b = Inr so" using sign by blast
  obtain x where "canonical_bytes rt (VDict (scar_document e0 d @ [(''signature'', VStr (so_signature so))])) = Inr x"
    using canonical_bytes_total [OF c(2)] by blast
  then obtain h where h: "scar_hash_event rt (scar_document e0 d) (so_signature so) = Inr h"
    by (simp add: scar_hash_event_def)
  have "\<not> (a = PROVIDER_ACTOR \<and> cap = None)" using assms(3) by blast
  then show ?thesis
    using b so h assms(2) unfolding append_event_def actor_of_value e0_def Let_def d_def by simp
qed

section \<open>Histories\<close>

inductive scar_history :: "runtime \<Rightarrow> scar_ledger \<Rightarrow> bool" for rt where
  init: "scar_init i r = Inr L \<Longrightarrow> scar_history rt L"
| event: "scar_history rt L \<Longrightarrow> scar_history rt (snd (append_event rt m ty actor cap mem md ts L))"
| memory_change: "scar_history rt L \<Longrightarrow> scar_history rt (snd (record_memory_change rt m b L))"
| capability_issue: "scar_history rt L \<Longrightarrow> scar_history rt (snd (record_capability_issue rt m t L))"
| provider_access: "scar_history rt L \<Longrightarrow> scar_history rt (snd (record_provider_access rt m t mem md now L))"

text \<open>Each recording operation is a refused call or one \<open>append_event\<close>.\<close>

definition append_step :: "runtime \<Rightarrow> scar_ledger \<Rightarrow> scar_ledger \<Rightarrow> bool" where
  "append_step rt L L' \<longleftrightarrow> L' = L \<or> (\<exists>m ty actor cap mem md ts. L' = snd (append_event rt m ty actor cap mem md ts L))"

lemma record_steps:
  "append_step rt L (snd (record_memory_change rt m b L))"
  "append_step rt L (snd (record_capability_issue rt m t L))"
  "append_step rt L (snd (record_provider_access rt m t mem md now L))"
proof -
  have a: "append_step rt L (snd (append_event rt m ty actor cap mem md ts L))" for m ty actor cap mem md ts
    unfolding append_step_def by blast
  have r: "append_step rt L (snd (x, L))" for x :: "scar_event res"
    by (simp add: append_step_def)
  show "append_step rt L (snd (record_memory_change rt m b L))"
    unfolding record_memory_change_def Let_def by (cases "assert_identity L (mv_owner (mb_provenance b))") (simp_all only: sum.case a r)
  show "append_step rt L (snd (record_capability_issue rt m t L))"
    unfolding record_capability_issue_def by (cases "assert_identity L (ct_owner t)") (simp_all only: sum.case a r)
  show "append_step rt L (snd (record_provider_access rt m t mem md now L))"
    unfolding record_provider_access_def
    by (cases "assert_identity L (ct_owner t)"; cases "token_is_active (mo_clock m) t now")
       (simp_all only: sum.case a r if_True if_False not_True_eq_False not_False_eq_True)
qed

lemma append_event_frame:
  "sl_root (snd (append_event rt m ty actor cap mem md ts L)) = sl_root L"
  "sl_identity (snd (append_event rt m ty actor cap mem md ts L)) = sl_identity L"
  by (cases rule: append_event_cases [of rt m ty actor cap mem md ts L]; simp)+

lemma append_step_invariant:
  assumes "append_step rt L L'"
    and "root_sound (sl_root L) \<Longrightarrow> verify_integrity rt L = Inr True"
  shows "root_sound (sl_root L') \<Longrightarrow> verify_integrity rt L' = Inr True"
  using assms append_event_integrity append_event_frame by (auto simp: append_step_def)

lemma history_integrity: "scar_history rt L \<Longrightarrow> root_sound (sl_root L) \<Longrightarrow> verify_integrity rt L = Inr True"
proof (induction rule: scar_history.induct)
  case (init i r L)
  then show ?case by (auto simp: scar_init_def verify_integrity_def split: if_splits)
next
  case (event L m ty actor cap mem md ts)
  then show ?case by (simp add: append_event_integrity append_event_frame)
qed (rule append_step_invariant [OF record_steps(1)] append_step_invariant [OF record_steps(2)]
    append_step_invariant [OF record_steps(3)]; assumption)+

section \<open>Attestations\<close>

lemma attestation_document_update [simp]:
  "attestation_document (a\<lparr>sa_signature := s\<rparr>) = attestation_document a"
  by (simp add: attestation_document_def)

lemma get_merkle_root_leaves:
  "get_merkle_root rt L = Inr tree \<Longrightarrow> length (mt_leaves tree) = length (sl_events L)"
  using build_merkle_Inr(3) [of rt "canonical_events L" tree]
  by (simp add: get_merkle_root_def canonical_events_def split: if_splits)

lemma attest_Inr:
  assumes "attest_merkle_root rt m created L = Inr a"
  obtains tree b where "get_merkle_root rt L = Inr tree" "sa_root_hash a = mt_root tree"
    "sa_algorithm a = mt_algorithm tree" "sa_count a = int (length (mt_leaves tree))"
    "sa_identity a = sl_identity L" "sa_device a = sl_device L"
    "canonical_bytes rt (VDict (attestation_document a)) = Inr b"
    "root_sign_text rt (mo_clock m) (sl_root L) b = Inr (sa_signature a)"
proof -
  from assms obtain tree where t: "get_merkle_root rt L = Inr tree"
    by (cases "get_merkle_root rt L") (simp_all add: attest_merkle_root_def)
  define a0 where "a0 alg = \<lparr>sa_root_hash = mt_root tree, sa_algorithm = mt_algorithm tree,
         sa_count = int (length (mt_leaves tree)), sa_created = ostr_or created (utc_timestamp m),
         sa_identity = sl_identity L, sa_device = sl_device L, sa_signature = [], sa_version = 1,
         sa_sig_algorithm = alg\<rparr>" for alg
  have "attest_merkle_root rt m created L =
      bindE (canonical_bytes rt (VDict (attestation_document (a0 ''ML-DSA-87'')))) (\<lambda>b.
        bindE (root_sign rt (mo_clock m) (sl_root L) b) (\<lambda>signed.
           bindE (canonical_bytes rt (VDict (attestation_document (a0 (so_algorithm signed))))) (\<lambda>b'.
           bindE (root_sign rt (mo_clock m) (sl_root L) b') (\<lambda>signed'.
             Inr ((a0 (so_algorithm signed))\<lparr>sa_signature := so_signature signed'\<rparr>)))))"
    by (simp add: attest_merkle_root_def t a0_def Let_def)
  with assms obtain alg b' signed' where
    b: "canonical_bytes rt (VDict (attestation_document (a0 alg))) = Inr b'"
    and s: "root_sign rt (mo_clock m) (sl_root L) b' = Inr signed'"
    and a: "a = (a0 alg)\<lparr>sa_signature := so_signature signed'\<rparr>"
    by (auto simp: bindE_Inr_conv)
  have doc: "attestation_document a = attestation_document (a0 alg)" by (simp add: a)
  show thesis
  proof (rule that [OF t])
    show "canonical_bytes rt (VDict (attestation_document a)) = Inr b'" by (simp only: doc b)
    show "root_sign_text rt (mo_clock m) (sl_root L) b' = Inr (sa_signature a)"
      by (simp add: root_sign_text_def s a)
  qed (simp_all add: a a0_def)
qed

lemma attest_total:
  assumes "sl_events L \<noteq> []" "list_all (\<lambda>d. canonicalizable (VDict d)) (canonical_events L)"
    and "\<And>b. \<exists>so. root_sign rt (mo_clock m) (sl_root L) b = Inr so"
  shows "\<exists>a. attest_merkle_root rt m created L = Inr a"
proof -
  from assms(1,2) obtain tree where t: "get_merkle_root rt L = Inr tree"
    using build_merkle_total [of "canonical_events L" rt]
    by (auto simp: get_merkle_root_def canonical_events_def simp del: canonicalizable.simps)
  have c: "\<exists>b. canonical_bytes rt (VDict (attestation_document a)) = Inr b" for a
    by (rule canonical_bytes_total) (simp add: attestation_document_def)
  show ?thesis
  proof (cases "attest_merkle_root rt m created L")
    case (Inl ex)
    then have False
      using c assms(3) by (auto simp: attest_merkle_root_def t Let_def bindE_Inl_conv) (metis sum.distinct(1))+
    then show ?thesis ..
  next
    case (Inr a)
    then show ?thesis by blast
  qed
qed

section \<open>Properties\<close>

text \<open>
  C12.  Every SCAR ledger that was built by the recording operations (plain events, memory changes,
  capability issues, provider accesses, with refused calls in between) passes
  \<open>verify_integrity\<close>, and none of its provider events lacks a capability, when the device root
  verifies its own signatures.
\<close>

theorem scar_history_verifies:
  assumes "scar_history rt L" "root_sound (sl_root L)"
  shows "verify_integrity rt L = Inr True \<and>
    (\<forall>i < length (sl_events L). se_actor (sl_events L ! i) = PROVIDER_ACTOR \<longrightarrow>
      se_capability (sl_events L ! i) \<noteq> None)"
proof
  show v: "verify_integrity rt L = Inr True" using history_integrity [OF assms] .
  then show "\<forall>i < length (sl_events L). se_actor (sl_events L ! i) = PROVIDER_ACTOR \<longrightarrow>
      se_capability (sl_events L ! i) \<noteq> None"
    using scar.verify_entry [of rt "sl_identity L" "sl_root L" "sl_events L"] verify_integrity_events [of rt L]
    by (auto simp: event_ok_def)
qed

definition demo_scar0 :: scar_ledger where
  "demo_scar0 = \<lparr>sl_identity = ''ada'', sl_root = demo_root, sl_events = []\<rparr>"

definition demo_moment :: moment where
  "demo_moment = \<lparr>mo_clock = 7, mo_iso = ''t'', mo_uuid = ''e1''\<rparr>"

definition demo_scar :: scar_ledger where
  "demo_scar = snd (append_event plain_runtime demo_moment ''BOOT'' (actor_value HUMAN_ACTOR) None None None None demo_scar0)"

lemma demo_root_sound: "root_sound demo_root"
  unfolding demo_root_def by (rule root_sound_software) simp_all

lemma demo_root_signs: "\<exists>so. root_sign rt now demo_root b = Inr so"
  by (simp add: root_sign_def demo_root_def root_init_def software_trust_backend_def software_sign_def
      software_init_def Let_def)

lemma boot_event:
  assumes "sl_root L = demo_root"
  obtains e where "append_event plain_runtime demo_moment ''BOOT'' (actor_value HUMAN_ACTOR) None None None None L
      = (Inr e, L\<lparr>sl_events := sl_events L @ [e]\<rparr>)" "se_metadata e = []"
proof -
  have c: "canonicalizable (VDict [])" by simp
  have r: "\<exists>so. root_sign plain_runtime (mo_clock demo_moment) (sl_root L) b = Inr so" for b
    by (simp add: assms demo_root_signs)
  obtain e where e: "append_event plain_runtime demo_moment ''BOOT'' (actor_value HUMAN_ACTOR) None None None None L
      = (Inr e, L\<lparr>sl_events := sl_events L @ [e]\<rparr>)"
    using append_event_total [OF r, of "''BOOT''" HUMAN_ACTOR None None] c by auto
  then have "se_metadata e = []"
    by (cases rule: append_event_cases [of plain_runtime demo_moment "''BOOT''" "actor_value HUMAN_ACTOR" None None None None L])
       (simp_all add: freeze_dict_def)
  with e that show thesis by blast
qed

lemma demo_scar_event:
  obtains e where "demo_scar = demo_scar0\<lparr>sl_events := [e]\<rparr>" "se_metadata e = []"
proof -
  obtain e where e: "append_event plain_runtime demo_moment ''BOOT'' (actor_value HUMAN_ACTOR) None None None None demo_scar0
      = (Inr e, demo_scar0\<lparr>sl_events := sl_events demo_scar0 @ [e]\<rparr>)" "se_metadata e = []"
    by (rule boot_event [of demo_scar0]) (simp add: demo_scar0_def)
  show thesis
    by (rule that [OF _ e(2)], unfold demo_scar_def e(1)) (simp add: demo_scar0_def)
qed

theorem scar_history_verifies_witness:
  "verify_integrity plain_runtime demo_scar = Inr True"
proof -
  have "scar_init ''ada'' demo_root = Inr demo_scar0" by (simp add: scar_init_def demo_scar0_def)
  then have "scar_history plain_runtime demo_scar0" by (rule scar_history.init)
  then have h: "scar_history plain_runtime demo_scar"
    unfolding demo_scar_def by (rule scar_history.event)
  have "root_sound (sl_root demo_scar)"
    unfolding demo_scar_def append_event_frame by (simp add: demo_scar0_def demo_root_sound)
  from scar_history_verifies [OF h this] show ?thesis by blast
qed



text \<open>
  A Merkle attestation is valid for exactly the log it was made for: the ledger that made it
  verifies it, and after any further event is appended the old attestation is not accepted.
\<close>

theorem attestation_current_only:
  assumes "root_sound (sl_root L)" "attest_merkle_root rt m created L = Inr a"
    and "append_event rt m' ty actor cap mem md ts L = (Inr e, L')"
  shows "verify_attestation rt a L = Inr True \<and> verify_attestation rt a L' \<noteq> Inr True"
proof -
  obtain tree b where t: "get_merkle_root rt L = Inr tree" "sa_root_hash a = mt_root tree"
    "sa_algorithm a = mt_algorithm tree" "sa_count a = int (length (mt_leaves tree))"
    "sa_identity a = sl_identity L" "sa_device a = sl_device L"
    "canonical_bytes rt (VDict (attestation_document a)) = Inr b"
    "root_sign_text rt (mo_clock m) (sl_root L) b = Inr (sa_signature a)"
    by (rule attest_Inr [OF assms(2)])
  from root.sign_verify [OF assms(1) t(8)] t
  have "verify_attestation rt a L = Inr True" by (simp add: verify_attestation_def del: canonicalize.simps)
  moreover have "length (sl_events L') = Suc (length (sl_events L))"
    using assms(3) by (cases rule: append_event_cases [of rt m' ty actor cap mem md ts L]) auto
  then have "verify_attestation rt a L' \<noteq> Inr True"
    using get_merkle_root_leaves [OF t(1)] get_merkle_root_leaves [of rt L'] t(4)
    by (auto simp: verify_attestation_def res_simps split: if_splits sum.splits simp del: canonicalize.simps)
  ultimately show ?thesis ..
qed

theorem attestation_current_only_witness:
  "\<exists>a e L'. attest_merkle_root plain_runtime demo_moment None demo_scar = Inr a \<and>
     append_event plain_runtime demo_moment ''BOOT'' (actor_value HUMAN_ACTOR) None None None None demo_scar = (Inr e, L') \<and>
     verify_attestation plain_runtime a demo_scar = Inr True \<and> verify_attestation plain_runtime a L' \<noteq> Inr True"
proof -
  obtain e1 where e1: "demo_scar = demo_scar0\<lparr>sl_events := [e1]\<rparr>" "se_metadata e1 = []"
    by (rule demo_scar_event)
  have r: "sl_root demo_scar = demo_root" unfolding e1(1) by (simp add: demo_scar0_def)
  obtain e L' where e: "append_event plain_runtime demo_moment ''BOOT'' (actor_value HUMAN_ACTOR) None None None None demo_scar = (Inr e, L')"
    using boot_event [OF r] by blast
  have "\<exists>a. attest_merkle_root plain_runtime demo_moment None demo_scar = Inr a"
  proof (rule attest_total)
    show "sl_events demo_scar \<noteq> []" unfolding e1(1) by simp
    show "list_all (\<lambda>d. canonicalizable (VDict d)) (canonical_events demo_scar)"
      unfolding e1(1)
      by (simp add: canonical_events_def event_to_dict_def event_signing_document_def scar_document_def
          e1(2) thaw_dict_def)
  qed (simp add: r demo_root_signs)
  then obtain a where a: "attest_merkle_root plain_runtime demo_moment None demo_scar = Inr a" by blast
  have "root_sound (sl_root demo_scar)" by (simp add: r demo_root_sound)
  from attestation_current_only [OF this a e] a e show ?thesis by blast
qed

end
