(* ===== verification/Identity.thy ===== *)
theory Identity
  imports HashChain
begin

text \<open>
  \<open>src/sovereignty_core/identity/identity.py\<close>: the provider-independent human identity with its
  device bindings.  The lemmas show that constructed identities satisfy the documented invariants
  and how binding and deactivation change which devices are trusted.
\<close>

datatype identity_owner = HUMAN | OtherOwner string

datatype authority_source = ROOT_OF_TRUST | OtherSource string

fun owner_value :: "identity_owner \<Rightarrow> string" where
  "owner_value HUMAN = ''HUMAN''"
| "owner_value (OtherOwner s) = s"

fun source_value :: "authority_source \<Rightarrow> string" where
  "source_value ROOT_OF_TRUST = ''ROOT_OF_TRUST''"
| "source_value (OtherSource s) = s"

record device_binding =
  db_device :: string
  db_root :: string
  db_bound_at :: int
  db_active :: bool
  db_metadata :: pydict

record recovery_policy =
  rp_type :: string
  rp_threshold :: int
  rp_contacts :: "string list"
  rp_metadata :: pydict

definition make_recovery_policy :: "string \<Rightarrow> int \<Rightarrow> string list \<Rightarrow> pydict \<Rightarrow> recovery_policy res" where
  "make_recovery_policy policy_type threshold contacts md =
     (if threshold < 1 then Inl (ValueError ''Recovery threshold must be at least 1'')
      else Inr \<lparr>rp_type = policy_type, rp_threshold = threshold, rp_contacts = contacts, rp_metadata = md\<rparr>)"

definition default_recovery :: recovery_policy where
  "default_recovery = \<lparr>rp_type = ''manual'', rp_threshold = 1, rp_contacts = [], rp_metadata = []\<rparr>"

record human_identity =
  hi_id :: string
  hi_name :: string
  hi_key :: string
  hi_created :: int
  hi_recovery :: recovery_policy
  hi_devices :: "device_binding list"
  hi_version :: int
  hi_metadata :: pydict
  hi_provider :: "string option"
  hi_source :: authority_source
  hi_owner :: identity_owner

definition identity_assert_invariants :: "human_identity \<Rightarrow> unit res" where
  "identity_assert_invariants I =
     (if hi_owner I \<noteq> HUMAN then Inl (ValueError ''Identity owner must be HUMAN'')
      else if hi_provider I \<noteq> None then Inl (ValueError ''Identity must remain provider-independent'')
      else if hi_source I \<noteq> ROOT_OF_TRUST
      then Inl (ValueError ''Identity authority source must be ROOT_OF_TRUST'')
      else Inr ())"

lemma identity_assert_Inr [res_simps]:
  "identity_assert_invariants I = Inr u \<longleftrightarrow>
     hi_owner I = HUMAN \<and> hi_provider I = None \<and> hi_source I = ROOT_OF_TRUST"
  by (simp add: identity_assert_invariants_def)

text \<open>The dataclass constructor with its post-init check.\<close>

definition make_identity :: "human_identity \<Rightarrow> human_identity res" where
  "make_identity I = bindE (identity_assert_invariants I) (\<lambda>_. Inr I)"

definition identity_create :: "int \<Rightarrow> string \<Rightarrow> string \<Rightarrow> string \<Rightarrow> recovery_policy option \<Rightarrow>
    pydict option \<Rightarrow> human_identity res" where
  "identity_create now identity_id display_name public_identity_key recovery md =
     make_identity
       \<lparr>hi_id = identity_id, hi_name = display_name, hi_key = public_identity_key, hi_created = now,
        hi_recovery = (case recovery of None \<Rightarrow> default_recovery | Some p \<Rightarrow> p), hi_devices = [],
        hi_version = 1, hi_metadata = (case md of None \<Rightarrow> [] | Some m \<Rightarrow> m), hi_provider = None,
        hi_source = ROOT_OF_TRUST, hi_owner = HUMAN\<rparr>"

definition bind_device :: "device_binding \<Rightarrow> human_identity \<Rightarrow> human_identity" where
  "bind_device b I =
     I\<lparr>hi_devices := filter (\<lambda>e. db_device e \<noteq> db_device b) (hi_devices I) @ [b]\<rparr>"

fun deactivate_loop :: "string \<Rightarrow> device_binding list \<Rightarrow> bool \<times> device_binding list" where
  "deactivate_loop d [] = (False, [])"
| "deactivate_loop d (b # bs) =
     (let (updated, rest) = deactivate_loop d bs in
      if db_device b = d \<and> db_active b
      then (True,
            \<lparr>db_device = db_device b, db_root = db_root b, db_bound_at = db_bound_at b,
             db_active = False, db_metadata = db_metadata b\<rparr> # rest)
      else (updated, b # rest))"

definition deactivate_device :: "string \<Rightarrow> human_identity \<Rightarrow> bool \<times> human_identity" where
  "deactivate_device d I =
     (let (updated, bindings) = deactivate_loop d (hi_devices I) in (updated, I\<lparr>hi_devices := bindings\<rparr>))"

definition is_device_trusted :: "string \<Rightarrow> human_identity \<Rightarrow> bool" where
  "is_device_trusted d I = list_ex (\<lambda>b. db_device b = d \<and> db_active b) (hi_devices I)"

definition binding_dict :: "device_binding \<Rightarrow> pyval" where
  "binding_dict b = VDict
     [(''device_id'', VStr (db_device b)), (''root_identity_id'', VStr (db_root b)),
      (''bound_at'', VInt (db_bound_at b)), (''active'', VBool (db_active b)),
      (''metadata'', VDict (db_metadata b))]"

definition identity_to_dict :: "human_identity \<Rightarrow> pydict" where
  "identity_to_dict I =
     [(''identity_id'', VStr (hi_id I)), (''display_name'', VStr (hi_name I)),
      (''public_identity_key'', VStr (hi_key I)), (''created_at'', VInt (hi_created I)),
      (''recovery_policy'', VDict
        [(''policy_type'', VStr (rp_type (hi_recovery I))),
         (''threshold'', VInt (rp_threshold (hi_recovery I))),
         (''trusted_contacts'', str_list (rp_contacts (hi_recovery I))),
         (''metadata'', VDict (rp_metadata (hi_recovery I)))]),
      (''device_bindings'', VList (map binding_dict (hi_devices I))),
      (''version'', VInt (hi_version I)), (''metadata'', VDict (hi_metadata I)),
      (''provider'', opt_str (hi_provider I)),
      (''authority_source'', VStr (source_value (hi_source I))),
      (''owner'', VStr (owner_value (hi_owner I)))]"

section \<open>Device trust\<close>

lemma deactivate_loop_trust:
  "fst (deactivate_loop d bs) = list_ex (\<lambda>b. db_device b = d \<and> db_active b) bs"
  "list_ex (\<lambda>b. db_device b = d' \<and> db_active b) (snd (deactivate_loop d bs)) =
     (d' \<noteq> d \<and> list_ex (\<lambda>b. db_device b = d' \<and> db_active b) bs)"
  by (induction bs) (auto simp: split_beta Let_def)

lemma deactivate_loop_ids: "map db_device (snd (deactivate_loop d bs)) = map db_device bs"
  by (induction bs) (auto simp: split_beta Let_def)

lemma bind_device_trust:
  "is_device_trusted d (bind_device b I) = (if d = db_device b then db_active b else is_device_trusted d I)"
  by (auto simp: is_device_trusted_def bind_device_def list_ex_iff)

text \<open>Lives of an identity after its creation.\<close>

inductive identity_history :: "human_identity \<Rightarrow> bool" where
  create: "identity_create now i n k r m = Inr I \<Longrightarrow> identity_history I"
| bind: "identity_history I \<Longrightarrow> identity_history (bind_device b I)"
| deactivate: "identity_history I \<Longrightarrow> identity_history (snd (deactivate_device d I))"

lemma deactivate_device_snd:
  "snd (deactivate_device d I) = I\<lparr>hi_devices := snd (deactivate_loop d (hi_devices I))\<rparr>"
  "fst (deactivate_device d I) = fst (deactivate_loop d (hi_devices I))"
  by (simp_all add: deactivate_device_def split_beta)

lemma identity_history_invariant:
  "identity_history I \<Longrightarrow>
     identity_assert_invariants I = Inr () \<and> distinct (map db_device (hi_devices I))"
proof (induction rule: identity_history.induct)
  case (create now i n k r m I)
  then show ?case
    by (auto simp: identity_create_def make_identity_def res_simps)
next
  case (bind I b)
  then show ?case
    by (auto simp: bind_device_def identity_assert_Inr distinct_map_filter)
next
  case (deactivate I d)
  then show ?case
    by (simp add: deactivate_device_snd identity_assert_Inr deactivate_loop_ids)
qed

section \<open>Properties\<close>

text \<open>
  Device trust is exactly what the last binding operation on a device says: binding a device
  makes it trusted iff the binding is active and leaves the others alone; deactivating reports
  whether the device was trusted, makes it untrusted and leaves the others alone.
\<close>

theorem device_trust_updates:
  "is_device_trusted d (bind_device b I) = (if d = db_device b then db_active b else is_device_trusted d I) \<and>
   fst (deactivate_device d' I) = is_device_trusted d' I \<and>
   is_device_trusted d (snd (deactivate_device d' I)) = (d \<noteq> d' \<and> is_device_trusted d I)"
  using bind_device_trust deactivate_loop_trust
  by (simp add: is_device_trusted_def deactivate_device_snd)

text \<open>
  Every identity that was created and then changed by any sequence of bindings and
  deactivations is human-owned, provider-independent and rooted in the root of trust, and has at
  most one binding per device.
\<close>

theorem identity_invariants_hold:
  assumes "identity_history I"
  shows "hi_owner I = HUMAN \<and> hi_provider I = None \<and> hi_source I = ROOT_OF_TRUST \<and>
    distinct (map db_device (hi_devices I))"
  using identity_history_invariant [OF assms] by (simp add: identity_assert_Inr)

definition demo_binding :: device_binding where
  "demo_binding = \<lparr>db_device = ''d1'', db_root = ''r'', db_bound_at = 3, db_active = True, db_metadata = []\<rparr>"

theorem identity_invariants_hold_witness:
  "\<exists>I. identity_create 1 ''id'' ''Ada'' ''key'' None None = Inr I \<and>
     hi_owner (bind_device demo_binding I) = HUMAN \<and>
     distinct (map db_device (hi_devices (bind_device demo_binding I)))"
proof -
  obtain I where I: "identity_create 1 ''id'' ''Ada'' ''key'' None None = Inr I"
    by (simp add: identity_create_def make_identity_def identity_assert_invariants_def)
  from identity_history.bind [OF identity_history.create [OF I], of demo_binding]
  have "identity_history (bind_device demo_binding I)" .
  from identity_invariants_hold [OF this] I show ?thesis by blast
qed

end
