(* ===== verification/Delegation.thy ===== *)
theory Delegation
  imports AuditRecorder
begin

text \<open>
  \<open>src/sia/delegation/models.py\<close> and \<open>src/sia/delegation/authorizer.py\<close>: delegation tokens and
  the authorizer that registers, revokes and checks them.  Tokens are mutable objects that the
  authorizer shares with the capability manager, so they live in a heap: a list of tokens, with
  addresses as indices.  A time is the number of microseconds of the UTC clock.
\<close>

section \<open>Tokens\<close>

record delegation_token =
  dt_id :: string
  dt_grantor :: string
  dt_grantee :: string
  dt_scope :: "string list"
  dt_issued :: string
  dt_expires :: "string option"
  dt_depth :: int
  dt_revoked :: bool
  dt_parent :: "string option"
  dt_version :: string

definition MAX_DEPTH :: int where "MAX_DEPTH = 4"

text \<open>\<open>datetime.fromisoformat(s) < now\<close>: a naive datetime cannot be compared with an aware one.\<close>

definition iso_before :: "runtime \<Rightarrow> string \<Rightarrow> int \<Rightarrow> bool res" where
  "iso_before rt s now =
     (case rt_fromiso rt s of
        None \<Rightarrow> Inl (ValueError (''Invalid isoformat string: '' @ s))
      | Some (Naive w) \<Rightarrow> Inl (TypeError ''can't compare offset-naive and offset-aware datetimes'')
      | Some (Aware w off) \<Rightarrow> Inr (w - off < now))"

definition dt_is_expired :: "runtime \<Rightarrow> int \<Rightarrow> delegation_token \<Rightarrow> bool res" where
  "dt_is_expired rt now t =
     (case dt_expires t of None \<Rightarrow> Inr False | Some s \<Rightarrow> iso_before rt s now)"

definition dt_is_valid :: "runtime \<Rightarrow> int \<Rightarrow> delegation_token \<Rightarrow> bool res" where
  "dt_is_valid rt now t =
     (if dt_revoked t then Inr False
      else bindE (dt_is_expired rt now t) (\<lambda>expired. Inr (\<not> expired)))"

definition delegation_to_dict :: "delegation_token \<Rightarrow> pydict" where
  "delegation_to_dict t =
     [(''schema_version'', VStr (dt_version t)), (''token_id'', VStr (dt_id t)),
      (''grantor_id'', VStr (dt_grantor t)), (''grantee_id'', VStr (dt_grantee t)),
      (''scope'', str_list (dt_scope t)), (''issued_at'', VStr (dt_issued t)),
      (''expires_at'', opt_str (dt_expires t)), (''depth'', VInt (dt_depth t)),
      (''revoked'', VBool (dt_revoked t)), (''parent_id'', opt_str (dt_parent t))]"

section \<open>The authorizer\<close>

type_synonym token_heap = "delegation_token list"

type_synonym token_table = "(string \<times> nat) list"

definition required_token_fields :: "string list" where
  "required_token_fields = [''token_id'', ''grantor_id'', ''grantee_id'', ''scope'', ''issued_at'', ''schema_version'']"

definition validate_structure :: "delegation_token \<Rightarrow> unit res" where
  "validate_structure t =
     (let d = delegation_to_dict t in
      if \<not> set required_token_fields \<subseteq> set (map fst d) then Inl (SIAErr DelegationInvalidError)
      else if map_of d ''token_id'' = Some (VStr []) then Inl (SIAErr DelegationInvalidError)
      else case map_of d ''scope'' of
             Some (VList _) \<Rightarrow> Inr ()
           | _ \<Rightarrow> Inl (SIAErr DelegationInvalidError))"

definition validate_scope_subset :: "string list \<Rightarrow> string list \<Rightarrow> unit res" where
  "validate_scope_subset child_scope parent_scope =
     (if ''*'' \<in> set parent_scope then Inr ()
      else guardE (set child_scope - set parent_scope - {''*''} = {}) (SIAErr DelegationScopeError))"

definition authorizer_get :: "token_table \<Rightarrow> string \<Rightarrow> nat res" where
  "authorizer_get tokens token_id =
     (case map_of tokens token_id of
        Some a \<Rightarrow> Inr a
      | None \<Rightarrow> Inl (SIAErr DelegationInvalidError))"

definition authorizer_issue :: "token_heap \<Rightarrow> nat \<Rightarrow> string list option \<Rightarrow> token_table \<Rightarrow> nat res \<times> token_table" where
  "authorizer_issue heap a parent_scope tokens =
     (let t = heap ! a;
          r = bindE (validate_structure t) (\<lambda>_.
              bindE (case parent_scope of None \<Rightarrow> Inr () | Some ps \<Rightarrow> validate_scope_subset (dt_scope t) ps) (\<lambda>_.
              guardE (\<not> dt_depth t > MAX_DEPTH) (SIAErr (SIAError E_DELEGATION_CHAIN_TOO_DEEP))))
      in case r of
           Inl ex \<Rightarrow> (Inl ex, tokens)
         | Inr u \<Rightarrow> (Inr a, AList.update (dt_id t) a tokens))"

definition authorizer_revoke :: "token_table \<Rightarrow> string \<Rightarrow> token_heap \<Rightarrow> unit res \<times> token_heap" where
  "authorizer_revoke tokens token_id heap =
     (case authorizer_get tokens token_id of
        Inl ex \<Rightarrow> (Inl ex, heap)
      | Inr a \<Rightarrow> (Inr (), heap[a := (heap ! a)\<lparr>dt_revoked := True\<rparr>]))"

definition authorizer_authorize :: "runtime \<Rightarrow> int \<Rightarrow> token_heap \<Rightarrow> token_table \<Rightarrow> string \<Rightarrow> string \<Rightarrow> unit res" where
  "authorizer_authorize rt now heap tokens token_id action =
     bindE (authorizer_get tokens token_id) (\<lambda>a.
       (let t = heap ! a in
        if dt_revoked t then Inl (SIAErr DelegationRevokedError)
        else bindE (dt_is_expired rt now t) (\<lambda>expired.
          if expired then Inl (SIAErr DelegationExpiredError)
          else if action \<notin> set (dt_scope t) \<and> ''*'' \<notin> set (dt_scope t)
          then Inl (SIAErr DelegationScopeError)
          else Inr ())))"

definition list_tokens :: "token_heap \<Rightarrow> token_table \<Rightarrow> string option \<Rightarrow> nat list" where
  "list_tokens heap tokens grantee_id =
     (case grantee_id of
        None \<Rightarrow> map snd tokens
      | Some g \<Rightarrow> filter (\<lambda>a. dt_grantee (heap ! a) = g) (map snd tokens))"

section \<open>Lemmas\<close>

lemma validate_structure_Inr: "validate_structure t = Inr () \<longleftrightarrow> dt_id t \<noteq> []"
  by (simp add: validate_structure_def delegation_to_dict_def required_token_fields_def str_list_def)

lemma dt_is_valid_Inr: "dt_is_valid rt now t = Inr True \<longleftrightarrow> \<not> dt_revoked t \<and> dt_is_expired rt now t = Inr False"
  by (auto simp: dt_is_valid_def res_simps)

lemma authorizer_authorize_Inr:
  "authorizer_authorize rt now heap tokens tid action = Inr () \<longleftrightarrow>
   (\<exists>a. map_of tokens tid = Some a \<and> \<not> dt_revoked (heap ! a) \<and> dt_is_expired rt now (heap ! a) = Inr False \<and>
     (action \<in> set (dt_scope (heap ! a)) \<or> ''*'' \<in> set (dt_scope (heap ! a))))"
  by (auto simp: authorizer_authorize_def authorizer_get_def res_simps Let_def split: option.splits if_splits)

lemma authorizer_issue_Inr:
  assumes "authorizer_issue heap a ps tokens = (Inr b, tokens')"
  shows "b = a \<and> tokens' = AList.update (dt_id (heap ! a)) a tokens \<and> dt_id (heap ! a) \<noteq> [] \<and>
    dt_depth (heap ! a) \<le> MAX_DEPTH \<and> (\<forall>p \<in> set_option ps. validate_scope_subset (dt_scope (heap ! a)) p = Inr ())"
  using assms
  by (auto simp: authorizer_issue_def Let_def validate_structure_Inr res_simps
      split: sum.splits option.splits)

lemma authorizer_issue_Inl:
  "authorizer_issue heap a ps tokens = (Inl ex, tokens') \<Longrightarrow> tokens' = tokens"
  by (auto simp: authorizer_issue_def Let_def split: sum.splits)

lemma validate_scope_subset_Inr:
  "validate_scope_subset child parent = Inr () \<longleftrightarrow>
   ''*'' \<in> set parent \<or> set child \<subseteq> insert ''*'' (set parent)"
  by (auto simp: validate_scope_subset_def)

end
