(* ===== verification/CapabilityManager.thy ===== *)
theory CapabilityManager
  imports Delegation
begin

text \<open>
  \<open>src/sia/capability_manager.py\<close>: issuing, revoking and evaluating capabilities on top of the
  delegation authorizer, with every decision written to the audit ledger.  A grant and the
  authorizer's table refer to the same token object; the invariant says so, and the revocation
  theorem rests on it.
\<close>

section \<open>State\<close>

record capability_grant =
  cg_token :: nat
  cg_resource :: "string option"
  cg_constraints :: pydict

record capability_decision =
  cd_allowed :: bool
  cd_capability :: string
  cd_subject :: string
  cd_action :: string
  cd_resource :: "string option"
  cd_reason_code :: string
  cd_reason :: string
  cd_sequence :: "int option"

record cap_manager =
  cm_owner :: string
  cm_heap :: token_heap
  cm_tokens :: token_table
  cm_grants :: "(string \<times> capability_grant) list"
  cm_ledger :: "ledger option"

definition grant_to_dict :: "token_heap \<Rightarrow> capability_grant \<Rightarrow> pydict" where
  "grant_to_dict heap g =
     delegation_to_dict (heap ! cg_token g) @
     [(''resource_id'', opt_str (cg_resource g)), (''constraints'', VDict (cg_constraints g))]"

definition cm_init :: "string \<Rightarrow> ledger option \<Rightarrow> cap_manager res" where
  "cm_init owner_identity recorder =
     (if owner_identity = [] then Inl (ValueError ''owner_identity must not be empty'')
      else Inr \<lparr>cm_owner = owner_identity, cm_heap = [], cm_tokens = [], cm_grants = [], cm_ledger = recorder\<rparr>)"

section \<open>Operations\<close>

definition cm_get :: "cap_manager \<Rightarrow> string \<Rightarrow> capability_grant res" where
  "cm_get S capability_id =
     (case map_of (cm_grants S) capability_id of
        Some g \<Rightarrow> Inr g
      | None \<Rightarrow> Inl (SIAErr DelegationInvalidError))"

definition cm_record :: "runtime \<Rightarrow> string \<Rightarrow> string \<Rightarrow> pydict \<Rightarrow> cap_manager \<Rightarrow> int option res \<times> cap_manager" where
  "cm_record rt stamp event_type payload S =
     (case cm_ledger S of
        None \<Rightarrow> (Inr None, S)
      | Some L \<Rightarrow>
          (case append rt stamp event_type payload (cm_owner S) (Some stamp) L of
             (Inl ex, L') \<Rightarrow> (Inl ex, S\<lparr>cm_ledger := Some L'\<rparr>)
           | (Inr e, L') \<Rightarrow> (Inr (Some (le_id e)), S\<lparr>cm_ledger := Some L'\<rparr>)))"

text \<open>The checks of \<open>issue\<close> before the token is made: grantor, depth and parent scope.\<close>

definition issue_parent :: "runtime \<Rightarrow> int \<Rightarrow> string \<Rightarrow> string option \<Rightarrow> cap_manager \<Rightarrow>
    (string \<times> int \<times> string list option) res" where
  "issue_parent rt now subject_id parent_capability_id S =
     (case parent_capability_id of
        None \<Rightarrow> Inr (cm_owner S, 0, None)
      | Some pid \<Rightarrow>
          bindE (cm_get S pid) (\<lambda>parent.
            (let t = cm_heap S ! cg_token parent; grantor_id = dt_grantee t in
             bindE (if grantor_id \<noteq> cm_owner S then bindE (dt_is_valid rt now t) (\<lambda>v. Inr (\<not> v))
                    else Inr False) (\<lambda>inactive.
               if inactive then Inl (SIAErr DelegationInvalidError)
               else if dt_grantee t \<noteq> subject_id \<and> subject_id = cm_owner S
               then Inl (SIAErr DelegationScopeError)
               else Inr (grantor_id, dt_depth t + 1, Some (dt_scope t))))))"

definition cm_issue :: "runtime \<Rightarrow> int \<Rightarrow> string \<Rightarrow> string \<Rightarrow> string \<Rightarrow> string \<Rightarrow> string list \<Rightarrow>
    string option \<Rightarrow> string option \<Rightarrow> string option \<Rightarrow> pydict option \<Rightarrow> cap_manager \<Rightarrow>
    capability_grant res \<times> cap_manager" where
  "cm_issue rt now issued_iso stamp capability_id subject_id scope resource_id expires_at parent_capability_id constraints S =
     (if capability_id = [] \<or> subject_id = [] then (Inl (SIAErr DelegationInvalidError), S)
      else if scope = [] then (Inl (SIAErr DelegationInvalidError), S)
      else if map_of (cm_grants S) capability_id \<noteq> None then (Inl (SIAErr DelegationInvalidError), S)
      else case issue_parent rt now subject_id parent_capability_id S of
             Inl ex \<Rightarrow> (Inl ex, S)
           | Inr (grantor_id, depth, parent_scope) \<Rightarrow>
               (let token = \<lparr>dt_id = capability_id, dt_grantor = grantor_id, dt_grantee = subject_id,
                      dt_scope = fromkeys scope, dt_issued = issued_iso, dt_expires = expires_at,
                      dt_depth = depth, dt_revoked = False, dt_parent = parent_capability_id,
                      dt_version = ''1.0''\<rparr>;
                    S1 = S\<lparr>cm_heap := cm_heap S @ [token]\<rparr>
                in case authorizer_issue (cm_heap S1) (length (cm_heap S)) parent_scope (cm_tokens S1) of
                     (Inl ex, tokens) \<Rightarrow> (Inl ex, S1\<lparr>cm_tokens := tokens\<rparr>)
                   | (Inr a, tokens) \<Rightarrow>
                       (let grant = \<lparr>cg_token = a, cg_resource = resource_id,
                              cg_constraints = (case constraints of None \<Rightarrow> [] | Some c \<Rightarrow> c)\<rparr>;
                            S2 = S1\<lparr>cm_tokens := tokens,
                                    cm_grants := AList.update capability_id grant (cm_grants S1)\<rparr>
                        in case cm_record rt stamp ''capability.issued''
                                [(''capability_id'', VStr capability_id), (''subject_id'', VStr subject_id),
                                 (''resource_id'', opt_str resource_id),
                                 (''scope'', str_list (sort (dt_scope (cm_heap S2 ! a)))),
                                 (''parent_capability_id'', opt_str parent_capability_id),
                                 (''expires_at'', opt_str expires_at)] S2 of
                             (Inl ex, S3) \<Rightarrow> (Inl ex, S3)
                           | (Inr q, S3) \<Rightarrow> (Inr grant, S3))))"

definition cm_revoke :: "runtime \<Rightarrow> string \<Rightarrow> string \<Rightarrow> cap_manager \<Rightarrow> unit res \<times> cap_manager" where
  "cm_revoke rt stamp capability_id S =
     (case cm_get S capability_id of
        Inl ex \<Rightarrow> (Inl ex, S)
      | Inr grant \<Rightarrow>
          (case authorizer_revoke (cm_tokens S) capability_id (cm_heap S) of
             (Inl ex, heap) \<Rightarrow> (Inl ex, S\<lparr>cm_heap := heap\<rparr>)
           | (Inr u, heap) \<Rightarrow>
               (let S1 = S\<lparr>cm_heap := heap\<rparr> in
                case cm_record rt stamp ''capability.revoked''
                       [(''capability_id'', VStr capability_id),
                        (''subject_id'', VStr (dt_grantee (heap ! cg_token grant))),
                        (''resource_id'', opt_str (cg_resource grant))] S1 of
                  (Inl ex, S2) \<Rightarrow> (Inl ex, S2)
                | (Inr q, S2) \<Rightarrow> (Inr (), S2))))"

text \<open>The verdict of \<open>authorize\<close>: allowed, reason code and reason.\<close>

definition cm_verdict :: "runtime \<Rightarrow> int \<Rightarrow> int \<Rightarrow> string \<Rightarrow> string \<Rightarrow> string \<Rightarrow> string option \<Rightarrow>
    capability_grant \<Rightarrow> cap_manager \<Rightarrow> (bool \<times> string \<times> string) res" where
  "cm_verdict rt now1 now2 capability_id subject_id action resource_id grant S =
     (let token = cm_heap S ! cg_token grant in
      if dt_grantee token \<noteq> subject_id
      then Inr (False, ''SUBJECT_MISMATCH'', ''Capability subject does not match requester'')
      else bindE (dt_is_valid rt now1 token) (\<lambda>valid.
        if \<not> valid then Inr (False, ''CAPABILITY_INACTIVE'', ''Capability is expired or revoked'')
        else if cg_resource grant \<noteq> None \<and> cg_resource grant \<noteq> resource_id
        then Inr (False, ''RESOURCE_MISMATCH'', ''Capability is not bound to the requested resource'')
        else case authorizer_authorize rt now2 (cm_heap S) (cm_tokens S) capability_id action of
               Inr u \<Rightarrow> Inr (True, ''AUTHORIZED'', ''Capability authorizes the requested action'')
             | Inl ex \<Rightarrow>
                 if ex = SIAErr DelegationExpiredError
                 then Inr (False, ''CAPABILITY_EXPIRED'', ''Capability has expired'')
                 else if ex = SIAErr DelegationRevokedError
                 then Inr (False, ''CAPABILITY_REVOKED'', ''Capability has been revoked'')
                 else if ex = SIAErr DelegationScopeError
                 then Inr (False, ''SCOPE_MISSING'', ''Capability does not include the requested action'')
                 else Inl ex))"

definition cm_authorize :: "runtime \<Rightarrow> int \<Rightarrow> int \<Rightarrow> string \<Rightarrow> string \<Rightarrow> string \<Rightarrow> string \<Rightarrow> string option \<Rightarrow>
    cap_manager \<Rightarrow> capability_decision res \<times> cap_manager" where
  "cm_authorize rt now1 now2 stamp capability_id subject_id action resource_id S =
     (case bindE (cm_get S capability_id)
             (\<lambda>grant. cm_verdict rt now1 now2 capability_id subject_id action resource_id grant S) of
        Inl ex \<Rightarrow> (Inl ex, S)
      | Inr (allowed, reason_code, reason) \<Rightarrow>
          (case cm_record rt stamp ''capability.authorization''
                  [(''capability_id'', VStr capability_id), (''subject_id'', VStr subject_id),
                   (''action'', VStr action), (''resource_id'', opt_str resource_id),
                   (''allowed'', VBool allowed), (''reason_code'', VStr reason_code)] S of
             (Inl ex, S1) \<Rightarrow> (Inl ex, S1)
           | (Inr sequence, S1) \<Rightarrow>
               (Inr \<lparr>cd_allowed = allowed, cd_capability = capability_id, cd_subject = subject_id,
                     cd_action = action, cd_resource = resource_id, cd_reason_code = reason_code,
                     cd_reason = reason, cd_sequence = sequence\<rparr>, S1)))"

definition cm_list :: "cap_manager \<Rightarrow> string option \<Rightarrow> capability_grant list" where
  "cm_list S subject_id =
     (case subject_id of
        None \<Rightarrow> map snd (cm_grants S)
      | Some s \<Rightarrow> filter (\<lambda>g. dt_grantee (cm_heap S ! cg_token g) = s) (map snd (cm_grants S)))"

section \<open>Invariant\<close>

text \<open>
  A grant and the authorizer's table hold the same token object, which carries the capability's
  id; the depth of a delegation never exceeds the maximum.
\<close>

definition cm_inv :: "cap_manager \<Rightarrow> bool" where
  "cm_inv S \<longleftrightarrow>
     (\<forall>cid g. map_of (cm_grants S) cid = Some g \<longrightarrow>
        map_of (cm_tokens S) cid = Some (cg_token g) \<and> cg_token g < length (cm_heap S) \<and>
        dt_id (cm_heap S ! cg_token g) = cid \<and> dt_depth (cm_heap S ! cg_token g) \<le> MAX_DEPTH)"

text \<open>What every operation keeps: grants stay, tokens change only by being revoked.\<close>

definition cm_le :: "cap_manager \<Rightarrow> cap_manager \<Rightarrow> bool" where
  "cm_le S S' \<longleftrightarrow>
     map_of (cm_grants S) \<subseteq>\<^sub>m map_of (cm_grants S') \<and> length (cm_heap S) \<le> length (cm_heap S') \<and>
     (\<forall>a < length (cm_heap S). cm_heap S' ! a = cm_heap S ! a \<or>
        cm_heap S' ! a = (cm_heap S ! a)\<lparr>dt_revoked := True\<rparr>)"

lemma cm_le_refl [simp]: "cm_le S S"
  by (simp add: cm_le_def)

lemma cm_le_trans:
  assumes "cm_le S S'" "cm_le S' S''"
  shows "cm_le S S''"
  unfolding cm_le_def
proof (intro conjI allI impI)
  show "map_of (cm_grants S) \<subseteq>\<^sub>m map_of (cm_grants S'')" "length (cm_heap S) \<le> length (cm_heap S'')"
    using assms by (auto simp: cm_le_def intro: map_le_trans)
  fix a assume "a < length (cm_heap S)"
  moreover from this have "a < length (cm_heap S')" using assms(1) by (simp add: cm_le_def)
  ultimately have "cm_heap S' ! a = cm_heap S ! a \<or> cm_heap S' ! a = (cm_heap S ! a)\<lparr>dt_revoked := True\<rparr>"
    "cm_heap S'' ! a = cm_heap S' ! a \<or> cm_heap S'' ! a = (cm_heap S' ! a)\<lparr>dt_revoked := True\<rparr>"
    using assms by (auto simp: cm_le_def)
  then show "cm_heap S'' ! a = cm_heap S ! a \<or> cm_heap S'' ! a = (cm_heap S ! a)\<lparr>dt_revoked := True\<rparr>"
    by auto
qed

lemma cm_record_frame:
  "cm_owner (snd (cm_record rt stamp ev pl S)) = cm_owner S" "cm_heap (snd (cm_record rt stamp ev pl S)) = cm_heap S"
  "cm_tokens (snd (cm_record rt stamp ev pl S)) = cm_tokens S" "cm_grants (snd (cm_record rt stamp ev pl S)) = cm_grants S"
  by (simp_all add: cm_record_def split: option.splits prod.splits sum.splits)

lemma cm_record_total:
  assumes "canonicalizable (VDict pl)"
  shows "\<exists>q S'. cm_record rt stamp ev pl S = (Inr q, S')"
proof (cases "cm_ledger S")
  case None
  then show ?thesis by (simp add: cm_record_def)
next
  case (Some L)
  from append_total [OF assms, of rt stamp ev "cm_owner S" "Some stamp" L]
  obtain e where "append rt stamp ev pl (cm_owner S) (Some stamp) L = (Inr e, L @ [e])" by blast
  with Some show ?thesis by (simp add: cm_record_def)
qed

lemma revoke_nth [simp]:
  fixes h :: token_heap
  shows "dt_id (h[a := (h ! a)\<lparr>dt_revoked := True\<rparr>] ! b) = dt_id (h ! b)"
    "dt_depth (h[a := (h ! a)\<lparr>dt_revoked := True\<rparr>] ! b) = dt_depth (h ! b)"
  by (cases "a < length h"; cases "a = b"; simp add: list_update_beyond)+

lemma cm_invD:
  assumes "cm_inv S" "map_of (cm_grants S) cid = Some g"
  shows "map_of (cm_tokens S) cid = Some (cg_token g)" "cg_token g < length (cm_heap S)"
    "dt_id (cm_heap S ! cg_token g) = cid" "dt_depth (cm_heap S ! cg_token g) \<le> MAX_DEPTH"
  using assms by (auto simp: cm_inv_def)

text \<open>Same grants, tokens and heap.\<close>

definition cm_same :: "cap_manager \<Rightarrow> cap_manager \<Rightarrow> bool" where
  "cm_same S S' \<longleftrightarrow> cm_heap S' = cm_heap S \<and> cm_tokens S' = cm_tokens S \<and> cm_grants S' = cm_grants S \<and>
     cm_owner S' = cm_owner S"

lemma cm_same_record: "cm_record rt stamp ev pl S = (r, S') \<Longrightarrow> cm_same S S'"
  using cm_record_frame [of rt stamp ev pl S] by (simp add: cm_same_def)

lemma cm_same_inv: "cm_same S S' \<Longrightarrow> cm_inv S \<Longrightarrow> cm_inv S'"
  by (simp add: cm_same_def cm_inv_def)

lemma cm_same_le: "cm_same S' S'' \<Longrightarrow> cm_le S S' \<Longrightarrow> cm_le S S''"
  by (simp add: cm_same_def cm_le_def)

lemma cm_authorize_same:
  "cm_authorize rt n1 n2 stamp cid sub act res S = (r, S') \<Longrightarrow> cm_same S S'"
  by (auto simp: cm_authorize_def cm_same_def split: sum.splits prod.splits dest: cm_same_record [unfolded cm_same_def])

lemma cm_revoke_step:
  assumes "cm_inv S" "cm_revoke rt stamp cid S = (r, S')"
  shows "cm_inv S' \<and> cm_le S S' \<and>
    (r = Inr () \<longrightarrow> (\<exists>g. map_of (cm_grants S) cid = Some g \<and> dt_revoked (cm_heap S' ! cg_token g)))"
proof (cases "map_of (cm_grants S) cid")
  case None
  with assms show ?thesis by (auto simp: cm_revoke_def cm_get_def)
next
  case (Some g)
  let ?S1 = "S\<lparr>cm_heap := (cm_heap S)[cg_token g := (cm_heap S ! cg_token g)\<lparr>dt_revoked := True\<rparr>]\<rparr>"
  from assms(1) Some have g: "map_of (cm_tokens S) cid = Some (cg_token g)" "cg_token g < length (cm_heap S)"
    by (auto simp: cm_inv_def)
  with assms(2) Some have s: "cm_same ?S1 S'"
    by (auto simp: cm_revoke_def cm_get_def authorizer_revoke_def authorizer_get_def
        split: prod.splits sum.splits dest: cm_same_record)
  have "cm_inv ?S1" using cm_invD [OF assms(1)] by (auto simp: cm_inv_def)
  moreover have "cm_le S ?S1"
    using nth_list_update [OF g(2)] by (auto simp: cm_le_def split: if_splits)
  moreover have "dt_revoked (cm_heap S' ! cg_token g)" using s g(2) by (simp add: cm_same_def)
  ultimately show ?thesis using s Some cm_same_inv cm_same_le by blast
qed

text \<open>The guards passed: the token is on the heap, and the authorizer decides.\<close>

lemma cm_issue_guarded:
  assumes "cid \<noteq> []" "sub \<noteq> []" "scope \<noteq> []" "map_of (cm_grants S) cid = None"
    and "issue_parent rt now sub par S = Inr (grantor, depth, ps)"
    and "t = \<lparr>dt_id = cid, dt_grantor = grantor, dt_grantee = sub, dt_scope = fromkeys scope, dt_issued = i,
         dt_expires = ex, dt_depth = depth, dt_revoked = False, dt_parent = par, dt_version = ''1.0''\<rparr>"
  obtains (invalid) e where "cm_issue rt now i stamp cid sub scope res ex par con S = (Inl e, S\<lparr>cm_heap := cm_heap S @ [t]\<rparr>)"
  | (issued) g pl where "cg_token g = length (cm_heap S)" "cg_resource g = res"
      "depth \<le> MAX_DEPTH" "\<forall>p \<in> set_option ps. validate_scope_subset (fromkeys scope) p = Inr ()"
      "cm_issue rt now i stamp cid sub scope res ex par con S =
        (case cm_record rt stamp ''capability.issued'' pl (S\<lparr>cm_heap := cm_heap S @ [t],
           cm_tokens := AList.update cid (length (cm_heap S)) (cm_tokens S), cm_grants := AList.update cid g (cm_grants S)\<rparr>) of
           (Inl e, S3) \<Rightarrow> (Inl e, S3)
         | (Inr q, S3) \<Rightarrow> (Inr g, S3))"
proof -
  obtain ra tk where a: "authorizer_issue (cm_heap S @ [t]) (length (cm_heap S)) ps (cm_tokens S) = (ra, tk)"
    by (cases "authorizer_issue (cm_heap S @ [t]) (length (cm_heap S)) ps (cm_tokens S)")
  show thesis
  proof (cases ra)
    case (Inl e)
    with a have "tk = cm_tokens S" by (auto dest: authorizer_issue_Inl)
    with assms a Inl show thesis by (intro invalid [of e]) (simp add: cm_issue_def Let_def)
  next
    case (Inr b)
    from authorizer_issue_Inr [OF a [unfolded Inr]] have "b = length (cm_heap S)"
      "tk = AList.update cid (length (cm_heap S)) (cm_tokens S)" "depth \<le> MAX_DEPTH"
      "\<forall>p \<in> set_option ps. validate_scope_subset (fromkeys scope) p = Inr ()"
      by (simp_all add: assms(6))
    with assms a Inr show thesis
      by (intro issued [of "\<lparr>cg_token = length (cm_heap S), cg_resource = res, cg_constraints = (case con of None \<Rightarrow> [] | Some c \<Rightarrow> c)\<rparr>"
          "[(''capability_id'', VStr cid), (''subject_id'', VStr sub), (''resource_id'', opt_str res),
            (''scope'', str_list (sort (fromkeys scope))), (''parent_capability_id'', opt_str par), (''expires_at'', opt_str ex)]"])
        (simp_all add: cm_issue_def Let_def)
  qed
qed

lemma cm_issue_cases:
  assumes "cm_issue rt now i stamp cid sub scope res ex par con S = (r, S')"
  obtains (refused) e where "r = Inl e" "cm_same S S'"
  | (invalid) e t where "r = Inl e" "cm_same (S\<lparr>cm_heap := cm_heap S @ [t]\<rparr>) S'"
  | (issued) t g grantor depth ps where "cid \<noteq> []" "map_of (cm_grants S) cid = None"
      "issue_parent rt now sub par S = Inr (grantor, depth, ps)"
      "dt_id t = cid" "dt_grantor t = grantor" "dt_grantee t = sub" "dt_scope t = fromkeys scope"
      "dt_depth t = depth" "\<not> dt_revoked t" "dt_expires t = ex" "dt_parent t = par"
      "cg_token g = length (cm_heap S)" "cg_resource g = res"
      "depth \<le> MAX_DEPTH" "\<forall>p \<in> set_option ps. validate_scope_subset (fromkeys scope) p = Inr ()"
      "cm_same (S\<lparr>cm_heap := cm_heap S @ [t], cm_tokens := AList.update cid (length (cm_heap S)) (cm_tokens S),
         cm_grants := AList.update cid g (cm_grants S)\<rparr>) S'"
      "r = Inr g \<or> (\<exists>e. r = Inl e)"
proof (cases "cid = [] \<or> sub = [] \<or> scope = [] \<or> map_of (cm_grants S) cid \<noteq> None \<or>
    (\<exists>e. issue_parent rt now sub par S = Inl e)")
  case True
  with assms have "S' = S \<and> (\<exists>e. r = Inl e)"
    by (auto simp: cm_issue_def split: if_splits)
  with refused show thesis by (auto simp: cm_same_def)
next
  case False
  then obtain grantor depth ps where ip: "issue_parent rt now sub par S = Inr (grantor, depth, ps)"
    by (cases "issue_parent rt now sub par S") auto
  define t where "t = \<lparr>dt_id = cid, dt_grantor = grantor, dt_grantee = sub, dt_scope = fromkeys scope, dt_issued = i,
         dt_expires = ex, dt_depth = depth, dt_revoked = False, dt_parent = par, dt_version = ''1.0''\<rparr>"
  have guards: "cid \<noteq> []" "sub \<noteq> []" "scope \<noteq> []" "map_of (cm_grants S) cid = None" using False by auto
  show thesis
  proof (cases rule: cm_issue_guarded [OF guards ip t_def, of stamp res con])
    case (1 e)
    with assms invalid show thesis by (auto simp: cm_same_def)
  next
    case (2 g pl)
    with assms show thesis
      by (intro issued [OF guards(1,4) ip, of t g])
        (auto simp: t_def split: prod.splits sum.splits dest: cm_same_record)
  qed
qed

lemma cm_issue_step:
  assumes "cm_inv S" "cm_issue rt now i stamp cid sub scope res ex par con S = (r, S')"
  shows "cm_inv S' \<and> cm_le S S'"
  using assms(2)
proof (cases rule: cm_issue_cases)
  case (refused e)
  then show ?thesis using assms(1) cm_same_inv cm_same_le cm_le_refl by blast
next
  case (invalid e t)
  let ?S1 = "S\<lparr>cm_heap := cm_heap S @ [t]\<rparr>"
  have "cm_inv ?S1" using cm_invD [OF assms(1)] by (auto simp: cm_inv_def nth_append less_Suc_eq)
  moreover have "cm_le S ?S1" by (auto simp: cm_le_def nth_append)
  ultimately show ?thesis using invalid cm_same_inv cm_same_le by blast
next
  case (issued t g grantor depth ps)
  let ?S1 = "S\<lparr>cm_heap := cm_heap S @ [t], cm_tokens := AList.update cid (length (cm_heap S)) (cm_tokens S),
         cm_grants := AList.update cid g (cm_grants S)\<rparr>"
  have "cm_inv ?S1"
    unfolding cm_inv_def
  proof (intro allI impI)
    fix c h assume h: "map_of (cm_grants ?S1) c = Some h"
    show "map_of (cm_tokens ?S1) c = Some (cg_token h) \<and> cg_token h < length (cm_heap ?S1) \<and>
        dt_id (cm_heap ?S1 ! cg_token h) = c \<and> dt_depth (cm_heap ?S1 ! cg_token h) \<le> MAX_DEPTH"
    proof (cases "c = cid")
      case True
      with h issued show ?thesis by simp
    next
      case False
      with h have "map_of (cm_grants S) c = Some h" by simp
      with cm_invD [OF assms(1) this] False show ?thesis by (simp add: nth_append less_SucI)
    qed
  qed
  moreover have "cm_le S ?S1"
    using issued(2) by (auto simp: cm_le_def nth_append map_le_def)
  ultimately show ?thesis using issued(16) cm_same_inv cm_same_le by blast
qed

section \<open>Histories\<close>

text \<open>A manager and what any sequence of its operations can make of it.\<close>

inductive cm_reach :: "runtime \<Rightarrow> cap_manager \<Rightarrow> cap_manager \<Rightarrow> bool" for rt S where
  stay: "cm_reach rt S S"
| issue: "cm_reach rt S S1 \<Longrightarrow> cm_issue rt now i stamp cid sub scope res ex par con S1 = (r, S2) \<Longrightarrow> cm_reach rt S S2"
| revoke: "cm_reach rt S S1 \<Longrightarrow> cm_revoke rt stamp cid S1 = (r', S2) \<Longrightarrow> cm_reach rt S S2"
| authorize: "cm_reach rt S S1 \<Longrightarrow> cm_authorize rt n1 n2 stamp cid sub act res S1 = (r'', S2) \<Longrightarrow> cm_reach rt S S2"

lemma cm_init_inv: "cm_init ow rec = Inr S \<Longrightarrow> cm_inv S"
  by (auto simp: cm_init_def cm_inv_def split: if_splits)

lemma cm_reach_inv: "cm_reach rt S S' \<Longrightarrow> cm_inv S \<Longrightarrow> cm_inv S' \<and> cm_le S S'"
proof (induction rule: cm_reach.induct)
  case stay
  then show ?case by simp
next
  case (issue S1 now i stamp cid sub scope res ex par con r S2)
  then show ?case using cm_issue_step cm_le_trans by blast
next
  case (revoke S1 stamp cid r' S2)
  then show ?case using cm_revoke_step cm_le_trans by blast
next
  case (authorize S1 n1 n2 stamp cid sub act res r'' S2)
  then have "cm_inv S1" "cm_le S S1" by simp_all
  then show ?case using cm_authorize_same [OF authorize.hyps(2)] cm_same_inv cm_same_le by blast
qed

lemma cm_authorize_Inr:
  assumes "cm_authorize rt n1 n2 stamp cid sub act res S = (Inr d, S')"
  obtains g code reason q where "map_of (cm_grants S) cid = Some g"
    "cm_verdict rt n1 n2 cid sub act res g S = Inr (cd_allowed d, cd_reason_code d, cd_reason d)"
    "cm_record rt stamp ''capability.authorization''
       [(''capability_id'', VStr cid), (''subject_id'', VStr sub), (''action'', VStr act),
        (''resource_id'', opt_str res), (''allowed'', VBool (cd_allowed d)),
        (''reason_code'', VStr (cd_reason_code d))] S = (Inr (cd_sequence d), S')"
  using assms
  by (auto simp: cm_authorize_def cm_get_def res_simps split: sum.splits prod.splits option.splits)

lemma cm_verdict_allowed:
  assumes "cm_inv S" "map_of (cm_grants S) cid = Some g"
    and "cm_verdict rt n1 n2 cid sub act res g S = Inr (allowed, code, reason)"
  shows "allowed \<longleftrightarrow>
    (let t = cm_heap S ! cg_token g in
     dt_grantee t = sub \<and> dt_is_valid rt n1 t = Inr True \<and> dt_is_expired rt n2 t = Inr False \<and>
     (cg_resource g = None \<or> cg_resource g = res) \<and> (act \<in> set (dt_scope t) \<or> ''*'' \<in> set (dt_scope t)))"
proof (cases "dt_grantee (cm_heap S ! cg_token g) = sub \<and>
    dt_is_valid rt n1 (cm_heap S ! cg_token g) = Inr True \<and> (cg_resource g = None \<or> cg_resource g = res)")
  case False
  with assms(3) show ?thesis
    by (auto simp: cm_verdict_def Let_def res_simps split: if_splits)
next
  case True
  then have nr: "\<not> dt_revoked (cm_heap S ! cg_token g)" by (simp add: dt_is_valid_Inr)
  let ?az = "authorizer_authorize rt n2 (cm_heap S) (cm_tokens S) cid act"
  have "?az = Inr () \<longleftrightarrow> dt_is_expired rt n2 (cm_heap S ! cg_token g) = Inr False \<and>
      (act \<in> set (dt_scope (cm_heap S ! cg_token g)) \<or> ''*'' \<in> set (dt_scope (cm_heap S ! cg_token g)))"
    using cm_invD(1) [OF assms(1,2)] nr by (auto simp: authorizer_authorize_Inr)
  moreover have "allowed \<longleftrightarrow> ?az = Inr ()"
    using True assms(3) by (auto simp: cm_verdict_def Let_def split: if_splits sum.splits)
  ultimately show ?thesis using True by (auto simp: Let_def)
qed

text \<open>Issuing succeeds when its checks do.\<close>

lemma cm_issue_total:
  assumes "cid \<noteq> []" "sub \<noteq> []" "scope \<noteq> []" "map_of (cm_grants S) cid = None"
    and "issue_parent rt now sub par S = Inr (grantor, depth, ps)" "depth \<le> MAX_DEPTH"
    and "\<forall>p \<in> set_option ps. validate_scope_subset (fromkeys scope) p = Inr ()"
  shows "\<exists>g S'. cm_issue rt now i stamp cid sub scope res ex par con S = (Inr g, S')"
proof -
  define t where "t = \<lparr>dt_id = cid, dt_grantor = grantor, dt_grantee = sub, dt_scope = fromkeys scope, dt_issued = i,
         dt_expires = ex, dt_depth = depth, dt_revoked = False, dt_parent = par, dt_version = ''1.0''\<rparr>"
  have tf: "dt_id t = cid" "dt_scope t = fromkeys scope" "dt_depth t = depth" by (simp_all add: t_def)
  have "validate_structure t = Inr ()" using assms(1) by (simp add: validate_structure_Inr t_def)
  then have a: "authorizer_issue (cm_heap S @ [t]) (length (cm_heap S)) ps (cm_tokens S) =
      (Inr (length (cm_heap S)), AList.update cid (length (cm_heap S)) (cm_tokens S))"
    using assms(6,7) by (cases ps) (simp_all add: authorizer_issue_def tf Let_def)
  define S2 where "S2 = S\<lparr>cm_heap := cm_heap S @ [t],
         cm_tokens := AList.update cid (length (cm_heap S)) (cm_tokens S),
         cm_grants := AList.update cid \<lparr>cg_token = length (cm_heap S), cg_resource = res,
             cg_constraints = (case con of None \<Rightarrow> [] | Some c \<Rightarrow> c)\<rparr> (cm_grants S)\<rparr>"
  define pl where "pl = [(''capability_id'', VStr cid), (''subject_id'', VStr sub), (''resource_id'', opt_str res),
         (''scope'', str_list (sort (fromkeys scope))), (''parent_capability_id'', opt_str par),
         (''expires_at'', opt_str ex)]"
  have "cm_issue rt now i stamp cid sub scope res ex par con S =
        (case cm_record rt stamp ''capability.issued'' pl S2 of
           (Inl e, S3) \<Rightarrow> (Inl e, S3)
         | (Inr q, S3) \<Rightarrow> (Inr \<lparr>cg_token = length (cm_heap S), cg_resource = res,
             cg_constraints = (case con of None \<Rightarrow> [] | Some c \<Rightarrow> c)\<rparr>, S3))"
    using assms(1-5) a by (simp add: cm_issue_def S2_def t_def pl_def Let_def)
  moreover obtain q S3 where "cm_record rt stamp ''capability.issued'' pl S2 = (Inr q, S3)"
    using cm_record_total [of pl rt stamp "''capability.issued''" S2] by (auto simp: pl_def)
  ultimately show ?thesis by simp
qed

lemma cm_authorize_total:
  assumes "map_of (cm_grants S) cid = Some g" "cm_verdict rt n1 n2 cid sub act res g S = Inr (allowed, code, reason)"
  shows "\<exists>d S'. cm_authorize rt n1 n2 stamp cid sub act res S = (Inr d, S') \<and> cd_allowed d = allowed"
proof -
  let ?pl = "[(''capability_id'', VStr cid), (''subject_id'', VStr sub), (''action'', VStr act),
       (''resource_id'', opt_str res), (''allowed'', VBool allowed), (''reason_code'', VStr code)]"
  obtain q S' where "cm_record rt stamp ''capability.authorization'' ?pl S = (Inr q, S')"
    using cm_record_total [of ?pl rt stamp "''capability.authorization''" S] by auto
  with assms show ?thesis by (simp add: cm_authorize_def cm_get_def)
qed

section \<open>Properties\<close>

text \<open>
  In every manager reached from its construction, \<open>authorize\<close> allows a request exactly when
  the capability is registered, the requester is its grantee, it is neither revoked nor expired at
  both clock readings of the call, it is unbound or bound to the requested resource, and its scope
  has the action or the wildcard; and the decision is the last entry of the audit ledger.
\<close>

theorem authorize_exact:
  assumes "cm_init ow rec = Inr S0" "cm_reach rt S0 S"
    and "cm_authorize rt n1 n2 stamp cid sub act res S = (Inr d, S')"
  shows "\<exists>g. map_of (cm_grants S) cid = Some g \<and>
    cd_allowed d =
      (let t = cm_heap S ! cg_token g in
       dt_grantee t = sub \<and> dt_is_valid rt n1 t = Inr True \<and> dt_is_expired rt n2 t = Inr False \<and>
       (cg_resource g = None \<or> cg_resource g = res) \<and> (act \<in> set (dt_scope t) \<or> ''*'' \<in> set (dt_scope t))) \<and>
    (\<forall>L \<in> set_option (cm_ledger S). \<exists>e. cm_ledger S' = Some (L @ [e]) \<and>
      le_event e = ''capability.authorization'' \<and> cd_sequence d = Some (le_id e) \<and>
      map_of (le_payload e) ''allowed'' = Some (VBool (cd_allowed d)))"
proof -
  have inv: "cm_inv S" using cm_reach_inv [OF assms(2)] cm_init_inv [OF assms(1)] by blast
  obtain g where g: "map_of (cm_grants S) cid = Some g"
    "cm_verdict rt n1 n2 cid sub act res g S = Inr (cd_allowed d, cd_reason_code d, cd_reason d)"
    and r: "cm_record rt stamp ''capability.authorization''
       [(''capability_id'', VStr cid), (''subject_id'', VStr sub), (''action'', VStr act),
        (''resource_id'', opt_str res), (''allowed'', VBool (cd_allowed d)),
        (''reason_code'', VStr (cd_reason_code d))] S = (Inr (cd_sequence d), S')"
    by (rule cm_authorize_Inr [OF assms(3)])
  have "\<exists>e. cm_ledger S' = Some (L @ [e]) \<and>
      le_event e = ''capability.authorization'' \<and> cd_sequence d = Some (le_id e) \<and>
      map_of (le_payload e) ''allowed'' = Some (VBool (cd_allowed d))" if L: "cm_ledger S = Some L" for L
    using r L
    by (cases rule: append_cases [of rt stamp "''capability.authorization''"
          "[(''capability_id'', VStr cid), (''subject_id'', VStr sub), (''action'', VStr act),
            (''resource_id'', opt_str res), (''allowed'', VBool (cd_allowed d)),
            (''reason_code'', VStr (cd_reason_code d))]" "cm_owner S" "Some stamp" L])
       (auto simp: cm_record_def)
  with g(1) cm_verdict_allowed [OF inv g] show ?thesis by auto
qed

text \<open>
  C24.  Revocation is permanent: once \<open>revoke\<close> of a capability has returned, no sequence of further
  issue, revoke and authorize calls makes \<open>authorize\<close> allow anything under that capability again,
  at whatever times they happen.
\<close>

theorem revoked_stays_denied:
  assumes "cm_init ow rec = Inr S0" "cm_reach rt S0 S" "cm_revoke rt stamp cid S = (Inr (), S1)"
    and "cm_reach rt S1 S2" "cm_authorize rt n1 n2 stamp' cid sub act res S2 = (Inr d, S3)"
  shows "\<not> cd_allowed d"
proof -
  have inv: "cm_inv S" using cm_reach_inv [OF assms(2)] cm_init_inv [OF assms(1)] by blast
  from cm_revoke_step [OF this assms(3)] obtain g where g: "cm_inv S1" "cm_le S S1"
    "map_of (cm_grants S) cid = Some g" "dt_revoked (cm_heap S1 ! cg_token g)" by blast
  from cm_reach_inv [OF assms(4) g(1)] have S2: "cm_inv S2" "cm_le S1 S2" by simp_all
  have "map_of (cm_grants S1) cid = Some g" "cg_token g < length (cm_heap S1)"
    using g(2,3) cm_invD(2) [OF inv g(3)] by (auto simp: cm_le_def map_le_def dom_def)
  then have m: "map_of (cm_grants S2) cid = Some g" "dt_revoked (cm_heap S2 ! cg_token g)"
    using S2(2) g(4) by (auto simp: cm_le_def map_le_def dom_def)
  obtain g' where "map_of (cm_grants S2) cid = Some g'"
    "cm_verdict rt n1 n2 cid sub act res g' S2 = Inr (cd_allowed d, cd_reason_code d, cd_reason d)"
    by (rule cm_authorize_Inr [OF assms(5)])
  with m cm_verdict_allowed [OF S2(1) m(1)] show ?thesis by (simp add: dt_is_valid_Inr)
qed

text \<open>
  The wildcard is not bounded by the parent: under any valid parent capability of depth below
  the maximum, whatever its scope, a child with scope \<open>["*"]\<close> is issued, and \<open>authorize\<close> allows
  every action under the child.
\<close>

theorem star_child_escalates:
  assumes "cm_init ow rec = Inr S0" "cm_reach rt S0 S" "map_of (cm_grants S) p = Some g"
    and "dt_depth (cm_heap S ! cg_token g) < MAX_DEPTH" "dt_is_valid rt now (cm_heap S ! cg_token g) = Inr True"
    and "map_of (cm_grants S) cid = None" "cid \<noteq> []" "sub \<noteq> []" "sub \<noteq> cm_owner S"
  shows "\<exists>h S1 d S2. cm_issue rt now i stamp cid sub [''*''] None None (Some p) None S = (Inr h, S1) \<and>
    cm_authorize rt n1 n2 stamp cid sub act None S1 = (Inr d, S2) \<and> cd_allowed d"
proof -
  have inv: "cm_inv S" using cm_reach_inv [OF assms(2)] cm_init_inv [OF assms(1)] by blast
  let ?t = "cm_heap S ! cg_token g"
  have ip: "issue_parent rt now sub (Some p) S = Inr (dt_grantee ?t, dt_depth ?t + 1, Some (dt_scope ?t))"
    using assms(3,5,9) by (simp add: issue_parent_def cm_get_def Let_def)
  have "\<exists>h S1. cm_issue rt now i stamp cid sub [''*''] None None (Some p) None S = (Inr h, S1)"
    by (rule cm_issue_total [OF assms(7,8) _ assms(6) ip]) (use assms(4) in \<open>simp_all add: validate_scope_subset_Inr\<close>)
  then obtain h S1 where h: "cm_issue rt now i stamp cid sub [''*''] None None (Some p) None S = (Inr h, S1)" by blast
  from cm_issue_step [OF inv h] have inv1: "cm_inv S1" by simp
  from h obtain t where t: "map_of (cm_grants S1) cid = Some h" "cm_heap S1 ! cg_token h = t"
    "dt_grantee t = sub" "dt_scope t = [''*'']" "\<not> dt_revoked t" "dt_expires t = None" "cg_resource h = None"
    by (cases rule: cm_issue_cases) (auto simp: cm_same_def)
  have "authorizer_authorize rt n2 (cm_heap S1) (cm_tokens S1) cid act = Inr ()"
    using cm_invD(1) [OF inv1 t(1)] t by (simp add: authorizer_authorize_Inr dt_is_expired_def)
  with t have "cm_verdict rt n1 n2 cid sub act None h S1 =
      Inr (True, ''AUTHORIZED'', ''Capability authorizes the requested action'')"
    by (simp add: cm_verdict_def dt_is_valid_def dt_is_expired_def Let_def)
  from cm_authorize_total [OF t(1) this] h show ?thesis by blast
qed

section \<open>Witnesses\<close>

text \<open>A manager of the owner \<open>o\<close> with one capability \<open>c\<close> of the agent \<open>a\<close> for reading.\<close>

definition demo_cm :: cap_manager where
  "demo_cm = \<lparr>cm_owner = ''o'', cm_heap = [], cm_tokens = [], cm_grants = [], cm_ledger = Some []\<rparr>"

definition demo_cm1 :: cap_manager where
  "demo_cm1 = snd (cm_issue plain_runtime 0 ''i'' ''s'' ''c'' ''a'' [''read''] None None None None demo_cm)"

lemma demo_cm_init: "cm_init ''o'' (Some []) = Inr demo_cm"
  by (simp add: cm_init_def demo_cm_def)

lemma demo_cm1_facts:
  obtains g where "cm_issue plain_runtime 0 ''i'' ''s'' ''c'' ''a'' [''read''] None None None None demo_cm = (Inr g, demo_cm1)"
    "cm_reach plain_runtime demo_cm demo_cm1" "cm_inv demo_cm1" "map_of (cm_grants demo_cm1) ''c'' = Some g"
    "dt_grantee (cm_heap demo_cm1 ! cg_token g) = ''a''" "dt_scope (cm_heap demo_cm1 ! cg_token g) = [''read'']"
    "dt_expires (cm_heap demo_cm1 ! cg_token g) = None" "\<not> dt_revoked (cm_heap demo_cm1 ! cg_token g)" "cg_resource g = None"
    "dt_depth (cm_heap demo_cm1 ! cg_token g) = 0"
    "map_of (cm_grants demo_cm1) ''d'' = None" "cm_owner demo_cm1 = ''o''"
proof -
  have "\<exists>g S'. cm_issue plain_runtime 0 ''i'' ''s'' ''c'' ''a'' [''read''] None None None None demo_cm = (Inr g, S')"
    by (rule cm_issue_total [where grantor = "''o''" and depth = 0 and ps = None])
       (simp_all add: demo_cm_def issue_parent_def MAX_DEPTH_def)
  then obtain g where g: "cm_issue plain_runtime 0 ''i'' ''s'' ''c'' ''a'' [''read''] None None None None demo_cm = (Inr g, demo_cm1)"
    by (auto simp: demo_cm1_def)
  have inv: "cm_inv demo_cm1"
    using cm_issue_step [OF cm_init_inv [OF demo_cm_init] g] by simp
  have r: "cm_reach plain_runtime demo_cm demo_cm1" by (rule cm_reach.issue [OF cm_reach.stay g])
  show thesis
    by (rule cm_issue_cases [OF g]; (rule that [OF g r inv])?)
       (auto simp: cm_same_def demo_cm_def issue_parent_def dt_is_valid_def dt_is_expired_def)
qed

theorem authorize_exact_witness:
  "\<exists>d S'. cm_authorize plain_runtime 5 6 ''s'' ''c'' ''a'' ''read'' None demo_cm1 = (Inr d, S') \<and> cd_allowed d"
proof -
  obtain g where g: "cm_reach plain_runtime demo_cm demo_cm1" "cm_inv demo_cm1" "map_of (cm_grants demo_cm1) ''c'' = Some g"
    "dt_grantee (cm_heap demo_cm1 ! cg_token g) = ''a''" "dt_scope (cm_heap demo_cm1 ! cg_token g) = [''read'']"
    "dt_expires (cm_heap demo_cm1 ! cg_token g) = None" "\<not> dt_revoked (cm_heap demo_cm1 ! cg_token g)" "cg_resource g = None"
    by (rule demo_cm1_facts)
  have v: "dt_is_valid plain_runtime n (cm_heap demo_cm1 ! cg_token g) = Inr True"
    "dt_is_expired plain_runtime n (cm_heap demo_cm1 ! cg_token g) = Inr False" for n
    using g by (simp_all add: dt_is_valid_def dt_is_expired_def)
  have "authorizer_authorize plain_runtime 6 (cm_heap demo_cm1) (cm_tokens demo_cm1) ''c'' ''read'' = Inr ()"
    using cm_invD(1) [OF g(2,3)] g v by (simp add: authorizer_authorize_Inr)
  with g v have "cm_verdict plain_runtime 5 6 ''c'' ''a'' ''read'' None g demo_cm1 =
      Inr (True, ''AUTHORIZED'', ''Capability authorizes the requested action'')"
    by (simp add: cm_verdict_def Let_def)
  from cm_authorize_total [OF g(3) this] obtain d S' where
    d: "cm_authorize plain_runtime 5 6 ''s'' ''c'' ''a'' ''read'' None demo_cm1 = (Inr d, S')" by blast
  from authorize_exact [OF demo_cm_init g(1) d] g v have "cd_allowed d" by (auto simp: Let_def)
  with d show ?thesis by blast
qed

theorem revoked_stays_denied_witness:
  "\<exists>S1 d S2. cm_revoke plain_runtime ''s'' ''c'' demo_cm1 = (Inr (), S1) \<and>
     cm_authorize plain_runtime 5 6 ''s'' ''c'' ''a'' ''read'' None S1 = (Inr d, S2) \<and> \<not> cd_allowed d"
proof -
  obtain g where g: "cm_reach plain_runtime demo_cm demo_cm1" "cm_inv demo_cm1" "map_of (cm_grants demo_cm1) ''c'' = Some g"
    "dt_grantee (cm_heap demo_cm1 ! cg_token g) = ''a''"
    by (rule demo_cm1_facts)
  note t = cm_invD(1,2) [OF g(2,3)]
  let ?h = "(cm_heap demo_cm1)[cg_token g := (cm_heap demo_cm1 ! cg_token g)\<lparr>dt_revoked := True\<rparr>]"
  let ?pl = "[(''capability_id'', VStr ''c''), (''subject_id'', VStr (dt_grantee (?h ! cg_token g))),
    (''resource_id'', opt_str (cg_resource g))]"
  obtain q S1 where r: "cm_record plain_runtime ''s'' ''capability.revoked'' ?pl (demo_cm1\<lparr>cm_heap := ?h\<rparr>) = (Inr q, S1)"
    using cm_record_total [of ?pl plain_runtime "''s''" "''capability.revoked''" "demo_cm1\<lparr>cm_heap := ?h\<rparr>"] by auto
  then have rev: "cm_revoke plain_runtime ''s'' ''c'' demo_cm1 = (Inr (), S1)"
    using g(3) t by (simp add: cm_revoke_def cm_get_def authorizer_revoke_def authorizer_get_def Let_def)
  have s: "cm_heap S1 = ?h" "cm_grants S1 = cm_grants demo_cm1"
    using cm_same_record [OF r] by (simp_all add: cm_same_def)
  with g t have v: "cm_verdict plain_runtime 5 6 ''c'' ''a'' ''read'' None g S1 =
      Inr (False, ''CAPABILITY_INACTIVE'', ''Capability is expired or revoked'')"
    by (simp add: cm_verdict_def dt_is_valid_def Let_def)
  from g(3) s(2) have "map_of (cm_grants S1) ''c'' = Some g" by simp
  from cm_authorize_total [OF this v] obtain d S2 where
    d: "cm_authorize plain_runtime 5 6 ''s'' ''c'' ''a'' ''read'' None S1 = (Inr d, S2)" by blast
  from revoked_stays_denied [OF demo_cm_init g(1) rev cm_reach.stay d] rev d show ?thesis by blast
qed

theorem star_child_escalates_witness:
  "\<exists>h S1 d S2. cm_issue plain_runtime 0 ''i'' ''s'' ''d'' ''b'' [''*''] None None (Some ''c'') None demo_cm1 = (Inr h, S1) \<and>
    cm_authorize plain_runtime 5 6 ''s'' ''d'' ''b'' ''delete'' None S1 = (Inr d, S2) \<and> cd_allowed d"
proof -
  obtain g where g: "cm_reach plain_runtime demo_cm demo_cm1" "map_of (cm_grants demo_cm1) ''c'' = Some g"
    "dt_expires (cm_heap demo_cm1 ! cg_token g) = None" "\<not> dt_revoked (cm_heap demo_cm1 ! cg_token g)"
    "dt_depth (cm_heap demo_cm1 ! cg_token g) = 0" "map_of (cm_grants demo_cm1) ''d'' = None" "cm_owner demo_cm1 = ''o''"
    by (rule demo_cm1_facts)
  show ?thesis
    by (rule star_child_escalates [OF demo_cm_init g(1,2)])
       (use g in \<open>simp_all add: MAX_DEPTH_def dt_is_valid_def dt_is_expired_def\<close>)
qed

end
