(* ===== verification/CapabilityRefinement.thy ===== *)
theory CapabilityRefinement
  imports CapabilityManager
begin

text \<open>
  What \<open>src/sia/capability_manager.py\<close> promises, as an abstract table of access rights, and the proof
  that the manager refines it.  The manager keeps grants that refer to mutable tokens, which the
  authorizer shares; the table keeps one immutable right per capability id.  Every call of the manager
  has the outcome that the table gives, and leaves the table that it gives.
\<close>

section \<open>The abstract table\<close>

record access_right =
  ar_holder :: string
  ar_scope :: "string set"
  ar_expires :: "string option"
  ar_resource :: "string option"
  ar_depth :: int
  ar_live :: bool

type_synonym access_table = "string \<rightharpoonup> access_right"

definition right_current :: "runtime \<Rightarrow> int \<Rightarrow> access_right \<Rightarrow> bool res" where
  "right_current rt now r =
     (if \<not> ar_live r then Inr False
      else case ar_expires r of
        None \<Rightarrow> Inr True
      | Some s \<Rightarrow> bindE (iso_before rt s now) (\<lambda>expired. Inr (\<not> expired)))"

definition scope_covers :: "string set \<Rightarrow> string set \<Rightarrow> bool" where
  "scope_covers parent child \<longleftrightarrow> ''*'' \<in> parent \<or> child \<subseteq> insert ''*'' parent"

text \<open>Whether a child right may be derived from \<open>r\<close> for \<open>sub\<close>.\<close>

definition may_derive :: "runtime \<Rightarrow> string \<Rightarrow> int \<Rightarrow> string \<Rightarrow> string set \<Rightarrow> access_right \<Rightarrow> bool" where
  "may_derive rt owner now sub scope r \<longleftrightarrow>
     (ar_holder r = owner \<or> right_current rt now r = Inr True) \<and> (ar_holder r = sub \<or> sub \<noteq> owner) \<and>
     scope_covers (ar_scope r) scope \<and> ar_depth r < MAX_DEPTH"

datatype access_call =
    CallIssue int string string string string "string list" "string option" "string option" "string option" "pydict option"
  | CallRevoke string string
  | CallDecide int int string string string string "string option"

datatype access_outcome = Done | Verdict bool | Refused

definition table_issue :: "runtime \<Rightarrow> string \<Rightarrow> int \<Rightarrow> string \<Rightarrow> string \<Rightarrow> string set \<Rightarrow> string option \<Rightarrow> string option \<Rightarrow>
    string option \<Rightarrow> access_table \<Rightarrow> access_outcome \<times> access_table" where
  "table_issue rt owner now cid sub scope res ex par A =
     (let right = (\<lambda>depth. \<lparr>ar_holder = sub, ar_scope = scope, ar_expires = ex, ar_resource = res,
            ar_depth = depth, ar_live = True\<rparr>) in
      if cid = [] \<or> sub = [] \<or> scope = {} \<or> A cid \<noteq> None then (Refused, A)
      else case par of
        None \<Rightarrow> (Done, A(cid \<mapsto> right 0))
      | Some p \<Rightarrow>
          (case A p of
             None \<Rightarrow> (Refused, A)
           | Some r \<Rightarrow>
               if may_derive rt owner now sub scope r then (Done, A(cid \<mapsto> right (ar_depth r + 1)))
               else (Refused, A)))"

definition table_revoke :: "string \<Rightarrow> access_table \<Rightarrow> access_outcome \<times> access_table" where
  "table_revoke cid A =
     (case A cid of None \<Rightarrow> (Refused, A) | Some r \<Rightarrow> (Done, A(cid \<mapsto> r\<lparr>ar_live := False\<rparr>)))"

definition table_decide :: "runtime \<Rightarrow> int \<Rightarrow> int \<Rightarrow> string \<Rightarrow> string \<Rightarrow> string \<Rightarrow> string option \<Rightarrow> access_table \<Rightarrow>
    access_outcome" where
  "table_decide rt n1 n2 cid sub act res A =
     (case A cid of
        None \<Rightarrow> Refused
      | Some r \<Rightarrow>
          if ar_holder r \<noteq> sub then Verdict False
          else case right_current rt n1 r of
            Inl _ \<Rightarrow> Refused
          | Inr current \<Rightarrow>
              if \<not> current \<or> (ar_resource r \<noteq> None \<and> ar_resource r \<noteq> res) then Verdict False
              else (case right_current rt n2 r of
                      Inl _ \<Rightarrow> Refused
                    | Inr current \<Rightarrow> Verdict (current \<and> (act \<in> ar_scope r \<or> ''*'' \<in> ar_scope r))))"

fun table_exec :: "runtime \<Rightarrow> string \<Rightarrow> access_call \<Rightarrow> access_table \<Rightarrow> access_outcome \<times> access_table" where
  "table_exec rt owner (CallIssue now i stamp cid sub scope res ex par con) A =
     table_issue rt owner now cid sub (set scope) res ex par A"
| "table_exec rt owner (CallRevoke stamp cid) A = table_revoke cid A"
| "table_exec rt owner (CallDecide n1 n2 stamp cid sub act res) A = (table_decide rt n1 n2 cid sub act res A, A)"

fun table_run :: "runtime \<Rightarrow> string \<Rightarrow> access_call list \<Rightarrow> access_table \<Rightarrow> access_outcome list \<times> access_table" where
  "table_run rt owner [] A = ([], A)"
| "table_run rt owner (c # cs) A =
     (case table_exec rt owner c A of (o1, A1) \<Rightarrow> case table_run rt owner cs A1 of (os, A2) \<Rightarrow> (o1 # os, A2))"

section \<open>The manager's calls and its table\<close>

fun manager_exec :: "runtime \<Rightarrow> access_call \<Rightarrow> cap_manager \<Rightarrow> access_outcome \<times> cap_manager" where
  "manager_exec rt (CallIssue now i stamp cid sub scope res ex par con) S =
     (case cm_issue rt now i stamp cid sub scope res ex par con S of
        (Inl e, S') \<Rightarrow> (Refused, S') | (Inr g, S') \<Rightarrow> (Done, S'))"
| "manager_exec rt (CallRevoke stamp cid) S =
     (case cm_revoke rt stamp cid S of (Inl e, S') \<Rightarrow> (Refused, S') | (Inr u, S') \<Rightarrow> (Done, S'))"
| "manager_exec rt (CallDecide n1 n2 stamp cid sub act res) S =
     (case cm_authorize rt n1 n2 stamp cid sub act res S of
        (Inl e, S') \<Rightarrow> (Refused, S') | (Inr d, S') \<Rightarrow> (Verdict (cd_allowed d), S'))"

fun manager_run :: "runtime \<Rightarrow> access_call list \<Rightarrow> cap_manager \<Rightarrow> access_outcome list \<times> cap_manager" where
  "manager_run rt [] S = ([], S)"
| "manager_run rt (c # cs) S =
     (case manager_exec rt c S of (o1, S1) \<Rightarrow> case manager_run rt cs S1 of (os, S2) \<Rightarrow> (o1 # os, S2))"

definition token_right :: "string option \<Rightarrow> delegation_token \<Rightarrow> access_right" where
  "token_right res t =
     \<lparr>ar_holder = dt_grantee t, ar_scope = set (dt_scope t), ar_expires = dt_expires t, ar_resource = res,
      ar_depth = dt_depth t, ar_live = \<not> dt_revoked t\<rparr>"

definition grant_right :: "token_heap \<Rightarrow> capability_grant \<Rightarrow> access_right" where
  "grant_right heap g = token_right (cg_resource g) (heap ! cg_token g)"

definition access_table :: "cap_manager \<Rightarrow> access_table" where
  "access_table S cid = map_option (grant_right (cm_heap S)) (map_of (cm_grants S) cid)"

section \<open>Simulation\<close>

lemma token_right_fields [simp]:
  "ar_holder (token_right res t) = dt_grantee t" "ar_scope (token_right res t) = set (dt_scope t)"
  "ar_expires (token_right res t) = dt_expires t" "ar_resource (token_right res t) = res"
  "ar_depth (token_right res t) = dt_depth t" "ar_live (token_right res t) \<longleftrightarrow> \<not> dt_revoked t"
  by (simp_all add: token_right_def)

lemma right_current_token: "right_current rt now (token_right res t) = dt_is_valid rt now t"
  by (cases "dt_expires t") (simp_all add: right_current_def dt_is_valid_def dt_is_expired_def)

lemma cm_same_table: "cm_same S S' \<Longrightarrow> access_table S' = access_table S"
  by (simp add: cm_same_def access_table_def fun_eq_iff)

lemma table_heap_append:
  assumes "cm_inv S"
  shows "access_table (S\<lparr>cm_heap := cm_heap S @ [t]\<rparr>) = access_table S"
proof
  fix cid show "access_table (S\<lparr>cm_heap := cm_heap S @ [t]\<rparr>) cid = access_table S cid"
    using cm_invD(2) [OF assms, of cid]
    by (cases "map_of (cm_grants S) cid") (simp_all add: access_table_def grant_right_def nth_append)
qed

text \<open>Two capability ids never share a token, so revoking one right leaves all others.\<close>

lemma table_revoked:
  assumes "cm_inv S" "map_of (cm_grants S) cid = Some g"
  shows "access_table (S\<lparr>cm_heap := (cm_heap S)[cg_token g := (cm_heap S ! cg_token g)\<lparr>dt_revoked := True\<rparr>]\<rparr>) =
    (access_table S)(cid \<mapsto> (grant_right (cm_heap S) g)\<lparr>ar_live := False\<rparr>)"
proof
  fix c
  let ?h = "(cm_heap S)[cg_token g := (cm_heap S ! cg_token g)\<lparr>dt_revoked := True\<rparr>]"
  show "access_table (S\<lparr>cm_heap := ?h\<rparr>) c = ((access_table S)(cid \<mapsto> (grant_right (cm_heap S) g)\<lparr>ar_live := False\<rparr>)) c"
  proof (cases "c = cid")
    case True
    with assms(2) cm_invD(2) [OF assms] show ?thesis
      by (simp add: access_table_def grant_right_def token_right_def)
  next
    case False
    show ?thesis
    proof (cases "map_of (cm_grants S) c")
      case (Some g')
      have "cg_token g \<noteq> cg_token g'"
        using cm_invD(3) [OF assms(1) Some] cm_invD(3) [OF assms] False by auto
      with False Some show ?thesis by (simp add: access_table_def grant_right_def)
    qed (simp add: False access_table_def)
  qed
qed

lemma revoke_refines:
  assumes "cm_inv S" "cm_revoke rt stamp cid S = (r, S')"
  shows "table_revoke cid (access_table S) = (case r of Inl e \<Rightarrow> Refused | Inr u \<Rightarrow> Done, access_table S')"
proof (cases "map_of (cm_grants S) cid")
  case None
  with assms(2) show ?thesis by (auto simp: cm_revoke_def cm_get_def table_revoke_def access_table_def)
next
  case (Some g)
  let ?S1 = "S\<lparr>cm_heap := (cm_heap S)[cg_token g := (cm_heap S ! cg_token g)\<lparr>dt_revoked := True\<rparr>]\<rparr>"
  let ?pl = "[(''capability_id'', VStr cid), (''subject_id'', VStr (dt_grantee (cm_heap ?S1 ! cg_token g))),
     (''resource_id'', opt_str (cg_resource g))]"
  have "canonicalizable (VDict ?pl)" by simp
  then obtain q S2 where "cm_record rt stamp ''capability.revoked'' ?pl ?S1 = (Inr q, S2)"
    using cm_record_total by blast
  with assms(2) Some cm_invD(1) [OF assms(1) Some] have "r = Inr ()" "cm_same ?S1 S'"
    by (auto simp: cm_revoke_def cm_get_def authorizer_revoke_def authorizer_get_def dest: cm_same_record)
  with cm_same_table [OF this(2)] table_revoked [OF assms(1) Some] Some show ?thesis
    by (simp add: table_revoke_def access_table_def)
qed

lemma decide_refines:
  assumes "cm_inv S" "cm_authorize rt n1 n2 stamp cid sub act res S = (r, S')"
  shows "table_decide rt n1 n2 cid sub act res (access_table S) =
      (case r of Inl e \<Rightarrow> Refused | Inr d \<Rightarrow> Verdict (cd_allowed d)) \<and> access_table S' = access_table S"
proof
  show "access_table S' = access_table S" by (rule cm_same_table [OF cm_authorize_same [OF assms(2)]])
  show "table_decide rt n1 n2 cid sub act res (access_table S) =
      (case r of Inl e \<Rightarrow> Refused | Inr d \<Rightarrow> Verdict (cd_allowed d))"
  proof (cases "map_of (cm_grants S) cid")
    case None
    with assms(2) show ?thesis by (auto simp: cm_authorize_def cm_get_def table_decide_def access_table_def)
  next
    case (Some g)
    let ?t = "cm_heap S ! cg_token g"
    let ?d = "table_decide rt n1 n2 cid sub act res (access_table S)"
    let ?v = "cm_verdict rt n1 n2 cid sub act res g S"
    have v: "?d = (case ?v of Inl e \<Rightarrow> Refused | Inr (allowed, code, reason) \<Rightarrow> Verdict allowed)"
      using Some cm_invD(1) [OF assms(1) Some]
      by (auto simp: table_decide_def access_table_def grant_right_def right_current_token cm_verdict_def Let_def
          dt_is_valid_def authorizer_authorize_def authorizer_get_def iso_before_def dt_is_expired_def
          split: sum.splits option.splits if_splits pydatetime.splits)
    show ?thesis
    proof (cases ?v)
      case (Inl e)
      with Some assms(2) v show ?thesis by (auto simp: cm_authorize_def cm_get_def)
    next
      case (Inr a)
      then obtain allowed code reason where a: "?v = Inr (allowed, code, reason)" by (cases a) auto
      from cm_authorize_total [OF Some a, of stamp] assms(2) v a show ?thesis by auto
    qed
  qed
qed

text \<open>The guards of issuing, as the table states them.\<close>

lemma issue_guards:
  assumes "cid \<noteq> []" "sub \<noteq> []" "scope \<noteq> []" "map_of (cm_grants S) cid = None"
  shows "table_issue rt (cm_owner S) now cid sub (set scope) res ex par (access_table S) =
    (case issue_parent rt now sub par S of
       Inl e \<Rightarrow> (Refused, access_table S)
     | Inr (grantor, depth, ps) \<Rightarrow>
         if depth \<le> MAX_DEPTH \<and> (\<forall>p \<in> set_option ps. validate_scope_subset (fromkeys scope) p = Inr ())
         then (Done, (access_table S)(cid \<mapsto> \<lparr>ar_holder = sub, ar_scope = set scope, ar_expires = ex,
            ar_resource = res, ar_depth = depth, ar_live = True\<rparr>))
         else (Refused, access_table S))"
proof (cases par)
  case None
  with assms show ?thesis by (simp add: table_issue_def issue_parent_def access_table_def MAX_DEPTH_def)
next
  case (Some p)
  show ?thesis
  proof (cases "map_of (cm_grants S) p")
    case None
    with Some assms show ?thesis by (simp add: table_issue_def issue_parent_def access_table_def cm_get_def)
  next
    case g: (Some g)
    let ?t = "cm_heap S ! cg_token g"
    have m: "may_derive rt (cm_owner S) now sub (set scope) (token_right (cg_resource g) ?t) \<longleftrightarrow>
        (dt_grantee ?t = cm_owner S \<or> dt_is_valid rt now ?t = Inr True) \<and> (dt_grantee ?t = sub \<or> sub \<noteq> cm_owner S) \<and>
        validate_scope_subset (fromkeys scope) (dt_scope ?t) = Inr () \<and> dt_depth ?t < MAX_DEPTH"
      by (simp add: may_derive_def right_current_token validate_scope_subset_Inr scope_covers_def)
    let ?ok = "(dt_grantee ?t = cm_owner S \<or> dt_is_valid rt now ?t = Inr True) \<and> (dt_grantee ?t = sub \<or> sub \<noteq> cm_owner S)"
    have A: "access_table S cid = None" "access_table S p = Some (token_right (cg_resource g) ?t)"
      using assms(4) g by (simp_all add: access_table_def grant_right_def)
    have T: "table_issue rt (cm_owner S) now cid sub (set scope) res ex par (access_table S) =
        (if may_derive rt (cm_owner S) now sub (set scope) (token_right (cg_resource g) ?t)
         then (Done, (access_table S)(cid \<mapsto> \<lparr>ar_holder = sub, ar_scope = set scope, ar_expires = ex,
            ar_resource = res, ar_depth = dt_depth ?t + 1, ar_live = True\<rparr>))
         else (Refused, access_table S))"
      using assms(1-3) by (simp add: table_issue_def Some A)
    show ?thesis
    proof (cases ?ok)
      case True
      then have "issue_parent rt now sub par S = Inr (dt_grantee ?t, dt_depth ?t + 1, Some (dt_scope ?t))"
        using Some g by (auto simp: issue_parent_def cm_get_def Let_def)
      then show ?thesis unfolding T m using True by simp
    next
      case False
      then have "\<exists>e. issue_parent rt now sub par S = Inl e"
        using Some g by (cases "dt_is_valid rt now ?t") (auto simp: issue_parent_def cm_get_def Let_def)
      with False show ?thesis unfolding T m by auto
    qed
  qed
qed

lemma table_issued:
  assumes "cm_inv S" "cg_token g = length (cm_heap S)"
  shows "access_table (S\<lparr>cm_heap := cm_heap S @ [t], cm_tokens := T, cm_grants := AList.update cid g (cm_grants S)\<rparr>) =
    (access_table S)(cid \<mapsto> token_right (cg_resource g) t)"
proof
  fix c
  have "access_table (S\<lparr>cm_heap := cm_heap S @ [t]\<rparr>) c = access_table S c"
    using table_heap_append [OF assms(1)] by simp
  then show "access_table (S\<lparr>cm_heap := cm_heap S @ [t], cm_tokens := T,
      cm_grants := AList.update cid g (cm_grants S)\<rparr>) c = ((access_table S)(cid \<mapsto> token_right (cg_resource g) t)) c"
    using assms(2) by (simp add: access_table_def update_conv' grant_right_def)
qed

lemma issue_refines:
  assumes "cm_inv S" "cm_issue rt now i stamp cid sub scope res ex par con S = (r, S')"
  shows "table_issue rt (cm_owner S) now cid sub (set scope) res ex par (access_table S) =
    (case r of Inl e \<Rightarrow> Refused | Inr g \<Rightarrow> Done, access_table S')"
proof (cases "cid = [] \<or> sub = [] \<or> scope = [] \<or> map_of (cm_grants S) cid \<noteq> None")
  case True
  then have "r = Inl (SIAErr DelegationInvalidError) \<and> S' = S" using assms(2) by (simp add: cm_issue_def split: if_splits)
  moreover have "table_issue rt (cm_owner S) now cid sub (set scope) res ex par (access_table S) = (Refused, access_table S)"
    using True by (auto simp: table_issue_def access_table_def)
  ultimately show ?thesis by simp
next
  case False
  then have ne: "cid \<noteq> []" "sub \<noteq> []" "scope \<noteq> []" "map_of (cm_grants S) cid = None" by simp_all
  note guards = issue_guards [OF ne, of rt now res ex par]
  from assms(2) show ?thesis
  proof (cases rule: cm_issue_cases)
    case (refused e)
    have "\<not> (\<exists>grantor depth ps. issue_parent rt now sub par S = Inr (grantor, depth, ps) \<and> depth \<le> MAX_DEPTH \<and>
        (\<forall>p \<in> set_option ps. validate_scope_subset (fromkeys scope) p = Inr ()))"
      using cm_issue_total [OF ne, of rt now par _ _ _ i stamp res ex con] assms(2) refused(1) by fastforce
    with refused cm_same_table [OF refused(2)] show ?thesis
      unfolding guards by (auto split: sum.split)
  next
    case (invalid e t)
    have "\<not> (\<exists>grantor depth ps. issue_parent rt now sub par S = Inr (grantor, depth, ps) \<and> depth \<le> MAX_DEPTH \<and>
        (\<forall>p \<in> set_option ps. validate_scope_subset (fromkeys scope) p = Inr ()))"
      using cm_issue_total [OF ne, of rt now par _ _ _ i stamp res ex con] assms(2) invalid(1) by fastforce
    with invalid cm_same_table [OF invalid(2)] table_heap_append [OF assms(1)] show ?thesis
      unfolding guards by (auto split: sum.split)
  next
    case (issued t g grantor depth ps)
    then have "r = Inr g" using cm_issue_total [OF ne issued(3,14,15), of i stamp res ex con] assms(2) by auto
    moreover have tr: "token_right (cg_resource g) t = \<lparr>ar_holder = sub, ar_scope = set scope, ar_expires = ex,
        ar_resource = res, ar_depth = depth, ar_live = True\<rparr>"
      using issued by (simp add: token_right_def)
    moreover have "access_table S' = (access_table S)(cid \<mapsto> token_right (cg_resource g) t)"
      using cm_same_table [OF issued(16)] table_issued [OF assms(1) issued(12)] by simp
    ultimately show ?thesis
      using issued(3,14,15) unfolding guards tr by simp
  qed
qed

lemma manager_owner:
  assumes "manager_exec rt c S = (out, S')"
  shows "cm_owner S' = cm_owner S"
proof (cases c)
  case (CallIssue now i stamp cid sub scope res ex par con)
  obtain r S1 where "cm_issue rt now i stamp cid sub scope res ex par con S = (r, S1)" by fastforce
  moreover from this have "cm_owner S1 = cm_owner S" by (cases rule: cm_issue_cases) (simp_all add: cm_same_def)
  ultimately show ?thesis using assms CallIssue by (auto split: sum.splits)
next
  case (CallRevoke stamp cid)
  with assms show ?thesis
    by (auto simp: cm_revoke_def cm_same_def split: sum.splits prod.splits dest!: cm_same_record)
next
  case (CallDecide n1 n2 stamp cid sub act res)
  with assms show ?thesis by (auto simp: cm_same_def split: sum.splits prod.splits dest!: cm_authorize_same)
qed

lemma exec_refines:
  assumes "cm_inv S" "manager_exec rt c S = (out, S')"
  shows "table_exec rt (cm_owner S) c (access_table S) = (out, access_table S') \<and> cm_inv S'"
proof (cases c)
  case (CallIssue now i stamp cid sub scope res ex par con)
  obtain r S1 where r: "cm_issue rt now i stamp cid sub scope res ex par con S = (r, S1)" by fastforce
  with issue_refines [OF assms(1) r] cm_issue_step [OF assms(1) r] assms(2) CallIssue show ?thesis
    by (auto split: sum.splits)
next
  case (CallRevoke stamp cid)
  obtain r S1 where r: "cm_revoke rt stamp cid S = (r, S1)" by fastforce
  with revoke_refines [OF assms(1) r] cm_revoke_step [OF assms(1) r] assms(2) CallRevoke show ?thesis
    by (auto split: sum.splits)
next
  case (CallDecide n1 n2 stamp cid sub act res)
  obtain r S1 where r: "cm_authorize rt n1 n2 stamp cid sub act res S = (r, S1)" by fastforce
  with decide_refines [OF assms(1) r] cm_same_inv [OF cm_authorize_same [OF r] assms(1)] assms(2) CallDecide
  show ?thesis by (auto split: sum.splits)
qed

section \<open>Properties\<close>

text \<open>
  C8.  The capability manager refines the table of access rights: from its construction, whatever
  calls are made, in whatever order and at whatever times, the outcome of every call (returned, verdict
  of a decision, raised) is the one of the abstract table, which starts empty, and the manager's
  grants, tokens and authorizer table together stand for exactly the abstract table.
\<close>

theorem manager_refines_table:
  assumes "cm_init owner rec = Inr S0"
  shows "manager_run rt calls S0 = (outs, S) \<longrightarrow>
    table_run rt owner calls Map.empty = (outs, access_table S)"
proof -
  have "manager_run rt cs S1 = (outs, S) \<longrightarrow> table_run rt (cm_owner S1) cs (access_table S1) = (outs, access_table S)"
    if "cm_inv S1" for cs S1 outs
    using that
  proof (induction cs arbitrary: S1 outs)
    case Nil
    then show ?case by simp
  next
    case (Cons c cs)
    obtain o1 S2 where e: "manager_exec rt c S1 = (o1, S2)" by fastforce
    from exec_refines [OF Cons.prems e] manager_owner [OF e] Cons.IH [of S2] e show ?case
      by (auto split: prod.splits)
  qed
  moreover have "cm_inv S0" "cm_owner S0 = owner" "access_table S0 = Map.empty"
    using cm_init_inv [OF assms] assms by (auto simp: cm_init_def access_table_def split: if_splits)
  ultimately show ?thesis by metis
qed

theorem manager_refines_table_witness:
  "\<exists>S. manager_run plain_runtime
      [CallIssue 0 ''i'' ''s'' ''c'' ''a'' [''read''] None None None None, CallDecide 0 0 ''s'' ''c'' ''a'' ''read'' None,
       CallRevoke ''s'' ''c'', CallDecide 0 0 ''s'' ''c'' ''a'' ''read'' None] demo_cm =
      ([Done, Verdict True, Done, Verdict False], S)"
proof -
  let ?cs = "[CallIssue 0 ''i'' ''s'' ''c'' ''a'' [''read''] None None None None, CallDecide 0 0 ''s'' ''c'' ''a'' ''read'' None,
       CallRevoke ''s'' ''c'', CallDecide 0 0 ''s'' ''c'' ''a'' ''read'' None]"
  obtain outs S where r: "manager_run plain_runtime ?cs demo_cm = (outs, S)" by fastforce
  have "fst (table_run plain_runtime ''o'' ?cs Map.empty) = [Done, Verdict True, Done, Verdict False]"
    by (simp add: table_issue_def table_decide_def table_revoke_def right_current_def)
  with manager_refines_table [OF demo_cm_init, of plain_runtime ?cs outs S] r show ?thesis by auto
qed

end
