(* ===== verification/Policy.thy ===== *)
theory Policy
  imports HashChain
begin

text \<open>
  \<open>src/sia/security/authority_policy.py\<close> and \<open>src/sia/security/boundary_registry.py\<close>: the
  rule-based policy engine and the registry of authority boundaries.  The lemmas show that a policy
  decides by its first matching rule and otherwise by its default, and that no registry operation
  changes the creator, type or model of a registered boundary.
\<close>

section \<open>The policy engine\<close>

record policy_decision =
  pd_allowed :: bool
  pd_reason :: string
  pd_rule :: pyval

record authority_policy =
  ap_default :: pyval
  ap_rules :: pyval

definition dict_get :: "pydict \<Rightarrow> string \<Rightarrow> pyval \<Rightarrow> pyval" where
  "dict_get d k dflt = (case map_of d k of None \<Rightarrow> dflt | Some v \<Rightarrow> v)"

definition policy_init :: "pydict \<Rightarrow> authority_policy" where
  "policy_init policy =
     \<lparr>ap_default = dict_get policy ''default'' (VStr ''deny''), ap_rules = dict_get policy ''rules'' (VList [])\<rparr>"

text \<open>The items that a \<open>for\<close> loop over a value visits.\<close>

fun iterate :: "pyval \<Rightarrow> pyval list res" where
  "iterate (VList xs) = Inr xs"
| "iterate (VTuple xs) = Inr xs"
| "iterate (VDict d) = Inr (map (\<lambda>p. VStr (fst p)) d)"
| "iterate (VStr s) = Inr (map (\<lambda>c. VStr [c]) s)"
| "iterate _ = Inl (TypeError ''object is not iterable'')"

definition pattern_holds :: "pydict \<Rightarrow> string \<times> pyval \<Rightarrow> bool" where
  "pattern_holds request p = (snd p = VStr ''*'' \<or> dict_get request (fst p) VNone = snd p)"

definition policy_matches :: "pyval \<Rightarrow> pydict \<Rightarrow> bool res" where
  "policy_matches pattern request =
     (case pattern of
        VDict d \<Rightarrow> Inr (list_all (pattern_holds request) d)
      | _ \<Rightarrow> Inl (AppError ''AttributeError'' ''items''))"

fun evaluate_rules :: "runtime \<Rightarrow> pyval \<Rightarrow> pydict \<Rightarrow> pyval list \<Rightarrow> policy_decision res" where
  "evaluate_rules rt dflt request [] =
     Inr \<lparr>pd_allowed = (dflt = VStr ''allow''),
          pd_reason = ''No matching rule; default is '' @ [CHR 0x27] @ py_str rt dflt @ [CHR 0x27],
          pd_rule = VNone\<rparr>"
| "evaluate_rules rt dflt request (rule # rules) =
     (case rule of
        VDict r \<Rightarrow>
          bindE (policy_matches (dict_get r ''match'' (VDict [])) request) (\<lambda>m.
            if m
            then Inr \<lparr>pd_allowed = (dict_get r ''effect'' (VStr ''deny'') = VStr ''allow''),
                      pd_reason = ''Matched rule '' @ [CHR 0x27] @ py_str rt (dict_get r ''id'' (VStr ''?'')) @ [CHR 0x27],
                      pd_rule = dict_get r ''id'' VNone\<rparr>
            else evaluate_rules rt dflt request rules)
      | _ \<Rightarrow> Inl (AppError ''AttributeError'' ''get''))"

definition policy_evaluate :: "runtime \<Rightarrow> authority_policy \<Rightarrow> pydict \<Rightarrow> policy_decision res" where
  "policy_evaluate rt p request =
     bindE (iterate (ap_rules p)) (\<lambda>rules. evaluate_rules rt (ap_default p) request rules)"

definition policy_enforce :: "runtime \<Rightarrow> authority_policy \<Rightarrow> pydict \<Rightarrow> unit res" where
  "policy_enforce rt p request =
     bindE (policy_evaluate rt p request) (\<lambda>d. guardE (pd_allowed d) (SIAErr PolicyDeniedError))"

definition policy_to_dict :: "authority_policy \<Rightarrow> pydict res" where
  "policy_to_dict p =
     bindE (iterate (ap_rules p)) (\<lambda>rules. Inr [(''default'', ap_default p), (''rules'', VList rules)])"

text \<open>A rule of the documented shape matches a request when all its patterns hold.\<close>

definition rule_matches :: "pydict \<Rightarrow> pydict \<Rightarrow> bool" where
  "rule_matches request r =
     (case dict_get r ''match'' (VDict []) of VDict d \<Rightarrow> list_all (pattern_holds request) d | _ \<Rightarrow> False)"

definition rule_shaped :: "pydict \<Rightarrow> bool" where
  "rule_shaped r = (case dict_get r ''match'' (VDict []) of VDict d \<Rightarrow> True | _ \<Rightarrow> False)"

lemma evaluate_rules_first:
  "list_all rule_shaped rs \<Longrightarrow>
   \<exists>d. evaluate_rules rt dflt request (map VDict rs) = Inr d \<and>
     pd_allowed d = (case List.find (rule_matches request) rs of
        Some r \<Rightarrow> dict_get r ''effect'' (VStr ''deny'') = VStr ''allow''
      | None \<Rightarrow> dflt = VStr ''allow'') \<and>
     pd_rule d = (case List.find (rule_matches request) rs of Some r \<Rightarrow> dict_get r ''id'' VNone | None \<Rightarrow> VNone)"
proof (induction rs)
  case Nil
  then show ?case by simp
next
  case (Cons r rs)
  then obtain d where "dict_get r ''match'' (VDict []) = VDict d"
    by (auto simp: rule_shaped_def split: pyval.splits)
  with Cons show ?case
    by (simp add: policy_matches_def rule_matches_def)
qed

section \<open>The boundary registry\<close>

record boundary_record =
  br_id :: string
  br_model :: string
  br_type :: string
  br_creator :: string
  br_scope :: "string list"
  br_active :: bool

type_synonym registry = "(string \<times> boundary_record) list"

definition registry_init :: registry where
  "registry_init = []"

definition registry_register :: "string \<Rightarrow> string \<Rightarrow> string \<Rightarrow> string \<Rightarrow> string list \<Rightarrow> registry \<Rightarrow>
    boundary_record res \<times> registry" where
  "registry_register boundary_id model_id boundary_type creator_id scope R =
     (if map_of R boundary_id \<noteq> None then (Inl (SIAErr RegistryDuplicateError), R)
      else (let r = \<lparr>br_id = boundary_id, br_model = model_id, br_type = boundary_type,
                     br_creator = creator_id, br_scope = scope, br_active = True\<rparr>
            in (Inr r, AList.update boundary_id r R)))"

definition registry_get :: "registry \<Rightarrow> string \<Rightarrow> boundary_record res" where
  "registry_get R boundary_id =
     (case map_of R boundary_id of
        None \<Rightarrow> Inl (SIAErr RegistryNotFoundError)
      | Some r \<Rightarrow> Inr r)"

definition list_active :: "registry \<Rightarrow> boundary_record list" where
  "list_active R = filter br_active (map snd R)"

definition list_for_model :: "string \<Rightarrow> registry \<Rightarrow> boundary_record list" where
  "list_for_model model_id R = filter (\<lambda>r. br_active r \<and> br_model r = model_id) (map snd R)"

definition registry_deactivate :: "string \<Rightarrow> registry \<Rightarrow> unit res \<times> registry" where
  "registry_deactivate boundary_id R =
     (case registry_get R boundary_id of
        Inl ex \<Rightarrow> (Inl ex, R)
      | Inr r \<Rightarrow> (Inr (), AList.update boundary_id (r\<lparr>br_active := False\<rparr>) R))"

definition update_scope :: "string \<Rightarrow> string list \<Rightarrow> registry \<Rightarrow> unit res \<times> registry" where
  "update_scope boundary_id scope R =
     (case registry_get R boundary_id of
        Inl ex \<Rightarrow> (Inl ex, R)
      | Inr r \<Rightarrow> (Inr (), AList.update boundary_id (r\<lparr>br_scope := scope\<rparr>) R))"

definition assert_creator_locked :: "registry \<Rightarrow> string \<Rightarrow> string \<Rightarrow> unit res" where
  "assert_creator_locked R boundary_id creator_id =
     bindE (registry_get R boundary_id) (\<lambda>r. guardE (br_creator r = creator_id) (SIAErr CreatorLockedError))"

definition assert_no_conversion :: "registry \<Rightarrow> string \<Rightarrow> string \<Rightarrow> unit res" where
  "assert_no_conversion R boundary_id new_type =
     bindE (registry_get R boundary_id)
       (\<lambda>r. guardE (br_type r = new_type) (SIAErr (SIAError E_REGISTRY_CONVERSION_DENIED)))"

section \<open>Canonical boundaries\<close>

text \<open>Types are given by name.  The table of the source is empty; the functions take it as an argument.\<close>

record boundary_definition =
  bd_type :: string
  bd_owning_rfc :: string
  bd_success :: string
  bd_rejection :: string
  bd_creator_rfc :: string
  bd_exact :: bool

definition CANONICAL_BOUNDARIES :: "boundary_definition list" where
  "CANONICAL_BOUNDARIES = []"

definition find_creator_for_type :: "boundary_definition list \<Rightarrow> string \<Rightarrow> boundary_definition option" where
  "find_creator_for_type table output_type = List.find (\<lambda>b. bd_success b = output_type) table"

fun ensure_canonical_from :: "string list \<Rightarrow> boundary_definition list \<Rightarrow> unit res" where
  "ensure_canonical_from creators [] = Inr ()"
| "ensure_canonical_from creators (b # bs) =
     (if bd_creator_rfc b \<noteq> bd_owning_rfc b
      then Inl (SIAErr (AuthorityFailure ''sia.error.boundary.creator_rfc_mismatch''))
      else if bd_success b \<in> set creators
      then Inl (SIAErr (AuthorityFailure ''sia.error.boundary.duplicate_creator''))
      else ensure_canonical_from (bd_success b # creators) bs)"

definition ensure_boundary_registry_is_canonical :: "boundary_definition list \<Rightarrow> unit res" where
  "ensure_boundary_registry_is_canonical table = ensure_canonical_from [] table"

text \<open>A converter is given by its result: the name of its type and the value.\<close>

definition enforce_no_implicit_authority_conversion ::
    "boundary_definition list \<Rightarrow> (string \<times> 'a) res \<Rightarrow> 'a res" where
  "enforce_no_implicit_authority_conversion table converter =
     bindE converter (\<lambda>(ty, result).
       case find_creator_for_type table ty of
         None \<Rightarrow> Inr result
       | Some b \<Rightarrow> Inl (SIAErr (AuthorityFailure ''sia.error.unregistered_authority_creation'')))"

definition enforce_authority_creation_path ::
    "boundary_definition list \<Rightarrow> (string \<times> 'a) res \<Rightarrow> 'a res" where
  "enforce_authority_creation_path table converter =
     bindE (ensure_boundary_registry_is_canonical table) (\<lambda>_.
     bindE converter (\<lambda>(ty, result).
       case find_creator_for_type table ty of
         None \<Rightarrow> Inr result
       | Some b \<Rightarrow> Inl (SIAErr (AuthorityFailure ''sia.error.unregistered_authority_creation''))))"

section \<open>Registry histories\<close>

inductive registry_reach :: "registry \<Rightarrow> registry \<Rightarrow> bool" for R where
  stay: "registry_reach R R"
| register: "registry_reach R S \<Longrightarrow> registry_reach R (snd (registry_register i m t c sc S))"
| deactivate: "registry_reach R S \<Longrightarrow> registry_reach R (snd (registry_deactivate i S))"
| rescope: "registry_reach R S \<Longrightarrow> registry_reach R (snd (update_scope i sc S))"

definition same_boundary :: "boundary_record \<Rightarrow> boundary_record \<Rightarrow> bool" where
  "same_boundary r s \<longleftrightarrow> br_id s = br_id r \<and> br_model s = br_model r \<and> br_type s = br_type r \<and>
     br_creator s = br_creator r \<and> (br_active s \<longrightarrow> br_active r)"

lemma registry_reach_same:
  "registry_reach R S \<Longrightarrow> map_of R i = Some r \<Longrightarrow> \<exists>s. map_of S i = Some s \<and> same_boundary r s"
proof (induction rule: registry_reach.induct)
  case stay
  then show ?case by (auto simp: same_boundary_def)
next
  case (register S j m t c sc)
  then obtain s where "map_of S i = Some s" "same_boundary r s" by blast
  then show ?case by (auto simp: registry_register_def Let_def)
next
  case (deactivate S j)
  then obtain s where "map_of S i = Some s" "same_boundary r s" by blast
  then show ?case
    by (auto simp: registry_deactivate_def registry_get_def same_boundary_def split: option.splits sum.splits)
next
  case (rescope S j sc)
  then obtain s where "map_of S i = Some s" "same_boundary r s" by blast
  then show ?case
    by (auto simp: update_scope_def registry_get_def same_boundary_def split: option.splits sum.splits)
qed

section \<open>Properties\<close>

text \<open>
  C37.  A policy of the documented shape decides every request by its first matching rule (allowed
  iff that rule's effect is \<open>allow\<close>), and by the default when no rule matches; without a
  \<open>default\<close> and rules it denies.
\<close>

theorem policy_first_match:
  assumes "ap_rules p = VList (map VDict rs)" "list_all rule_shaped rs"
  shows "\<exists>d. policy_evaluate rt p request = Inr d \<and>
     pd_allowed d = (case List.find (rule_matches request) rs of
        Some r \<Rightarrow> dict_get r ''effect'' (VStr ''deny'') = VStr ''allow''
      | None \<Rightarrow> ap_default p = VStr ''allow'') \<and>
     policy_enforce rt p request = (if pd_allowed d then Inr () else Inl (SIAErr PolicyDeniedError)) \<and>
     policy_enforce rt (policy_init []) request = Inl (SIAErr PolicyDeniedError)"
proof -
  obtain d where "evaluate_rules rt (ap_default p) request (map VDict rs) = Inr d"
    "pd_allowed d = (case List.find (rule_matches request) rs of
        Some r \<Rightarrow> dict_get r ''effect'' (VStr ''deny'') = VStr ''allow''
      | None \<Rightarrow> ap_default p = VStr ''allow'')"
    using evaluate_rules_first [OF assms(2)] by blast
  moreover have "policy_enforce rt (policy_init []) request = Inl (SIAErr PolicyDeniedError)"
    by (simp add: policy_enforce_def policy_evaluate_def policy_init_def dict_get_def guardE_def)
  ultimately show ?thesis
    by (simp add: policy_evaluate_def policy_enforce_def assms(1) guardE_def)
qed

definition demo_policy :: authority_policy where
  "demo_policy = \<lparr>ap_default = VStr ''deny'', ap_rules = VList (map VDict
     [[(''id'', VStr ''r1''), (''match'', VDict [(''action'', VStr ''x'')]), (''effect'', VStr ''deny'')],
      [(''id'', VStr ''r2''), (''match'', VDict [(''action'', VStr ''*'')]), (''effect'', VStr ''allow'')]])\<rparr>"

theorem policy_first_match_witness:
  "policy_enforce plain_runtime demo_policy [(''action'', VStr ''y'')] = Inr () \<and>
   policy_enforce plain_runtime demo_policy [(''action'', VStr ''x'')] = Inl (SIAErr PolicyDeniedError)"
proof -
  let ?rs = "[[(''id'', VStr ''r1''), (''match'', VDict [(''action'', VStr ''x'')]), (''effect'', VStr ''deny'')],
      [(''id'', VStr ''r2''), (''match'', VDict [(''action'', VStr ''*'')]), (''effect'', VStr ''allow'')]]"
  have r: "ap_rules demo_policy = VList (map VDict ?rs)" "list_all rule_shaped ?rs"
    by (simp_all add: demo_policy_def rule_shaped_def dict_get_def)
  show ?thesis
    using policy_first_match [OF r, of plain_runtime "[(''action'', VStr ''y'')]"]
      policy_first_match [OF r, of plain_runtime "[(''action'', VStr ''x'')]"]
    by (auto simp: rule_matches_def pattern_holds_def dict_get_def)
qed

text \<open>
  Whatever sequence of registrations, deactivations and scope updates follows (refused calls
  included), a registered boundary keeps its creator, type and model, is never reactivated, and the
  lock checks keep giving the same answer for it.
\<close>

theorem registered_boundary_fixed:
  assumes "registry_register i m t c sc R0 = (Inr r, R)" "registry_reach R S"
  shows "\<exists>s. registry_get S i = Inr s \<and> br_creator s = c \<and> br_type s = t \<and> br_model s = m \<and>
    (assert_creator_locked S i c' = Inr () \<longleftrightarrow> c' = c) \<and> (assert_no_conversion S i t' = Inr () \<longleftrightarrow> t' = t) \<and>
    registry_register i m' t' c' sc' S = (Inl (SIAErr RegistryDuplicateError), S)"
proof -
  from assms(1) have r: "map_of R i = Some r" "br_creator r = c" "br_type r = t" "br_model r = m"
    by (auto simp: registry_register_def Let_def split: if_splits)
  from registry_reach_same [OF assms(2) r(1)] obtain s where "map_of S i = Some s" "same_boundary r s" by blast
  with r show ?thesis
    by (auto simp: registry_get_def same_boundary_def assert_creator_locked_def assert_no_conversion_def
        registry_register_def)
qed

theorem registered_boundary_fixed_witness:
  "\<exists>r R s. registry_register ''b'' ''m'' ''creator'' ''ada'' [''memory.read''] registry_init = (Inr r, R) \<and>
     registry_get (snd (update_scope ''b'' [] R)) ''b'' = Inr s \<and> br_creator s = ''ada''"
proof -
  obtain r R where r: "registry_register ''b'' ''m'' ''creator'' ''ada'' [''memory.read''] registry_init = (Inr r, R)"
    by (simp add: registry_register_def registry_init_def Let_def)
  let ?S = "snd (update_scope ''b'' [] R)"
  have "registry_reach R ?S" by (rule registry_reach.rescope [OF registry_reach.stay])
  from registered_boundary_fixed [OF r this, where c' = "[]" and t' = "[]" and m' = "[]" and sc' = "[]"]
  obtain s where "registry_get ?S ''b'' = Inr s" "br_creator s = ''ada''" by blast
  with r show ?thesis by (intro exI conjI)
qed

end
