(* ===== verification/Records.thy ===== *)
theory Records
  imports HashChain
begin

text \<open>
  \<open>src/sia/memory\<close>, \<open>src/sia/export\<close> and \<open>src/sia/imports\<close>: memory records with consent, export
  bundles with their integrity check, import bundles, the duplicate-rejecting loader and the ledger
  import.  The lemmas show who may read a record, that a validated bundle is bound to its payload,
  and that the loader never holds two bundles with one id.
\<close>

section \<open>Memory records\<close>

record memory_record =
  mr_id :: string
  mr_model :: string
  mr_content :: pyval
  mr_consent :: "string list"
  mr_created :: string
  mr_version :: string

definition memory_to_dict :: "memory_record \<Rightarrow> pydict" where
  "memory_to_dict r =
     [(''schema_version'', VStr (mr_version r)), (''record_id'', VStr (mr_id r)),
      (''model_id'', VStr (mr_model r)), (''content'', mr_content r),
      (''consent'', str_list (mr_consent r)), (''created_at'', VStr (mr_created r))]"

definition has_consent :: "memory_record \<Rightarrow> string \<Rightarrow> bool" where
  "has_consent r requesting_model_id =
     (requesting_model_id = mr_model r \<or> requesting_model_id \<in> set (mr_consent r))"

definition memory_required :: "string list" where
  "memory_required = [''record_id'', ''model_id'', ''content'', ''schema_version'']"

definition nonempty_str :: "pyval option \<Rightarrow> bool" where
  "nonempty_str v = (case v of Some (VStr s) \<Rightarrow> s \<noteq> [] | _ \<Rightarrow> False)"

definition validate_record :: "memory_record \<Rightarrow> unit res" where
  "validate_record r =
     (let d = memory_to_dict r in
      if \<not> set memory_required \<subseteq> set (map fst d) then Inl (SIAErr MemorySchemaError)
      else if \<not> nonempty_str (map_of d ''record_id'') then Inl (SIAErr MemorySchemaError)
      else if \<not> nonempty_str (map_of d ''model_id'') then Inl (SIAErr MemorySchemaError)
      else if map_of d ''schema_version'' \<noteq> Some (VStr ''1.0'') then Inl (SIAErr MemorySchemaError)
      else (case map_of d ''consent'' of
              Some (VList _) \<Rightarrow> Inr ()
            | None \<Rightarrow> Inr ()
            | _ \<Rightarrow> Inl (SIAErr MemorySchemaError)))"

definition assert_read_access :: "memory_record \<Rightarrow> string \<Rightarrow> unit res" where
  "assert_read_access r requesting_model_id =
     guardE (has_consent r requesting_model_id) (SIAErr MemoryConsentDeniedError)"

lemma validate_record_Inr:
  "validate_record r = Inr () \<longleftrightarrow> mr_id r \<noteq> [] \<and> mr_model r \<noteq> [] \<and> mr_version r = ''1.0''"
  by (simp add: validate_record_def memory_to_dict_def memory_required_def nonempty_str_def str_list_def Let_def)

section \<open>Export bundles\<close>

definition EXPORT_SCHEMA_VERSION :: string where "EXPORT_SCHEMA_VERSION = ''1.0''"

text \<open>The payload of a bundle is a dictionary; the same fields make an import bundle.\<close>

record portable_bundle =
  bu_id :: string
  bu_created_by :: string
  bu_payload :: pyval
  bu_payload_hash :: string
  bu_signature :: string
  bu_created_at :: string
  bu_version :: string

definition bundle_to_dict :: "portable_bundle \<Rightarrow> pydict" where
  "bundle_to_dict b =
     [(''schema_version'', VStr (bu_version b)), (''bundle_id'', VStr (bu_id b)),
      (''created_by'', VStr (bu_created_by b)), (''created_at'', VStr (bu_created_at b)),
      (''payload'', bu_payload b), (''payload_hash'', VStr (bu_payload_hash b)),
      (''signature'', VStr (bu_signature b))]"

definition bundle_required :: "string list" where
  "bundle_required = [''bundle_id'', ''created_by'', ''payload'', ''payload_hash'', ''signature'', ''schema_version'']"

definition validate_bundle :: "runtime \<Rightarrow> portable_bundle \<Rightarrow> unit res" where
  "validate_bundle rt b =
     (let d = bundle_to_dict b in
      if \<not> set bundle_required \<subseteq> set (map fst d) then Inl (SIAErr (ExportError E_EXPORT_BUNDLE_INCOMPLETE))
      else if map_of d ''schema_version'' \<noteq> Some (VStr EXPORT_SCHEMA_VERSION)
      then Inl (SIAErr (ExportError E_EXPORT_SCHEMA_INVALID))
      else if \<not> list_all (\<lambda>f. nonempty_str (map_of d f)) [''bundle_id'', ''created_by'', ''payload_hash'', ''signature'']
      then Inl (SIAErr (ExportError E_EXPORT_SCHEMA_INVALID))
      else bindE (hash_object rt (bu_payload b)) (\<lambda>expected_hash.
        guardE (bu_payload_hash b = expected_hash) (SIAErr (ExportError E_EXPORT_SCHEMA_INVALID))))"

lemma validate_bundle_Inr:
  "validate_bundle rt b = Inr () \<longleftrightarrow>
     bu_version b = EXPORT_SCHEMA_VERSION \<and> bu_id b \<noteq> [] \<and> bu_created_by b \<noteq> [] \<and>
     bu_payload_hash b \<noteq> [] \<and> bu_signature b \<noteq> [] \<and> hash_object rt (bu_payload b) = Inr (bu_payload_hash b)"
  by (auto simp: validate_bundle_def bundle_to_dict_def bundle_required_def nonempty_str_def Let_def res_simps)

section \<open>Imports\<close>

definition SUPPORTED_VERSIONS :: "string list" where "SUPPORTED_VERSIONS = [''1.0'']"

definition validate_import :: "runtime \<Rightarrow> portable_bundle \<Rightarrow> unit res" where
  "validate_import rt b =
     (if bu_version b \<notin> set SUPPORTED_VERSIONS then Inl (SIAErr (ImportError E_IMPORT_VERSION_UNSUPPORTED))
      else bindE (hash_object rt (bu_payload b)) (\<lambda>expected.
        guardE (bu_payload_hash b = expected) (SIAErr (ImportError E_IMPORT_SCHEMA_INVALID))))"

fun is_dict :: "pyval \<Rightarrow> bool" where
  "is_dict (VDict d) = True"
| "is_dict _ = False"

definition validate_import_payload :: "pydict \<Rightarrow> unit res" where
  "validate_import_payload payload =
     (if \<not> set [''ledger_version'', ''ledger_hash'', ''records''] \<subseteq> set (map fst payload)
      then Inl (SIAErr (ImportError E_IMPORT_SCHEMA_INVALID))
      else case map_of payload ''records'' of
             Some (VList records) \<Rightarrow> guardE (list_all is_dict records) (SIAErr (ImportError E_IMPORT_SCHEMA_INVALID))
           | _ \<Rightarrow> Inl (SIAErr (ImportError E_IMPORT_SCHEMA_INVALID)))"

text \<open>\<open>json.loads(json.dumps(v))\<close>: tuples come back as lists, non-JSON values raise.\<close>

fun json_roundtrip :: "pyval \<Rightarrow> pyval res" where
  "json_roundtrip (VDict d) =
     bindE (mapE (\<lambda>p. bindE (json_roundtrip (snd p)) (\<lambda>v. Inr (fst p, v))) d) (\<lambda>d'. Inr (VDict d'))"
| "json_roundtrip (VList xs) = bindE (mapE json_roundtrip xs) (\<lambda>ys. Inr (VList ys))"
| "json_roundtrip (VTuple xs) = bindE (mapE json_roundtrip xs) (\<lambda>ys. Inr (VList ys))"
| "json_roundtrip (VDatetime d) = Inl (TypeError ''Object of type datetime is not JSON serializable'')"
| "json_roundtrip (VDate d) = Inl (TypeError ''Object of type date is not JSON serializable'')"
| "json_roundtrip (VDecimal d) = Inl (TypeError ''Object of type Decimal is not JSON serializable'')"
| "json_roundtrip v = Inr v"

record imported_ledger =
  il_version :: pyval
  il_hash :: pyval
  il_records :: "pyval list"
  il_schema :: string

definition imported_to_dict :: "imported_ledger \<Rightarrow> pydict" where
  "imported_to_dict l =
     [(''schema_version'', VStr (il_schema l)), (''ledger_version'', il_version l),
      (''ledger_hash'', il_hash l), (''records'', VList (il_records l))]"

text \<open>The envelope is an export bundle or (\<open>None\<close>) any other object.\<close>

definition import_ledger :: "runtime \<Rightarrow> portable_bundle option \<Rightarrow> imported_ledger res" where
  "import_ledger rt envelope =
     (case envelope of
        None \<Rightarrow> Inl (SIAErr (ImportError E_IMPORT_LOAD_FAILED))
      | Some b \<Rightarrow>
          bindE (validate_bundle rt b) (\<lambda>_.
          bindE (json_roundtrip (bu_payload b)) (\<lambda>decoded.
            (case decoded of
               VDict d \<Rightarrow>
                 bindE (validate_import_payload d) (\<lambda>_.
                   (case (map_of d ''ledger_version'', map_of d ''ledger_hash'', map_of d ''records'') of
                      (Some v, Some h, Some (VList rs)) \<Rightarrow>
                        Inr \<lparr>il_version = v, il_hash = h, il_records = rs, il_schema = ''1.0''\<rparr>
                    | _ \<Rightarrow> Inl (KeyError ''records'')))
             | _ \<Rightarrow> Inl (AppError ''AttributeError'' ''keys'')))))"

section \<open>The loader\<close>

type_synonym loader = "(string \<times> portable_bundle) list"

definition loader_load :: "portable_bundle \<Rightarrow> loader \<Rightarrow> unit res \<times> loader" where
  "loader_load b seen =
     (if map_of seen (bu_id b) \<noteq> None then (Inl (SIAErr (ImportError E_IMPORT_DUPLICATE)), seen)
      else (Inr (), AList.update (bu_id b) b seen))"

definition list_bundles :: "loader \<Rightarrow> portable_bundle list" where
  "list_bundles seen = map snd seen"

lemma loader_load_fresh:
  "map_of seen (bu_id b) = None \<Longrightarrow> loader_load b seen = (Inr (), seen @ [(bu_id b, b)])"
  by (simp add: loader_load_def update_fresh)

lemma loader_load_snd:
  "snd (loader_load b seen) = (if bu_id b \<in> fst ` set seen then seen else seen @ [(bu_id b, b)])"
proof (cases "map_of seen (bu_id b)")
  case None
  then show ?thesis using loader_load_fresh [OF None] by (simp add: map_of_None_keys)
next
  case (Some c)
  then have "bu_id b \<in> fst ` set seen" by (metis map_of_None_keys option.distinct(1))
  with Some show ?thesis by (simp add: loader_load_def)
qed

text \<open>Loading a sequence of bundles, each call on its own.\<close>

fun load_all :: "portable_bundle list \<Rightarrow> loader \<Rightarrow> loader" where
  "load_all [] seen = seen"
| "load_all (b # bs) seen = load_all bs (snd (loader_load b seen))"

definition loader_inv :: "loader \<Rightarrow> bool" where
  "loader_inv seen \<longleftrightarrow> map fst seen = map bu_id (list_bundles seen) \<and> distinct (map fst seen)"

lemma loader_load_inv: "loader_inv seen \<Longrightarrow> loader_inv (snd (loader_load b seen))"
  by (auto simp: loader_load_snd loader_inv_def list_bundles_def)

lemma load_all_inv: "loader_inv seen \<Longrightarrow> loader_inv (load_all bs seen)"
  by (induction bs arbitrary: seen) (auto intro: loader_load_inv)

lemma load_all_ids:
  "set (map fst (load_all bs seen)) = set (map fst seen) \<union> bu_id ` set bs"
proof (induction bs arbitrary: seen)
  case Nil
  then show ?case by simp
next
  case (Cons b bs)
  have "set (map fst (snd (loader_load b seen))) = insert (bu_id b) (set (map fst seen))"
    by (auto simp: loader_load_snd)
  with Cons show ?case by simp
qed

section \<open>Properties\<close>

text \<open>
  A validated export bundle is bound to its payload: if the payload of a bundle that
  \<open>validate_bundle\<close> accepts is replaced and the bundle is still accepted, the new payload has the
  same canonical form, provided SHA3-512 does not collide on the two documents.
\<close>

theorem bundle_payload_bound:
  assumes "validate_bundle rt b = Inr ()" "validate_bundle rt (b\<lparr>bu_payload := p\<rparr>) = Inr ()"
    and "wf_pyval (bu_payload b)" "wf_pyval p"
    and "inj_on (hexdigest rt) {object_bytes rt (bu_payload b), object_bytes rt p}"
  shows "canonicalize rt p = canonicalize rt (bu_payload b)"
proof -
  from assms(1,2) have h: "hash_object rt (bu_payload b) = Inr (bu_payload_hash b)"
    "hash_object rt p = Inr (bu_payload_hash b)"
    by (simp_all add: validate_bundle_Inr)
  from hash_object_binds [OF h(2,1) assms(4,3)] assms(5) show ?thesis by (simp add: insert_commute)
qed

definition demo_bundle :: portable_bundle where
  "demo_bundle = \<lparr>bu_id = ''b'', bu_created_by = ''ada'', bu_payload = VDict [],
     bu_payload_hash = hexdigest plain_runtime (object_bytes plain_runtime (VDict [])),
     bu_signature = ''s'', bu_created_at = [], bu_version = ''1.0''\<rparr>"

lemma demo_bundle_valid: "validate_bundle plain_runtime demo_bundle = Inr ()"
proof -
  obtain h where "hash_object plain_runtime (VDict []) = Inr h"
    using hash_object_total [of "VDict []" plain_runtime] by auto
  with hash_object_bytes [OF this]
  have h: "hash_object plain_runtime (VDict []) = Inr (bu_payload_hash demo_bundle)" by (simp add: demo_bundle_def)
  have "bu_payload_hash demo_bundle \<noteq> []"
    by (simp add: demo_bundle_def hexdigest_def plain_runtime_def object_bytes_def canonical_bytes_def
        compact_def default_domain_def)
  with h show ?thesis
    by (simp add: validate_bundle_Inr) (simp add: demo_bundle_def EXPORT_SCHEMA_VERSION_def)
qed

theorem bundle_payload_bound_witness:
  "canonicalize plain_runtime (VDict []) = canonicalize plain_runtime (bu_payload demo_bundle)"
proof (rule bundle_payload_bound [OF demo_bundle_valid])
  have "demo_bundle\<lparr>bu_payload := VDict []\<rparr> = demo_bundle" by (simp add: demo_bundle_def)
  with demo_bundle_valid show "validate_bundle plain_runtime (demo_bundle\<lparr>bu_payload := VDict []\<rparr>) = Inr ()"
    by (simp only:)
qed (simp_all add: demo_bundle_def)

text \<open>
  The loader keeps exactly one bundle per id: after any sequence of \<open>load\<close> calls on a new
  loader the listed bundles have distinct ids, which are exactly the ids of the bundles offered,
  and a further \<open>load\<close> of one of them raises \<open>E_IMPORT_DUPLICATE\<close> and changes nothing.
\<close>

theorem loader_one_per_id:
  "distinct (map bu_id (list_bundles (load_all bs []))) \<and>
   set (map bu_id (list_bundles (load_all bs []))) = bu_id ` set bs \<and>
   (\<forall>b. loader_load b (load_all bs []) =
      (if bu_id b \<in> bu_id ` set bs
       then (Inl (SIAErr (ImportError E_IMPORT_DUPLICATE)), load_all bs [])
       else (Inr (), load_all bs [] @ [(bu_id b, b)])))"
proof -
  have inv: "loader_inv (load_all bs [])"
    by (rule load_all_inv) (simp add: loader_inv_def list_bundles_def)
  have ids: "set (map fst (load_all bs [])) = bu_id ` set bs"
    using load_all_ids [of bs "[]"] by simp
  have "loader_load b (load_all bs []) =
      (if bu_id b \<in> bu_id ` set bs
       then (Inl (SIAErr (ImportError E_IMPORT_DUPLICATE)), load_all bs [])
       else (Inr (), load_all bs [] @ [(bu_id b, b)]))" for b
  proof (cases "bu_id b \<in> bu_id ` set bs")
    case True
    with ids have "map_of (load_all bs []) (bu_id b) \<noteq> None" by (simp add: map_of_None_keys)
    with True show ?thesis by (simp add: loader_load_def)
  next
    case False
    with ids have "map_of (load_all bs []) (bu_id b) = None" by (simp add: map_of_None_keys)
    with False show ?thesis by (simp add: loader_load_fresh)
  qed
  with inv ids show ?thesis by (metis loader_inv_def)
qed

end
