(* ===== verification/Gate.thy ===== *)
theory Gate
  imports Capability Delegation Policy
begin

text \<open>
  \<open>src/sia/authority_gate.py\<close>: the vocabulary of protected operations, the decision pipeline
  identity, capability, policy, evidence of \<open>DefaultAuthorityGate\<close>, authorized context packets and
  the local probe provider.  The four collaborators are abstract classes in the source; here they
  are the fields of a record, and the contract that evidence recorders keep is a locale in which
  the pipeline's guarantees are proved once.
\<close>

section \<open>Operations\<close>

datatype protected_operation =
    READ_MEMORY
  | WRITE_MEMORY
  | EXPORT_ARCHIVE
  | IMPORT_ARCHIVE
  | EXECUTE_TOOL
  | RELEASE_CONTEXT
  | CALL_PROVIDER
  | WORKSPACE_LIST
  | WORKSPACE_READ
  | WORKSPACE_ANALYZE
  | WORKSPACE_REPO_STATUS

fun op_value :: "protected_operation \<Rightarrow> string" where
  "op_value READ_MEMORY = ''READ_MEMORY''"
| "op_value WRITE_MEMORY = ''WRITE_MEMORY''"
| "op_value EXPORT_ARCHIVE = ''EXPORT_ARCHIVE''"
| "op_value IMPORT_ARCHIVE = ''IMPORT_ARCHIVE''"
| "op_value EXECUTE_TOOL = ''EXECUTE_TOOL''"
| "op_value RELEASE_CONTEXT = ''RELEASE_CONTEXT''"
| "op_value CALL_PROVIDER = ''CALL_PROVIDER''"
| "op_value WORKSPACE_LIST = ''WORKSPACE_LIST''"
| "op_value WORKSPACE_READ = ''WORKSPACE_READ''"
| "op_value WORKSPACE_ANALYZE = ''WORKSPACE_ANALYZE''"
| "op_value WORKSPACE_REPO_STATUS = ''WORKSPACE_REPO_STATUS''"

definition all_operations :: "protected_operation list" where
  "all_operations = [READ_MEMORY, WRITE_MEMORY, EXPORT_ARCHIVE, IMPORT_ARCHIVE, EXECUTE_TOOL,
     RELEASE_CONTEXT, CALL_PROVIDER, WORKSPACE_LIST, WORKSPACE_READ, WORKSPACE_ANALYZE,
     WORKSPACE_REPO_STATUS]"

text \<open>\<open>ProtectedOperation(value)\<close>; \<open>None\<close> is the \<open>ValueError\<close>.\<close>

definition op_of :: "string \<Rightarrow> protected_operation option" where
  "op_of s = enum_of op_value all_operations s"

lemma op_of_value [simp]: "op_of (op_value p) = Some p"
proof -
  have "inj_on op_value S" for S
    by (rule inj_onI, rename_tac x y, case_tac x; case_tac y; simp)
  moreover have "p \<in> set all_operations" by (cases p) (simp_all add: all_operations_def)
  ultimately show ?thesis unfolding op_of_def by (rule enum_of_value)
qed

lemma op_of_Some: "op_of s = Some p \<longleftrightarrow> s = op_value p"
  using enum_of_Some [of op_value all_operations s p] op_of_value [of p] by (auto simp: op_of_def)

lemma op_value_inj [simp]: "op_value a = op_value b \<longleftrightarrow> a = b"
  by (metis op_of_value option.inject)

section \<open>Requests and decisions\<close>

record identity_context =
  ic_identity :: string
  ic_device :: "string option"
  ic_verified :: bool
  ic_hardware :: bool
  ic_metadata :: pydict

text \<open>\<open>expires_at: str | int | None\<close>; the scopes are a frozenset, listed without repetition.\<close>

datatype expiry = ExpiresIso string | ExpiresAt int

record capability_record =
  kr_id :: string
  kr_owner :: string
  kr_scopes :: "string list"
  kr_provider :: "string option"
  kr_device :: "string option"
  kr_expires :: "expiry option"
  kr_revoked :: bool
  kr_parent :: "string option"

text \<open>The kinds of object that a caller may pass as a capability.\<close>

datatype capability_value =
    CapRecord capability_record
  | CapToken capability_token
  | CapDelegation delegation_token
  | CapOther

text \<open>A \<open>StrEnum\<close> member is the string of its value.\<close>

record operation_request =
  or_operation :: string
  or_identity :: "identity_context option"
  or_capability :: "capability_value option"
  or_parent :: "capability_value option"
  or_requester :: string
  or_resource :: string
  or_model :: string
  or_provider :: "string option"
  or_metadata :: pydict

definition operation_name :: "operation_request \<Rightarrow> string" where
  "operation_name r =
     (case op_of (or_operation r) of Some p \<Rightarrow> op_value p | None \<Rightarrow> or_operation r)"

lemma operation_name_id [simp]: "operation_name r = or_operation r"
  by (auto simp: operation_name_def op_of_Some split: option.splits)

record policy_evaluation =
  ev_allowed :: bool
  ev_reason :: string
  ev_rule :: pyval

record capability_verification =
  cv_allowed :: bool
  cv_code :: string
  cv_reason :: string
  cv_id :: "string option"
  cv_scopes :: "string list"

record authorization_decision =
  ad_allowed :: bool
  ad_operation :: string
  ad_code :: string
  ad_reason :: string
  ad_capability :: "string option"
  ad_policy :: string
  ad_audit :: bool
  ad_sequence :: "int option"

record context_packet =
  cp_id :: string
  cp_provider :: string
  cp_owner :: string
  cp_capability :: "string option"
  cp_operation :: string
  cp_policy :: string
  cp_memory :: "pydict list"
  cp_metadata :: pydict
  cp_authorized :: bool
  cp_audit :: bool

definition packet_to_dict :: "context_packet \<Rightarrow> pydict" where
  "packet_to_dict p =
     [(''packet_id'', VStr (cp_id p)), (''provider_id'', VStr (cp_provider p)),
      (''owner_identity'', VStr (cp_owner p)), (''capability_id'', opt_str (cp_capability p)),
      (''operation'', VStr (cp_operation p)), (''policy_hash'', VStr (cp_policy p)),
      (''memory_context'', VList (map VDict (cp_memory p))), (''metadata'', VDict (cp_metadata p)),
      (''authorized'', VBool (cp_authorized p)), (''audit_required'', VBool (cp_audit p))]"

section \<open>The gate\<close>

text \<open>
  The four collaborators of a gate.  Evidence is the only one with state: \<open>ag_record\<close> maps the
  state before a call to the result and the state after it.
\<close>

record 'e authority_gate =
  ag_identity :: "identity_context option \<Rightarrow> bool \<times> string \<times> string"
  ag_capability :: "operation_request \<Rightarrow> capability_verification res"
  ag_policy_hash :: string
  ag_policy :: "operation_request \<Rightarrow> capability_verification \<Rightarrow> policy_evaluation res"
  ag_record :: "operation_request \<Rightarrow> authorization_decision \<Rightarrow> 'e \<Rightarrow> int option res \<times> 'e"

definition gate_record :: "'e authority_gate \<Rightarrow> operation_request \<Rightarrow> authorization_decision \<Rightarrow> 'e \<Rightarrow>
    authorization_decision res \<times> 'e" where
  "gate_record G request d s =
     (case ag_record G request d s of
        (Inl ex, s') \<Rightarrow> (Inl ex, s')
      | (Inr evidence_sequence, s') \<Rightarrow>
          (Inr \<lparr>ad_allowed = ad_allowed d, ad_operation = ad_operation d, ad_code = ad_code d,
             ad_reason = ad_reason d, ad_capability = ad_capability d, ad_policy = ad_policy d,
             ad_audit = ad_audit d, ad_sequence = evidence_sequence\<rparr>, s'))"

definition make_decision :: "bool \<Rightarrow> string \<Rightarrow> string \<Rightarrow> string \<Rightarrow> string option \<Rightarrow> string \<Rightarrow> authorization_decision" where
  "make_decision allowed operation code reason capability_id policy_hash =
     \<lparr>ad_allowed = allowed, ad_operation = operation, ad_code = code, ad_reason = reason,
      ad_capability = capability_id, ad_policy = policy_hash, ad_audit = True, ad_sequence = None\<rparr>"

definition gate_authorize :: "'e authority_gate \<Rightarrow> operation_request \<Rightarrow> 'e \<Rightarrow> authorization_decision res \<times> 'e" where
  "gate_authorize G request s =
     (let operation = operation_name request;
          policy_hash = ag_policy_hash G;
          (identity_allowed, identity_code, identity_reason) = ag_identity G (or_identity request)
      in if \<not> identity_allowed
         then gate_record G request
                (make_decision False operation identity_code identity_reason None policy_hash) s
         else case ag_capability G request of
           Inl ex \<Rightarrow> (Inl ex, s)
         | Inr capability \<Rightarrow>
             if \<not> cv_allowed capability
             then gate_record G request
                    (make_decision False operation (cv_code capability) (cv_reason capability)
                       (cv_id capability) policy_hash) s
             else case ag_policy G request capability of
               Inl ex \<Rightarrow> (Inl ex, s)
             | Inr d \<Rightarrow>
                 if \<not> ev_allowed d
                 then gate_record G request
                        (make_decision False operation ''POLICY_DENIED'' (ev_reason d)
                           (cv_id capability) policy_hash) s
                 else gate_record G request
                        (make_decision True operation ''AUTHORIZED'' (ev_reason d)
                           (cv_id capability) policy_hash) s)"

section \<open>What the gate guarantees\<close>

text \<open>The decision that the three checks give, before it is recorded.\<close>

definition gate_verdict :: "'e authority_gate \<Rightarrow> operation_request \<Rightarrow> authorization_decision res" where
  "gate_verdict G request =
     (case ag_identity G (or_identity request) of
        (False, code, reason) \<Rightarrow>
          Inr (make_decision False (or_operation request) code reason None (ag_policy_hash G))
      | (True, code, reason) \<Rightarrow>
          bindE (ag_capability G request) (\<lambda>c.
            if \<not> cv_allowed c
            then Inr (make_decision False (or_operation request) (cv_code c) (cv_reason c) (cv_id c) (ag_policy_hash G))
            else bindE (ag_policy G request c) (\<lambda>d.
              Inr (make_decision (ev_allowed d) (or_operation request)
                     (if ev_allowed d then ''AUTHORIZED'' else ''POLICY_DENIED'') (ev_reason d)
                     (cv_id c) (ag_policy_hash G)))))"

lemma gate_authorize_verdict:
  "gate_authorize G request s =
     (case gate_verdict G request of Inl ex \<Rightarrow> (Inl ex, s) | Inr d \<Rightarrow> gate_record G request d s)"
  by (auto simp: gate_authorize_def gate_verdict_def Let_def split: prod.splits sum.splits bool.splits)

lemma gate_verdict_allowed:
  assumes "gate_verdict G request = Inr d"
  shows "ad_allowed d \<longleftrightarrow>
    fst (ag_identity G (or_identity request)) \<and>
    (\<exists>c e. ag_capability G request = Inr c \<and> cv_allowed c \<and> ag_policy G request c = Inr e \<and> ev_allowed e)"
  using assms
  by (auto simp: gate_verdict_def make_decision_def res_simps split: prod.splits bool.splits if_splits)

lemma gate_verdict_fields:
  assumes "gate_verdict G request = Inr d"
  shows "ad_operation d = or_operation request \<and> ad_policy d = ag_policy_hash G \<and> ad_audit d \<and>
    ad_sequence d = None \<and> (ad_allowed d \<longrightarrow> ad_code d = ''AUTHORIZED'')"
  using assms
  by (auto simp: gate_verdict_def make_decision_def res_simps split: prod.splits bool.splits if_splits)

text \<open>
  The contract of an evidence recorder: a call that returns appends one entry, which shows the
  request and the decision, and a call that raises leaves the entries as they were.
\<close>

locale evidence_recorder =
  fixes record_decision :: "operation_request \<Rightarrow> authorization_decision \<Rightarrow> 'e \<Rightarrow> int option res \<times> 'e"
    and entries :: "'e \<Rightarrow> 'x list"
    and shows_decision :: "operation_request \<Rightarrow> authorization_decision \<Rightarrow> 'x \<Rightarrow> bool"
  assumes record_returns: "record_decision r d s = (Inr n, s') \<Longrightarrow>
      n = Some (int (length (entries s))) \<and> (\<exists>x. entries s' = entries s @ [x] \<and> shows_decision r d x)"
    and record_raises: "record_decision r d s = (Inl ex, s') \<Longrightarrow> entries s' = entries s"
begin

lemma authorize_returns:
  assumes "ag_record G = record_decision" "gate_authorize G r s = (Inr d, s')"
  obtains v x where "gate_verdict G r = Inr v" "d = v\<lparr>ad_sequence := Some (int (length (entries s)))\<rparr>"
    "entries s' = entries s @ [x]" "shows_decision r v x"
proof -
  from assms(2) obtain v where v: "gate_verdict G r = Inr v" "gate_record G r v s = (Inr d, s')"
    by (cases "gate_verdict G r") (simp_all add: gate_authorize_verdict)
  obtain w t where w: "record_decision r v s = (w, t)" by (cases "record_decision r v s")
  with v(2) assms(1) obtain n where "w = Inr n" "t = s'" and d: "d = v\<lparr>ad_sequence := n\<rparr>"
    by (cases w) (auto simp: gate_record_def)
  with w record_returns have n: "n = Some (int (length (entries s)))"
    and x: "\<exists>x. entries s' = entries s @ [x] \<and> shows_decision r v x" by blast+
  from x obtain x where "entries s' = entries s @ [x]" "shows_decision r v x" by blast
  with that v(1) d n show thesis by simp
qed

lemma authorize_raises:
  assumes "ag_record G = record_decision" "gate_authorize G r s = (Inl ex, s')"
  shows "entries s' = entries s"
proof (cases "gate_verdict G r")
  case (Inl e)
  with assms(2) show ?thesis by (simp add: gate_authorize_verdict)
next
  case (Inr v)
  with assms have "gate_record G r v s = (Inl ex, s')" by (simp add: gate_authorize_verdict)
  then have "record_decision r v s = (Inl ex, s')"
    using assms(1) by (simp add: gate_record_def split: prod.splits sum.splits)
  then show ?thesis by (rule record_raises)
qed

lemma authorize_allowed:
  assumes "ag_record G = record_decision" "gate_authorize G r s = (Inr d, s')"
  shows "ad_allowed d \<longleftrightarrow>
    fst (ag_identity G (or_identity r)) \<and>
    (\<exists>c e. ag_capability G r = Inr c \<and> cv_allowed c \<and> ag_policy G r c = Inr e \<and> ev_allowed e)"
proof -
  obtain v where "gate_verdict G r = Inr v" "d = v\<lparr>ad_sequence := Some (int (length (entries s)))\<rparr>"
    using authorize_returns [OF assms] by blast
  with gate_verdict_allowed [of G r v] show ?thesis by simp
qed

end

section \<open>The probe provider\<close>

definition probe_id :: string where
  "probe_id = ''local.authority-probe''"

definition forbidden_fields :: "string list" where
  "forbidden_fields = [''vault'', ''vault_key'', ''vault_keys'', ''keys'', ''identity_secret'',
     ''root_of_trust'', ''memory_store'', ''unrestricted_memory'']"

text \<open>
  The argument of \<open>execute\<close> is a packet or (\<open>None\<close>) any other object; the state is the last packet.
  An optional text prints as \<open>None\<close> when it is absent.
\<close>

definition show_opt :: "string option \<Rightarrow> string" where
  "show_opt s = (case s of None \<Rightarrow> ''None'' | Some t \<Rightarrow> t)"

definition probe_execute :: "context_packet option \<Rightarrow> context_packet option \<Rightarrow>
    pydict res \<times> context_packet option" where
  "probe_execute packet lst =
     (case packet of
        None \<Rightarrow> (Inl (ValueError ''local.authority-probe requires an authorized context packet''), lst)
      | Some p \<Rightarrow>
          if \<not> cp_authorized p
          then (Inl (ValueError ''local.authority-probe requires an authorized context packet''), lst)
          else let payload = packet_to_dict p in
            if set forbidden_fields \<inter> set (map fst payload) \<noteq> {}
            then (Inl (ValueError ''local.authority-probe received forbidden authority material''), lst)
            else (Inr [(''provider_id'', VStr probe_id), (''status'', VStr ''ok''),
                    (''authorized'', VBool True),
                    (''proof'', VStr (probe_id @ '':'' @ cp_operation p @ '':'' @ show_opt (cp_capability p) @
                       '':'' @ int_str (int (length (cp_memory p)))))], Some p))"

lemma probe_execute_accepts:
  "probe_execute packet lst = (Inr out, lst') \<longleftrightarrow>
   (\<exists>p. packet = Some p \<and> cp_authorized p \<and> lst' = Some p \<and>
     out = [(''provider_id'', VStr probe_id), (''status'', VStr ''ok''), (''authorized'', VBool True),
            (''proof'', VStr (probe_id @ '':'' @ cp_operation p @ '':'' @ show_opt (cp_capability p) @
               '':'' @ int_str (int (length (cp_memory p)))))])"
proof -
  have "set forbidden_fields \<inter> set (map fst (packet_to_dict p)) = {}" for p
    by (simp add: forbidden_fields_def packet_to_dict_def)
  then show ?thesis
    unfolding probe_execute_def Let_def by (cases packet) (auto simp del: append.simps)
qed

end
