(* ===== verification/GateAdapters.thy ===== *)
theory GateAdapters
  imports Gate Scar Identity Records
begin

text \<open>
  \<open>src/sia/authority_adapters.py\<close>: the adapters that plug identity, capabilities, policy, the SCAR
  evidence ledger and the memory vault into the authority gate, and the memory firewall.  The SCAR
  adapter provides the evidence contract of the gate (\<open>evidence\<close>).  The lemmas say exactly which
  requests the gate of the adapters allows, what evidence it leaves, and what the firewall releases.
  \<open>now\<close> is the reading of the UTC clock in microseconds; the second clock is its quotient.
\<close>

section \<open>Identity\<close>

record identity_adapter =
  ia_owner :: human_identity
  ia_root :: root_of_trust

text \<open>
  \<open>trust\<close> is the root that is passed or, without one, the new software root; \<open>now\<close> is the reading
  of the second clock for the new identity.
\<close>

definition identity_adapter_create :: "int \<Rightarrow> string \<Rightarrow> root_of_trust option \<Rightarrow> root_of_trust \<Rightarrow> identity_adapter res" where
  "identity_adapter_create now owner_id given software =
     (let trust = (case given of None \<Rightarrow> software | Some r \<Rightarrow> r) in
      bindE (identity_create now owner_id owner_id (di_public_key (rot_identity trust)) None None) (\<lambda>identity.
        Inr \<lparr>ia_owner = bind_device
               \<lparr>db_device = di_identity (rot_identity trust), db_root = di_identity (rot_identity trust),
                db_bound_at = di_created (rot_identity trust), db_active = True, db_metadata = []\<rparr> identity,
             ia_root = trust\<rparr>))"

definition adapter_identity_context :: "identity_adapter \<Rightarrow> identity_context" where
  "adapter_identity_context I =
     \<lparr>ic_identity = hi_id (ia_owner I), ic_device = Some (di_identity (rot_identity (ia_root I))),
      ic_verified = True, ic_hardware = di_hardware (rot_identity (ia_root I)),
      ic_metadata = [(''authority_source'', VStr (source_value (hi_source (ia_owner I))))]\<rparr>"

definition identity_verify :: "identity_adapter \<Rightarrow> identity_context option \<Rightarrow> bool \<times> string \<times> string" where
  "identity_verify I identity =
     (case identity of
        None \<Rightarrow> (False, ''NO_IDENTITY'', ''No identity context supplied'')
      | Some i \<Rightarrow>
          if \<not> ic_verified i then (False, ''INVALID_IDENTITY'', ''Identity context is not verified'')
          else if ic_identity i \<noteq> hi_id (ia_owner I)
          then (False, ''INVALID_IDENTITY'', ''Identity does not match authority owner'')
          else if (case ic_device i of None \<Rightarrow> True | Some d \<Rightarrow> \<not> is_device_trusted d (ia_owner I))
          then (False, ''INVALID_IDENTITY'', ''Identity device is not trusted'')
          else (True, ''IDENTITY_VERIFIED'', ''Identity verified''))"

section \<open>Capabilities\<close>

fun operation_scopes :: "protected_operation \<Rightarrow> string list" where
  "operation_scopes READ_MEMORY = [''memory.read'', ''READ_CONTEXT_WINDOW'']"
| "operation_scopes WRITE_MEMORY =
     [''memory.write'', ''WRITE_CONFIRMED_MEMORY'', ''APPEND_MEMORY_SUGGESTION'']"
| "operation_scopes EXPORT_ARCHIVE = [''export.archive'']"
| "operation_scopes IMPORT_ARCHIVE = [''import.archive'']"
| "operation_scopes EXECUTE_TOOL = [''tool.execute'']"
| "operation_scopes RELEASE_CONTEXT = [''context.release'']"
| "operation_scopes CALL_PROVIDER = [''provider.call'', ''READ_CONTEXT_WINDOW'']"
| "operation_scopes WORKSPACE_LIST = [''workspace.list'']"
| "operation_scopes WORKSPACE_READ = [''workspace.read'']"
| "operation_scopes WORKSPACE_ANALYZE = [''workspace.analyze'']"
| "operation_scopes WORKSPACE_REPO_STATUS = [''workspace.repo_status'']"

definition adapt :: "capability_value option \<Rightarrow> capability_record option res" where
  "adapt capability =
     (case capability of
        None \<Rightarrow> Inr None
      | Some (CapRecord r) \<Rightarrow> Inr (Some r)
      | Some (CapToken t) \<Rightarrow>
          Inr (Some \<lparr>kr_id = ct_id t, kr_owner = ct_owner t, kr_scopes = map scope_value (ct_scopes t),
            kr_provider = Some (ct_provider t), kr_device = Some (ct_device t),
            kr_expires = Some (ExpiresAt (ct_expires t)), kr_revoked = ct_revoked t, kr_parent = None\<rparr>)
      | Some (CapDelegation t) \<Rightarrow>
          Inr (Some \<lparr>kr_id = dt_id t, kr_owner = dt_grantor t, kr_scopes = remdups (dt_scope t),
            kr_provider = Some (dt_grantee t), kr_device = None,
            kr_expires = map_option ExpiresIso (dt_expires t), kr_revoked = dt_revoked t,
            kr_parent = dt_parent t\<rparr>)
      | Some CapOther \<Rightarrow> Inl (TypeError ''Unsupported capability type''))"

text \<open>\<open>datetime.fromisoformat(s) <= now\<close>\<close>

definition iso_reached :: "runtime \<Rightarrow> string \<Rightarrow> int \<Rightarrow> bool res" where
  "iso_reached rt s now =
     (case rt_fromiso rt s of
        None \<Rightarrow> Inl (ValueError (''Invalid isoformat string: '' @ s))
      | Some (Naive w) \<Rightarrow> Inl (TypeError ''can't compare offset-naive and offset-aware datetimes'')
      | Some (Aware w off) \<Rightarrow> Inr (w - off \<le> now))"

definition is_inactive :: "runtime \<Rightarrow> int \<Rightarrow> capability_value \<Rightarrow> bool res" where
  "is_inactive rt now capability =
     (case capability of
        CapToken t \<Rightarrow> Inr (\<not> token_is_active (now div 1000000) t None)
      | CapDelegation t \<Rightarrow> bindE (dt_is_valid rt now t) (\<lambda>valid. Inr (\<not> valid))
      | CapRecord r \<Rightarrow>
          if kr_revoked r then Inr True
          else (case kr_expires r of
                  None \<Rightarrow> Inr False
                | Some (ExpiresAt n) \<Rightarrow> Inr (n \<le> now div 1000000)
                | Some (ExpiresIso s) \<Rightarrow> iso_reached rt s now)
      | CapOther \<Rightarrow> Inr True)"

definition refuse :: "string \<Rightarrow> string \<Rightarrow> string option \<Rightarrow> capability_verification" where
  "refuse code reason capability_id =
     \<lparr>cv_allowed = False, cv_code = code, cv_reason = reason, cv_id = capability_id, cv_scopes = []\<rparr>"

text \<open>\<open>request.provider_id and adapted.provider_id not in (None, request.provider_id)\<close>\<close>

definition wrong_provider :: "string option \<Rightarrow> string option \<Rightarrow> bool" where
  "wrong_provider requested granted =
     (case requested of
        None \<Rightarrow> False
      | Some p \<Rightarrow> p \<noteq> [] \<and> granted \<noteq> None \<and> granted \<noteq> Some p)"

definition verify_capability :: "runtime \<Rightarrow> int \<Rightarrow> operation_request \<Rightarrow> capability_verification res" where
  "verify_capability rt now request =
     (case or_capability request of
        None \<Rightarrow> Inr (refuse ''MISSING_CAPABILITY'' ''Protected operation requires a capability'' None)
      | Some capability \<Rightarrow>
          bindE (adapt (Some capability)) (\<lambda>a. case a of
            None \<Rightarrow> Inr (refuse ''MISSING_CAPABILITY'' ''Protected operation requires a capability'' None)
          | Some adapted \<Rightarrow>
              if (case or_identity request of None \<Rightarrow> False | Some i \<Rightarrow> kr_owner adapted \<noteq> ic_identity i)
              then Inr (refuse ''INVALID_CAPABILITY'' ''Capability owner does not match verified identity''
                     (Some (kr_id adapted)))
              else if wrong_provider (or_provider request) (kr_provider adapted)
              then Inr (refuse ''INVALID_CAPABILITY'' ''Capability grantee does not match requested provider''
                     (Some (kr_id adapted)))
              else bindE (is_inactive rt now capability) (\<lambda>inactive.
                if inactive
                then Inr (refuse ''EXPIRED_CAPABILITY'' ''Capability is expired or revoked'' (Some (kr_id adapted)))
                else bindE (adapt (or_parent request)) (\<lambda>parent.
                  if (case parent of None \<Rightarrow> False | Some p \<Rightarrow> \<not> set (kr_scopes adapted) \<subseteq> set (kr_scopes p))
                  then Inr (refuse ''CHILD_SCOPE_EXCEEDED'' ''Child capability cannot exceed parent scope''
                         (Some (kr_id adapted)))
                  else (case op_of (or_operation request) of
                    None \<Rightarrow> Inr (refuse ''UNKNOWN_OPERATION'' (''Unknown operation: '' @ or_operation request)
                              (Some (kr_id adapted)))
                  | Some op \<Rightarrow>
                      if set (kr_scopes adapted) \<inter> set (operation_scopes op) = {}
                      then Inr (refuse ''CAPABILITY_SCOPE_MISSING''
                             (''Capability does not permit '' @ operation_name request) (Some (kr_id adapted)))
                      else Inr \<lparr>cv_allowed = True, cv_code = ''CAPABILITY_VERIFIED'',
                             cv_reason = ''Capability verified'', cv_id = Some (kr_id adapted),
                             cv_scopes = sorted_set (kr_scopes adapted)\<rparr>)))))"

section \<open>Policy\<close>

record policy_adapter =
  pa_policy :: authority_policy
  pa_hash :: string

definition policy_adapter_init :: "runtime \<Rightarrow> authority_policy \<Rightarrow> policy_adapter res" where
  "policy_adapter_init rt p =
     bindE (policy_to_dict p) (\<lambda>d. bindE (hash_object rt (VDict d)) (\<lambda>h.
       Inr \<lparr>pa_policy = p, pa_hash = h\<rparr>))"

definition policy_request :: "operation_request \<Rightarrow> capability_verification \<Rightarrow> pydict" where
  "policy_request request capability =
     [(''operation'', VStr (operation_name request)), (''action'', VStr (operation_name request)),
      (''requester_id'', VStr (or_requester request)), (''resource_id'', VStr (or_resource request)),
      (''model_id'', VStr (or_model request)), (''provider_id'', opt_str (or_provider request)),
      (''capability_id'', opt_str (cv_id capability)),
      (''capability_scopes'', str_list (cv_scopes capability))]"

definition policy_adapter_evaluate :: "runtime \<Rightarrow> policy_adapter \<Rightarrow> operation_request \<Rightarrow>
    capability_verification \<Rightarrow> policy_evaluation res" where
  "policy_adapter_evaluate rt P request capability =
     bindE (policy_evaluate rt (pa_policy P) (policy_request request capability)) (\<lambda>d.
       Inr \<lparr>ev_allowed = pd_allowed d, ev_reason = pd_reason d, ev_rule = pd_rule d\<rparr>)"

section \<open>Evidence\<close>

record evidence_adapter =
  ea_ledger :: scar_ledger
  ea_algorithm :: string
  ea_dev :: bool

definition evidence_init :: "string \<Rightarrow> root_of_trust \<Rightarrow> evidence_adapter res" where
  "evidence_init identity_id root =
     bindE (scar_init identity_id root) (\<lambda>L.
       Inr \<lparr>ea_ledger = L, ea_algorithm = tb_algorithm (rot_backend root),
            ea_dev = (\<not> di_hardware (rot_identity root))\<rparr>)"

definition decision_metadata :: "operation_request \<Rightarrow> authorization_decision \<Rightarrow> pydict" where
  "decision_metadata request d =
     [(''operation'', VStr (ad_operation d)), (''allowed'', VBool (ad_allowed d)),
      (''reason_code'', VStr (ad_code d)), (''reason'', VStr (ad_reason d)),
      (''policy_hash'', VStr (ad_policy d)), (''audit_required'', VBool (ad_audit d)),
      (''resource_id'', VStr (or_resource request)), (''provider_id'', opt_str (or_provider request))]"

definition record_decision :: "runtime \<Rightarrow> moment \<Rightarrow> operation_request \<Rightarrow> authorization_decision \<Rightarrow>
    evidence_adapter \<Rightarrow> int option res \<times> evidence_adapter" where
  "record_decision rt m request d E =
     (case append_event rt m ''AUTHORIZATION_DECISION'' (actor_value HUMAN_ACTOR) (ad_capability d) None
             (Some (decision_metadata request d)) None (ea_ledger E) of
        (Inl ex, L) \<Rightarrow> (Inl ex, E\<lparr>ea_ledger := L\<rparr>)
      | (Inr event, L) \<Rightarrow> (Inr (Some (se_sequence event)), E\<lparr>ea_ledger := L\<rparr>))"

definition evidence_verify_chain :: "runtime \<Rightarrow> evidence_adapter \<Rightarrow> bool res" where
  "evidence_verify_chain rt E = verify_integrity rt (ea_ledger E)"

definition evidence_export_bundle :: "runtime \<Rightarrow> moment \<Rightarrow> evidence_adapter \<Rightarrow> pydict res" where
  "evidence_export_bundle rt m E =
     bindE (export_audit_bundle rt m (ea_ledger E)) (\<lambda>b.
       Inr (if ea_dev E
            then AList.update ''hardware_warning''
                   (VStr ''This audit bundle is signed with a real software key but does not carry hardware-backed attestation.'')
                   (AList.update ''signing_algorithm'' (VStr (ea_algorithm E))
                      (AList.update ''hardware_backed'' (VBool False) b))
            else b))"

section \<open>The vault\<close>

record vault_adapter =
  va_owner :: string
  va_root :: root_of_trust
  va_chain :: memory_chain

definition vault_init :: "string \<Rightarrow> root_of_trust \<Rightarrow> vault_adapter" where
  "vault_init owner root = \<lparr>va_owner = owner, va_root = root, va_chain = chain_init None\<rparr>"

definition vault_record_memory :: "runtime \<Rightarrow> moment \<Rightarrow> memory_record \<Rightarrow> string option \<Rightarrow> vault_adapter \<Rightarrow>
    memory_block res \<times> vault_adapter" where
  "vault_record_memory rt m r capability_id V =
     (let device = di_identity (rot_identity (va_root V)) in
      case chain_append rt (mo_clock m) (mo_uuid m) (class_value USER_CONFIRMED) (VDict (memory_to_dict r))
             \<lparr>mv_owner = va_owner V, mv_source_type = ''human'', mv_source_id = va_owner V,
              mv_issuer_device = Some device, mv_token = capability_id, mv_consent = None, mv_metadata = []\<rparr>
             (Some device) (Some (root_sign_text rt (mo_clock m) (va_root V))) None None (va_chain V) of
        (res, C) \<Rightarrow> (res, V\<lparr>va_chain := C\<rparr>))"

definition vault_verify_chain :: "runtime \<Rightarrow> vault_adapter \<Rightarrow> bool res" where
  "vault_verify_chain rt V = validate rt (Some (verify_signature (va_root V))) (va_chain V)"

section \<open>The firewall\<close>

text \<open>What a caller may pass as a memory record: a record, a mapping, or an object with attributes.\<close>

datatype context_item =
    ItemRecord memory_record
  | ItemMapping pydict
  | ItemObject pydict

definition safe_fields :: "string list" where
  "safe_fields = [''record_id'', ''model_id'', ''content'']"

definition pick_safe :: "pydict \<Rightarrow> pydict" where
  "pick_safe d = concat (map (\<lambda>k. case map_of d k of None \<Rightarrow> [] | Some v \<Rightarrow> [(k, v)]) safe_fields)"

definition sanitize_item :: "context_item \<Rightarrow> pydict" where
  "sanitize_item item =
     (case item of
        ItemRecord r \<Rightarrow> [(''record_id'', VStr (mr_id r)), (''model_id'', VStr (mr_model r)), (''content'', mr_content r)]
      | ItemMapping d \<Rightarrow> pick_safe d
      | ItemObject d \<Rightarrow> pick_safe d)"

definition packet_payload :: "operation_request \<Rightarrow> authorization_decision \<Rightarrow> string \<Rightarrow> string \<Rightarrow> pydict list \<Rightarrow> pydict" where
  "packet_payload request d provider_id owner sanitized =
     [(''provider_id'', VStr provider_id), (''owner_identity'', VStr owner),
      (''capability_id'', opt_str (ad_capability d)), (''operation'', VStr (operation_name request)),
      (''policy_hash'', VStr (ad_policy d)), (''memory_context'', VList (map VDict sanitized)),
      (''resource_id'', VStr (or_resource request))]"

definition build_context_packet :: "runtime \<Rightarrow> operation_request \<Rightarrow> authorization_decision \<Rightarrow> string \<Rightarrow>
    context_item list \<Rightarrow> context_packet res" where
  "build_context_packet rt request d provider_id memory_records =
     (if \<not> ad_allowed d then Inl (ValueError ''Authorized context packet requires an approved decision'')
      else case or_identity request of
        None \<Rightarrow> Inl (ValueError ''Authorized context packet requires identity context'')
      | Some i \<Rightarrow>
          let sanitized = map sanitize_item memory_records in
          bindE (hash_object rt (VDict (packet_payload request d provider_id (ic_identity i) sanitized))) (\<lambda>h.
            Inr \<lparr>cp_id = h, cp_provider = provider_id, cp_owner = ic_identity i,
                 cp_capability = ad_capability d, cp_operation = operation_name request,
                 cp_policy = ad_policy d, cp_memory = sanitized,
                 cp_metadata = [(''resource_id'', VStr (or_resource request)), (''model_id'', VStr (or_model request))],
                 cp_authorized = True, cp_audit = True\<rparr>))"

section \<open>The gate of the adapters\<close>

text \<open>\<open>DefaultAuthorityGate\<close> with the four adapters, for one call at \<open>now\<close> with moment \<open>m\<close>.\<close>

definition adapter_gate :: "runtime \<Rightarrow> int \<Rightarrow> moment \<Rightarrow> identity_adapter \<Rightarrow> policy_adapter \<Rightarrow>
    evidence_adapter authority_gate" where
  "adapter_gate rt now m I P =
     \<lparr>ag_identity = identity_verify I, ag_capability = verify_capability rt now, ag_policy_hash = pa_hash P,
      ag_policy = policy_adapter_evaluate rt P, ag_record = record_decision rt m\<rparr>"

section \<open>Which requests are allowed\<close>

text \<open>The identity that the gate accepts.\<close>

definition identity_accepted :: "identity_adapter \<Rightarrow> identity_context option \<Rightarrow> bool" where
  "identity_accepted I identity \<longleftrightarrow>
     (\<exists>i d. identity = Some i \<and> ic_verified i \<and> ic_identity i = hi_id (ia_owner I) \<and>
        ic_device i = Some d \<and> is_device_trusted d (ia_owner I))"

text \<open>
  The capability that permits a request: it belongs to the requesting identity, was granted to the
  requested provider (if one is requested and the capability names one), is active, does not exceed
  its parent, and has one of the scopes of a known operation.
\<close>

definition capability_permits :: "runtime \<Rightarrow> int \<Rightarrow> operation_request \<Rightarrow> bool" where
  "capability_permits rt now r \<longleftrightarrow>
     (\<exists>v c p op. or_capability r = Some v \<and> adapt (Some v) = Inr (Some c) \<and>
        (\<forall>i \<in> set_option (or_identity r). kr_owner c = ic_identity i) \<and>
        \<not> wrong_provider (or_provider r) (kr_provider c) \<and> is_inactive rt now v = Inr False \<and>
        adapt (or_parent r) = Inr p \<and> (\<forall>q \<in> set_option p. set (kr_scopes c) \<subseteq> set (kr_scopes q)) \<and>
        or_operation r = op_value op \<and> set (kr_scopes c) \<inter> set (operation_scopes op) \<noteq> {})"

lemma identity_verify_accepts: "fst (identity_verify I identity) \<longleftrightarrow> identity_accepted I identity"
  by (auto simp: identity_verify_def identity_accepted_def split: option.splits)

lemma refuse_not_allowed [simp]: "\<not> cv_allowed (refuse code reason i)"
  by (simp add: refuse_def)

lemma adapt_Some: "adapt (Some v) = Inr a \<Longrightarrow> a \<noteq> None"
  by (auto simp: adapt_def split: capability_value.splits)

lemma op_of_None: "op_of s = None \<Longrightarrow> s \<noteq> op_value p"
  by auto

lemma verify_capability_allowed:
  "(\<exists>c. verify_capability rt now r = Inr c \<and> cv_allowed c) \<longleftrightarrow> capability_permits rt now r"
proof (cases "or_capability r")
  case None
  then show ?thesis by (simp add: verify_capability_def capability_permits_def)
next
  case cap: (Some v)
  show ?thesis
  proof (cases "adapt (Some v)")
    case (Inl ex)
    with cap show ?thesis by (simp add: verify_capability_def capability_permits_def)
  next
    case (Inr a)
    then obtain c where c: "adapt (Some v) = Inr (Some c)" using adapt_Some by fastforce
    show ?thesis
      unfolding verify_capability_def capability_permits_def cap
      by (cases "or_identity r"; cases "adapt (or_parent r)"; cases "is_inactive rt now v"; cases "op_of (or_operation r)")
         (auto simp: c op_of_Some dest: op_of_None split: option.splits if_splits)
  qed
qed

lemma verify_capability_id:
  assumes "verify_capability rt now r = Inr c" "cv_allowed c"
  shows "\<exists>k. adapt (or_capability r) = Inr (Some k) \<and> cv_id c = Some (kr_id k) \<and>
    cv_scopes c = sorted_set (kr_scopes k)"
proof (cases "or_capability r")
  case None
  with assms show ?thesis by (auto simp: verify_capability_def)
next
  case cap: (Some v)
  show ?thesis
  proof (cases "adapt (Some v)")
    case (Inl ex)
    with cap assms(1) show ?thesis by (simp add: verify_capability_def)
  next
    case (Inr a)
    then obtain k where k: "adapt (Some v) = Inr (Some k)" using adapt_Some by fastforce
    have "cv_id c = Some (kr_id k) \<and> cv_scopes c = sorted_set (kr_scopes k)"
      using assms unfolding verify_capability_def cap
      by (cases "or_identity r"; cases "adapt (or_parent r)"; cases "is_inactive rt now v"; cases "op_of (or_operation r)")
         (auto simp: k split: option.splits if_splits)
    with cap k show ?thesis by simp
  qed
qed

section \<open>Evidence of the gate\<close>

lemma freeze_decision_metadata: "freeze_dict (decision_metadata r d) = decision_metadata r d"
  by (simp add: freeze_dict_def decision_metadata_def opt_str_def split: option.splits)

text \<open>The event that shows a decision.\<close>

definition decision_event :: "operation_request \<Rightarrow> authorization_decision \<Rightarrow> scar_event \<Rightarrow> bool" where
  "decision_event r d e \<longleftrightarrow> se_type e = ''AUTHORIZATION_DECISION'' \<and> se_actor e = HUMAN_ACTOR \<and>
     se_capability e = ad_capability d \<and> se_metadata e = decision_metadata r d"

lemma record_decision_ledger:
  "ea_ledger (snd (record_decision rt m r d E)) =
     snd (append_event rt m ''AUTHORIZATION_DECISION'' (actor_value HUMAN_ACTOR) (ad_capability d) None
       (Some (decision_metadata r d)) None (ea_ledger E))"
  by (simp add: record_decision_def split: prod.splits sum.splits)

interpretation evidence: evidence_recorder "record_decision rt m" "\<lambda>E. sl_events (ea_ledger E)" decision_event
  for rt m
proof
  fix r d E n E'
  assume a: "record_decision rt m r d E = (Inr n, E')"
  show "n = Some (int (length (sl_events (ea_ledger E)))) \<and>
    (\<exists>x. sl_events (ea_ledger E') = sl_events (ea_ledger E) @ [x] \<and> decision_event r d x)"
  proof (cases rule: append_event_cases [of rt m "''AUTHORIZATION_DECISION''" "actor_value HUMAN_ACTOR"
        "ad_capability d" None "Some (decision_metadata r d)" None "ea_ledger E"])
    case (fails ex)
    with a show ?thesis by (simp add: record_decision_def)
  next
    case (appends e)
    from appends(6) have "se_actor e = HUMAN_ACTOR" unfolding actor_of_value by simp
    with appends(7,9,13) have "decision_event r d e"
      by (simp add: decision_event_def freeze_decision_metadata)
    with a appends(1,2) show ?thesis by (auto simp: record_decision_def)
  qed
next
  fix r d E ex E'
  assume a: "record_decision rt m r d E = (Inl ex, E')"
  show "sl_events (ea_ledger E') = sl_events (ea_ledger E)"
    by (cases rule: append_event_cases [of rt m "''AUTHORIZATION_DECISION''" "actor_value HUMAN_ACTOR"
        "ad_capability d" None "Some (decision_metadata r d)" None "ea_ledger E"])
       (use a in \<open>auto simp: record_decision_def\<close>)
qed

lemma adapter_gate_record [simp]: "ag_record (adapter_gate rt now m I P) = record_decision rt m"
  by (simp add: adapter_gate_def)

lemma adapter_gate_ledger:
  obtains "ea_ledger (snd (gate_authorize (adapter_gate rt now m I P) r E)) = ea_ledger E"
  | d where "ea_ledger (snd (gate_authorize (adapter_gate rt now m I P) r E)) =
      ea_ledger (snd (record_decision rt m r d E))"
proof (cases "gate_verdict (adapter_gate rt now m I P) r")
  case (Inl ex)
  with that(1) show ?thesis by (simp add: gate_authorize_verdict)
next
  case (Inr d)
  with that(2) [of d] show ?thesis
    by (simp add: gate_authorize_verdict gate_record_def split: prod.splits sum.splits)
qed

text \<open>Authorizing keeps the evidence verifiable.\<close>

lemma authorize_keeps_evidence:
  assumes "verify_integrity rt (ea_ledger E) = Inr True" "root_sound (sl_root (ea_ledger E))"
  shows "verify_integrity rt (ea_ledger (snd (gate_authorize (adapter_gate rt now m I P) r E))) = Inr True"
  by (cases rule: adapter_gate_ledger [of rt now m I P r E])
     (simp_all add: assms record_decision_ledger append_event_integrity)

lemma authorize_frame:
  "sl_root (ea_ledger (snd (gate_authorize (adapter_gate rt now m I P) r E))) = sl_root (ea_ledger E)"
  "sl_identity (ea_ledger (snd (gate_authorize (adapter_gate rt now m I P) r E))) = sl_identity (ea_ledger E)"
  by (cases rule: adapter_gate_ledger [of rt now m I P r E];
      simp add: record_decision_ledger append_event_frame)+

section \<open>What the firewall releases\<close>

text \<open>The fields that an item offers.\<close>

definition item_fields :: "context_item \<Rightarrow> pydict" where
  "item_fields item =
     (case item of ItemRecord r \<Rightarrow> memory_to_dict r | ItemMapping d \<Rightarrow> d | ItemObject d \<Rightarrow> d)"

lemma sanitize_item_lookup:
  "map_of (sanitize_item item) k =
     (if k \<in> {''record_id'', ''model_id'', ''content''} then map_of (item_fields item) k else None)"
  by (cases item)
     (auto simp: sanitize_item_def item_fields_def memory_to_dict_def pick_safe_def safe_fields_def split: option.splits)

lemma build_packet_Inr:
  assumes "build_context_packet rt r d prov items = Inr p"
  shows "ad_allowed d \<and> cp_authorized p \<and> cp_capability p = ad_capability d \<and> cp_memory p = map sanitize_item items \<and>
    (\<exists>i. or_identity r = Some i \<and> cp_owner p = ic_identity i) \<and>
    hash_object rt (VDict (packet_payload r d prov (cp_owner p) (cp_memory p))) = Inr (cp_id p)"
  using assms by (auto simp: build_context_packet_def Let_def res_simps split: if_splits option.splits)

lemma build_packet_total:
  assumes "ad_allowed d" "or_identity r = Some i" "list_all (\<lambda>x. canonicalizable (VDict x)) (map sanitize_item items)"
  shows "\<exists>p. build_context_packet rt r d prov items = Inr p"
proof -
  have "canonicalizable (VDict (packet_payload r d prov (ic_identity i) (map sanitize_item items)))"
    using assms(3) by (simp add: packet_payload_def list_all_iff)
  from hash_object_total [OF this, of rt] obtain h
    where "hash_object rt (VDict (packet_payload r d prov (ic_identity i) (map sanitize_item items))) = Inr h" by blast
  with assms(1,2) show ?thesis by (simp add: build_context_packet_def Let_def)
qed

section \<open>A concrete authority\<close>

definition demo_identity :: identity_adapter where
  "demo_identity =
     \<lparr>ia_owner = bind_device \<lparr>db_device = di_identity (rot_identity demo_root), db_root = di_identity (rot_identity demo_root),
        db_bound_at = 5, db_active = True, db_metadata = []\<rparr>
        \<lparr>hi_id = ''ada'', hi_name = ''ada'', hi_key = di_public_key (rot_identity demo_root), hi_created = 1,
         hi_recovery = default_recovery, hi_devices = [], hi_version = 1, hi_metadata = [], hi_provider = None,
         hi_source = ROOT_OF_TRUST, hi_owner = HUMAN\<rparr>,
      ia_root = demo_root\<rparr>"

lemma demo_identity_created: "identity_adapter_create 1 ''ada'' (Some demo_root) demo_root = Inr demo_identity"
  by (simp add: identity_adapter_create_def identity_create_def make_identity_def
      identity_assert_invariants_def demo_identity_def)
     (simp add: demo_root_def root_init_def create_identity_def Let_def)

definition demo_policy :: policy_adapter where
  "demo_policy = \<lparr>pa_policy = policy_init [(''default'', VStr ''allow'')], pa_hash = ''h''\<rparr>"

text \<open>A capability with one scope and a request for an operation with it, at second 50.\<close>

definition demo_capability :: "string \<Rightarrow> capability_record" where
  "demo_capability sc = \<lparr>kr_id = ''c1'', kr_owner = ''ada'', kr_scopes = [sc], kr_provider = None,
     kr_device = None, kr_expires = Some (ExpiresAt 100), kr_revoked = False, kr_parent = None\<rparr>"

definition demo_request_for :: "protected_operation \<Rightarrow> string \<Rightarrow> string option \<Rightarrow> operation_request" where
  "demo_request_for op sc prov =
     \<lparr>or_operation = op_value op, or_identity = Some (adapter_identity_context demo_identity),
      or_capability = Some (CapRecord (demo_capability sc)), or_parent = None, or_requester = ''ada'',
      or_resource = ''r1'', or_model = ''m'', or_provider = prov, or_metadata = []\<rparr>"

definition demo_request :: operation_request where
  "demo_request = demo_request_for READ_MEMORY ''memory.read'' None"

definition demo_evidence :: evidence_adapter where
  "demo_evidence = \<lparr>ea_ledger = demo_scar0, ea_algorithm = ''Ed25519'', ea_dev = True\<rparr>"

text \<open>A request with the demonstration's identity and its capability.\<close>

definition demo_access :: "protected_operation \<Rightarrow> string \<Rightarrow> operation_request \<Rightarrow> bool" where
  "demo_access op sc r \<longleftrightarrow>
     or_operation r = op_value op \<and> or_identity r = Some (adapter_identity_context demo_identity) \<and>
     or_capability r = Some (CapRecord (demo_capability sc)) \<and> or_parent r = None"

lemma demo_request_access [simp]: "demo_access op sc (demo_request_for op sc prov)"
  by (simp add: demo_access_def demo_request_for_def)

lemma demo_identity_accepted: "demo_access op sc r \<Longrightarrow> identity_accepted demo_identity (or_identity r)"
  by (simp add: identity_accepted_def demo_access_def adapter_identity_context_def demo_identity_def
      bind_device_def is_device_trusted_def)

lemma demo_capability_verified:
  assumes "sc \<in> set (operation_scopes op)" "demo_access op sc r"
  shows "verify_capability rt 50000000 r =
     Inr \<lparr>cv_allowed = True, cv_code = ''CAPABILITY_VERIFIED'', cv_reason = ''Capability verified'',
       cv_id = Some ''c1'', cv_scopes = [sc]\<rparr>"
proof -
  have o: "kr_owner (demo_capability sc) = ic_identity (adapter_identity_context demo_identity)"
    by (simp add: demo_capability_def adapter_identity_context_def demo_identity_def bind_device_def)
  have s: "sorted_set (kr_scopes (demo_capability sc)) = [sc]"
    by (rule sorted_set_unique) (simp_all add: demo_capability_def)
  have d: "set (kr_scopes (demo_capability sc)) \<inter> set (operation_scopes op) \<noteq> {}"
    using assms by (simp add: demo_capability_def)
  have w: "\<not> wrong_provider prov (kr_provider (demo_capability sc))" for prov
    by (simp add: wrong_provider_def demo_capability_def split: option.splits)
  have f: "or_capability r = Some (CapRecord (demo_capability sc))"
    "or_identity r = Some (adapter_identity_context demo_identity)"
    "or_parent r = None" "or_operation r = op_value op"
    using assms(2) by (simp_all add: demo_access_def)
  have a: "adapt (Some (CapRecord (demo_capability sc))) = Inr (Some (demo_capability sc))" "adapt None = Inr None"
    "is_inactive rt 50000000 (CapRecord (demo_capability sc)) = Inr False" "kr_id (demo_capability sc) = ''c1''"
    by (simp_all add: adapt_def is_inactive_def demo_capability_def)
  show ?thesis
    by (simp only: verify_capability_def f a op_of_value option.case bindE_simps o s d w
        if_False not_True_eq_False if_not_P simp_thms)
qed

lemma demo_policy_allows:
  "\<exists>e. policy_evaluate rt (pa_policy demo_policy) (policy_request r c) = Inr e \<and> pd_allowed e"
  by (simp add: demo_policy_def policy_evaluate_def policy_init_def dict_get_def)

lemma demo_verdict:
  assumes "sc \<in> set (operation_scopes op)" "demo_access op sc r"
  shows "\<exists>v. gate_verdict (adapter_gate rt 50000000 m demo_identity demo_policy) r = Inr v \<and> ad_allowed v"
proof -
  have i: "fst (identity_verify demo_identity (or_identity r))"
    by (simp add: identity_verify_accepts demo_identity_accepted [OF assms(2)])
  let ?c = "\<lparr>cv_allowed = True, cv_code = ''CAPABILITY_VERIFIED'', cv_reason = ''Capability verified'',
       cv_id = Some ''c1'', cv_scopes = [sc]\<rparr>"
  obtain e where "policy_evaluate rt (pa_policy demo_policy) (policy_request r ?c) = Inr e" "pd_allowed e"
    using demo_policy_allows by blast
  with i show ?thesis
    by (auto simp: gate_verdict_def adapter_gate_def demo_capability_verified [OF assms] policy_adapter_evaluate_def
        make_decision_def split: prod.splits bool.splits)
qed

lemma decision_metadata_canonicalizable: "canonicalizable (VDict (decision_metadata r d))"
  by (simp add: decision_metadata_def)

lemma record_decision_total:
  assumes "sl_root (ea_ledger E) = demo_root"
  shows "\<exists>n E'. record_decision rt m r d E = (Inr n, E')"
proof -
  have sign: "\<exists>so. root_sign rt (mo_clock m) (sl_root (ea_ledger E)) b = Inr so" for b
    by (simp add: assms demo_root_signs)
  have h: "HUMAN_ACTOR \<noteq> PROVIDER_ACTOR \<or> ad_capability d \<noteq> None" by simp
  have md: "\<forall>x \<in> set_option (Some (decision_metadata r d)). canonicalizable (VDict x)"
    using decision_metadata_canonicalizable [of r d] by (simp del: canonicalizable.simps)
  have ty: "''AUTHORIZATION_DECISION'' \<noteq> []" by simp
  from append_event_total [OF sign ty h md, of None None] show ?thesis
    unfolding record_decision_def by (elim exE) (simp only: prod.case sum.case, blast)
qed

lemma demo_authorize:
  assumes "sc \<in> set (operation_scopes op)" "demo_access op sc r" "sl_root (ea_ledger E) = demo_root"
  obtains d E' where
    "gate_authorize (adapter_gate plain_runtime 50000000 m demo_identity demo_policy) r E = (Inr d, E')" "ad_allowed d"
proof -
  let ?G = "adapter_gate plain_runtime 50000000 m demo_identity demo_policy"
  obtain v where v: "gate_verdict ?G r = Inr v" "ad_allowed v"
    using demo_verdict [OF assms(1,2)] by blast
  from record_decision_total [OF assms(3)] obtain n E'
    where r: "record_decision plain_runtime m r v E = (Inr n, E')" by blast
  have "\<exists>d. gate_authorize ?G r E = (Inr d, E') \<and> ad_allowed d"
    by (simp add: gate_authorize_verdict v gate_record_def r)
  with that show thesis by blast
qed

lemma demo_read_authorize:
  obtains d E' where "gate_authorize (adapter_gate plain_runtime 50000000 demo_moment demo_identity demo_policy)
      demo_request demo_evidence = (Inr d, E')" "ad_allowed d"
proof -
  have r: "sl_root (ea_ledger demo_evidence) = demo_root" by (simp add: demo_evidence_def demo_scar0_def)
  have s: "''memory.read'' \<in> set (operation_scopes READ_MEMORY)" by simp
  from demo_authorize [OF s demo_request_access r, of demo_moment None] that show thesis unfolding demo_request_def by blast
qed

section \<open>Properties\<close>

text \<open>
  C2.  The gate of the adapters allows a request exactly when the identity is verified, is the owner
  and uses a trusted device, the capability is the identity's own, was granted to the requested
  provider, is active, stays within its parent's scopes and has a scope of the (known) operation,
  and the policy allows the request for that capability.
\<close>

theorem gate_allows_exactly:
  assumes "gate_authorize (adapter_gate rt now m I P) r E = (Inr d, E')"
  shows "ad_allowed d \<longleftrightarrow> identity_accepted I (or_identity r) \<and> capability_permits rt now r \<and>
    (\<exists>c e. verify_capability rt now r = Inr c \<and> policy_evaluate rt (pa_policy P) (policy_request r c) = Inr e \<and>
      pd_allowed e)"
proof -
  let ?G = "adapter_gate rt now m I P"
  have "ad_allowed d \<longleftrightarrow> fst (ag_identity ?G (or_identity r)) \<and>
    (\<exists>c e. ag_capability ?G r = Inr c \<and> cv_allowed c \<and> ag_policy ?G r c = Inr e \<and> ev_allowed e)"
    using assms by (rule evidence.authorize_allowed [OF adapter_gate_record])
  also have "\<dots> \<longleftrightarrow> identity_accepted I (or_identity r) \<and>
    (\<exists>c. verify_capability rt now r = Inr c \<and> cv_allowed c \<and>
      (\<exists>e. policy_evaluate rt (pa_policy P) (policy_request r c) = Inr e \<and> pd_allowed e))"
    by (auto simp: adapter_gate_def identity_verify_accepts policy_adapter_evaluate_def res_simps)
  finally show ?thesis using verify_capability_allowed [of rt now r] by auto
qed

theorem gate_allows_exactly_witness:
  "\<exists>d E'. gate_authorize (adapter_gate plain_runtime 50000000 demo_moment demo_identity demo_policy) demo_request
      demo_evidence = (Inr d, E') \<and> ad_allowed d \<and> capability_permits plain_runtime 50000000 demo_request"
proof -
  obtain d E' where a: "gate_authorize (adapter_gate plain_runtime 50000000 demo_moment demo_identity demo_policy)
      demo_request demo_evidence = (Inr d, E')" "ad_allowed d" by (rule demo_read_authorize)
  with gate_allows_exactly [OF a(1)] show ?thesis by blast
qed

text \<open>
  C7.  No decision without evidence: an authorization that returns appended exactly one event to the
  SCAR ledger, which shows the decision (operation, outcome, reason, capability, policy hash) and
  whose index is the decision's evidence sequence; an authorization that raises appended none; and
  a verifiable ledger stays verifiable in both cases.
\<close>

theorem gate_leaves_evidence:
  assumes "gate_authorize (adapter_gate rt now m I P) r E = (res, E')"
    and "root_sound (sl_root (ea_ledger E))" "verify_integrity rt (ea_ledger E) = Inr True"
  shows "verify_integrity rt (ea_ledger E') = Inr True \<and>
    (case res of
       Inl ex \<Rightarrow> sl_events (ea_ledger E') = sl_events (ea_ledger E)
     | Inr d \<Rightarrow> \<exists>e. sl_events (ea_ledger E') = sl_events (ea_ledger E) @ [e] \<and>
         decision_event r (d\<lparr>ad_sequence := None\<rparr>) e \<and>
         ad_sequence d = Some (int (length (sl_events (ea_ledger E)))))"
proof (intro conjI)
  show "verify_integrity rt (ea_ledger E') = Inr True"
    using authorize_keeps_evidence [OF assms(3,2), of now m I P r] assms(1) by simp
  show "case res of
       Inl ex \<Rightarrow> sl_events (ea_ledger E') = sl_events (ea_ledger E)
     | Inr d \<Rightarrow> \<exists>e. sl_events (ea_ledger E') = sl_events (ea_ledger E) @ [e] \<and>
         decision_event r (d\<lparr>ad_sequence := None\<rparr>) e \<and>
         ad_sequence d = Some (int (length (sl_events (ea_ledger E))))"
  proof (cases res)
    case (Inl ex)
    with assms(1) evidence.authorize_raises [OF adapter_gate_record, of rt now m I P r E ex E']
    show ?thesis by simp
  next
    case (Inr d)
    with assms(1) have "gate_authorize (adapter_gate rt now m I P) r E = (Inr d, E')" by simp
    then obtain v e where v: "gate_verdict (adapter_gate rt now m I P) r = Inr v"
      "d = v\<lparr>ad_sequence := Some (int (length (sl_events (ea_ledger E))))\<rparr>"
      "sl_events (ea_ledger E') = sl_events (ea_ledger E) @ [e]" "decision_event r v e"
      by (rule evidence.authorize_returns [OF adapter_gate_record])
    have "d\<lparr>ad_sequence := None\<rparr> = v"
      using v(2) gate_verdict_fields [OF v(1)] by (cases v) simp
    with v Inr show ?thesis by simp
  qed
qed

theorem gate_leaves_evidence_witness:
  "\<exists>d E' e. gate_authorize (adapter_gate plain_runtime 50000000 demo_moment demo_identity demo_policy) demo_request
      demo_evidence = (Inr d, E') \<and> sl_events (ea_ledger E') = [e] \<and> ad_sequence d = Some 0"
proof -
  obtain d E' where a: "gate_authorize (adapter_gate plain_runtime 50000000 demo_moment demo_identity demo_policy)
      demo_request demo_evidence = (Inr d, E')" by (rule demo_read_authorize)
  have r: "root_sound (sl_root (ea_ledger demo_evidence))"
    by (simp add: demo_evidence_def demo_scar0_def demo_root_sound)
  have v: "verify_integrity plain_runtime (ea_ledger demo_evidence) = Inr True"
    by (simp add: demo_evidence_def demo_scar0_def verify_integrity_def)
  have "sl_events (ea_ledger demo_evidence) = []" by (simp add: demo_evidence_def demo_scar0_def)
  with gate_leaves_evidence [OF a r v] a show ?thesis by auto
qed

text \<open>
  C9.  The memory firewall releases a packet only for an allowed decision with an identity, for that
  identity and the decision's capability, and each entry of its memory context is the restriction of
  the offered item to record id, model id and content: these fields unchanged and no other field.
\<close>

theorem firewall_releases_safe:
  assumes "build_context_packet rt r d prov items = Inr p"
  shows "ad_allowed d \<and> cp_authorized p \<and> cp_capability p = ad_capability d \<and>
    (\<exists>i. or_identity r = Some i \<and> cp_owner p = ic_identity i) \<and>
    list_all2 (\<lambda>item x. \<forall>k. map_of x k =
      (if k \<in> {''record_id'', ''model_id'', ''content''} then map_of (item_fields item) k else None))
      items (cp_memory p)"
proof -
  note b = build_packet_Inr [OF assms]
  have "list_all2 (\<lambda>item x. \<forall>k. map_of x k =
      (if k \<in> {''record_id'', ''model_id'', ''content''} then map_of (item_fields item) k else None))
      items (map sanitize_item items)"
    by (simp add: list_all2_map2 list_all2_same sanitize_item_lookup)
  with b show ?thesis by simp
qed

theorem firewall_releases_safe_witness:
  "\<exists>p. build_context_packet plain_runtime demo_request (make_decision True ''READ_MEMORY'' ''AUTHORIZED'' [] (Some ''c1'') ''h'')
      ''prov'' [ItemMapping [(''content'', VStr ''hi''), (''vault_key'', VStr ''k'')]] = Inr p \<and>
    map_of (hd (cp_memory p)) ''vault_key'' = None \<and> map_of (hd (cp_memory p)) ''content'' = Some (VStr ''hi'')"
proof -
  let ?d = "make_decision True ''READ_MEMORY'' ''AUTHORIZED'' [] (Some ''c1'') ''h''"
  let ?items = "[ItemMapping [(''content'', VStr ''hi''), (''vault_key'', VStr ''k'')]]"
  have "list_all (\<lambda>x. canonicalizable (VDict x)) (map sanitize_item ?items)"
    by (simp add: sanitize_item_def pick_safe_def safe_fields_def)
  from build_packet_total [OF _ _ this, of ?d demo_request "adapter_identity_context demo_identity"] obtain p
    where p: "build_context_packet plain_runtime demo_request ?d ''prov'' ?items = Inr p"
    by (auto simp: make_decision_def demo_request_def demo_request_for_def)
  from firewall_releases_safe [OF p] show ?thesis
    using p by (cases "cp_memory p") (simp_all add: item_fields_def)
qed

text \<open>
  The packet id commits to what the packet releases: two packets for one identity with one id
  were built for the same canonical payload (provider, owner, capability, operation, policy hash,
  memory context and resource), provided SHA3-512 does not collide on the two payload documents.
\<close>

theorem packet_id_commits:
  assumes "build_context_packet rt r d prov items = Inr p" "build_context_packet rt r' d' prov' items' = Inr p'"
    and "cp_id p = cp_id p'"
    and "wf_pyval (VDict (packet_payload r d prov (cp_owner p) (cp_memory p)))"
    and "wf_pyval (VDict (packet_payload r' d' prov' (cp_owner p') (cp_memory p')))"
    and "inj_on (hexdigest rt) {object_bytes rt (VDict (packet_payload r d prov (cp_owner p) (cp_memory p))),
           object_bytes rt (VDict (packet_payload r' d' prov' (cp_owner p') (cp_memory p')))}"
  shows "canonicalize rt (VDict (packet_payload r d prov (cp_owner p) (cp_memory p))) =
    canonicalize rt (VDict (packet_payload r' d' prov' (cp_owner p') (cp_memory p')))"
proof (rule hash_object_binds [OF _ _ assms(4-6)])
  show "hash_object rt (VDict (packet_payload r d prov (cp_owner p) (cp_memory p))) = Inr (cp_id p)"
    using build_packet_Inr [OF assms(1)] by blast
  show "hash_object rt (VDict (packet_payload r' d' prov' (cp_owner p') (cp_memory p'))) = Inr (cp_id p)"
    unfolding assms(3) using build_packet_Inr [OF assms(2)] by blast
qed

theorem packet_id_commits_witness:
  "\<exists>p. build_context_packet plain_runtime demo_request (make_decision True ''READ_MEMORY'' ''AUTHORIZED'' [] None ''h'')
      ''prov'' [] = Inr p \<and>
    canonicalize plain_runtime (VDict (packet_payload demo_request
       (make_decision True ''READ_MEMORY'' ''AUTHORIZED'' [] None ''h'') ''prov'' (cp_owner p) (cp_memory p))) =
    canonicalize plain_runtime (VDict (packet_payload demo_request
       (make_decision True ''READ_MEMORY'' ''AUTHORIZED'' [] None ''h'') ''prov'' (cp_owner p) (cp_memory p)))"
proof -
  let ?d = "make_decision True ''READ_MEMORY'' ''AUTHORIZED'' [] None ''h''"
  obtain p where p: "build_context_packet plain_runtime demo_request ?d ''prov'' [] = Inr p"
    using build_packet_total [of ?d demo_request "adapter_identity_context demo_identity" "[]"]
    by (auto simp: make_decision_def demo_request_def demo_request_for_def)
  have "cp_memory p = []" using build_packet_Inr [OF p] by simp
  then have w: "wf_pyval (VDict (packet_payload demo_request ?d ''prov'' (cp_owner p) (cp_memory p)))"
    by (simp add: packet_payload_def opt_str_def split: option.splits)
  from packet_id_commits [OF p p refl w w plain_runtime_laws(2)] p show ?thesis by blast
qed

end
