(* ===== verification/StateOps.thy ===== *)
theory StateOps
  imports Prelude
begin

text \<open>
  Operations on objects with state that may raise: a call maps the state before it to its result and
  the state after it, and an exception keeps what was changed before it was raised.  The
  collection \<open>keeps\<close> holds the rules by which an invariant is carried through a sequence of calls.
\<close>

named_theorems keeps \<open>invariants of sequenced operations\<close>

type_synonym ('s, 'a) op = "'s \<Rightarrow> 'a res \<times> 's"

definition returnS :: "'a \<Rightarrow> ('s, 'a) op" where
  "returnS x s = (Inr x, s)"

definition raiseS :: "pyexc \<Rightarrow> ('s, 'a) op" where
  "raiseS e s = (Inl e, s)"

definition liftS :: "'a res \<Rightarrow> ('s, 'a) op" where
  "liftS r s = (r, s)"

definition getS :: "('s \<Rightarrow> 'a) \<Rightarrow> ('s, 'a) op" where
  "getS f s = (Inr (f s), s)"

definition modifyS :: "('s \<Rightarrow> 's) \<Rightarrow> ('s, unit) op" where
  "modifyS f s = (Inr (), f s)"

definition bindS :: "('s, 'a) op \<Rightarrow> ('a \<Rightarrow> ('s, 'b) op) \<Rightarrow> ('s, 'b) op" where
  "bindS m k s = (case m s of (Inl e, t) \<Rightarrow> (Inl e, t) | (Inr x, t) \<Rightarrow> k x t)"

text \<open>A call on a component of the state.\<close>

definition onS :: "('s \<Rightarrow> 'c) \<Rightarrow> ('c \<Rightarrow> 's \<Rightarrow> 's) \<Rightarrow> ('c, 'a) op \<Rightarrow> ('s, 'a) op" where
  "onS get put m s = (case m (get s) of (r, c) \<Rightarrow> (r, put c s))"

text \<open>\<open>try: m except Exception as exc: h(exc); raise\<close>\<close>

definition catch_reraise :: "('s, 'a) op \<Rightarrow> (pyexc \<Rightarrow> ('s, unit) op) \<Rightarrow> ('s, 'a) op" where
  "catch_reraise m h s =
     (case m s of
        (Inr x, t) \<Rightarrow> (Inr x, t)
      | (Inl e, t) \<Rightarrow> (case h e t of (Inl e', u) \<Rightarrow> (Inl e', u) | (Inr _, u) \<Rightarrow> (Inl e, u)))"

text \<open>\<open>[f(x) for x in xs]\<close>\<close>

fun mapS :: "('a \<Rightarrow> ('s, 'b) op) \<Rightarrow> 'a list \<Rightarrow> ('s, 'b list) op" where
  "mapS f [] = returnS []"
| "mapS f (x # xs) = bindS (f x) (\<lambda>y. bindS (mapS f xs) (\<lambda>ys. returnS (y # ys)))"

lemma op_simps [simp]:
  "returnS x s = (Inr x, s)"
  "raiseS e s = (Inl e, s)"
  "liftS r s = (r, s)"
  "getS f s = (Inr (f s), s)"
  "modifyS g s = (Inr (), g s)"
  by (simp_all add: returnS_def raiseS_def liftS_def getS_def modifyS_def)

lemma bindS_Inr: "m s = (Inr x, t) \<Longrightarrow> bindS m k s = k x t"
  by (simp add: bindS_def)

lemma bindS_Inl: "m s = (Inl e, t) \<Longrightarrow> bindS m k s = (Inl e, t)"
  by (simp add: bindS_def)

lemma bindS_returns:
  "bindS m k s = (Inr y, u) \<longleftrightarrow> (\<exists>x t. m s = (Inr x, t) \<and> k x t = (Inr y, u))"
  by (auto simp: bindS_def split: prod.splits sum.splits)

lemma bindS_raises:
  "bindS m k s = (Inl e, u) \<longleftrightarrow> m s = (Inl e, u) \<or> (\<exists>x t. m s = (Inr x, t) \<and> k x t = (Inl e, u))"
  by (auto simp: bindS_def split: prod.splits sum.splits)

lemma bindS_return [simp]: "bindS (returnS x) k s = k x s"
  by (simp add: bindS_def)

lemma bindS_raise [simp]: "bindS (raiseS e) k s = (Inl e, s)"
  by (simp add: bindS_def)

lemma bindS_get [simp]: "bindS (getS f) k s = k (f s) s"
  by (simp add: bindS_def)

lemma bindS_modify [simp]: "bindS (modifyS g) k s = k () (g s)"
  by (simp add: bindS_def)

lemma bindS_lift [simp]:
  "bindS (liftS r) k s = (case r of Inl e \<Rightarrow> (Inl e, s) | Inr x \<Rightarrow> k x s)"
  by (simp add: bindS_def split: sum.splits)

lemma catch_returns: "m s = (Inr x, t) \<Longrightarrow> catch_reraise m h s = (Inr x, t)"
  by (simp add: catch_reraise_def)

lemma catch_raises: "m s = (Inl e, t) \<Longrightarrow> h e t = (Inr u, w) \<Longrightarrow> catch_reraise m h s = (Inl e, w)"
  by (simp add: catch_reraise_def)

lemma onS_returns: "onS get put m s = (r, t) \<longleftrightarrow> (\<exists>c. m (get s) = (r, c) \<and> t = put c s)"
  by (auto simp: onS_def split: prod.splits)

lemma snd_onS: "snd (onS get put m s) = put (snd (m (get s))) s"
  by (simp add: onS_def split: prod.splits)

section \<open>Invariants\<close>

definition keeps_inv :: "('s \<Rightarrow> bool) \<Rightarrow> ('s, 'a) op \<Rightarrow> bool" where
  "keeps_inv P m \<longleftrightarrow> (\<forall>s. P s \<longrightarrow> P (snd (m s)))"

lemma keeps_invD: "keeps_inv P m \<Longrightarrow> P s \<Longrightarrow> P (snd (m s))"
  by (simp add: keeps_inv_def)

lemma keeps_pure [keeps]:
  "keeps_inv P (returnS x)"
  "keeps_inv P (raiseS e)"
  "keeps_inv P (liftS r)"
  "keeps_inv P (getS f)"
  by (simp_all add: keeps_inv_def)

lemma keeps_modify: "(\<And>s. P s \<Longrightarrow> P (f s)) \<Longrightarrow> keeps_inv P (modifyS f)"
  by (simp add: keeps_inv_def)

lemma keeps_bind [keeps]:
  assumes "keeps_inv P m" "\<And>x. keeps_inv P (k x)"
  shows "keeps_inv P (bindS m k)"
proof -
  have "P (snd (bindS m k s))" if "P s" for s
  proof (cases "m s")
    case (Pair r t)
    with assms(1) that have "P t" using keeps_invD [of P m s] by simp
    then have "P (snd (k x t))" for x using keeps_invD [OF assms(2)] by simp
    with \<open>P t\<close> Pair show ?thesis by (cases r) (simp_all add: bindS_def)
  qed
  then show ?thesis by (simp add: keeps_inv_def)
qed

text \<open>A check of pure values: what follows it may use that it passed.\<close>

lemma keeps_bind_lift:
  "(\<And>x. r = Inr x \<Longrightarrow> keeps_inv P (k x)) \<Longrightarrow> keeps_inv P (bindS (liftS r) k)"
  by (cases r) (simp_all add: keeps_inv_def)

lemma keeps_map [keeps]: "(\<And>x. keeps_inv P (f x)) \<Longrightarrow> keeps_inv P (mapS f xs)"
  by (induction xs) (simp_all add: keeps)

lemma keeps_catch [keeps]:
  assumes "keeps_inv P m" "\<And>e. keeps_inv P (h e)"
  shows "keeps_inv P (catch_reraise m h)"
proof -
  have "P (snd (catch_reraise m h s))" if "P s" for s
  proof (cases "m s")
    case (Pair r t)
    with assms(1) that have t: "P t" using keeps_invD [of P m s] by simp
    have "P (snd (h e t))" for e using keeps_invD [OF assms(2) t] .
    then have u: "P u" if "h e t = (x, u)" for e x u using that by (metis snd_conv)
    with Pair t show ?thesis
      by (cases r) (auto simp: catch_reraise_def split: prod.splits sum.splits)
  qed
  then show ?thesis by (simp add: keeps_inv_def)
qed

lemma keeps_if [keeps]: "keeps_inv P m \<Longrightarrow> keeps_inv P n \<Longrightarrow> keeps_inv P (if b then m else n)"
  by simp

lemma keeps_option [keeps]:
  "keeps_inv P m \<Longrightarrow> (\<And>x. keeps_inv P (k x)) \<Longrightarrow> keeps_inv P (case v of None \<Rightarrow> m | Some x \<Rightarrow> k x)"
  by (cases v) simp_all

lemma keeps_on:
  "(\<And>s. P s \<Longrightarrow> P (put (snd (m (get s))) s)) \<Longrightarrow> keeps_inv P (onS get put m)"
  by (simp add: keeps_inv_def snd_onS)

end
