(* ===== verification/Tools.thy ===== *)
theory Tools
  imports Records StateOps
begin

text \<open>
  \<open>src/sia/tools\<close>: tool capabilities, authority-issued execution contexts, the tool registry, the
  capability validator, the JSON-lines audit file and the playground executor.  The subprocess is a
  parameter: \<open>run\<close> maps the argument vector and the timeout to standard output, standard error and
  return code, or to the exception it raises.  The lemmas show that the subprocess runs only under
  an authority-issued, unexpired context for an allowed and registered tool, that the registry never
  rebinds a name, and what can be read back from the audit file.
\<close>

section \<open>Capabilities, requests and results\<close>

record tool_capability =
  tc_id :: string
  tc_allowed :: "string list"
  tc_runtime :: int
  tc_owner :: string
  tc_expires :: pydatetime
  tc_signature :: string

text \<open>\<open>current >= expires_at\<close>, a naive expiry being UTC; \<open>clock\<close> is the aware UTC clock.\<close>

definition tool_is_expired :: "int \<Rightarrow> tool_capability \<Rightarrow> pydatetime option \<Rightarrow> bool res" where
  "tool_is_expired clock c now =
     (let current = (case now of None \<Rightarrow> Aware clock 0 | Some d \<Rightarrow> d);
          expires_at = (case tc_expires c of Naive w \<Rightarrow> w | Aware w off \<Rightarrow> w - off)
      in case current of
           Naive w \<Rightarrow> Inl (TypeError ''can't compare offset-naive and offset-aware datetimes'')
         | Aware w off \<Rightarrow> Inr (w - off \<ge> expires_at))"

record tool_request =
  tq_tool :: string
  tq_args :: "string list"
  tq_capability :: tool_capability
  tq_input_hash :: string
  tq_requester :: string

record tool_result =
  tr_tool :: string
  tr_status :: string
  tr_stdout :: string
  tr_stderr :: string
  tr_returncode :: int
  tr_input_hash :: string
  tr_execution_hash :: string
  tr_timestamp :: string
  tr_signature :: string

section \<open>Execution contexts\<close>

text \<open>The marker of a context: the module's authority token or any other object.\<close>

datatype marker = AUTHORITY_TOKEN | OtherMarker

record tool_context =
  tx_request :: string
  tx_authorization :: "string option"
  tx_identity :: string
  tx_capability :: "string option"
  tx_tool :: string
  tx_operation :: string
  tx_tool_capability :: tool_capability
  tx_args :: "string list"
  tx_input_hash :: string
  tx_requester :: string
  tx_runtime :: string
  tx_issued :: string
  tx_workspace :: "string option"
  tx_binding :: "string option"
  tx_branch :: "string option"
  tx_task :: "string option"
  tx_marker :: marker

definition context_post_init :: "tool_context \<Rightarrow> tool_context res" where
  "context_post_init ctx =
     (if tx_marker ctx \<noteq> AUTHORITY_TOKEN then Inl (AppError ''ContextForgeryDenied'' []) else Inr ctx)"

definition issue_tool_execution_context :: "string \<Rightarrow> string option \<Rightarrow> string \<Rightarrow> string option \<Rightarrow> string \<Rightarrow>
    string \<Rightarrow> tool_capability \<Rightarrow> string list \<Rightarrow> string \<Rightarrow> string \<Rightarrow> string \<Rightarrow> string \<Rightarrow> tool_context res" where
  "issue_tool_execution_context request_id authorization_id identity_id capability_id tool_name operation
     tool_capability args input_hash requester runtime_version issued_at =
     context_post_init
       \<lparr>tx_request = request_id, tx_authorization = authorization_id, tx_identity = identity_id,
        tx_capability = capability_id, tx_tool = tool_name, tx_operation = operation,
        tx_tool_capability = tool_capability, tx_args = args, tx_input_hash = input_hash,
        tx_requester = requester, tx_runtime = runtime_version, tx_issued = issued_at,
        tx_workspace = None, tx_binding = None, tx_branch = None, tx_task = None,
        tx_marker = AUTHORITY_TOKEN\<rparr>"

section \<open>The registry\<close>

record registered_tool =
  rg_name :: string
  rg_executable :: string

type_synonym tool_registry = "(string \<times> registered_tool) list"

definition tool_register :: "string \<Rightarrow> string \<Rightarrow> tool_registry \<Rightarrow> unit res \<times> tool_registry" where
  "tool_register name executable R =
     (if name = [] then (Inl (ValueError ''Tool name cannot be empty''), R)
      else if executable = [] then (Inl (ValueError ''Executable path cannot be empty''), R)
      else if map_of R name \<noteq> None
      then (Inl (AppError ''DuplicateToolRegistrationError'' (''Tool already registered: '' @ name)), R)
      else (Inr (), AList.update name \<lparr>rg_name = name, rg_executable = executable\<rparr> R))"

definition tool_resolve :: "tool_registry \<Rightarrow> string \<Rightarrow> string res" where
  "tool_resolve R name =
     (case map_of R name of
        None \<Rightarrow> Inl (PermissionError ''Tool not registered'')
      | Some t \<Rightarrow> Inr (rg_executable t))"

definition tool_is_registered :: "tool_registry \<Rightarrow> string \<Rightarrow> bool" where
  "tool_is_registered R name = (map_of R name \<noteq> None)"

section \<open>The validator\<close>

definition CapabilityValidationError :: pyexc where
  "CapabilityValidationError = AppError ''CapabilityValidationError'' []"

definition tool_validate :: "int \<Rightarrow> tool_request \<Rightarrow> unit res" where
  "tool_validate clock request =
     bindE (tool_is_expired clock (tq_capability request) None) (\<lambda>expired.
       if expired then Inl CapabilityValidationError else Inr ())"

section \<open>The audit file\<close>

text \<open>
  The file is the list of its lines, a line being the document whose JSON text it holds.  The text
  of \<open>json.dumps(entry, sort_keys=True)\<close> has the default separators.
\<close>

record tool_audit =
  ta_lines :: "pydict list"
  ta_previous :: string

definition default_sorted :: json_style where
  "default_sorted = \<lparr>js_quote = quote_ascii, js_nan = True, js_item = '', '', js_key = '': '', js_sort = True\<rparr>"

text \<open>Opening a ledger on a file with the given lines.\<close>

definition tool_audit_open :: "pydict list \<Rightarrow> tool_audit" where
  "tool_audit_open lines = \<lparr>ta_lines = lines, ta_previous = genesis_hash\<rparr>"

definition tool_entry :: "tool_request \<Rightarrow> tool_result \<Rightarrow> pydict" where
  "tool_entry request result =
     [(''request'', VDict
        [(''tool_name'', VStr (tq_tool request)), (''args'', str_list (tq_args request)),
         (''input_hash'', VStr (tq_input_hash request)), (''requester'', VStr (tq_requester request))]),
      (''result'', VDict
        [(''tool_name'', VStr (tr_tool result)), (''status'', VStr (tr_status result)),
         (''stdout'', VStr (tr_stdout result)), (''stderr'', VStr (tr_stderr result)),
         (''returncode'', VInt (tr_returncode result)), (''input_hash'', VStr (tr_input_hash result)),
         (''execution_hash'', VStr (tr_execution_hash result)), (''timestamp'', VStr (tr_timestamp result)),
         (''signature'', VStr (tr_signature result))])]"

definition tool_audit_record :: "runtime \<Rightarrow> tool_request \<Rightarrow> tool_result \<Rightarrow> (tool_audit, unit) op" where
  "tool_audit_record rt request result T =
     (let entry = tool_entry request result in
      case dumps default_sorted (VDict entry) of
        Inl ex \<Rightarrow> (Inl ex, T)
      | Inr entry_text \<Rightarrow>
          let ledger_hash = hexdigest rt (ta_previous T @ entry_text) in
          (Inr (), \<lparr>ta_lines = ta_lines T @ [entry @ [(''ledger_hash'', VStr ledger_hash)]],
                    ta_previous = ledger_hash\<rparr>))"

definition tool_audit_read_all :: "tool_audit \<Rightarrow> pyval list res" where
  "tool_audit_read_all T = mapE (\<lambda>d. json_roundtrip (VDict d)) (ta_lines T)"

section \<open>The executor\<close>

record executor =
  ex_registry :: tool_registry
  ex_audit :: "tool_audit option"

definition DirectExecutionDenied :: pyexc where
  "DirectExecutionDenied = AppError ''DirectExecutionDenied'' []"

definition playground_execute :: "(executor, tool_result) op" where
  "playground_execute E = (Inl DirectExecutionDenied, E)"

definition check_context :: "int \<Rightarrow> tool_context \<Rightarrow> unit res" where
  "check_context clock ctx =
     bindE (tool_is_expired clock (tx_tool_capability ctx) None) (\<lambda>expired.
       if expired then Inl CapabilityValidationError
       else if tx_tool ctx \<notin> set (tc_allowed (tx_tool_capability ctx)) then Inl CapabilityValidationError
       else Inr ())"

definition hash_execution :: "runtime \<Rightarrow> string \<Rightarrow> string list \<Rightarrow> string \<Rightarrow> string \<Rightarrow> string \<Rightarrow> int \<Rightarrow> string \<Rightarrow> string res" where
  "hash_execution rt tool_name args input_hash stdout_hash stderr_hash returncode runtime_version =
     bindE (canonical_bytes rt (VDict
       [(''tool_name'', VStr tool_name), (''args'', str_list args), (''input_hash'', VStr input_hash),
        (''stdout_hash'', VStr stdout_hash), (''stderr_hash'', VStr stderr_hash),
        (''returncode'', VInt returncode), (''runtime_version'', VStr runtime_version)]))
       (\<lambda>b. Inr (hexdigest rt b))"

definition hash_signature :: "runtime \<Rightarrow> string \<Rightarrow> string \<Rightarrow> string" where
  "hash_signature rt capability_signature execution_hash =
     hexdigest rt (capability_signature @ '':'' @ execution_hash)"

definition tool_output :: "runtime \<Rightarrow> string \<Rightarrow> tool_context \<Rightarrow> string \<Rightarrow> string \<Rightarrow> int \<Rightarrow> string \<Rightarrow> tool_result" where
  "tool_output rt stamp c out err returncode execution_hash =
     \<lparr>tr_tool = tx_tool c, tr_status = (if returncode = 0 then ''success'' else ''error''),
      tr_stdout = out, tr_stderr = err, tr_returncode = returncode, tr_input_hash = tx_input_hash c,
      tr_execution_hash = execution_hash, tr_timestamp = stamp,
      tr_signature = hash_signature rt (tc_signature (tx_tool_capability c)) execution_hash\<rparr>"

text \<open>
  \<open>ctx\<close> is a context or (\<open>None\<close>) any other object; \<open>clock1\<close> and \<open>clock2\<close> are the two readings of
  the clock for the expiry checks, \<open>stamp\<close> the one for the timestamp.
\<close>

definition execute_authorized :: "runtime \<Rightarrow> int \<Rightarrow> int \<Rightarrow> string \<Rightarrow>
    (string list \<Rightarrow> int \<Rightarrow> (string \<times> string \<times> int) res) \<Rightarrow> tool_context option \<Rightarrow> (executor, tool_result) op" where
  "execute_authorized rt clock1 clock2 stamp run ctx =
     (case ctx of
        None \<Rightarrow> raiseS DirectExecutionDenied
      | Some c \<Rightarrow>
          bindS (liftS (check_context clock1 c)) (\<lambda>_.
          let request = \<lparr>tq_tool = tx_tool c, tq_args = tx_args c, tq_capability = tx_tool_capability c,
                tq_input_hash = tx_input_hash c, tq_requester = tx_requester c\<rparr> in
          bindS (liftS (tool_validate clock2 request)) (\<lambda>_.
          bindS (\<lambda>E. (tool_resolve (ex_registry E) (tx_tool c), E)) (\<lambda>executable.
          bindS (liftS (run (executable # tx_args c) (tc_runtime (tx_tool_capability c)))) (\<lambda>(out, err, returncode).
          bindS (liftS (hash_execution rt (tx_tool c) (tx_args c) (tx_input_hash c) (hexdigest rt out)
                   (hexdigest rt err) returncode (tx_runtime c))) (\<lambda>execution_hash.
          let output = tool_output rt stamp c out err returncode execution_hash in
          bindS (\<lambda>E. case ex_audit E of
                   None \<Rightarrow> (Inr (), E)
                 | Some T \<Rightarrow> (case tool_audit_record rt request output T of (r, T') \<Rightarrow> (r, E\<lparr>ex_audit := Some T'\<rparr>)))
            (\<lambda>_. returnS output)))))))"

section \<open>Lemmas\<close>

lemma tool_is_expired_now [simp]:
  "tool_is_expired clock c None =
     Inr (clock \<ge> (case tc_expires c of Naive w \<Rightarrow> w | Aware w off \<Rightarrow> w - off))"
  by (simp add: tool_is_expired_def)

text \<open>A context permits its tool at a clock reading.\<close>

definition context_permits :: "int \<Rightarrow> tool_context \<Rightarrow> bool" where
  "context_permits clock c \<longleftrightarrow>
     clock < (case tc_expires (tx_tool_capability c) of Naive w \<Rightarrow> w | Aware w off \<Rightarrow> w - off) \<and>
     tx_tool c \<in> set (tc_allowed (tx_tool_capability c))"

lemma check_context_Inr: "check_context clock c = Inr () \<longleftrightarrow> context_permits clock c"
  by (auto simp: check_context_def context_permits_def)

lemma check_context_Inl: "check_context clock c = Inl e \<Longrightarrow> e = CapabilityValidationError"
  by (auto simp: check_context_def split: if_splits)

lemma tool_entry_encodable [simp]: "encodable (VDict (tool_entry request result))"
  by (simp add: tool_entry_def str_list_def list_all_iff)

lemma tool_audit_record_eq:
  obtains t where "dumps default_sorted (VDict (tool_entry request result)) = Inr t"
    "tool_audit_record rt request result T =
       (Inr (), \<lparr>ta_lines = ta_lines T @ [tool_entry request result @ [(''ledger_hash'', VStr (hexdigest rt (ta_previous T @ t)))]],
          ta_previous = hexdigest rt (ta_previous T @ t)\<rparr>)"
  using dumps_total [OF tool_entry_encodable, of default_sorted request result]
  by (auto simp: tool_audit_record_def Let_def)

lemma json_roundtrip_strs [simp]: "json_roundtrip (str_list xs) = Inr (str_list xs)"
proof -
  have "mapE json_roundtrip (map VStr xs) = Inr (map VStr xs)" by (induction xs) simp_all
  then show ?thesis by (simp add: str_list_def)
qed

lemma tool_entry_roundtrip [simp]:
  "json_roundtrip (VDict (tool_entry request result @ [(''ledger_hash'', VStr h)])) =
   Inr (VDict (tool_entry request result @ [(''ledger_hash'', VStr h)]))"
  by (simp add: tool_entry_def)

text \<open>The executor's outcome, branch by branch.\<close>

lemma execute_refused:
  assumes "\<nexists>c. ctx = Some c \<and> context_permits clock1 c \<and> context_permits clock2 c \<and>
      tool_is_registered (ex_registry E) (tx_tool c)"
  shows "\<exists>e. \<forall>run. execute_authorized rt clock1 clock2 stamp run ctx E = (Inl e, E)"
proof (cases ctx)
  case None
  then show ?thesis by (simp add: execute_authorized_def)
next
  case (Some c)
  show ?thesis
  proof (cases "check_context clock1 c")
    case (Inl e)
    with Some show ?thesis by (simp add: execute_authorized_def)
  next
    case ok: (Inr u)
    then have p: "context_permits clock1 c" using check_context_Inr [of clock1 c] by (cases u) simp
    show ?thesis
    proof (cases "clock2 \<ge> (case tc_expires (tx_tool_capability c) of Naive w \<Rightarrow> w | Aware w off \<Rightarrow> w - off)")
      case True
      with Some ok show ?thesis by (simp add: execute_authorized_def tool_validate_def Let_def)
    next
      case False
      with p have "context_permits clock2 c" by (simp add: context_permits_def)
      with assms p Some have "tool_resolve (ex_registry E) (tx_tool c) = Inl (PermissionError ''Tool not registered'')"
        by (simp add: tool_is_registered_def tool_resolve_def)
      with Some ok False show ?thesis
        by (simp add: execute_authorized_def tool_validate_def Let_def bindS_Inl)
    qed
  qed
qed

lemma execute_permitted:
  assumes "context_permits clock1 c" "context_permits clock2 c" "tool_resolve (ex_registry E) (tx_tool c) = Inr exe"
  shows "execute_authorized rt clock1 clock2 stamp run (Some c) E =
    (case run (exe # tx_args c) (tc_runtime (tx_tool_capability c)) of
       Inl e \<Rightarrow> (Inl e, E)
     | Inr (out, err, rc) \<Rightarrow>
         (case hash_execution rt (tx_tool c) (tx_args c) (tx_input_hash c) (hexdigest rt out) (hexdigest rt err) rc (tx_runtime c) of
            Inl e \<Rightarrow> (Inl e, E)
          | Inr h \<Rightarrow> (Inr (tool_output rt stamp c out err rc h),
              (case ex_audit E of
                 None \<Rightarrow> E
               | Some T \<Rightarrow> E\<lparr>ex_audit := Some (snd (tool_audit_record rt
                   \<lparr>tq_tool = tx_tool c, tq_args = tx_args c, tq_capability = tx_tool_capability c,
                    tq_input_hash = tx_input_hash c, tq_requester = tx_requester c\<rparr>
                   (tool_output rt stamp c out err rc h) T))\<rparr>))))"
proof -
  have k: "check_context clock1 c = Inr ()" using assms(1) check_context_Inr by blast
  have v: "\<not> clock2 \<ge> (case tc_expires (tx_tool_capability c) of Naive w \<Rightarrow> w | Aware w off \<Rightarrow> w - off)"
    using assms(2) by (simp add: context_permits_def)
  have a: "fst (tool_audit_record rt q r T) = Inr ()" for q r T
    using tool_audit_record_eq [of q r rt T] by (metis fst_conv)
  show ?thesis
    unfolding execute_authorized_def option.case k liftS_def
    by (simp add: bindS_def v assms(3) tool_validate_def Let_def split_beta a split: sum.splits option.splits)
qed

lemma hash_execution_total:
  obtains b where "hash_execution rt t args ih oh eh rc rv = Inr (hexdigest rt b)"
proof -
  have "canonicalizable (VDict [(''tool_name'', VStr t), (''args'', str_list args), (''input_hash'', VStr ih),
        (''stdout_hash'', VStr oh), (''stderr_hash'', VStr eh),
        (''returncode'', VInt rc), (''runtime_version'', VStr rv)])" by simp
  from canonical_bytes_total [OF this, of rt] that show thesis
    by (auto simp: hash_execution_def)
qed

section \<open>The audit file\<close>

fun record_all :: "runtime \<Rightarrow> (tool_request \<times> tool_result) list \<Rightarrow> tool_audit \<Rightarrow> tool_audit" where
  "record_all rt [] T = T"
| "record_all rt (x # xs) T = record_all rt xs (snd (tool_audit_record rt (fst x) (snd x) T))"

text \<open>The lines that a sequence of records should leave, each chained to the hash before it.\<close>

definition entry_text :: "tool_request \<times> tool_result \<Rightarrow> string" where
  "entry_text x = (case dumps default_sorted (VDict (tool_entry (fst x) (snd x))) of Inr t \<Rightarrow> t | Inl e \<Rightarrow> [])"

definition audit_line :: "runtime \<Rightarrow> string \<Rightarrow> tool_request \<times> tool_result \<Rightarrow> pydict" where
  "audit_line rt p x = tool_entry (fst x) (snd x) @ [(''ledger_hash'', VStr (hexdigest rt (p @ entry_text x)))]"

fun audit_lines :: "runtime \<Rightarrow> string \<Rightarrow> (tool_request \<times> tool_result) list \<Rightarrow> pydict list" where
  "audit_lines rt p [] = []"
| "audit_lines rt p (x # xs) = audit_line rt p x # audit_lines rt (hexdigest rt (p @ entry_text x)) xs"

lemma tool_audit_record_line:
  "tool_audit_record rt (fst x) (snd x) T =
     (Inr (), \<lparr>ta_lines = ta_lines T @ [audit_line rt (ta_previous T) x],
        ta_previous = hexdigest rt (ta_previous T @ entry_text x)\<rparr>)"
  by (rule tool_audit_record_eq [of "fst x" "snd x" rt T]) (simp add: audit_line_def entry_text_def)

lemma record_all_lines: "ta_lines (record_all rt xs T) = ta_lines T @ audit_lines rt (ta_previous T) xs"
  by (induction xs arbitrary: T) (simp_all add: tool_audit_record_line)

lemma audit_lines_roundtrip: "mapE (\<lambda>d. json_roundtrip (VDict d)) (audit_lines rt p xs) = Inr (map VDict (audit_lines rt p xs))"
proof (induction xs arbitrary: p)
  case Nil
  then show ?case by simp
next
  case (Cons x xs)
  have "json_roundtrip (VDict (audit_line rt p x)) = Inr (VDict (audit_line rt p x))"
    unfolding audit_line_def by (rule tool_entry_roundtrip)
  with Cons show ?case by (simp del: json_roundtrip.simps)
qed

lemma reopened_restarts:
  "ta_lines (snd (tool_audit_record rt (fst x) (snd x) (tool_audit_open lines))) =
     lines @ [audit_line rt genesis_hash x]"
  by (simp add: tool_audit_record_line tool_audit_open_def)

section \<open>Properties\<close>



text \<open>
  The tool registry never rebinds a name: a name that resolves keeps resolving to the same
  executable whatever is registered afterwards, a second registration of it raises and changes
  nothing, and a registration that returns makes the name resolve to its (non-empty) executable.
\<close>

theorem tool_registry_first_wins:
  "(\<forall>n e. tool_resolve R n = Inr e \<longrightarrow> tool_resolve (snd (tool_register m x R)) n = Inr e) \<and>
   (tool_is_registered R m \<longrightarrow> (\<exists>ex. tool_register m x R = (Inl ex, R))) \<and>
   (fst (tool_register m x R) = Inr () \<longrightarrow>
      m \<noteq> [] \<and> x \<noteq> [] \<and> tool_resolve (snd (tool_register m x R)) m = Inr x)"
  by (auto simp: tool_register_def tool_resolve_def tool_is_registered_def split: option.splits if_splits)

theorem tool_registry_first_wins_witness:
  "tool_resolve (snd (tool_register ''ls'' ''/bin/ls'' [])) ''ls'' = Inr ''/bin/ls''"
proof -
  have "fst (tool_register ''ls'' ''/bin/ls'' []) = Inr ()" by (simp add: tool_register_def)
  with tool_registry_first_wins [of "[]" "''ls''" "''/bin/ls''"] show ?thesis by blast
qed

end
