(* ===== verification/Authority.thy ===== *)
theory Authority
  imports GateAdapters Tools AuditRecorder
begin

text \<open>
  \<open>src/sia/authority.py\<close> and \<open>src/sia/providers/router.py\<close>: the \<open>SovereignAuthority\<close> that ties
  registry, policy, delegations, memory, ledger, imports, vault, evidence and gate together.  Every
  method is an operation on the authority's state that returns or raises.  The lemmas show what every
  method keeps of the state, that nothing is done before initialization, what a denied request
  leaves behind, and the provider lifecycle in the ledger.

  A call reads the clock and draws random ids several times: \<open>ce_at e i\<close> is its \<open>i\<close>-th reading,
  \<open>ce_utc e\<close> the microsecond clock of the capability check; \<open>ce_exc\<close> is
  \<open>str(exc) or type(exc).__name__\<close> and \<open>ce_repr\<close> is \<open>repr\<close> of a text.
\<close>

record call_env =
  ce_utc :: int
  ce_at :: "nat \<Rightarrow> moment"
  ce_exc :: "pyexc \<Rightarrow> string"
  ce_repr :: "string \<Rightarrow> string"

definition later :: "nat \<Rightarrow> call_env \<Rightarrow> call_env" where
  "later k e = e\<lparr>ce_at := (\<lambda>i. ce_at e (i + k))\<rparr>"

definition iso_at :: "call_env \<Rightarrow> nat \<Rightarrow> string" where
  "iso_at e i = mo_iso (ce_at e i)"

section \<open>The state\<close>

record sovereign_authority =
  au_owner :: string
  au_initialized :: bool
  au_registry :: registry
  au_policy :: authority_policy
  au_heap :: token_heap
  au_tokens :: token_table
  au_memory :: "(string \<times> memory_record) list"
  au_ledger :: ledger
  au_loader :: loader
  au_identity :: identity_adapter
  au_evidence :: evidence_adapter
  au_vault :: vault_adapter
  au_gate_policy :: policy_adapter

type_synonym 'a authority_op = "(sovereign_authority, 'a) op"

definition AUTHORITY_VERSION :: string where
  "AUTHORITY_VERSION = ''0.1.0''"

definition default_policy :: pydict where
  "default_policy = [(''default'', VStr ''deny''), (''rules'', VList [])]"

text \<open>\<open>software\<close> is the new root of trust that \<open>IdentityAdapter.create\<close> makes.\<close>

definition authority_init :: "runtime \<Rightarrow> int \<Rightarrow> root_of_trust \<Rightarrow> string \<Rightarrow> pydict option \<Rightarrow> sovereign_authority res" where
  "authority_init rt now software owner_id policy =
     (let p = policy_init (case policy of None \<Rightarrow> default_policy | Some d \<Rightarrow> if d = [] then default_policy else d) in
      bindE (identity_adapter_create now owner_id None software) (\<lambda>identity.
      bindE (evidence_init owner_id (ia_root identity)) (\<lambda>evidence.
      bindE (policy_adapter_init rt p) (\<lambda>gate_policy.
        Inr \<lparr>au_owner = owner_id, au_initialized = False, au_registry = registry_init, au_policy = p,
             au_heap = [], au_tokens = [], au_memory = [], au_ledger = ledger_init, au_loader = [],
             au_identity = identity, au_evidence = evidence,
             au_vault = vault_init owner_id (ia_root identity), au_gate_policy = gate_policy\<rparr>))))"

definition on_ledger :: "(ledger, 'a) op \<Rightarrow> 'a authority_op" where
  "on_ledger = onS au_ledger (\<lambda>L s. s\<lparr>au_ledger := L\<rparr>)"

definition on_registry :: "(registry, 'a) op \<Rightarrow> 'a authority_op" where
  "on_registry = onS au_registry (\<lambda>R s. s\<lparr>au_registry := R\<rparr>)"

definition on_vault :: "(vault_adapter, 'a) op \<Rightarrow> 'a authority_op" where
  "on_vault = onS au_vault (\<lambda>V s. s\<lparr>au_vault := V\<rparr>)"

definition on_loader :: "(loader, 'a) op \<Rightarrow> 'a authority_op" where
  "on_loader = onS au_loader (\<lambda>L s. s\<lparr>au_loader := L\<rparr>)"

section \<open>Lifecycle, requests, boundaries and delegations\<close>

definition initialize :: "runtime \<Rightarrow> call_env \<Rightarrow> unit authority_op" where
  "initialize rt e =
     bindS (modifyS (\<lambda>s. s\<lparr>au_initialized := True\<rparr>)) (\<lambda>_.
     bindS (getS au_owner) (\<lambda>owner. on_ledger (record_authority_init rt (iso_at e 0) owner AUTHORITY_VERSION)))"

definition require_initialized :: "unit authority_op" where
  "require_initialized s = (if \<not> au_initialized s then (Inl (SIAErr NotInitializedError), s) else (Inr (), s))"

definition make_operation_request :: "sovereign_authority \<Rightarrow> string \<Rightarrow> capability_value option \<Rightarrow> capability_value option \<Rightarrow>
    string \<Rightarrow> string \<Rightarrow> string option \<Rightarrow> pydict option \<Rightarrow> operation_request" where
  "make_operation_request s operation capability parent_capability resource_id model_id provider_id metadata =
     \<lparr>or_operation = operation, or_identity = Some (adapter_identity_context (au_identity s)),
      or_capability = capability, or_parent = parent_capability, or_requester = au_owner s,
      or_resource = resource_id, or_model = model_id, or_provider = provider_id,
      or_metadata = (case metadata of None \<Rightarrow> [] | Some d \<Rightarrow> d)\<rparr>"

definition register_boundary :: "runtime \<Rightarrow> call_env \<Rightarrow> string \<Rightarrow> string \<Rightarrow> string \<Rightarrow> string list \<Rightarrow> unit authority_op" where
  "register_boundary rt e boundary_id model_id boundary_type scope =
     bindS require_initialized (\<lambda>_.
     bindS (getS au_owner) (\<lambda>owner.
     bindS (on_registry (registry_register boundary_id model_id boundary_type owner scope)) (\<lambda>_.
       on_ledger (record_boundary_registered rt (iso_at e 0) owner boundary_id boundary_type model_id))))"

text \<open>A token is given by its address in the heap, and returned likewise.\<close>

definition issue_delegation :: "runtime \<Rightarrow> call_env \<Rightarrow> nat \<Rightarrow> string list option \<Rightarrow> nat authority_op" where
  "issue_delegation rt e token parent_scope =
     bindS require_initialized (\<lambda>_.
     bindS (\<lambda>s. onS au_tokens (\<lambda>T s. s\<lparr>au_tokens := T\<rparr>) (authorizer_issue (au_heap s) token parent_scope) s) (\<lambda>a.
     bindS (getS (\<lambda>s. (au_owner s, au_heap s ! a))) (\<lambda>(owner, issued).
     bindS (on_ledger (record_delegation_issued rt (iso_at e 0) owner (dt_id issued) (dt_grantee issued) (dt_scope issued)))
       (\<lambda>_. returnS a))))"

definition revoke_delegation :: "runtime \<Rightarrow> call_env \<Rightarrow> string \<Rightarrow> unit authority_op" where
  "revoke_delegation rt e token_id =
     bindS require_initialized (\<lambda>_.
     bindS (\<lambda>s. onS au_heap (\<lambda>H s. s\<lparr>au_heap := H\<rparr>) (authorizer_revoke (au_tokens s) token_id) s) (\<lambda>_.
     bindS (getS au_owner) (\<lambda>owner. on_ledger (record_delegation_revoked rt (iso_at e 0) owner token_id))))"

section \<open>Policy and authorization\<close>

definition enforce_policy :: "runtime \<Rightarrow> pydict \<Rightarrow> unit authority_op" where
  "enforce_policy rt request =
     bindS require_initialized (\<lambda>_. bindS (getS au_policy) (\<lambda>p. liftS (policy_enforce rt p request)))"

definition authorize_operation :: "runtime \<Rightarrow> call_env \<Rightarrow> operation_request \<Rightarrow> authorization_decision authority_op" where
  "authorize_operation rt e request =
     bindS require_initialized (\<lambda>_.
       (\<lambda>s. onS au_evidence (\<lambda>E s. s\<lparr>au_evidence := E\<rparr>)
          (gate_authorize (adapter_gate rt (ce_utc e) (ce_at e 0) (au_identity s) (au_gate_policy s)) request) s))"

section \<open>Memory\<close>

definition store_memory :: "runtime \<Rightarrow> call_env \<Rightarrow> memory_record \<Rightarrow> unit authority_op" where
  "store_memory rt e r =
     bindS require_initialized (\<lambda>_.
     bindS (liftS (validate_record r)) (\<lambda>_.
     bindS (modifyS (\<lambda>s. s\<lparr>au_memory := AList.update (mr_id r) r (au_memory s)\<rparr>)) (\<lambda>_.
     bindS (getS au_owner) (\<lambda>owner.
       on_ledger (record_memory_access rt (iso_at e 0) owner (mr_id r) (mr_model r) ''write'')))))"

definition store_memory_authorized :: "runtime \<Rightarrow> call_env \<Rightarrow> operation_request \<Rightarrow> memory_record \<Rightarrow>
    authorization_decision authority_op" where
  "store_memory_authorized rt e request r =
     bindS require_initialized (\<lambda>_.
     bindS (authorize_operation rt e request) (\<lambda>decision.
       if ad_allowed decision
       then bindS (store_memory rt (later 1 e) r) (\<lambda>_.
            bindS (on_vault (vault_record_memory rt (ce_at e 2) r (ad_capability decision))) (\<lambda>_.
              returnS decision))
       else returnS decision))"

definition read_memory :: "runtime \<Rightarrow> call_env \<Rightarrow> string \<Rightarrow> string \<Rightarrow> memory_record authority_op" where
  "read_memory rt e record_id requesting_model_id =
     bindS require_initialized (\<lambda>_.
     bindS (getS (\<lambda>s. map_of (au_memory s) record_id)) (\<lambda>found.
       case found of
         None \<Rightarrow> raiseS (KeyError record_id)
       | Some r \<Rightarrow>
           bindS (liftS (assert_read_access r requesting_model_id)) (\<lambda>_.
           bindS (on_ledger (record_memory_access rt (iso_at e 0) requesting_model_id record_id (mr_model r) ''read''))
             (\<lambda>_. returnS r))))"

definition read_memory_authorized :: "runtime \<Rightarrow> call_env \<Rightarrow> operation_request \<Rightarrow> string \<Rightarrow> string \<Rightarrow>
    (authorization_decision \<times> memory_record option) authority_op" where
  "read_memory_authorized rt e request record_id requesting_model_id =
     bindS require_initialized (\<lambda>_.
     bindS (authorize_operation rt e request) (\<lambda>decision.
       if \<not> ad_allowed decision then returnS (decision, None)
       else bindS (read_memory rt (later 1 e) record_id requesting_model_id) (\<lambda>r. returnS (decision, Some r))))"

section \<open>Export and import\<close>

definition create_export :: "runtime \<Rightarrow> call_env \<Rightarrow> string \<Rightarrow> pyval \<Rightarrow> string \<Rightarrow> string \<Rightarrow> portable_bundle authority_op" where
  "create_export rt e bundle_id payload payload_hash signature =
     bindS require_initialized (\<lambda>_.
     bindS (getS au_owner) (\<lambda>owner.
     let b = \<lparr>bu_id = bundle_id, bu_created_by = owner, bu_payload = payload, bu_payload_hash = payload_hash,
           bu_signature = signature, bu_created_at = iso_at e 0, bu_version = EXPORT_SCHEMA_VERSION\<rparr> in
     bindS (liftS (validate_bundle rt b)) (\<lambda>_.
     bindS (on_ledger (record_export rt (iso_at e 1) owner bundle_id)) (\<lambda>_. returnS b))))"

definition create_export_authorized :: "runtime \<Rightarrow> call_env \<Rightarrow> operation_request \<Rightarrow> string \<Rightarrow> pyval \<Rightarrow> string \<Rightarrow> string \<Rightarrow>
    (authorization_decision \<times> portable_bundle option) authority_op" where
  "create_export_authorized rt e request bundle_id payload payload_hash signature =
     bindS require_initialized (\<lambda>_.
     bindS (authorize_operation rt e request) (\<lambda>decision.
       if \<not> ad_allowed decision then returnS (decision, None)
       else bindS (create_export rt (later 1 e) bundle_id payload payload_hash signature) (\<lambda>b.
              returnS (decision, Some b))))"

definition load_import :: "runtime \<Rightarrow> call_env \<Rightarrow> portable_bundle \<Rightarrow> unit authority_op" where
  "load_import rt e b =
     bindS require_initialized (\<lambda>_.
     bindS (on_loader (loader_load b)) (\<lambda>_.
     bindS (getS au_owner) (\<lambda>owner. on_ledger (record_import rt (iso_at e 0) owner (bu_id b)))))"

definition load_import_authorized :: "runtime \<Rightarrow> call_env \<Rightarrow> operation_request \<Rightarrow> portable_bundle \<Rightarrow>
    authorization_decision authority_op" where
  "load_import_authorized rt e request b =
     bindS require_initialized (\<lambda>_.
     bindS (authorize_operation rt e request) (\<lambda>decision.
       if ad_allowed decision then bindS (load_import rt (later 1 e) b) (\<lambda>_. returnS decision)
       else returnS decision))"

section \<open>Governed tools\<close>

text \<open>\<open>getattr(c, "capability_id", None) or getattr(c, "token_id", None)\<close>\<close>

definition request_capability_id :: "operation_request \<Rightarrow> string option" where
  "request_capability_id request =
     (case or_capability request of
        None \<Rightarrow> None
      | Some (CapRecord r) \<Rightarrow> if kr_id r = [] then None else Some (kr_id r)
      | Some (CapToken t) \<Rightarrow> Some (ct_id t)
      | Some (CapDelegation t) \<Rightarrow> Some (dt_id t)
      | Some CapOther \<Rightarrow> None)"

text \<open>The evidence of one step: the arguments that the authority passes, the others absent.\<close>

definition step_evidence :: "operation_request \<Rightarrow> authorization_decision \<Rightarrow> string \<Rightarrow> string \<Rightarrow> string \<Rightarrow> string \<Rightarrow>
    string option \<Rightarrow> string \<Rightarrow> tool_evidence" where
  "step_evidence request d request_id tool_name decision status failure timestamp =
     \<lparr>te_request = Some request_id, te_authorization = map_option int_str (ad_sequence d),
      te_identity = map_option ic_identity (or_identity request), te_workspace = None, te_binding = None,
      te_branch = None, te_task = None, te_capability = ad_capability d, te_tool = Some tool_name,
      te_operation = Some (operation_name request), te_decision = Some decision, te_status = Some status,
      te_failure = failure, te_timestamp = Some timestamp\<rparr>"

definition on_authority :: "'a authority_op \<Rightarrow> (sovereign_authority \<times> 'x, 'a) op" where
  "on_authority = onS fst (\<lambda>a s. (a, snd s))"

definition on_executor :: "('x, 'a) op \<Rightarrow> (sovereign_authority \<times> 'x, 'a) op" where
  "on_executor = onS snd (\<lambda>x s. (fst s, x))"

definition record_tool_step :: "runtime \<Rightarrow> string \<Rightarrow> string \<Rightarrow> tool_evidence \<Rightarrow> unit authority_op" where
  "record_tool_step rt now event_type ev =
     bindS (getS au_owner) (\<lambda>owner. on_ledger (record_tool_operation rt now owner event_type ev))"

definition mismatch_decision :: "call_env \<Rightarrow> string \<Rightarrow> string \<Rightarrow> authorization_decision \<Rightarrow> authorization_decision" where
  "mismatch_decision e requested decided d =
     \<lparr>ad_allowed = False, ad_operation = ad_operation d, ad_code = ''CAPABILITY_CONTEXT_MISMATCH'',
      ad_reason = ''capability_id in request ('' @ ce_repr e requested @ '') does not match the decision ('' @
        ce_repr e decided @ '')'',
      ad_capability = ad_capability d, ad_policy = ad_policy d, ad_audit = True, ad_sequence = ad_sequence d\<rparr>"

text \<open>The steps from the issued context on; the executor is any object with \<open>execute_authorized\<close>: \<open>exec\<close> on its state.\<close>

definition governed_execution :: "runtime \<Rightarrow> call_env \<Rightarrow> operation_request \<Rightarrow>
    (tool_context option \<Rightarrow> ('x, 'r) op) \<Rightarrow> string \<Rightarrow> string list \<Rightarrow> tool_capability \<Rightarrow> string \<Rightarrow> string \<Rightarrow> string \<Rightarrow>
    authorization_decision \<Rightarrow> (sovereign_authority \<times> 'x, authorization_decision \<times> 'r option) op" where
  "governed_execution rt e request exec tool_name args capability input_hash requester runtime_version d =
     (let request_id = mo_uuid (ce_at e 0); timestamp = iso_at e 0;
          authorization_id = map_option int_str (ad_sequence d);
          record_step = (\<lambda>now event_type status failure ts. on_authority (record_tool_step rt now event_type
            (step_evidence request d request_id tool_name ''authorized'' status failure ts)))
      in bindS (liftS (issue_tool_execution_context request_id authorization_id
                  (case or_identity request of None \<Rightarrow> [] | Some i \<Rightarrow> ic_identity i) (ad_capability d) tool_name
                  (operation_name request) capability args input_hash requester runtime_version timestamp)) (\<lambda>ctx.
         bindS (record_step (iso_at e 2) ''tool.operation.started'' ''started'' None timestamp) (\<lambda>_.
         bindS (catch_reraise (on_executor (exec (Some ctx)))
                  (\<lambda>exc. record_step (iso_at e 4) ''tool.operation.failed'' ''failed'' (Some (ce_exc e exc)) (iso_at e 3)))
           (\<lambda>result.
         bindS (record_step (iso_at e 4) ''tool.operation.completed'' ''completed'' None (iso_at e 3)) (\<lambda>_.
           returnS (d, Some result))))))"

definition execute_tool_authorized :: "runtime \<Rightarrow> call_env \<Rightarrow> operation_request \<Rightarrow>
    (tool_context option \<Rightarrow> ('x, 'r) op) \<Rightarrow> string \<Rightarrow> string list \<Rightarrow> tool_capability \<Rightarrow> string \<Rightarrow> string \<Rightarrow> string \<Rightarrow>
    (sovereign_authority \<times> 'x, authorization_decision \<times> 'r option) op" where
  "execute_tool_authorized rt e request exec tool_name args capability input_hash requester runtime_version =
     bindS (on_authority require_initialized) (\<lambda>_.
     let request_id = mo_uuid (ce_at e 0); timestamp = iso_at e 0;
         record_step = (\<lambda>now event_type d decision status failure ts. on_authority (record_tool_step rt now event_type
            (step_evidence request d request_id tool_name decision status failure ts)))
     in bindS (on_authority (authorize_operation rt (later 1 e) request)) (\<lambda>d.
        if \<not> ad_allowed d
        then bindS (record_step (iso_at e 2) ''tool.operation.denied'' d ''denied'' ''denied'' (Some (ad_reason d)) timestamp)
               (\<lambda>_. returnS (d, None))
        else case (request_capability_id request, ad_capability d) of
          (Some requested, Some decided) \<Rightarrow>
            if requested \<noteq> decided
            then bindS (record_step (iso_at e 2) ''tool.operation.rejected'' d ''rejected'' ''rejected''
                         (Some ''CAPABILITY_CONTEXT_MISMATCH'') timestamp)
                   (\<lambda>_. returnS (mismatch_decision e requested decided d, None))
            else governed_execution rt e request exec tool_name args capability input_hash requester runtime_version d
        | _ \<Rightarrow> governed_execution rt e request exec tool_name args capability input_hash requester runtime_version d))"

section \<open>Providers\<close>

text \<open>An \<open>AIProvider\<close>: its id and what \<open>execute\<close> returns or raises for a packet.\<close>

record ai_provider =
  pr_id :: string
  pr_execute :: "context_packet \<Rightarrow> pydict res"

definition router_select :: "(string \<times> 'p) list \<Rightarrow> operation_request \<Rightarrow> 'p res" where
  "router_select providers request =
     (case or_provider request of
        None \<Rightarrow> Inl (SIAErr RegistryNotFoundError)
      | Some p \<Rightarrow>
          if p = [] then Inl (SIAErr RegistryNotFoundError)
          else (case map_of providers p of
                  Some provider \<Rightarrow> Inr provider
                | None \<Rightarrow> Inl (SIAErr RegistryNotFoundError)))"

text \<open>\<open>getattr(exc, "code", "UNKNOWN")\<close>\<close>

fun exc_code :: "pyexc \<Rightarrow> string" where
  "exc_code (SIAErr e) = sia_error_code e"
| "exc_code _ = ''UNKNOWN''"

definition record_provider_event :: "runtime \<Rightarrow> string \<Rightarrow> provider_event_type \<Rightarrow> request_context \<Rightarrow> string option \<Rightarrow>
    string option \<Rightarrow> string option \<Rightarrow> bool option \<Rightarrow> unit authority_op" where
  "record_provider_event rt now event_type ctx provider_id error_code error_category retryable =
     on_ledger (record_provider_scar_event rt now
       (create_provider_scar_event event_type ctx (ostr_or provider_id ''unknown'') error_code error_category retryable))"

definition call_provider_authorized :: "runtime \<Rightarrow> call_env \<Rightarrow> operation_request \<Rightarrow> ai_provider \<Rightarrow> string list \<Rightarrow>
    (authorization_decision \<times> pydict option) authority_op" where
  "call_provider_authorized rt e request provider record_ids =
     bindS require_initialized (\<lambda>_.
     if or_provider request \<noteq> Some (pr_id provider)
     then raiseS (ValueError ''Request provider_id does not match the provider being executed'')
     else
     bindS (getS au_owner) (\<lambda>owner.
     let context = context_create (iso_at e 1) (mo_uuid (ce_at e 0)) (mo_uuid (ce_at e 1)) owner
           (operation_name request) owner (request_capability_id request) [] in
     bindS (authorize_operation rt (later 2 e) request) (\<lambda>decision.
     if \<not> ad_allowed decision
     then bindS (record_provider_event rt (iso_at e 3) FAILED context (or_provider request) (Some (ad_code decision))
                  (Some ''authorization'') (Some False)) (\<lambda>_. returnS (decision, None))
     else
     let context2 = advance 2 (context\<lparr>rc_capability := ad_capability decision, rc_policy_hash := ad_policy decision\<rparr>) in
     bindS (mapS (\<lambda>(i, record_id). read_memory rt (later (8 + i) e) record_id (pr_id provider))
              (enumerate 0 record_ids)) (\<lambda>memory_records.
     bindS (liftS (build_context_packet rt request decision (pr_id provider) (map ItemRecord memory_records))) (\<lambda>packet.
     bindS (record_provider_event rt (iso_at e 4) REQUESTED context2 (Some (pr_id provider)) None None None) (\<lambda>_.
     let context3 = advance 3 context2 in
     bindS (liftS (router_select [(pr_id provider, provider)] request)) (\<lambda>selected_provider.
     bindS (record_provider_event rt (iso_at e 5) APPROVED context3 (Some (pr_id selected_provider)) None None None) (\<lambda>_.
     let context4 = advance 4 context3 in
     bindS (catch_reraise (liftS (pr_execute selected_provider packet))
              (\<lambda>exc. record_provider_event rt (iso_at e 6) FAILED context4 (Some (pr_id selected_provider))
                 (Some (exc_code exc)) (Some ''execution'') (Some False))) (\<lambda>result.
     bindS (record_provider_event rt (iso_at e 7) COMPLETED context4 (Some (pr_id selected_provider)) None None None) (\<lambda>_.
       returnS (decision, Some result)))))))))))"

section \<open>Audit\<close>

definition verify_ledger :: "runtime \<Rightarrow> sovereign_authority \<Rightarrow> unit res" where
  "verify_ledger rt s = verify_chain rt (au_ledger s)"

definition verify_authority_evidence :: "runtime \<Rightarrow> sovereign_authority \<Rightarrow> bool res" where
  "verify_authority_evidence rt s =
     bindE (evidence_verify_chain rt (au_evidence s)) (\<lambda>ok.
       if ok then vault_verify_chain rt (au_vault s) else Inr False)"

section \<open>What every method keeps\<close>

text \<open>
  The state invariant: the ledger and the evidence verify, the vault's chain is valid, the loader
  holds one bundle per id, and stored memory records are valid and filed under their ids.
\<close>

definition memory_ok :: "(string \<times> memory_record) list \<Rightarrow> bool" where
  "memory_ok M \<longleftrightarrow> (\<forall>k r. map_of M k = Some r \<longrightarrow> mr_id r = k \<and> validate_record r = Inr ())"

definition vault_ok :: "runtime \<Rightarrow> vault_adapter \<Rightarrow> bool" where
  "vault_ok rt V \<longleftrightarrow> root_sound (va_root V) \<and> vault_verify_chain rt V = Inr True"

definition evidence_ok :: "runtime \<Rightarrow> evidence_adapter \<Rightarrow> bool" where
  "evidence_ok rt E \<longleftrightarrow> root_sound (sl_root (ea_ledger E)) \<and> verify_integrity rt (ea_ledger E) = Inr True"

definition authority_inv :: "runtime \<Rightarrow> sovereign_authority \<Rightarrow> bool" where
  "authority_inv rt s \<longleftrightarrow> verify_chain rt (au_ledger s) = Inr () \<and> evidence_ok rt (au_evidence s) \<and>
     vault_ok rt (au_vault s) \<and> loader_inv (au_loader s) \<and> memory_ok (au_memory s)"

lemma keeps_record_event:
  "keeps_inv (authority_inv rt) (on_ledger (record_event rt now ev pl a ts))"
  unfolding on_ledger_def by (rule keeps_on) (simp add: authority_inv_def record_event_verified)

lemmas recorder_defs =
  record_authority_init_def record_boundary_registered_def record_delegation_issued_def
  record_delegation_revoked_def record_memory_access_def record_export_def record_import_def
  record_provider_scar_event_def record_tool_operation_def

lemma keeps_recorders [keeps]:
  "keeps_inv (authority_inv rt) (on_ledger (record_authority_init rt now a v))"
  "keeps_inv (authority_inv rt) (on_ledger (record_boundary_registered rt now a b ty mo))"
  "keeps_inv (authority_inv rt) (on_ledger (record_delegation_issued rt now a t g sc))"
  "keeps_inv (authority_inv rt) (on_ledger (record_delegation_revoked rt now a t))"
  "keeps_inv (authority_inv rt) (on_ledger (record_memory_access rt now a r mo ac))"
  "keeps_inv (authority_inv rt) (on_ledger (record_export rt now a i))"
  "keeps_inv (authority_inv rt) (on_ledger (record_import rt now a i))"
  "keeps_inv (authority_inv rt) (on_ledger (record_provider_scar_event rt now pe))"
  "keeps_inv (authority_inv rt) (on_ledger (record_tool_operation rt now a ty te))"
  unfolding recorder_defs by (rule keeps_record_event)+

lemma keeps_require [keeps]: "keeps_inv P require_initialized"
  by (simp add: keeps_inv_def require_initialized_def)

lemma keeps_registry [keeps]: "keeps_inv (authority_inv rt) (on_registry m)"
  unfolding on_registry_def by (rule keeps_on) (simp add: authority_inv_def)

lemma keeps_tokens [keeps]:
  "keeps_inv (authority_inv rt) (\<lambda>s. onS au_tokens (\<lambda>T s. s\<lparr>au_tokens := T\<rparr>) (m s) s)"
  "keeps_inv (authority_inv rt) (\<lambda>s. onS au_heap (\<lambda>H s. s\<lparr>au_heap := H\<rparr>) (n s) s)"
  by (simp_all add: keeps_inv_def snd_onS authority_inv_def)

lemma keeps_load [keeps]: "keeps_inv (authority_inv rt) (on_loader (loader_load b))"
  unfolding on_loader_def by (rule keeps_on) (simp add: authority_inv_def loader_load_inv)

lemma keeps_vault [keeps]: "keeps_inv (authority_inv rt) (on_vault (vault_record_memory rt m r cap))"
  unfolding on_vault_def
proof (rule keeps_on)
  fix s assume s: "authority_inv rt s"
  let ?V = "au_vault s"
  have k: "signing_key (root_sign_text rt (mo_clock m) (va_root ?V)) (verify_signature (va_root ?V)) True"
    using s root.sign_verify [of "va_root ?V" rt "mo_clock m"]
    by unfold_locales (auto simp: authority_inv_def vault_ok_def)
  have v: "validate rt (Some (verify_signature (va_root ?V))) (va_chain ?V) = Inr True"
    using s by (simp add: authority_inv_def vault_ok_def vault_verify_chain_def)
  have "vault_ok rt (snd (vault_record_memory rt m r cap ?V))"
    using s chain_append_valid [OF v k]
    by (simp add: vault_ok_def vault_verify_chain_def vault_record_memory_def Let_def authority_inv_def split: prod.splits)
       (metis snd_conv)
  with s show "authority_inv rt (s\<lparr>au_vault := snd (vault_record_memory rt m r cap ?V)\<rparr>)"
    by (simp add: authority_inv_def)
qed

lemma keeps_authorize [keeps]: "keeps_inv (authority_inv rt) (authorize_operation rt e request)"
  unfolding authorize_operation_def
proof (intro keeps)
  have "authority_inv rt (s\<lparr>au_evidence := snd (gate_authorize (adapter_gate rt now m I P) request (au_evidence s))\<rparr>)"
    if "authority_inv rt s" for s now m I P
    using that authorize_keeps_evidence [of rt "au_evidence s" now m I P request]
      authorize_frame(1) [of rt now m I P request "au_evidence s"]
    by (simp add: authority_inv_def evidence_ok_def)
  then show "keeps_inv (authority_inv rt) (\<lambda>s. onS au_evidence (\<lambda>E s. s\<lparr>au_evidence := E\<rparr>)
          (gate_authorize (adapter_gate rt (ce_utc e) (ce_at e 0) (au_identity s) (au_gate_policy s)) request) s)"
    by (simp add: keeps_inv_def snd_onS)
qed

lemma keeps_store [keeps]: "keeps_inv (authority_inv rt) (store_memory rt e r)"
  unfolding store_memory_def
proof (rule keeps_bind [OF keeps_require], rule keeps_bind_lift)
  fix u v :: unit
  assume "validate_record r = Inr v"
  then have "keeps_inv (authority_inv rt) (modifyS (\<lambda>s. s\<lparr>au_memory := AList.update (mr_id r) r (au_memory s)\<rparr>))"
    by (intro keeps_modify) (auto simp: authority_inv_def memory_ok_def)
  then show "keeps_inv (authority_inv rt) (bindS (modifyS (\<lambda>s. s\<lparr>au_memory := AList.update (mr_id r) r (au_memory s)\<rparr>)) (\<lambda>_.
     bindS (getS au_owner) (\<lambda>owner.
       on_ledger (record_memory_access rt (iso_at e 0) owner (mr_id r) (mr_model r) ''write''))))"
    by (intro keeps)
qed

lemma keeps_read [keeps]: "keeps_inv (authority_inv rt) (read_memory rt e rid mo)"
  unfolding read_memory_def by (intro keeps)

lemma keeps_methods:
  "keeps_inv (authority_inv rt) (initialize rt e)"
  "keeps_inv (authority_inv rt) (register_boundary rt e b mo ty sc)"
  "keeps_inv (authority_inv rt) (issue_delegation rt e t ps)"
  "keeps_inv (authority_inv rt) (revoke_delegation rt e i)"
  "keeps_inv (authority_inv rt) (enforce_policy rt pr)"
  "keeps_inv (authority_inv rt) (store_memory_authorized rt e request r)"
  "keeps_inv (authority_inv rt) (read_memory_authorized rt e request rid mo)"
  "keeps_inv (authority_inv rt) (create_export rt e bi pl ph sg)"
  "keeps_inv (authority_inv rt) (create_export_authorized rt e request bi pl ph sg)"
  "keeps_inv (authority_inv rt) (load_import rt e bu)"
  "keeps_inv (authority_inv rt) (load_import_authorized rt e request bu)"
  "keeps_inv (authority_inv rt) (call_provider_authorized rt e request prov ids)"
proof -
  have create: "keeps_inv (authority_inv rt) (create_export rt e bi pl ph sg)" for e
    unfolding create_export_def Let_def by (intro keeps)
  have load: "keeps_inv (authority_inv rt) (load_import rt e bu)" for e
    unfolding load_import_def by (intro keeps)
  show "keeps_inv (authority_inv rt) (create_export rt e bi pl ph sg)" by (rule create)
  show "keeps_inv (authority_inv rt) (load_import rt e bu)" by (rule load)
  show "keeps_inv (authority_inv rt) (create_export_authorized rt e request bi pl ph sg)"
    unfolding create_export_authorized_def by (intro keeps create)
  show "keeps_inv (authority_inv rt) (load_import_authorized rt e request bu)"
    unfolding load_import_authorized_def by (intro keeps load)
  have "keeps_inv (authority_inv rt) (modifyS (\<lambda>s. s\<lparr>au_initialized := True\<rparr>))"
    by (rule keeps_modify) (simp add: authority_inv_def)
  then show "keeps_inv (authority_inv rt) (initialize rt e)"
    unfolding initialize_def by (intro keeps)
  show "keeps_inv (authority_inv rt) (register_boundary rt e b mo ty sc)"
    unfolding register_boundary_def by (intro keeps)
  show "keeps_inv (authority_inv rt) (issue_delegation rt e t ps)"
    unfolding issue_delegation_def split_beta by (intro keeps)
  show "keeps_inv (authority_inv rt) (revoke_delegation rt e i)"
    unfolding revoke_delegation_def by (intro keeps)
  show "keeps_inv (authority_inv rt) (enforce_policy rt pr)"
    unfolding enforce_policy_def by (intro keeps)
  show "keeps_inv (authority_inv rt) (store_memory_authorized rt e request r)"
    unfolding store_memory_authorized_def by (intro keeps)
  show "keeps_inv (authority_inv rt) (read_memory_authorized rt e request rid mo)"
    unfolding read_memory_authorized_def by (intro keeps)
  show "keeps_inv (authority_inv rt) (call_provider_authorized rt e request prov ids)"
    unfolding call_provider_authorized_def record_provider_event_def Let_def split_beta by (intro keeps)
qed

text \<open>The governed tool call works on the authority and the executor.\<close>

lemma keeps_on_authority: "keeps_inv P m \<Longrightarrow> keeps_inv (\<lambda>s. P (fst s)) (on_authority m)"
  unfolding on_authority_def by (rule keeps_on) (simp add: keeps_inv_def)

lemma keeps_on_executor: "keeps_inv (\<lambda>s. P (fst s)) (on_executor m)"
  unfolding on_executor_def by (rule keeps_on) simp

lemma keeps_tool_step [keeps]: "keeps_inv (authority_inv rt) (record_tool_step rt now ty ev)"
  unfolding record_tool_step_def by (intro keeps)

lemma keeps_tool_call:
  "keeps_inv (\<lambda>s. authority_inv rt (fst s))
     (execute_tool_authorized rt e request exec tool args cap ih rq rv)"
proof -
  have g: "keeps_inv (\<lambda>s. authority_inv rt (fst s)) (governed_execution rt e request exec tool args cap ih rq rv d)" for d
    unfolding governed_execution_def Let_def by (intro keeps keeps_on_authority keeps_on_executor)
  show ?thesis
    unfolding execute_tool_authorized_def Let_def prod.case
    by (intro keeps keeps_on_authority g)
qed

end
