(* ===== verification/AuthorityLife.thy ===== *)
theory AuthorityLife
  imports Authority
begin

text \<open>
  The lives of a \<open>SovereignAuthority\<close> (\<open>src/sia/authority.py\<close>): every sequence of method calls keeps
  ledger, evidence and vault verifiable; nothing happens before initialization; denied requests
  leave only evidence; memory is read by consent only; and the governed tool and provider calls
  write their lifecycle into the ledger.
\<close>

section \<open>Histories\<close>

lemma authority_init_inv:
  assumes "authority_init rt now software owner policy = Inr s" "root_sound software"
  shows "authority_inv rt s"
proof -
  from assms(1) obtain I E P p where i: "identity_adapter_create now owner None software = Inr I"
    and e: "evidence_init owner (ia_root I) = Inr E" and p: "policy_adapter_init rt p = Inr P"
    and s: "s = \<lparr>au_owner = owner, au_initialized = False, au_registry = registry_init, au_policy = p,
             au_heap = [], au_tokens = [], au_memory = [], au_ledger = ledger_init, au_loader = [],
             au_identity = I, au_evidence = E, au_vault = vault_init owner (ia_root I), au_gate_policy = P\<rparr>"
    by (auto simp: authority_init_def Let_def res_simps)
  have r: "ia_root I = software" using i by (auto simp: identity_adapter_create_def Let_def res_simps)
  have l: "ea_ledger E = \<lparr>sl_identity = owner, sl_root = software, sl_events = []\<rparr>"
    using e by (auto simp: evidence_init_def scar_init_def r res_simps split: if_splits)
  show ?thesis
    by (simp add: s authority_inv_def evidence_ok_def vault_ok_def loader_inv_def memory_ok_def l r assms(2)
        vault_init_def vault_verify_chain_def validate_def chain_init_def verify_integrity_def list_bundles_def ledger_init_def)
qed

text \<open>
  The tool executor of the histories is a \<open>PlaygroundExecutor\<close> with any clock readings and any
  subprocess.  Callers own the delegation token objects, so the heap may change between calls.
\<close>

inductive authority_history :: "runtime \<Rightarrow> sovereign_authority \<Rightarrow> bool" for rt where
  created: "authority_init rt now software owner policy = Inr s \<Longrightarrow> root_sound software \<Longrightarrow> authority_history rt s"
| tokens: "authority_history rt s \<Longrightarrow> authority_history rt (s\<lparr>au_heap := H\<rparr>)"
| initialize: "authority_history rt s \<Longrightarrow> authority_history rt (snd (initialize rt e s))"
| register: "authority_history rt s \<Longrightarrow> authority_history rt (snd (register_boundary rt e b mo ty sc s))"
| issue: "authority_history rt s \<Longrightarrow> authority_history rt (snd (issue_delegation rt e t ps s))"
| revoke: "authority_history rt s \<Longrightarrow> authority_history rt (snd (revoke_delegation rt e i s))"
| enforce: "authority_history rt s \<Longrightarrow> authority_history rt (snd (enforce_policy rt pr s))"
| authorize: "authority_history rt s \<Longrightarrow> authority_history rt (snd (authorize_operation rt e req s))"
| store: "authority_history rt s \<Longrightarrow> authority_history rt (snd (store_memory rt e r s))"
| store_auth: "authority_history rt s \<Longrightarrow> authority_history rt (snd (store_memory_authorized rt e req r s))"
| read: "authority_history rt s \<Longrightarrow> authority_history rt (snd (read_memory rt e rid mo s))"
| read_auth: "authority_history rt s \<Longrightarrow> authority_history rt (snd (read_memory_authorized rt e req rid mo s))"
| export: "authority_history rt s \<Longrightarrow> authority_history rt (snd (create_export rt e bi pl ph sg s))"
| export_auth: "authority_history rt s \<Longrightarrow> authority_history rt (snd (create_export_authorized rt e req bi pl ph sg s))"
| load: "authority_history rt s \<Longrightarrow> authority_history rt (snd (load_import rt e bu s))"
| load_auth: "authority_history rt s \<Longrightarrow> authority_history rt (snd (load_import_authorized rt e req bu s))"
| provider: "authority_history rt s \<Longrightarrow> authority_history rt (snd (call_provider_authorized rt e req prov ids s))"
| tool: "authority_history rt s \<Longrightarrow>
    authority_history rt (fst (snd (execute_tool_authorized rt e req (execute_authorized rt c1 c2 stamp run)
      tool args cap ih rq rv (s, X))))"

lemma authority_history_inv: "authority_history rt s \<Longrightarrow> authority_inv rt s"
proof (induction rule: authority_history.induct)
  case (created now software owner policy s)
  then show ?case by (rule authority_init_inv)
next
  case (tokens s H)
  then show ?case by (simp add: authority_inv_def)
next
  case (tool s e req c1 c2 stamp run tool args cap ih rq rv X)
  then show ?case using keeps_invD [OF keeps_tool_call, of rt "(s, X)"] by simp
qed (rule keeps_invD [OF keeps_methods(1)] keeps_invD [OF keeps_methods(2)] keeps_invD [OF keeps_methods(3)]
    keeps_invD [OF keeps_methods(4)] keeps_invD [OF keeps_methods(5)] keeps_invD [OF keeps_methods(6)]
    keeps_invD [OF keeps_methods(7)] keeps_invD [OF keeps_methods(8)] keeps_invD [OF keeps_methods(9)]
    keeps_invD [OF keeps_methods(10)] keeps_invD [OF keeps_methods(11)] keeps_invD [OF keeps_methods(12)]
    keeps_invD [OF keeps_authorize] keeps_invD [OF keeps_store] keeps_invD [OF keeps_read]; assumption)+

section \<open>Steps\<close>

lemma require_cases:
  "require_initialized s = (if au_initialized s then (Inr (), s) else (Inl (SIAErr NotInitializedError), s))"
  by (simp add: require_initialized_def)

lemma bind_require [simp]:
  "bindS require_initialized k s =
     (if au_initialized s then k () s else (Inl (SIAErr NotInitializedError), s))"
  by (simp add: bindS_def require_cases)

lemma authorize_op_Inr:
  assumes "authorize_operation rt e req s = (Inr d, s')"
  obtains E where "au_initialized s" "s' = s\<lparr>au_evidence := E\<rparr>"
    "gate_authorize (adapter_gate rt (ce_utc e) (ce_at e 0) (au_identity s) (au_gate_policy s)) req (au_evidence s) = (Inr d, E)"
  using assms by (auto simp: authorize_operation_def onS_returns split: if_splits)

text \<open>What a recording does to the authority's ledger.\<close>

lemma on_ledger_record:
  assumes "canonicalizable (VDict pl)"
  obtains e where "on_ledger (record_event rt now ev pl a ts) s = (Inr (), s\<lparr>au_ledger := au_ledger s @ [e]\<rparr>)"
    "le_event e = ev" "le_payload e = pl" "le_actor e = a" "le_ts e = ostr_or ts now"
proof (rule record_event_total [OF assms, of rt now ev a ts "au_ledger s"])
  fix e
  assume "record_event rt now ev pl a ts (au_ledger s) = (Inr (), au_ledger s @ [e])" "le_event e = ev"
    "le_payload e = pl" "le_actor e = a" "le_ts e = ostr_or ts now"
  then show thesis by (intro that [of e]) (simp_all add: on_ledger_def onS_def)
qed

lemma allowed_capability:
  assumes "authorize_operation rt e req s = (Inr d, s')" "ad_allowed d"
  shows "\<exists>k. adapt (or_capability req) = Inr (Some k) \<and> ad_capability d = Some (kr_id k)"
proof -
  obtain E where g: "gate_authorize (adapter_gate rt (ce_utc e) (ce_at e 0) (au_identity s) (au_gate_policy s)) req
      (au_evidence s) = (Inr d, E)"
    using assms(1) by (rule authorize_op_Inr)
  let ?G = "adapter_gate rt (ce_utc e) (ce_at e 0) (au_identity s) (au_gate_policy s)"
  obtain v x where "gate_verdict ?G req = Inr v"
    "d = v\<lparr>ad_sequence := Some (int (length (sl_events (ea_ledger (au_evidence s)))))\<rparr>"
    by (rule evidence.authorize_returns [OF adapter_gate_record g])
  with assms(2) have v: "gate_verdict ?G req = Inr v" "ad_allowed v" "ad_capability v = ad_capability d" by simp_all
  then obtain c where c: "verify_capability rt (ce_utc e) req = Inr c" "cv_allowed c" "cv_id c = ad_capability v"
    by (auto simp: gate_verdict_def make_decision_def adapter_gate_def res_simps split: prod.splits bool.splits if_splits)
  from verify_capability_id [OF c(1,2)] c(3) v(3) show ?thesis by auto
qed

lemma request_capability_id_adapt:
  "request_capability_id req = Some x \<Longrightarrow> adapt (or_capability req) = Inr (Some k) \<Longrightarrow> x = kr_id k"
  by (auto simp: request_capability_id_def adapt_def split: option.splits capability_value.splits if_splits)

section \<open>Properties: integrity and errors\<close>


definition demo_env :: call_env where
  "demo_env = \<lparr>ce_utc = 50000000, ce_at = (\<lambda>i. demo_moment), ce_exc = (\<lambda>x. ''error''), ce_repr = (\<lambda>s. s)\<rparr>"

lemma demo_created:
  obtains s where "authority_init plain_runtime 1 demo_root ''ada'' None = Inr s"
proof -
  obtain h where h: "hash_object plain_runtime (VDict default_policy) = Inr h"
    using hash_object_total [of "VDict default_policy" plain_runtime] by (auto simp: default_policy_def)
  have p: "policy_to_dict (policy_init default_policy) = Inr default_policy"
    by (simp add: policy_to_dict_def policy_init_def default_policy_def dict_get_def)
  have i: "identity_adapter_create 1 ''ada'' None demo_root = Inr demo_identity"
    using demo_identity_created by (simp add: identity_adapter_create_def)
  have "\<exists>s. authority_init plain_runtime 1 demo_root ''ada'' None = Inr s"
    by (simp add: authority_init_def i evidence_init_def scar_init_def policy_adapter_init_def p h Let_def)
  with that show thesis by blast
qed


text \<open>
  C34.  Before \<open>initialize\<close> nothing is done: every guarded method raises \<open>NotInitializedError\<close> (code
  \<open>E0001\<close>) and leaves the authority, and the tool executor, as they were.
\<close>

theorem uninitialized_refuses:
  assumes "\<not> au_initialized s"
  shows "register_boundary rt e b mo ty sc s = (Inl (SIAErr NotInitializedError), s) \<and>
    issue_delegation rt e t ps s = (Inl (SIAErr NotInitializedError), s) \<and>
    revoke_delegation rt e i s = (Inl (SIAErr NotInitializedError), s) \<and>
    store_memory rt e r s = (Inl (SIAErr NotInitializedError), s) \<and>
    store_memory_authorized rt e req r s = (Inl (SIAErr NotInitializedError), s) \<and>
    read_memory rt e rid mo s = (Inl (SIAErr NotInitializedError), s) \<and>
    read_memory_authorized rt e req rid mo s = (Inl (SIAErr NotInitializedError), s) \<and>
    create_export rt e bi pl ph sg s = (Inl (SIAErr NotInitializedError), s) \<and>
    create_export_authorized rt e req bi pl ph sg s = (Inl (SIAErr NotInitializedError), s) \<and>
    load_import rt e bu s = (Inl (SIAErr NotInitializedError), s) \<and>
    load_import_authorized rt e req bu s = (Inl (SIAErr NotInitializedError), s) \<and>
    enforce_policy rt pr s = (Inl (SIAErr NotInitializedError), s) \<and>
    authorize_operation rt e req s = (Inl (SIAErr NotInitializedError), s) \<and>
    call_provider_authorized rt e req prov ids s = (Inl (SIAErr NotInitializedError), s) \<and>
    execute_tool_authorized rt e req exec tool args cap ih rq rv (s, x) = (Inl (SIAErr NotInitializedError), (s, x)) \<and>
    sia_error_code NotInitializedError = ''E0001''"
proof -
  have t: "bindS (on_authority require_initialized) k (s, x) = (Inl (SIAErr NotInitializedError), (s, x))" for k
    by (simp add: bindS_def on_authority_def onS_def require_cases assms)
  show ?thesis
    by (simp add: assms register_boundary_def issue_delegation_def revoke_delegation_def store_memory_def
        store_memory_authorized_def read_memory_def read_memory_authorized_def create_export_def
        create_export_authorized_def load_import_def load_import_authorized_def enforce_policy_def
        authorize_operation_def call_provider_authorized_def execute_tool_authorized_def t E_NOT_INITIALIZED_def)
qed

theorem uninitialized_refuses_witness:
  "\<exists>s. authority_init plain_runtime 1 demo_root ''ada'' None = Inr s \<and>
     load_import plain_runtime demo_env demo_bundle s = (Inl (SIAErr NotInitializedError), s)"
proof -
  obtain s where s: "authority_init plain_runtime 1 demo_root ''ada'' None = Inr s" by (rule demo_created)
  then have "\<not> au_initialized s" by (auto simp: authority_init_def Let_def res_simps)
  from uninitialized_refuses [OF this, where rt = plain_runtime and e = demo_env and bu = demo_bundle]
  have "load_import plain_runtime demo_env demo_bundle s = (Inl (SIAErr NotInitializedError), s)"
    by (rule conjunct2 [THEN conjunct2, THEN conjunct2, THEN conjunct2, THEN conjunct2, THEN conjunct2,
          THEN conjunct2, THEN conjunct2, THEN conjunct2, THEN conjunct1])
  with s show ?thesis by blast
qed

text \<open>
  C11.  A denied request leaves nothing but its evidence: when the gate denies a request, the
  authorized store, read, export and import methods return that decision (and no record or bundle),
  and the only part of the authority that differs afterwards is the evidence, by one event.
\<close>

theorem denied_leaves_evidence_only:
  assumes "authorize_operation rt e req s = (Inr d, s')" "\<not> ad_allowed d"
  shows "store_memory_authorized rt e req r s = (Inr d, s') \<and>
    read_memory_authorized rt e req rid mo s = (Inr (d, None), s') \<and>
    create_export_authorized rt e req bi pl ph sg s = (Inr (d, None), s') \<and>
    load_import_authorized rt e req bu s = (Inr d, s') \<and>
    s' = s\<lparr>au_evidence := au_evidence s'\<rparr> \<and>
    length (sl_events (ea_ledger (au_evidence s'))) = Suc (length (sl_events (ea_ledger (au_evidence s))))"
proof -
  obtain E where E: "au_initialized s" "s' = s\<lparr>au_evidence := E\<rparr>"
    "gate_authorize (adapter_gate rt (ce_utc e) (ce_at e 0) (au_identity s) (au_gate_policy s)) req (au_evidence s) = (Inr d, E)"
    by (rule authorize_op_Inr [OF assms(1)])
  obtain v x where "sl_events (ea_ledger E) = sl_events (ea_ledger (au_evidence s)) @ [x]"
    by (rule evidence.authorize_returns [OF adapter_gate_record E(3)])
  with E(1,2) assms show ?thesis
    by (simp add: store_memory_authorized_def read_memory_authorized_def create_export_authorized_def
        load_import_authorized_def
        bindS_Inr [of "authorize_operation rt e req" s d s', OF assms(1)])
qed

definition demo_authority :: sovereign_authority where
  "demo_authority = \<lparr>au_owner = ''ada'', au_initialized = True, au_registry = [], au_policy = pa_policy demo_policy,
     au_heap = [], au_tokens = [], au_memory = [], au_ledger = [], au_loader = [], au_identity = demo_identity,
     au_evidence = demo_evidence, au_vault = vault_init ''ada'' demo_root, au_gate_policy = demo_policy\<rparr>"

lemma demo_authority_fields [simp]:
  "au_initialized demo_authority" "au_owner demo_authority = ''ada''" "au_identity demo_authority = demo_identity"
  "au_evidence demo_authority = demo_evidence" "au_gate_policy demo_authority = demo_policy"
  "au_ledger demo_authority = []" "au_memory demo_authority = []"
  by (simp_all add: demo_authority_def)

lemma demo_env_fields [simp]:
  "ce_utc demo_env = 50000000" "ce_at demo_env i = demo_moment" "ce_utc (later k e) = ce_utc e"
  "ce_at (later k e) i = ce_at e (i + k)"
  by (simp_all add: demo_env_def later_def)

text \<open>A request without an identity is denied.\<close>

definition anonymous_request :: operation_request where
  "anonymous_request = demo_request\<lparr>or_identity := None\<rparr>"

lemma anonymous_denied:
  obtains d s' where "authorize_operation plain_runtime demo_env anonymous_request demo_authority = (Inr d, s')"
    "\<not> ad_allowed d"
proof -
  let ?G = "adapter_gate plain_runtime 50000000 demo_moment demo_identity demo_policy"
  define v where "v = make_decision False (or_operation anonymous_request) ''NO_IDENTITY'' ''No identity context supplied'' None (pa_hash demo_policy)"
  have v: "gate_verdict ?G anonymous_request = Inr v"
    by (simp add: gate_verdict_def adapter_gate_def anonymous_request_def identity_verify_def v_def)
  have "sl_root (ea_ledger demo_evidence) = demo_root" by (simp add: demo_evidence_def demo_scar0_def)
  from record_decision_total [OF this] obtain n E'
    where r: "record_decision plain_runtime demo_moment anonymous_request v demo_evidence = (Inr n, E')" by blast
  have "\<exists>d. gate_authorize ?G anonymous_request demo_evidence = (Inr d, E') \<and> \<not> ad_allowed d"
    by (simp add: gate_authorize_verdict v gate_record_def r) (simp add: v_def make_decision_def)
  then obtain d where "gate_authorize ?G anonymous_request demo_evidence = (Inr d, E')" "\<not> ad_allowed d" by blast
  then show thesis
    by (intro that [of d "demo_authority\<lparr>au_evidence := E'\<rparr>"]) (simp_all add: authorize_operation_def onS_def)
qed

theorem denied_leaves_evidence_only_witness:
  "\<exists>d s'. authorize_operation plain_runtime demo_env anonymous_request demo_authority = (Inr d, s') \<and>
     read_memory_authorized plain_runtime demo_env anonymous_request ''r1'' ''m'' demo_authority = (Inr (d, None), s')"
proof -
  obtain d s' where d: "authorize_operation plain_runtime demo_env anonymous_request demo_authority = (Inr d, s')"
    "\<not> ad_allowed d" by (rule anonymous_denied)
  from denied_leaves_evidence_only [OF d, where rid = "''r1''" and mo = "''m''"] d(1) show ?thesis by blast
qed

section \<open>Properties: memory\<close>

lemma read_memory_eq:
  assumes "au_initialized s" "map_of (au_memory s) rid = Some r" "has_consent r mo"
  obtains x where "read_memory rt e rid mo s = (Inr r, s\<lparr>au_ledger := au_ledger s @ [x]\<rparr>)"
    "le_event x = ''memory.access''" "le_actor x = mo"
    "le_payload x = [(''record_id'', VStr rid), (''model_id'', VStr (mr_model r)), (''access_type'', VStr ''read'')]"
proof -
  have c: "canonicalizable (VDict [(''record_id'', VStr rid), (''model_id'', VStr (mr_model r)), (''access_type'', VStr ''read'')])"
    by simp
  obtain x where x: "on_ledger (record_memory_access rt (iso_at e 0) mo rid (mr_model r) ''read'') s =
      (Inr (), s\<lparr>au_ledger := au_ledger s @ [x]\<rparr>)" "le_event x = ''memory.access''" "le_actor x = mo"
    "le_payload x = [(''record_id'', VStr rid), (''model_id'', VStr (mr_model r)), (''access_type'', VStr ''read'')]"
    unfolding record_memory_access_def by (rule on_ledger_record [OF c]) blast
  show thesis
    by (rule that [OF _ x(2-4)]) (simp add: read_memory_def assms assert_read_access_def bindS_def x(1) require_cases)
qed

text \<open>
  C32.  Memory is read by consent only, and every reading is on record: \<open>read_memory\<close> returns exactly
  when the authority is initialized and the record exists and is the requester's own or shared with
  it; it then returns that record and the only change is one \<open>memory.access\<close> entry of the requester;
  in every other case it raises and changes nothing.
\<close>

theorem read_memory_consented:
  "case map_of (au_memory s) rid of
     Some r \<Rightarrow>
       if au_initialized s \<and> (mo = mr_model r \<or> mo \<in> set (mr_consent r))
       then \<exists>x. read_memory rt e rid mo s = (Inr r, s\<lparr>au_ledger := au_ledger s @ [x]\<rparr>) \<and>
         le_event x = ''memory.access'' \<and> le_actor x = mo
       else \<exists>ex. read_memory rt e rid mo s = (Inl (SIAErr ex), s)
   | None \<Rightarrow> \<exists>ex. read_memory rt e rid mo s = (Inl ex, s)"
proof (cases "map_of (au_memory s) rid")
  case None
  then show ?thesis by (simp add: read_memory_def)
next
  case (Some r)
  show ?thesis
  proof (cases "au_initialized s \<and> has_consent r mo")
    case True
    then obtain x where "read_memory rt e rid mo s = (Inr r, s\<lparr>au_ledger := au_ledger s @ [x]\<rparr>)"
      "le_event x = ''memory.access''" "le_actor x = mo"
      using read_memory_eq [OF _ Some] by blast
    with True Some show ?thesis by (auto simp: has_consent_def)
  next
    case False
    with Some show ?thesis
      by (auto simp: read_memory_def has_consent_def assert_read_access_def guardE_def)
  qed
qed

text \<open>
  C33.  What is stored can be read back: a valid record that \<open>store_memory\<close> accepted is what its owner
  model and every model it is shared with read under its id, until another record is stored under
  that id; the two accesses are the two new entries of the ledger.
\<close>

theorem stored_memory_read_back:
  assumes "au_initialized s" "validate_record r = Inr ()" "mo = mr_model r \<or> mo \<in> set (mr_consent r)"
  shows "\<exists>s1 s2 x y. store_memory rt e r s = (Inr (), s1) \<and> read_memory rt e' (mr_id r) mo s1 = (Inr r, s2) \<and>
    au_ledger s2 = au_ledger s @ [x, y] \<and> le_event x = ''memory.access'' \<and> le_actor y = mo \<and>
    (\<forall>k. k \<noteq> mr_id r \<longrightarrow> map_of (au_memory s2) k = map_of (au_memory s) k)"
proof -
  let ?s = "s\<lparr>au_memory := AList.update (mr_id r) r (au_memory s)\<rparr>"
  have c: "canonicalizable (VDict [(''record_id'', VStr (mr_id r)), (''model_id'', VStr (mr_model r)), (''access_type'', VStr ''write'')])"
    by simp
  obtain x where x: "on_ledger (record_memory_access rt (iso_at e 0) (au_owner s) (mr_id r) (mr_model r) ''write'') ?s =
      (Inr (), ?s\<lparr>au_ledger := au_ledger ?s @ [x]\<rparr>)" "le_event x = ''memory.access''"
    unfolding record_memory_access_def by (rule on_ledger_record [OF c]) blast
  let ?s1 = "?s\<lparr>au_ledger := au_ledger ?s @ [x]\<rparr>"
  have 1: "store_memory rt e r s = (Inr (), ?s1)"
    using x(1) by (simp add: store_memory_def assms(1,2))
  have i: "au_initialized ?s1" using assms(1) by simp
  have m: "map_of (au_memory ?s1) (mr_id r) = Some r" by simp
  have "has_consent r mo" using assms(3) by (auto simp: has_consent_def)
  from i m this obtain y where y: "read_memory rt e' (mr_id r) mo ?s1 = (Inr r, ?s1\<lparr>au_ledger := au_ledger ?s1 @ [y]\<rparr>)" "le_actor y = mo"
    by (rule read_memory_eq)
  from 1 y x(2) show ?thesis by (intro exI conjI) (assumption | simp)+
qed

definition demo_memory :: memory_record where
  "demo_memory = \<lparr>mr_id = ''r1'', mr_model = ''m'', mr_content = VStr ''hello'', mr_consent = [''n''],
     mr_created = ''t'', mr_version = ''1.0''\<rparr>"

theorem stored_memory_read_back_witness:
  "\<exists>s1 s2. store_memory plain_runtime demo_env demo_memory demo_authority = (Inr (), s1) \<and>
     read_memory plain_runtime demo_env (mr_id demo_memory) ''n'' s1 = (Inr demo_memory, s2)"
proof -
  have v: "validate_record demo_memory = Inr ()" by (simp add: validate_record_Inr demo_memory_def)
  have c: "''n'' = mr_model demo_memory \<or> ''n'' \<in> set (mr_consent demo_memory)" by (simp add: demo_memory_def)
  from stored_memory_read_back [OF demo_authority_fields(1) v c, of plain_runtime demo_env demo_env] show ?thesis by blast
qed

section \<open>Properties: providers and tools\<close>

text \<open>One provider event in the ledger.\<close>

definition provider_entry :: "provider_event_type \<Rightarrow> int \<Rightarrow> ledger_entry \<Rightarrow> bool" where
  "provider_entry ty n x \<longleftrightarrow> le_event x = ''provider.'' @ event_type_value ty \<and>
     map_of (le_payload x) ''authority_sequence'' = Some (VInt n)"

lemma record_provider_event_eq:
  obtains x where "record_provider_event rt now ty ctx pid code cat retry s =
      (Inr (), s\<lparr>au_ledger := au_ledger s @ [x]\<rparr>)" "provider_entry ty (rc_sequence ctx) x"
proof -
  let ?ev = "create_provider_scar_event ty ctx (ostr_or pid ''unknown'') code cat retry"
  obtain x where x: "on_ledger (record_event rt now (''provider.'' @ event_type_value (pe_type ?ev)) (to_payload ?ev)
      (rc_subject (pe_context ?ev)) (Some (rc_timestamp (pe_context ?ev)))) s = (Inr (), s\<lparr>au_ledger := au_ledger s @ [x]\<rparr>)"
    "le_event x = ''provider.'' @ event_type_value (pe_type ?ev)" "le_payload x = to_payload ?ev"
    by (rule on_ledger_record [OF to_payload_canonicalizable])
  show thesis
    by (rule that [of x])
       (use x in \<open>simp_all add: record_provider_event_def record_provider_scar_event_def provider_entry_def
          create_provider_scar_event_def to_payload_def Let_def\<close>)
qed

text \<open>The execution by the selected provider: one entry, \<open>completed\<close> or \<open>failed\<close>, and the provider's outcome.\<close>

lemma execution_recorded:
  obtains z where "bindS (catch_reraise (liftS outcome)
         (\<lambda>exc. record_provider_event rt n1 FAILED ctx i (Some (exc_code exc)) (Some ''execution'') (Some False)))
       (\<lambda>result. bindS (record_provider_event rt n2 COMPLETED ctx i None None None) (\<lambda>_. returnS (d, Some result))) t =
      (case outcome of Inr out \<Rightarrow> Inr (d, Some out) | Inl ex \<Rightarrow> Inl ex, t\<lparr>au_ledger := au_ledger t @ [z]\<rparr>)"
    "provider_entry (case outcome of Inr out \<Rightarrow> COMPLETED | Inl ex \<Rightarrow> FAILED) (rc_sequence ctx) z"
proof (cases outcome)
  case (Inr out)
  obtain z where z: "record_provider_event rt n2 COMPLETED ctx i None None None t = (Inr (), t\<lparr>au_ledger := au_ledger t @ [z]\<rparr>)"
    "provider_entry COMPLETED (rc_sequence ctx) z" by (rule record_provider_event_eq)
  show thesis by (rule that [of z]) (simp_all add: Inr bindS_def catch_reraise_def z)
next
  case (Inl ex)
  obtain z where z: "record_provider_event rt n1 FAILED ctx i (Some (exc_code ex)) (Some ''execution'') (Some False) t =
      (Inr (), t\<lparr>au_ledger := au_ledger t @ [z]\<rparr>)" "provider_entry FAILED (rc_sequence ctx) z"
    by (rule record_provider_event_eq)
  show thesis by (rule that [of z]) (simp_all add: Inl bindS_def catch_reraise_def z)
qed

lemma provider_call_runs:
  assumes "au_initialized s" "or_provider req = Some (pr_id prov)" "pr_id prov \<noteq> []"
    and "authorize_operation rt (later 2 e) req s = (Inr d, s1)" "ad_allowed d"
    and "mapS (\<lambda>(i, rid). read_memory rt (later (8 + i) e) rid (pr_id prov)) (enumerate 0 ids) s1 = (Inr rs, s2)"
    and "build_context_packet rt req d (pr_id prov) (map ItemRecord rs) = Inr p"
  shows "\<exists>x y z. call_provider_authorized rt e req prov ids s =
      (case pr_execute prov p of Inr out \<Rightarrow> Inr (d, Some out) | Inl ex \<Rightarrow> Inl ex,
       s2\<lparr>au_ledger := au_ledger s2 @ [x, y, z]\<rparr>) \<and>
    provider_entry REQUESTED 2 x \<and> provider_entry APPROVED 3 y \<and>
    provider_entry (case pr_execute prov p of Inr out \<Rightarrow> COMPLETED | Inl ex \<Rightarrow> FAILED) 4 z"
proof -
  define c2 where "c2 = advance 2 ((context_create (iso_at e 1) (mo_uuid (ce_at e 0)) (mo_uuid (ce_at e 1)) (au_owner s)
      (operation_name req) (au_owner s) (request_capability_id req) [])\<lparr>rc_capability := ad_capability d, rc_policy_hash := ad_policy d\<rparr>)"
  obtain x where x: "record_provider_event rt (iso_at e 4) REQUESTED c2 (Some (pr_id prov)) None None None s2 =
      (Inr (), s2\<lparr>au_ledger := au_ledger s2 @ [x]\<rparr>)" "provider_entry REQUESTED (rc_sequence c2) x"
    by (rule record_provider_event_eq)
  let ?s3 = "s2\<lparr>au_ledger := au_ledger s2 @ [x]\<rparr>"
  obtain y where y: "record_provider_event rt (iso_at e 5) APPROVED (advance 3 c2) (Some (pr_id prov)) None None None ?s3 =
      (Inr (), ?s3\<lparr>au_ledger := au_ledger ?s3 @ [y]\<rparr>)" "provider_entry APPROVED (rc_sequence (advance 3 c2)) y"
    by (rule record_provider_event_eq)
  let ?s4 = "?s3\<lparr>au_ledger := au_ledger ?s3 @ [y]\<rparr>"
  obtain z where z: "bindS (catch_reraise (liftS (pr_execute prov p))
         (\<lambda>exc. record_provider_event rt (iso_at e 6) FAILED (advance 4 (advance 3 c2)) (Some (pr_id prov))
            (Some (exc_code exc)) (Some ''execution'') (Some False)))
       (\<lambda>result. bindS (record_provider_event rt (iso_at e 7) COMPLETED (advance 4 (advance 3 c2)) (Some (pr_id prov)) None None None)
         (\<lambda>_. returnS (d, Some result))) ?s4 =
      (case pr_execute prov p of Inr out \<Rightarrow> Inr (d, Some out) | Inl ex \<Rightarrow> Inl ex, ?s4\<lparr>au_ledger := au_ledger ?s4 @ [z]\<rparr>)"
    "provider_entry (case pr_execute prov p of Inr out \<Rightarrow> COMPLETED | Inl ex \<Rightarrow> FAILED) (rc_sequence (advance 4 (advance 3 c2))) z"
    by (rule execution_recorded)
  have sel: "router_select [(pr_id prov, prov)] req = Inr prov" using assms(2,3) by (simp add: router_select_def)
  note b =
    bindS_Inr [of "authorize_operation rt (later 2 e) req" s d s1, OF assms(4)]
    bindS_Inr [of "mapS (\<lambda>(i, rid). read_memory rt (later (8 + i) e) rid (pr_id prov)) (enumerate 0 ids)" s1 rs s2, OF assms(6)]
    bindS_Inr [of "record_provider_event rt (iso_at e 4) REQUESTED c2 (Some (pr_id prov)) None None None" s2 "()" ?s3, OF x(1)]
    bindS_Inr [of "record_provider_event rt (iso_at e 5) APPROVED (advance 3 c2) (Some (pr_id prov)) None None None" ?s3 "()" ?s4, OF y(1)]
  have "call_provider_authorized rt e req prov ids s =
      (case pr_execute prov p of Inr out \<Rightarrow> Inr (d, Some out) | Inl ex \<Rightarrow> Inl ex, ?s4\<lparr>au_ledger := au_ledger ?s4 @ [z]\<rparr>)"
    by (simp only: call_provider_authorized_def Let_def bind_require assms(1,2,5,7) if_True if_False simp_thms
        bindS_get bindS_lift sum.case b sel c2_def [symmetric] z(1))
  with x(2) y(2) z(2) show ?thesis by (auto simp: c2_def advance_def)
qed


definition demo_provider :: ai_provider where
  "demo_provider = \<lparr>pr_id = ''p'', pr_execute = (\<lambda>p. Inr [(''text'', VStr ''ok'')])\<rparr>"

lemma demo_root_evidence: "sl_root (ea_ledger (au_evidence demo_authority)) = demo_root"
  by (simp add: demo_evidence_def demo_scar0_def)

lemma demo_authorize_op:
  assumes "sc \<in> set (operation_scopes op)" "demo_access op sc r"
  obtains d s1 where "authorize_operation plain_runtime (later k demo_env) r demo_authority = (Inr d, s1)" "ad_allowed d"
proof -
  obtain d E' where "gate_authorize (adapter_gate plain_runtime 50000000 demo_moment demo_identity demo_policy)
      r demo_evidence = (Inr d, E')" "ad_allowed d"
    by (rule demo_authorize [OF assms, of demo_evidence demo_moment]) (use demo_root_evidence in simp, blast)
  then show thesis
    by (intro that [of d "demo_authority\<lparr>au_evidence := E'\<rparr>"]) (simp_all add: authorize_operation_def onS_def)
qed


text \<open>A tool capability for the demonstration call.\<close>

definition demo_tool_capability :: tool_capability where
  "demo_tool_capability = \<lparr>tc_id = ''t1'', tc_allowed = [''ls''], tc_runtime = 30, tc_owner = ''u'',
     tc_expires = Naive 100, tc_signature = []\<rparr>"

text \<open>One tool event in the ledger; the executor's state is untouched.\<close>

lemma record_tool_step_eq:
  obtains y where "on_authority (record_tool_step rt now ty ev) (s, x) =
      (Inr (), (s\<lparr>au_ledger := au_ledger s @ [y]\<rparr>, x))" "le_event y = ty" "le_payload y = drop_none (tool_payload ev)"
proof -
  obtain y where y: "on_ledger (record_event rt now ty (drop_none (tool_payload ev)) (au_owner s) None) s =
      (Inr (), s\<lparr>au_ledger := au_ledger s @ [y]\<rparr>)" "le_event y = ty" "le_payload y = drop_none (tool_payload ev)"
    by (rule on_ledger_record [OF drop_none_canonicalizable])
  show thesis
    by (rule that [OF _ y(2,3)]) (simp add: on_authority_def onS_def record_tool_step_def record_tool_operation_def y(1))
qed

lemma on_authority_step: "m s = (r, s') \<Longrightarrow> on_authority m (s, x) = (r, (s', x))"
  by (simp add: on_authority_def onS_def)

text \<open>The mismatch branch of the tool call is unreachable for an allowed decision.\<close>

lemma tool_call_allowed:
  assumes "au_initialized s" "authorize_operation rt (later 1 e) req s = (Inr d, s1)" "ad_allowed d"
  shows "execute_tool_authorized rt e req exec tool args cap ih rq rv (s, x) =
    governed_execution rt e req exec tool args cap ih rq rv d (s1, x)"
proof -
  obtain k where k: "adapt (or_capability req) = Inr (Some k)" "ad_capability d = Some (kr_id k)"
    using allowed_capability [OF assms(2,3)] by blast
  have q: "request_capability_id req = None \<or> request_capability_id req = Some (kr_id k)"
    using request_capability_id_adapt [OF _ k(1)] by (cases "request_capability_id req") auto
  have i: "on_authority require_initialized (s, x) = (Inr (), (s, x))"
    by (rule on_authority_step) (simp add: require_cases assms(1))
  have a: "on_authority (authorize_operation rt (later 1 e) req) (s, x) = (Inr d, (s1, x))"
    by (rule on_authority_step) (rule assms(2))
  note steps = bindS_Inr [of "on_authority require_initialized" "(s, x)" "()" "(s, x)", OF i]
    bindS_Inr [of "on_authority (authorize_operation rt (later 1 e) req)" "(s, x)" d "(s1, x)", OF a]
  show ?thesis
    unfolding execute_tool_authorized_def Let_def steps
    using q by (auto simp: assms(3) k(2))
qed

lemma tool_call_denied:
  assumes "au_initialized s" "authorize_operation rt (later 1 e) req s = (Inr d, s1)" "\<not> ad_allowed d"
  shows "\<exists>y. execute_tool_authorized rt e req exec tool args cap ih rq rv (s, x) =
    (Inr (d, None), (s1\<lparr>au_ledger := au_ledger s1 @ [y]\<rparr>, x)) \<and> le_event y = ''tool.operation.denied''"
proof -
  have i: "on_authority require_initialized (s, x) = (Inr (), (s, x))"
    by (rule on_authority_step) (simp add: require_cases assms(1))
  have a: "on_authority (authorize_operation rt (later 1 e) req) (s, x) = (Inr d, (s1, x))"
    by (rule on_authority_step) (rule assms(2))
  obtain y where y: "on_authority (record_tool_step rt (iso_at e 2) ''tool.operation.denied''
      (step_evidence req d (mo_uuid (ce_at e 0)) tool ''denied'' ''denied'' (Some (ad_reason d)) (iso_at e 0))) (s1, x) =
      (Inr (), (s1\<lparr>au_ledger := au_ledger s1 @ [y]\<rparr>, x))" "le_event y = ''tool.operation.denied''"
    by (rule record_tool_step_eq)
  note steps = bindS_Inr [of "on_authority require_initialized" "(s, x)" "()" "(s, x)", OF i]
    bindS_Inr [of "on_authority (authorize_operation rt (later 1 e) req)" "(s, x)" d "(s1, x)", OF a]
    if_P [OF assms(3)] bindS_Inr [of "on_authority (record_tool_step rt (iso_at e 2) ''tool.operation.denied''
      (step_evidence req d (mo_uuid (ce_at e 0)) tool ''denied'' ''denied'' (Some (ad_reason d)) (iso_at e 0)))"
      "(s1, x)" "()" "(s1\<lparr>au_ledger := au_ledger s1 @ [y]\<rparr>, x)", OF y(1)]
  have "execute_tool_authorized rt e req exec tool args cap ih rq rv (s, x) =
        (Inr (d, None), (s1\<lparr>au_ledger := au_ledger s1 @ [y]\<rparr>, x))"
    unfolding execute_tool_authorized_def Let_def steps by (simp add: returnS_def)
  with y(2) show ?thesis by blast
qed

text \<open>The execution by the executor: its outcome, and one entry for it.\<close>

lemma tool_execution_recorded:
  assumes "exec x = (r, x')"
  obtains z where "bindS (catch_reraise (on_executor exec)
        (\<lambda>exc. on_authority (record_tool_step rt n1 ''tool.operation.failed'' (f exc))))
      (\<lambda>result. bindS (on_authority (record_tool_step rt n2 ''tool.operation.completed'' g)) (\<lambda>_. returnS (d, Some result))) (s, x) =
      (case r of Inr out \<Rightarrow> Inr (d, Some out) | Inl exc \<Rightarrow> Inl exc, (s\<lparr>au_ledger := au_ledger s @ [z]\<rparr>, x'))"
    "le_event z = (case r of Inr out \<Rightarrow> ''tool.operation.completed'' | Inl exc \<Rightarrow> ''tool.operation.failed'')"
proof (cases r)
  case (Inr out)
  obtain z where z: "on_authority (record_tool_step rt n2 ''tool.operation.completed'' g) (s, x') =
      (Inr (), (s\<lparr>au_ledger := au_ledger s @ [z]\<rparr>, x'))" "le_event z = ''tool.operation.completed''"
    by (rule record_tool_step_eq)
  show thesis by (rule that [of z]) (simp_all add: Inr bindS_def catch_reraise_def on_executor_def onS_def assms z)
next
  case (Inl exc)
  obtain z where z: "on_authority (record_tool_step rt n1 ''tool.operation.failed'' (f exc)) (s, x') =
      (Inr (), (s\<lparr>au_ledger := au_ledger s @ [z]\<rparr>, x'))" "le_event z = ''tool.operation.failed''"
    by (rule record_tool_step_eq)
  show thesis by (rule that [of z]) (simp_all add: Inl bindS_def catch_reraise_def on_executor_def onS_def assms z)
qed

lemma governed_execution_runs:
  fixes x :: 'x
  shows "\<exists>ctx y z. tx_marker ctx = AUTHORITY_TOKEN \<and> tx_tool ctx = tool \<and> tx_args ctx = args \<and>
      tx_tool_capability ctx = cap \<and> tx_capability ctx = ad_capability d \<and>
      tx_authorization ctx = map_option int_str (ad_sequence d) \<and>
      governed_execution rt e req exec tool args cap ih rq rv d (s, x) =
        (case exec (Some ctx) x of (r, x') \<Rightarrow>
          (case r of Inr out \<Rightarrow> Inr (d, Some out) | Inl ex \<Rightarrow> Inl ex, (s\<lparr>au_ledger := au_ledger s @ [y, z]\<rparr>, x'))) \<and>
      le_event y = ''tool.operation.started'' \<and>
      le_event z = (case fst (exec (Some ctx) x) of Inr out \<Rightarrow> ''tool.operation.completed'' | Inl ex \<Rightarrow> ''tool.operation.failed'')"
proof -
  let ?ev = "\<lambda>status failure ts. step_evidence req d (mo_uuid (ce_at e 0)) tool ''authorized'' status failure ts"
  obtain ctx where ctx: "issue_tool_execution_context (mo_uuid (ce_at e 0)) (map_option int_str (ad_sequence d))
      (case or_identity req of None \<Rightarrow> [] | Some i \<Rightarrow> ic_identity i) (ad_capability d) tool
      (operation_name req) cap args ih rq rv (iso_at e 0) = Inr ctx" "tx_marker ctx = AUTHORITY_TOKEN"
    "tx_tool ctx = tool" "tx_args ctx = args" "tx_tool_capability ctx = cap" "tx_capability ctx = ad_capability d"
    "tx_authorization ctx = map_option int_str (ad_sequence d)"
    by (simp add: issue_tool_execution_context_def context_post_init_def)
  obtain y where y: "on_authority (record_tool_step rt (iso_at e 2) ''tool.operation.started'' (?ev ''started'' None (iso_at e 0))) (s, x) =
      (Inr (), (s\<lparr>au_ledger := au_ledger s @ [y]\<rparr>, x))" "le_event y = ''tool.operation.started''"
    by (rule record_tool_step_eq)
  let ?s = "s\<lparr>au_ledger := au_ledger s @ [y]\<rparr>"
  obtain r x' where ex: "exec (Some ctx) x = (r, x')" by (cases "exec (Some ctx) x")
  obtain z where z: "bindS (catch_reraise (on_executor (exec (Some ctx)))
        (\<lambda>exc. on_authority (record_tool_step rt (iso_at e 4) ''tool.operation.failed'' (?ev ''failed'' (Some (ce_exc e exc)) (iso_at e 3)))))
      (\<lambda>result. bindS (on_authority (record_tool_step rt (iso_at e 4) ''tool.operation.completed'' (?ev ''completed'' None (iso_at e 3))))
        (\<lambda>_. returnS (d, Some result))) (?s, x) =
      (case r of Inr out \<Rightarrow> Inr (d, Some out) | Inl exc \<Rightarrow> Inl exc, (?s\<lparr>au_ledger := au_ledger ?s @ [z]\<rparr>, x'))"
    "le_event z = (case r of Inr out \<Rightarrow> ''tool.operation.completed'' | Inl exc \<Rightarrow> ''tool.operation.failed'')"
    by (rule tool_execution_recorded [of "exec (Some ctx)", OF ex])
  have "governed_execution rt e req exec tool args cap ih rq rv d (s, x) =
      (case r of Inr out \<Rightarrow> Inr (d, Some out) | Inl exc \<Rightarrow> Inl exc, (?s\<lparr>au_ledger := au_ledger ?s @ [z]\<rparr>, x'))"
    by (simp only: governed_execution_def Let_def ctx(1) bindS_lift sum.case z(1)
        bindS_Inr [of "on_authority (record_tool_step rt (iso_at e 2) ''tool.operation.started'' (?ev ''started'' None (iso_at e 0)))"
          "(s, x)" "()" "(?s, x)", OF y(1)])
  with z(2) y(2) ctx(2-7) ex show ?thesis by (intro exI [of _ ctx] exI [of _ y] exI [of _ z]) simp
qed

text \<open>
  C6.  Governed tool calls: a denied call runs nothing (the executor is untouched) and leaves one
  \<open>tool.operation.denied\<close> entry; an allowed call hands the executor one authority-issued context,
  bound to the decision's capability and evidence sequence, and leaves \<open>tool.operation.started\<close>
  followed by \<open>tool.operation.completed\<close> when the executor returned, whose result is returned, and
  by \<open>tool.operation.failed\<close> when it raised, whose exception is raised again.
\<close>

theorem tool_call_governed:
  fixes x :: 'x
  assumes "au_initialized s" "authorize_operation rt (later 1 e) req s = (Inr d, s1)"
  shows "if ad_allowed d
    then \<exists>ctx y z. tx_marker ctx = AUTHORITY_TOKEN \<and> tx_tool ctx = tool \<and> tx_args ctx = args \<and>
      tx_tool_capability ctx = cap \<and> tx_capability ctx = ad_capability d \<and>
      tx_authorization ctx = map_option int_str (ad_sequence d) \<and>
      execute_tool_authorized rt e req exec tool args cap ih rq rv (s, x) =
        (case exec (Some ctx) x of (r, x') \<Rightarrow>
          (case r of Inr out \<Rightarrow> Inr (d, Some out) | Inl ex \<Rightarrow> Inl ex, (s1\<lparr>au_ledger := au_ledger s1 @ [y, z]\<rparr>, x'))) \<and>
      le_event y = ''tool.operation.started'' \<and>
      le_event z = (case fst (exec (Some ctx) x) of Inr out \<Rightarrow> ''tool.operation.completed'' | Inl ex \<Rightarrow> ''tool.operation.failed'')
    else \<exists>y. execute_tool_authorized rt e req exec tool args cap ih rq rv (s, x) =
        (Inr (d, None), (s1\<lparr>au_ledger := au_ledger s1 @ [y]\<rparr>, x)) \<and> le_event y = ''tool.operation.denied''"
proof (cases "ad_allowed d")
  case False
  from tool_call_denied [OF assms False] show ?thesis by (simp only: False if_False)
next
  case True
  show ?thesis
    unfolding eqTrueI [OF True] if_True tool_call_allowed [OF assms True] by (rule governed_execution_runs)
qed

theorem tool_call_governed_witness:
  "\<exists>d s'. execute_tool_authorized plain_runtime demo_env (demo_request_for EXECUTE_TOOL ''tool.execute'' None)
      (\<lambda>ctx n. (Inr (ctx = None), n + (1::nat))) ''ls'' [''-l''] demo_tool_capability ''h'' ''u'' ''1'' (demo_authority, 0) =
      (Inr (d, Some False), (s', 1))"
proof -
  let ?r = "demo_request_for EXECUTE_TOOL ''tool.execute'' None"
  have sc: "''tool.execute'' \<in> set (operation_scopes EXECUTE_TOOL)" by simp
  obtain d s1 where a: "authorize_operation plain_runtime (later 1 demo_env) ?r demo_authority = (Inr d, s1)" "ad_allowed d"
    by (rule demo_authorize_op [OF sc demo_request_access])
  show ?thesis
    using tool_call_governed [OF demo_authority_fields(1) a(1), where exec = "\<lambda>ctx n. (Inr (ctx = None), n + (1::nat))"
        and tool = "''ls''" and args = "[''-l'']" and cap = demo_tool_capability and ih = "''h''" and rq = "''u''"
        and rv = "''1''" and x = 0] a(2)
    by auto
qed

end
