(* ===== verification/MerkleReference.thy ===== *)
theory MerkleReference
  imports Merkle
begin

text \<open>
  The iterative tree construction of \<open>sovereignty_core/audit/merkle.py\<close> against a reference: the
  root as a divide-and-conquer recursion on the leaves, without levels, padding in place or shared
  lists; and the number of rounds of the loop, hence the size of the proofs.
\<close>

section \<open>The reference\<close>

text \<open>
  The root of the complete tree of height \<open>k\<close> whose leaves are \<open>xs\<close>, the last node of an odd layer
  standing for its missing sibling.
\<close>

fun reference_root :: "runtime \<Rightarrow> nat \<Rightarrow> string list \<Rightarrow> string" where
  "reference_root rt 0 xs = hd xs"
| "reference_root rt (Suc k) xs =
     (if length xs \<le> 2 ^ k then let r = reference_root rt k xs in hash_pair rt r r
      else hash_pair rt (reference_root rt k (take (2 ^ k) xs)) (reference_root rt k (drop (2 ^ k) xs)))"

section \<open>One round of the loop\<close>

lemma pair_level_append:
  "even (length xs) \<Longrightarrow> pair_level rt (xs @ ys) = pair_level rt xs @ pair_level rt ys"
  by (induction rt xs rule: pair_level.induct) simp_all

lemma pad_append: "even (length xs) \<Longrightarrow> ys \<noteq> [] \<Longrightarrow> pad (xs @ ys) = xs @ pad ys"
  by (simp add: pad_def)

lemma pad_even: "even (length xs) \<Longrightarrow> pad xs = xs"
  by (simp add: pad_def)

lemma length_round: "length (pair_level rt (pad xs)) = (length xs + 1) div 2"
  by (simp add: length_pair_level length_pad)

lemma round_split:
  assumes "2 ^ Suc k < length xs"
  shows "pair_level rt (pad xs) =
    pair_level rt (pad (take (2 ^ Suc k) xs)) @ pair_level rt (pad (drop (2 ^ Suc k) xs))"
proof -
  let ?a = "take (2 ^ Suc k) xs" and ?b = "drop (2 ^ Suc k) xs"
  have a: "even (length ?a)" "?b \<noteq> []" using assms by simp_all
  have "pad (?a @ ?b) = ?a @ pad ?b" by (rule pad_append [OF a])
  then show ?thesis
    using pair_level_append [OF a(1), of rt "pad ?b"] pad_even [OF a(1)] by simp
qed

lemma reference_round:
  "xs \<noteq> [] \<Longrightarrow> length xs \<le> 2 ^ Suc k \<Longrightarrow> reference_root rt (Suc k) xs = reference_root rt k (pair_level rt (pad xs))"
proof (induction k arbitrary: xs)
  case 0
  then consider a where "xs = [a]" | a b where "xs = [a, b]"
    by (cases xs; cases "tl xs") auto
  then show ?case by cases (simp_all add: pad_def)
next
  case (Suc k)
  let ?ys = "pair_level rt (pad xs)"
  show ?case
  proof (cases "length xs \<le> 2 ^ Suc k")
    case True
    then have "length ?ys \<le> 2 ^ k" unfolding length_round by simp
    with True Suc.IH [OF Suc.prems(1) True] show ?thesis by simp
  next
    case False
    let ?a = "take (2 ^ Suc k) xs" and ?b = "drop (2 ^ Suc k) xs"
    from False have s: "?ys = pair_level rt (pad ?a) @ pair_level rt (pad ?b)" by (intro round_split) simp
    have l: "length (pair_level rt (pad ?a)) = 2 ^ k" using False unfolding length_round by simp
    have "\<not> length ?ys \<le> 2 ^ k" using False unfolding length_round by simp
    moreover have "take (2 ^ k) ?ys = pair_level rt (pad ?a)" "drop (2 ^ k) ?ys = pair_level rt (pad ?b)"
      using s l by simp_all
    moreover have "reference_root rt (Suc k) ?a = reference_root rt k (pair_level rt (pad ?a))"
      "reference_root rt (Suc k) ?b = reference_root rt k (pair_level rt (pad ?b))"
      using False Suc.prems by (intro Suc.IH; simp)+
    ultimately show ?thesis using False by (simp del: reference_root.simps add: reference_root.simps(2) [of rt "Suc k" xs]
      reference_root.simps(2) [of rt k ?ys])
  qed
qed

section \<open>The whole loop\<close>

text \<open>The height of the tree over \<open>n\<close> leaves.\<close>

definition tree_height :: "nat \<Rightarrow> nat \<Rightarrow> bool" where
  "tree_height n k \<longleftrightarrow> n \<le> 2 ^ k \<and> 2 ^ k < 2 * n"

lemma tree_height_ex: "0 < n \<Longrightarrow> \<exists>k. tree_height n k"
proof (induction n)
  case 0
  then show ?case by simp
next
  case (Suc n)
  show ?case
  proof (cases "n = 0")
    case True
    then show ?thesis by (intro exI [of _ 0]) (simp add: tree_height_def)
  next
    case False
    with Suc.IH obtain k where k: "n \<le> 2 ^ k" "2 ^ k < 2 * n" by (auto simp: tree_height_def)
    then show ?thesis
      by (cases "n = 2 ^ k") (auto simp: tree_height_def intro: exI [of _ k] exI [of _ "Suc k"])
  qed
qed

lemma build_loop_reference:
  "tree_height (length xs) k \<Longrightarrow>
   length (build_loop rt xs) = Suc k \<and> hd (last (build_loop rt xs)) = reference_root rt k xs"
proof (induction k arbitrary: xs)
  case 0
  then have "length xs = 1" by (auto simp: tree_height_def)
  then show ?case by (simp add: build_loop_single)
next
  case (Suc k)
  then have n: "length xs \<le> 2 ^ Suc k" "2 ^ k < length xs" by (simp_all add: tree_height_def)
  have "1 \<le> (2::nat) ^ k" by simp
  with n(2) have g: "1 < length xs" by linarith
  let ?ys = "pair_level rt (pad xs)"
  have "tree_height (length ?ys) k"
    unfolding tree_height_def length_round using n by (intro conjI) (simp, linarith)
  from Suc.IH [OF this] show ?case
    using reference_round [of xs k rt] n g
    by (cases xs) (simp_all add: build_loop_step del: reference_root.simps)
qed

lemma proof_siblings_length: "proof_siblings levels pos = Inr sibs \<Longrightarrow> length sibs = length levels"
  by (induction levels pos arbitrary: sibs rule: proof_siblings.induct)
     (auto simp: Let_def res_simps split: if_splits)

lemma tree_levels:
  assumes "build_merkle_from_scarlog rt log = Inr tree" "tree_height (length log) k"
  shows "length (mt_levels tree) = Suc k" "mt_root tree = reference_root rt k (mt_leaves tree)"
proof -
  note b = build_merkle_Inr [OF assms(1)]
  have "tree_height (length (mt_leaves tree)) k" using assms(2) b(3) by simp
  from build_loop_reference [OF this, of rt] show "mt_root tree = reference_root rt k (mt_leaves tree)"
    "length (mt_levels tree) = Suc k"
    by (simp_all add: b(4,5))
qed

section \<open>Properties\<close>

text \<open>
  C19.  The loop as a reference recursion: the root computed level by level, with its in-place padding,
  is the divide-and-conquer root of the leaf hashes over the tree of the log's height.
\<close>

theorem merkle_root_reference:
  assumes "build_merkle_from_scarlog rt log = Inr tree"
  shows "\<exists>k. tree_height (length log) k \<and> mapE (hash_entry rt) log = Inr (mt_leaves tree) \<and>
    mt_root tree = reference_root rt k (mt_leaves tree)"
proof -
  note b = build_merkle_Inr [OF assms]
  have "0 < length log" using b(2) unfolding b(3) [symmetric] by simp
  with tree_height_ex obtain k where "tree_height (length log) k" by blast
  with tree_levels [OF assms this] b(1) show ?thesis by blast
qed

theorem merkle_root_reference_witness:
  "\<exists>tree k. build_merkle_from_scarlog plain_runtime demo_log = Inr tree \<and>
     mt_root tree = reference_root plain_runtime k (mt_leaves tree)"
proof -
  obtain tree where t: "build_merkle_from_scarlog plain_runtime demo_log = Inr tree"
    by (rule build_merkle_total [of demo_log plain_runtime]) (simp_all add: demo_log_def)
  with merkle_root_reference [OF t] show ?thesis by blast
qed

text \<open>
  C39.  The loop ends after logarithmically many rounds: for every non-empty log of canonicalizable
  records the tree is built, its number of levels is one more than the height \<open>k\<close> with
  \<open>n \<le> 2 ^ k < 2 * n\<close>, and every inclusion proof has exactly \<open>k\<close> siblings.
\<close>

theorem merkle_levels_logarithmic:
  assumes "log \<noteq> []" "list_all (\<lambda>d. canonicalizable (VDict d)) log"
  shows "\<exists>tree k. build_merkle_from_scarlog rt log = Inr tree \<and> length (mt_levels tree) = Suc k \<and>
    length log \<le> 2 ^ k \<and> 2 ^ k < 2 * length log \<and>
    (\<forall>i p. generate_proof tree i = Inr p \<longrightarrow> length (mp_siblings p) = k)"
proof -
  obtain tree where t: "build_merkle_from_scarlog rt log = Inr tree" by (rule build_merkle_total [OF assms])
  obtain k where k: "tree_height (length log) k" using tree_height_ex assms(1) by blast
  have "length (mp_siblings p) = k" if "generate_proof tree i = Inr p" for i p
    using that tree_levels(1) [OF t k]
    by (auto simp: generate_proof_def res_simps split: if_splits dest: proof_siblings_length)
  with t k tree_levels(1) [OF t k] show ?thesis by (auto simp: tree_height_def)
qed

theorem merkle_levels_logarithmic_witness:
  "\<exists>tree k. build_merkle_from_scarlog plain_runtime demo_log = Inr tree \<and> length (mt_levels tree) = Suc k \<and>
     3 \<le> (2::nat) ^ k \<and> 2 ^ k < (6::nat)"
proof -
  have "demo_log \<noteq> []" "list_all (\<lambda>d. canonicalizable (VDict d)) demo_log" by (simp_all add: demo_log_def)
  from merkle_levels_logarithmic [OF this, of plain_runtime] show ?thesis by (auto simp: demo_log_def)
qed

end
