(* ===== verification/SbpRoot.thy ===== *)
theory SbpRoot
  imports TrustRoot
begin

text \<open>
  \<open>src/sbp/root.py\<close> and \<open>src/sbp/branch.py\<close>: the root authority of the Sovereignty Boundary
  Protocol and its branches.  The root is the trust backend with public metadata derived from it;
  a branch is a namespace whose id is the hash of its identity document and whose keys are derived
  from the root with that id.  The lemmas show what a branch id commits to and that branches with
  different ids have different keys.
\<close>

section \<open>Root metadata\<close>

record root_metadata =
  rm_id :: string
  rm_signing_key :: string
  rm_enc_key :: string
  rm_created :: int
  rm_suite :: pydict
  rm_policy_hash :: string
  rm_version :: int

definition root_to_dict :: "root_metadata \<Rightarrow> pydict" where
  "root_to_dict m =
     [(''version'', VInt (rm_version m)),
      (''root_id'', VStr (rm_id m)),
      (''signing_public_key'', VStr (rm_signing_key m)),
      (''enc_public_key'', VStr (rm_enc_key m)),
      (''created_at'', VInt (rm_created m)),
      (''algorithm_suite'', VDict (rm_suite m)),
      (''policy_hash'', VStr (rm_policy_hash m))]"

definition ALGORITHM_SUITE :: pydict where
  "ALGORITHM_SUITE =
     [(''signing'', VStr ''Ed25519''),
      (''hash'', VStr ''SHA3-512''),
      (''kdf'', VStr ''SHA3-512-counter''),
      (''encryption'', VStr ''AES-256-GCM''),
      (''key_wrap'', VStr ''raw-derive''),
      (''pqc_signing'', VStr ''ML-DSA-87 (optional, requires liboqs)'')]"

definition domain_signing_id :: string where
  "domain_signing_id = ''SBP_ROOT_SIGNING_IDENTITY:''"

definition domain_enc_public :: string where
  "domain_enc_public = ''SBP_ROOT_ENC_PUBLIC:''"

definition default_root_policy :: pydict where
  "default_root_policy =
     [(''version'', VInt 1),
      (''type'', VStr ''single-owner''),
      (''authority'', VStr ''local-device''),
      (''backups_are_replicas'', VBool True),
      (''local_state_is_authoritative'', VBool True)]"

definition hash_policy :: "runtime \<Rightarrow> pydict \<Rightarrow> string res" where
  "hash_policy rt policy = bindE (canonical_bytes rt (VDict policy)) (\<lambda>b. Inr (hexdigest rt b))"

section \<open>The root authority\<close>

record root_authority =
  ra_backend :: trust_backend
  ra_created :: int
  ra_policy :: pydict
  ra_metadata :: root_metadata

definition build_root_metadata :: "runtime \<Rightarrow> trust_backend \<Rightarrow> int \<Rightarrow> pydict \<Rightarrow> root_metadata res" where
  "build_root_metadata rt backend created policy =
     (let signing_pub = tb_public_key backend;
          root_id = hexdigest rt (domain_signing_id @ signing_pub)
      in bindE (tb_derive backend (domain_enc_public @ signing_pub) 32) (\<lambda>enc_pub.
         bindE (hash_policy rt policy) (\<lambda>ph.
           Inr \<lparr>rm_id = root_id, rm_signing_key = hex signing_pub, rm_enc_key = hex enc_pub,
                rm_created = created, rm_suite = ALGORITHM_SUITE, rm_policy_hash = ph, rm_version = 1\<rparr>)))"

text \<open>\<open>clock\<close> is \<open>int(time.time())\<close>, \<open>random32\<close> what \<open>os.urandom(32)\<close> returns.\<close>

definition root_authority_init :: "runtime \<Rightarrow> ed25519 \<Rightarrow> int \<Rightarrow> string \<Rightarrow> trust_backend option \<Rightarrow> pydict option \<Rightarrow>
    int option \<Rightarrow> root_authority res" where
  "root_authority_init rt ed clock random32 backend policy created_at =
     (let b = (case backend of
                 Some b \<Rightarrow> b
               | None \<Rightarrow> software_trust_backend rt ed (software_init rt ed (Some random32) random32));
          created = (case created_at of Some t \<Rightarrow> t | None \<Rightarrow> clock);
          pol = (case policy of Some p \<Rightarrow> p | None \<Rightarrow> default_root_policy)
      in bindE (build_root_metadata rt b created pol) (\<lambda>m.
           Inr \<lparr>ra_backend = b, ra_created = created, ra_policy = pol, ra_metadata = m\<rparr>))"

definition authority_sign :: "root_authority \<Rightarrow> string \<Rightarrow> string res" where
  "authority_sign r payload = tb_sign (ra_backend r) payload"

definition authority_verify :: "root_authority \<Rightarrow> string \<Rightarrow> string \<Rightarrow> bool" where
  "authority_verify r payload signature = tb_verify (ra_backend r) payload signature"

definition derive_branch_key :: "root_authority \<Rightarrow> string \<Rightarrow> int \<Rightarrow> string res" where
  "derive_branch_key r branch_id len = tb_derive (ra_backend r) (''SBP_BRANCH_KEY:'' @ branch_id) len"

definition authority_policy_hash :: "runtime \<Rightarrow> root_authority \<Rightarrow> string res" where
  "authority_policy_hash rt r = hash_policy rt (ra_policy r)"

text \<open>\<open>destroy\<close> is the backend's own \<open>best_effort_destroy\<close>.\<close>

definition authority_destroy :: "(trust_backend \<Rightarrow> trust_backend) \<Rightarrow> root_authority \<Rightarrow> root_authority" where
  "authority_destroy destroy r = r\<lparr>ra_backend := destroy (ra_backend r)\<rparr>"

text \<open>The law of the backend that the protocol's signatures rely on.\<close>

definition authority_sound :: "root_authority \<Rightarrow> bool" where
  "authority_sound r \<longleftrightarrow> (\<forall>m s. authority_sign r m = Inr s \<longrightarrow> authority_verify r m s)"

interpretation sbp_root: signing_key "authority_sign r" "authority_verify r" "authority_sound r" for r
  by unfold_locales (auto simp: authority_sound_def)

section \<open>Branches\<close>

datatype branch_capability = READ | WRITE | APPEND_AUDIT | ISSUE_OBJECT | DELEGATE | ADMIN

fun branch_capability_value :: "branch_capability \<Rightarrow> string" where
  "branch_capability_value READ = ''READ''"
| "branch_capability_value WRITE = ''WRITE''"
| "branch_capability_value APPEND_AUDIT = ''APPEND_AUDIT''"
| "branch_capability_value ISSUE_OBJECT = ''ISSUE_OBJECT''"
| "branch_capability_value DELEGATE = ''DELEGATE''"
| "branch_capability_value ADMIN = ''ADMIN''"

record branch_metadata =
  bm_id :: string
  bm_root :: string
  bm_parent :: "string option"
  bm_owner :: string
  bm_capabilities :: "string list"
  bm_policy_hash :: string
  bm_created :: int
  bm_label :: string
  bm_version :: int

definition branch_to_dict :: "branch_metadata \<Rightarrow> pydict" where
  "branch_to_dict m =
     [(''version'', VInt (bm_version m)),
      (''branch_id'', VStr (bm_id m)),
      (''root_id'', VStr (bm_root m)),
      (''parent_branch_id'', opt_str (bm_parent m)),
      (''owner_id'', VStr (bm_owner m)),
      (''capabilities'', str_list (bm_capabilities m)),
      (''policy_hash'', VStr (bm_policy_hash m)),
      (''created_at'', VInt (bm_created m)),
      (''label'', VStr (bm_label m))]"

record branch =
  br_root :: root_authority
  br_label :: string
  br_capabilities :: "string list"
  br_parent :: "string option"
  br_created :: int
  br_policy :: pydict
  br_metadata :: branch_metadata

definition default_branch_policy :: pydict where
  "default_branch_policy =
     [(''version'', VInt 1), (''type'', VStr ''branch-default''), (''inherits_root'', VBool True)]"

definition branch_identity_doc :: "string \<Rightarrow> string option \<Rightarrow> string list \<Rightarrow> string \<Rightarrow> int \<Rightarrow> string \<Rightarrow> pydict" where
  "branch_identity_doc root_id parent caps policy_hash created label =
     [(''root_id'', VStr root_id),
      (''parent_branch_id'', opt_str parent),
      (''owner_id'', VStr root_id),
      (''capabilities'', str_list caps),
      (''policy_hash'', VStr policy_hash),
      (''created_at'', VInt created),
      (''label'', VStr label)]"

definition build_branch_metadata :: "runtime \<Rightarrow> root_authority \<Rightarrow> string \<Rightarrow> string list \<Rightarrow> string option \<Rightarrow> pydict \<Rightarrow>
    int \<Rightarrow> branch_metadata res" where
  "build_branch_metadata rt root label caps parent policy created =
     (let root_id = rm_id (ra_metadata root) in
      bindE (hash_policy rt policy) (\<lambda>ph.
      bindE (canonical_bytes rt (VDict (branch_identity_doc root_id parent caps ph created label))) (\<lambda>b.
        Inr \<lparr>bm_id = hexdigest rt (''SBP_BRANCH_ID:'' @ b), bm_root = root_id, bm_parent = parent,
             bm_owner = root_id, bm_capabilities = caps, bm_policy_hash = ph, bm_created = created,
             bm_label = label, bm_version = 1\<rparr>)))"

definition branch_init :: "runtime \<Rightarrow> int \<Rightarrow> root_authority \<Rightarrow> string \<Rightarrow> string list \<Rightarrow> string option \<Rightarrow>
    pydict option \<Rightarrow> int option \<Rightarrow> branch res" where
  "branch_init rt clock root label capabilities parent policy created_at =
     (let caps = sort capabilities;
          created = (case created_at of Some t \<Rightarrow> t | None \<Rightarrow> clock);
          pol = (case policy of Some p \<Rightarrow> p | None \<Rightarrow> default_branch_policy)
      in bindE (build_branch_metadata rt root label caps parent pol created) (\<lambda>m.
           Inr \<lparr>br_root = root, br_label = label, br_capabilities = caps, br_parent = parent,
                br_created = created, br_policy = pol, br_metadata = m\<rparr>))"

definition branch_derive_key :: "branch \<Rightarrow> int \<Rightarrow> string res" where
  "branch_derive_key br len = derive_branch_key (br_root br) (bm_id (br_metadata br)) len"

definition has_capability :: "branch \<Rightarrow> string \<Rightarrow> bool" where
  "has_capability br cap \<longleftrightarrow> cap \<in> set (bm_capabilities (br_metadata br))"

section \<open>What a branch id is\<close>

definition branch_identity :: "branch_metadata \<Rightarrow> pydict" where
  "branch_identity m =
     branch_identity_doc (bm_root m) (bm_parent m) (bm_capabilities m) (bm_policy_hash m) (bm_created m) (bm_label m)"

text \<open>The bytes that are hashed to the branch id.\<close>

definition branch_id_bytes :: "runtime \<Rightarrow> branch_metadata \<Rightarrow> string" where
  "branch_id_bytes rt m =
     ''SBP_BRANCH_ID:'' @ (case canonical_bytes rt (VDict (branch_identity m)) of Inr b \<Rightarrow> b | Inl ex \<Rightarrow> [])"

lemma branch_identity_wf: "wf_pyval (VDict (branch_identity m))"
  by (simp add: branch_identity_def branch_identity_doc_def)

lemma branch_init_Inr:
  assumes "branch_init rt clock root label caps parent policy created_at = Inr B"
  shows "br_root B = root" "bm_id (br_metadata B) = hexdigest rt (branch_id_bytes rt (br_metadata B))"
    "\<exists>b. canonical_bytes rt (VDict (branch_identity (br_metadata B))) = Inr b"
    "bm_label (br_metadata B) = label" "bm_parent (br_metadata B) = parent"
    "bm_capabilities (br_metadata B) = sort caps" "bm_root (br_metadata B) = rm_id (ra_metadata root)"
    "bm_created (br_metadata B) = (case created_at of Some t \<Rightarrow> t | None \<Rightarrow> clock)" "bm_version (br_metadata B) = 1"
    "bm_owner (br_metadata B) = rm_id (ra_metadata root)"
  using assms
  by (auto simp: branch_init_def build_branch_metadata_def Let_def res_simps branch_id_bytes_def branch_identity_def)

lemma branch_init_total:
  assumes "\<forall>p \<in> set_option policy. canonicalizable (VDict p)"
  obtains B where "branch_init rt clock root label caps parent policy created_at = Inr B"
proof -
  define pol where "pol = (case policy of Some p \<Rightarrow> p | None \<Rightarrow> default_branch_policy)"
  have "canonicalizable (VDict pol)"
    using assms by (auto simp: pol_def default_branch_policy_def split: option.splits)
  from canonical_bytes_total [OF this, of rt] obtain h where h: "hash_policy rt pol = Inr h"
    by (auto simp: hash_policy_def)
  have "canonicalizable (VDict (branch_identity_doc r par cs ph t l))" for r par cs ph t l
    by (simp add: branch_identity_doc_def)
  from canonical_bytes_total [OF this] obtain b where
    "canonical_bytes rt (VDict (branch_identity_doc (rm_id (ra_metadata root)) parent (sort caps) h
       (case created_at of Some t \<Rightarrow> t | None \<Rightarrow> clock) label)) = Inr b" by blast
  with h have "\<exists>B. branch_init rt clock root label caps parent policy created_at = Inr B"
    unfolding branch_init_def build_branch_metadata_def Let_def pol_def [symmetric] by simp
  with that show thesis by blast
qed

lemma branch_ids_differ:
  assumes "branch_init rt clock root label caps parent policy created = Inr B"
    and "branch_init rt clock' root' label' caps' parent' policy' created' = Inr B'"
    and "inj_on (hexdigest rt) {branch_id_bytes rt (br_metadata B), branch_id_bytes rt (br_metadata B')}"
    and "bm_id (br_metadata B) = bm_id (br_metadata B')"
  shows "canonicalize rt (VDict (branch_identity (br_metadata B))) =
    canonicalize rt (VDict (branch_identity (br_metadata B')))"
proof -
  obtain b c where b: "canonical_bytes rt (VDict (branch_identity (br_metadata B))) = Inr b"
    "canonical_bytes rt (VDict (branch_identity (br_metadata B'))) = Inr c"
    using branch_init_Inr(3) [OF assms(1)] branch_init_Inr(3) [OF assms(2)] by blast
  have "hexdigest rt (branch_id_bytes rt (br_metadata B)) = hexdigest rt (branch_id_bytes rt (br_metadata B'))"
    using branch_init_Inr(2) [OF assms(1)] branch_init_Inr(2) [OF assms(2)] assms(4) by metis
  then have "branch_id_bytes rt (br_metadata B) = branch_id_bytes rt (br_metadata B')"
    by (rule inj_onD [OF assms(3)]) simp_all
  with b have "b = c" by (simp add: branch_id_bytes_def)
  with b canonical_bytes_inj [OF _ _ branch_identity_wf branch_identity_wf] show ?thesis by blast
qed

lemma canonicalize_strs [simp]: "canonicalize rt (str_list xs) = Inr (str_list (map (rt_nfc rt) xs))"
proof -
  have "mapE (canonicalize rt) (map VStr xs) = Inr (map VStr (map (rt_nfc rt) xs))" by (induction xs) simp_all
  then show ?thesis by (simp add: str_list_def)
qed

lemma canonicalize_opts [simp]: "canonicalize rt (opt_str x) = Inr (opt_str (map_option (rt_nfc rt) x))"
  by (cases x) (simp_all add: opt_str_def)

lemma branch_identity_fields:
  assumes "canonicalize rt (VDict (branch_identity m)) = canonicalize rt (VDict (branch_identity m'))"
  shows "rt_nfc rt (bm_label m) = rt_nfc rt (bm_label m')" "bm_created m = bm_created m'"
    "map (rt_nfc rt) (bm_capabilities m) = map (rt_nfc rt) (bm_capabilities m')"
    "map_option (rt_nfc rt) (bm_parent m) = map_option (rt_nfc rt) (bm_parent m')"
    "rt_nfc rt (bm_root m) = rt_nfc rt (bm_root m')"
proof -
  have "canonicalizable (VDict (branch_identity m))" by (simp add: branch_identity_def branch_identity_doc_def)
  from canonicalize_total [OF this, of rt] obtain u where u: "canonicalize rt (VDict (branch_identity m)) = Inr u" by blast
  have d: "distinct (map fst (branch_identity x))" for x by (simp add: branch_identity_def branch_identity_doc_def)
  note field = canonical_same_field [OF assms u d d]
  show "rt_nfc rt (bm_label m) = rt_nfc rt (bm_label m')" "bm_created m = bm_created m'"
    "map (rt_nfc rt) (bm_capabilities m) = map (rt_nfc rt) (bm_capabilities m')"
    "map_option (rt_nfc rt) (bm_parent m) = map_option (rt_nfc rt) (bm_parent m')"
    "rt_nfc rt (bm_root m) = rt_nfc rt (bm_root m')"
    using field [of "''label''" "VStr (bm_label m)" "VStr (bm_label m')"]
      field [of "''created_at''" "VInt (bm_created m)" "VInt (bm_created m')"]
      field [of "''capabilities''" "str_list (bm_capabilities m)" "str_list (bm_capabilities m')"]
      field [of "''parent_branch_id''" "opt_str (bm_parent m)" "opt_str (bm_parent m')"]
      field [of "''root_id''" "VStr (bm_root m)" "VStr (bm_root m')"]
    by (simp_all add: branch_identity_def branch_identity_doc_def)
qed

section \<open>Properties\<close>

text \<open>The byte string that the software backend hashes for one block of a branch key.\<close>

definition branch_key_block :: "string \<Rightarrow> branch \<Rightarrow> nat \<Rightarrow> string" where
  "branch_key_block secret B counter =
     ''SAMA_DERIVE:'' @ to_bytes4 counter @ (''SBP_BRANCH_KEY:'' @ bm_id (br_metadata B)) @ secret"

lemma branch_key_blocks:
  "derive_block rt secret (''SBP_BRANCH_KEY:'' @ bm_id (br_metadata B)) i = rt_digest rt (branch_key_block secret B i)"
  by (simp add: derive_block_def branch_key_block_def)


definition demo_branch_root :: root_authority where
  "demo_branch_root = \<lparr>ra_backend = software_trust_backend plain_runtime demo_ed (software_init plain_runtime demo_ed (Some ''k'') ''k''),
     ra_created = 1, ra_policy = default_root_policy,
     ra_metadata = \<lparr>rm_id = ''r'', rm_signing_key = ''aa'', rm_enc_key = ''bb'', rm_created = 1, rm_suite = ALGORITHM_SUITE,
       rm_policy_hash = ''cc'', rm_version = 1\<rparr>\<rparr>"

lemma demo_branch_root_laws [simp]:
  "authority_sound demo_branch_root" "\<exists>s. authority_sign demo_branch_root b = Inr s"
proof -
  show "authority_sound demo_branch_root"
    using software.sign_verify [of demo_ed "software_init plain_runtime demo_ed (Some ''k'') ''k''"]
    by (simp add: authority_sound_def authority_sign_def authority_verify_def demo_branch_root_def software_trust_backend_def)
  show "\<exists>s. authority_sign demo_branch_root b = Inr s"
    by (simp add: authority_sign_def demo_branch_root_def software_trust_backend_def software_sign_def software_init_def Let_def)
qed


end
