(* ===== verification/JsonRead.thy ===== *)
theory JsonRead
  imports HashChain
begin

text \<open>
  \<open>json.loads\<close> of the standard library, as a scanner over the UTF-8 bytes of the text, with the
  scanner's white space, literals, numbers, escapes, surrogate pairs and duplicate keys (the last
  value wins, at the first position), and lemmas on its tokens.  \<open>fo\<close> is \<open>float\<close> on a number's text.
\<close>

section \<open>Tokens\<close>

fun skip_white :: "string \<Rightarrow> string" where
  "skip_white [] = []"
| "skip_white (c # r) = (if c \<in> set [CHR '' '', CHR 0x09, CHR 0x0A, CHR 0x0D] then skip_white r else c # r)"

definition utf8_encode :: "nat \<Rightarrow> string" where
  "utf8_encode n =
     (if n < 128 then [char_of n]
      else if n < 2048 then [char_of (192 + n div 64), char_of (128 + n mod 64)]
      else if n < 65536 then [char_of (224 + n div 4096), char_of (128 + n div 64 mod 64), char_of (128 + n mod 64)]
      else [char_of (240 + n div 262144), char_of (128 + n div 4096 mod 64), char_of (128 + n div 64 mod 64),
            char_of (128 + n mod 64)])"

definition scan_hex4 :: "string \<Rightarrow> (nat \<times> string) option" where
  "scan_hex4 s =
     (case s of
        a # b # c # d # r \<Rightarrow>
          (case (unhexdigit a, unhexdigit b, unhexdigit c, unhexdigit d) of
             (Some w, Some x, Some y, Some z) \<Rightarrow> Some (((w * 16 + x) * 16 + y) * 16 + z, r)
           | _ \<Rightarrow> None)
      | _ \<Rightarrow> None)"

text \<open>After \<open>\u\<close>: a high surrogate takes a following low one with it.\<close>

definition scan_point :: "string \<Rightarrow> (string \<times> string) option" where
  "scan_point s =
     (case scan_hex4 s of
        None \<Rightarrow> None
      | Some (n, r) \<Rightarrow>
          if 55296 \<le> n \<and> n < 56320 \<and> take 2 r = [CHR 0x5C, CHR ''u'']
          then (case scan_hex4 (drop 2 r) of
                  None \<Rightarrow> None
                | Some (m, r') \<Rightarrow>
                    if 56320 \<le> m \<and> m < 57344
                    then Some (utf8_encode (65536 + (n - 55296) * 1024 + (m - 56320)), r')
                    else Some (utf8_encode n, r))
          else Some (utf8_encode n, r))"

text \<open>After a backslash.\<close>

definition scan_escape :: "string \<Rightarrow> (string \<times> string) option" where
  "scan_escape s =
     (case s of
        [] \<Rightarrow> None
      | t # r \<Rightarrow>
          if t \<in> set [CHR 0x22, CHR 0x5C, CHR ''/''] then Some ([t], r)
          else if t = CHR ''b'' then Some ([CHR 0x08], r)
          else if t = CHR ''f'' then Some ([CHR 0x0C], r)
          else if t = CHR ''n'' then Some ([CHR 0x0A], r)
          else if t = CHR ''r'' then Some ([CHR 0x0D], r)
          else if t = CHR ''t'' then Some ([CHR 0x09], r)
          else if t = CHR ''u'' then scan_point r
          else None)"

lemma scan_hex4_length: "scan_hex4 s = Some (n, r) \<Longrightarrow> length r < length s"
  by (auto simp: scan_hex4_def split: list.splits option.splits)

lemma scan_point_length: "scan_point s = Some (x, r) \<Longrightarrow> length r < length s"
  by (auto simp: scan_point_def split: option.splits prod.splits if_splits dest!: scan_hex4_length)

lemma scan_escape_length: "scan_escape s = Some (x, r) \<Longrightarrow> length r < length s"
  by (auto simp: scan_escape_def split: list.splits if_splits dest: scan_point_length)

text \<open>After the opening quote.\<close>

function scan_string :: "string \<Rightarrow> (string \<times> string) option" where
  "scan_string [] = None"
| "scan_string (c # r) =
     (if c = CHR 0x22 then Some ([], r)
      else if c = CHR 0x5C
      then (case scan_escape r of
              None \<Rightarrow> None
            | Some (x, r') \<Rightarrow> map_option (\<lambda>(y, r''). (x @ y, r'')) (scan_string r'))
      else if of_char c < (32::nat) then None
      else map_option (\<lambda>(y, r''). (c # y, r'')) (scan_string r))"
  by pat_completeness auto
termination
  by (relation "measure length") (auto dest: scan_escape_length)

definition is_digit :: "char \<Rightarrow> bool" where
  "is_digit c \<longleftrightarrow> (let n = of_char c :: nat in 48 \<le> n \<and> n \<le> 57)"

definition digits_value :: "string \<Rightarrow> nat" where
  "digits_value s = foldl (\<lambda>a c. 10 * a + (of_char c - 48)) 0 s"

text \<open>\<open>NUMBER_RE\<close>: an integer part, a fraction and an exponent.\<close>

definition scan_integer :: "string \<Rightarrow> (string \<times> string) option" where
  "scan_integer s =
     (case s of
        [] \<Rightarrow> None
      | c # r \<Rightarrow>
          if c = CHR ''0'' then Some ([c], r)
          else if is_digit c then Some (takeWhile is_digit s, dropWhile is_digit s)
          else None)"

definition scan_fraction :: "string \<Rightarrow> string \<times> string" where
  "scan_fraction s =
     (case s of
        c # r \<Rightarrow>
          if c = CHR ''.'' \<and> takeWhile is_digit r \<noteq> [] then (c # takeWhile is_digit r, dropWhile is_digit r)
          else ([], s)
      | [] \<Rightarrow> ([], s))"

definition scan_sign :: "string \<Rightarrow> string \<times> string" where
  "scan_sign s =
     (case s of d # r \<Rightarrow> if d = CHR ''+'' \<or> d = CHR ''-'' then ([d], r) else ([], s) | [] \<Rightarrow> ([], s))"

definition scan_exponent :: "string \<Rightarrow> string \<times> string" where
  "scan_exponent s =
     (case s of
        c # r \<Rightarrow>
          let (sg, r') = scan_sign r
          in if (c = CHR ''e'' \<or> c = CHR ''E'') \<and> takeWhile is_digit r' \<noteq> []
             then (c # sg @ takeWhile is_digit r', dropWhile is_digit r')
             else ([], s)
      | [] \<Rightarrow> ([], s))"

definition scan_number :: "(string \<Rightarrow> pyfloat) \<Rightarrow> string \<Rightarrow> (pyval \<times> string) option" where
  "scan_number fo s =
     (let (neg, s0) = (case s of c # r \<Rightarrow> if c = CHR ''-'' then ([c], r) else ([], s) | [] \<Rightarrow> ([], s)) in
      case scan_integer s0 of
        None \<Rightarrow> None
      | Some (ip, s1) \<Rightarrow>
          let (fp, s2) = scan_fraction s1; (ep, s3) = scan_exponent s2 in
          if fp = [] \<and> ep = []
          then Some (VInt ((if neg = [] then 1 else - 1) * int (digits_value ip)), s3)
          else Some (VFloat (fo (neg @ ip @ fp @ ep)), s3))"

section \<open>Values\<close>

text \<open>\<open>scan_once\<close>, \<open>JSONArray\<close> and \<open>JSONObject\<close>, with fuel for the nesting.\<close>

fun scan_value :: "(string \<Rightarrow> pyfloat) \<Rightarrow> nat \<Rightarrow> string \<Rightarrow> (pyval \<times> string) option"
  and scan_items :: "(string \<Rightarrow> pyfloat) \<Rightarrow> nat \<Rightarrow> string \<Rightarrow> (pyval list \<times> string) option"
  and scan_members :: "(string \<Rightarrow> pyfloat) \<Rightarrow> nat \<Rightarrow> string \<Rightarrow> (pydict \<times> string) option" where
  "scan_value fo 0 s = None"
| "scan_value fo (Suc n) s =
     (if s = [] then None
      else if hd s = CHR 0x22 then map_option (\<lambda>(x, r). (VStr x, r)) (scan_string (tl s))
      else if hd s = CHR ''{''
      then (let r = skip_white (tl s) in
            if r \<noteq> [] \<and> hd r = CHR ''}'' then Some (VDict [], tl r)
            else map_option (\<lambda>(d, r'). (VDict (dict_merge [] d), r')) (scan_members fo n r))
      else if hd s = CHR ''[''
      then (let r = skip_white (tl s) in
            if r \<noteq> [] \<and> hd r = CHR '']'' then Some (VList [], tl r)
            else map_option (\<lambda>(xs, r'). (VList xs, r')) (scan_items fo n r))
      else if startswith s ''null'' then Some (VNone, drop 4 s)
      else if startswith s ''true'' then Some (VBool True, drop 4 s)
      else if startswith s ''false'' then Some (VBool False, drop 5 s)
      else case scan_number fo s of
        Some x \<Rightarrow> Some x
      | None \<Rightarrow>
          if startswith s ''NaN'' then Some (VFloat NaN, drop 3 s)
          else if startswith s ''Infinity'' then Some (VFloat PosInf, drop 8 s)
          else if startswith s ''-Infinity'' then Some (VFloat NegInf, drop 9 s)
          else None)"
| "scan_items fo 0 s = None"
| "scan_items fo (Suc n) s =
     (case scan_value fo n s of
        None \<Rightarrow> None
      | Some (v, r) \<Rightarrow>
          let r = skip_white r in
          if r = [] then None
          else if hd r = CHR '']'' then Some ([v], tl r)
          else if hd r = CHR '','' then map_option (\<lambda>(vs, r'). (v # vs, r')) (scan_items fo n (skip_white (tl r)))
          else None)"
| "scan_members fo 0 s = None"
| "scan_members fo (Suc n) s =
     (if s = [] \<or> hd s \<noteq> CHR 0x22 then None
      else case scan_string (tl s) of
        None \<Rightarrow> None
      | Some (k, r) \<Rightarrow>
          let r = skip_white r in
          if r = [] \<or> hd r \<noteq> CHR '':'' then None
          else case scan_value fo n (skip_white (tl r)) of
            None \<Rightarrow> None
          | Some (v, r) \<Rightarrow>
              let r = skip_white r in
              if r = [] then None
              else if hd r = CHR ''}'' then Some ([(k, v)], tl r)
              else if hd r = CHR '','' then map_option (\<lambda>(d, r'). ((k, v) # d, r')) (scan_members fo n (skip_white (tl r)))
              else None)"

definition json_fuel :: "string \<Rightarrow> nat" where
  "json_fuel s = 2 * length s + 2"

definition json_loads :: "(string \<Rightarrow> pyfloat) \<Rightarrow> string \<Rightarrow> pyval res" where
  "json_loads fo s =
     (case scan_value fo (json_fuel s) (skip_white s) of
        None \<Rightarrow> Inl (ValueError ''Expecting value'')
      | Some (v, r) \<Rightarrow> if skip_white r = [] then Inr v else Inl (ValueError ''Extra data''))"

section \<open>Reading back what was written\<close>

text \<open>Strings.\<close>

lemma scan_hex4_byte: "scan_hex4 (CHR ''0'' # CHR ''0'' # hex_byte c @ x) = Some (of_char c, x)"
proof -
  have "of_char c div 16 < (16::nat)" using of_char_lt [of c] by (simp add: less_mult_imp_div_less)
  moreover have "unhexdigit (CHR ''0'') = Some 0" by code_simp
  ultimately show ?thesis by (simp add: scan_hex4_def hex_byte_def)
qed

lemma scan_escape_hex: "(of_char c :: nat) < 32 \<Longrightarrow> scan_escape (CHR ''u'' # CHR ''0'' # CHR ''0'' # hex_byte c @ x) = Some ([c], x)"
  by (simp add: scan_escape_def scan_point_def scan_hex4_byte utf8_encode_def)

lemma scan_string_esc:
  "scan_string (esc_char c @ x) = map_option (\<lambda>(y, r). (c # y, r)) (scan_string x)"
proof -
  consider "c \<in> set [CHR 0x22, CHR 0x5C, CHR 0x0A, CHR 0x0D, CHR 0x09, CHR 0x0C, CHR 0x08]"
    | "c \<notin> set [CHR 0x22, CHR 0x5C, CHR 0x0A, CHR 0x0D, CHR 0x09, CHR 0x0C, CHR 0x08]" "(of_char c :: nat) < 32"
    | "c \<notin> set [CHR 0x22, CHR 0x5C, CHR 0x0A, CHR 0x0D, CHR 0x09, CHR 0x0C, CHR 0x08]" "\<not> (of_char c :: nat) < 32"
    by blast
  then show ?thesis
  proof cases
    case 1
    then show ?thesis by (auto simp: esc_char_eq scan_escape_def split: option.splits)
  next
    case 2
    then show ?thesis by (auto simp: esc_char_eq scan_escape_hex split: option.splits)
  next
    case 3
    then show ?thesis by (auto simp: esc_char_eq)
  qed
qed

lemma scan_string_quote: "scan_string (concat (map esc_char s) @ CHR 0x22 # r) = Some (s, r)"
  by (induction s) (simp_all add: scan_string_esc)

text \<open>What follows a value in a text: the end, white space, a comma or a closing bracket.\<close>

definition white_chars :: "char set" where
  "white_chars = set [CHR '' '', CHR 0x09, CHR 0x0A, CHR 0x0D]"

definition ended :: "string \<Rightarrow> bool" where
  "ended r \<longleftrightarrow> r = [] \<or> hd r \<in> set '',]}'' \<union> white_chars"

lemma ended_simps [simp]: "ended []" "ended (CHR '','' # r)" "ended (CHR '']'' # r)" "ended (CHR ''}'' # r)"
  by (simp_all add: ended_def)

lemma ended_white [simp]: "set w \<subseteq> white_chars \<Longrightarrow> ended r \<Longrightarrow> ended (w @ r)"
  by (cases w) (simp_all add: ended_def)

text \<open>Integers.\<close>

lemma is_digit_iff: "is_digit c \<longleftrightarrow> c \<in> digit_chars"
proof
  assume "is_digit c"
  then have "of_char c \<in> {48..57::nat}" by (simp add: is_digit_def Let_def)
  then show "c \<in> digit_chars" unfolding digit_chars_def by (metis char_of_char image_eqI)
qed (auto simp: digit_chars_def is_digit_def)

lemma is_digit_code [simp]: "(n::nat) < 10 \<Longrightarrow> is_digit (char_of (48 + n))"
  by (simp add: is_digit_iff)

lemma not_digit [simp]:
  "\<not> is_digit CHR ''.''" "\<not> is_digit CHR ''-''" "\<not> is_digit CHR ''+''" "\<not> is_digit CHR ''e''" "\<not> is_digit CHR ''E''"
  by code_simp+

lemma ended_not_digit: "ended r \<Longrightarrow> r \<noteq> [] \<Longrightarrow> \<not> is_digit (hd r)"
  by (auto simp: ended_def white_chars_def is_digit_iff digit_chars_eq)

lemma digits_take:
  "(\<forall>c \<in> set a. is_digit c) \<Longrightarrow> r = [] \<or> \<not> is_digit (hd r) \<Longrightarrow>
   takeWhile is_digit (a @ r) = a \<and> dropWhile is_digit (a @ r) = r"
  by (cases r) (auto simp: takeWhile_append dropWhile_append)

lemma digits_value_snoc [simp]: "digits_value (a @ [c]) = 10 * digits_value a + (of_char c - 48)"
  by (simp add: digits_value_def)

lemma digits_value_nat: "digits_value (nat_digits n) = n"
proof (induction n rule: nat_digits.induct)
  case (1 n)
  show ?case
  proof (cases "n < 10")
    case True
    then show ?thesis by (subst nat_digits.simps) (simp add: digits_value_def)
  next
    case False
    have "n mod 10 < 10" by simp
    with False 1 show ?thesis by (subst nat_digits.simps) simp
  qed
qed

lemma nat_digits_hd: "n = 0 \<and> nat_digits n = ''0'' \<or> hd (nat_digits n) \<noteq> CHR ''0''"
proof (induction n rule: nat_digits.induct)
  case (1 n)
  have zero: "CHR ''0'' = char_of (48::nat)" by code_simp
  show ?case
  proof (cases "n < 10")
    case True
    then have "char_of (48 + n) = CHR ''0'' \<longleftrightarrow> n = 0"
      unfolding zero by (subst char_of_inject256) auto
    with True show ?thesis by (subst (1 2) nat_digits.simps) (auto simp: zero)
  next
    case False
    then have "n div 10 \<noteq> 0" by simp
    with 1 [OF False] have "hd (nat_digits (n div 10)) \<noteq> CHR ''0''" by blast
    with False show ?thesis by (subst (2) nat_digits.simps) simp
  qed
qed

lemma scan_integer_digits:
  assumes "r = [] \<or> \<not> is_digit (hd r)"
  shows "scan_integer (nat_digits n @ r) = Some (nat_digits n, r)"
proof -
  have d: "\<forall>c \<in> set (nat_digits n). is_digit c" using nat_digits_chars [of n] by (auto simp: is_digit_iff)
  obtain c cs where c: "nat_digits n = c # cs" using nat_digits_ne [of n] by (cases "nat_digits n") auto
  have "is_digit c" using d c by simp
  then show ?thesis
    using nat_digits_hd [of n] digits_take [OF d assms] c by (auto simp: scan_integer_def)
qed

lemma scan_fraction_ended [simp]: "ended r \<Longrightarrow> scan_fraction r = ([], r)"
  by (cases r) (auto simp: scan_fraction_def ended_def white_chars_def)

lemma scan_exponent_ended [simp]: "ended r \<Longrightarrow> scan_exponent r = ([], r)"
  by (cases r) (auto simp: scan_exponent_def ended_def white_chars_def split: prod.splits)

lemma scan_number_int:
  assumes "ended r"
  shows "scan_number fo (int_str i @ r) = Some (VInt i, r)"
proof -
  have e: "r = [] \<or> \<not> is_digit (hd r)" using ended_not_digit [OF assms] by blast
  obtain c cs where c: "nat_digits (nat i) = c # cs" using nat_digits_ne by (cases "nat_digits (nat i)") auto
  then have "c \<in> digit_chars" using nat_digits_chars [of "nat i"] by simp
  then have "c \<noteq> CHR ''-''" by (auto simp: digit_chars_eq)
  then show ?thesis
    using scan_integer_digits [OF e, of "nat i"] scan_integer_digits [OF e, of "nat (- i)"] c assms
      digits_value_nat [of "nat i"]
    by (auto simp: scan_number_def int_str_def digits_value_nat Let_def)
qed

text \<open>Floats: a text that is scanned alone as itself is scanned the same before what follows a value.\<close>

definition float_reads :: "(string \<Rightarrow> pyfloat) \<Rightarrow> string \<Rightarrow> bool" where
  "float_reads fo t \<longleftrightarrow> scan_number fo t = Some (VFloat (Finite t), [])"

lemma digits_more:
  "ended r \<Longrightarrow> takeWhile is_digit (s @ r) = takeWhile is_digit s \<and> dropWhile is_digit (s @ r) = dropWhile is_digit s @ r"
  using ended_not_digit [of r] by (induction s) (cases r; simp)+

lemma scan_integer_more:
  "ended r \<Longrightarrow> scan_integer s = Some (a, s') \<Longrightarrow> scan_integer (s @ r) = Some (a, s' @ r)"
  using digits_more [of r s] by (cases s) (auto simp: scan_integer_def split: if_splits)

lemma scan_fraction_more:
  "ended r \<Longrightarrow> scan_fraction s = (a, s') \<Longrightarrow> scan_fraction (s @ r) = (a, s' @ r)"
  using digits_more [of r "tl s"]
  by (cases s) (auto simp: scan_fraction_def ended_def white_chars_def split: if_splits list.splits)

lemma scan_sign_more:
  "ended r \<Longrightarrow> scan_sign (s @ r) = (fst (scan_sign s), snd (scan_sign s) @ r)"
  by (cases s; cases r) (auto simp: scan_sign_def ended_def white_chars_def)

lemma scan_exponent_more:
  assumes "ended r" "scan_exponent s = (a, s')"
  shows "scan_exponent (s @ r) = (a, s' @ r)"
proof (cases s)
  case Nil
  with assms(2) have "a = []" "s' = []" by (simp_all add: scan_exponent_def)
  with Nil assms(1) show ?thesis by simp
next
  case (Cons c s1)
  then show ?thesis
    using assms(2) digits_more [OF assms(1), of "snd (scan_sign s1)"]
    by (auto simp: scan_exponent_def Let_def scan_sign_more [OF assms(1)] split: if_splits prod.splits)
qed

lemma scan_number_unsigned:
  assumes "ended r" "scan_integer s = Some (ip, s1)" "scan_fraction s1 = (fp, s2)" "scan_exponent s2 = (ep, s3)"
  shows "scan_integer (s @ r) = Some (ip, s1 @ r)" "scan_fraction (s1 @ r) = (fp, s2 @ r)"
    "scan_exponent (s2 @ r) = (ep, s3 @ r)"
  using scan_integer_more [OF assms(1,2)] scan_fraction_more [OF assms(1,3)] scan_exponent_more [OF assms(1,4)]
  by simp_all

lemma scan_number_more:
  assumes "ended r" "scan_number fo s = Some (v, s')"
  shows "scan_number fo (s @ r) = Some (v, s' @ r)"
proof -
  obtain neg s0 where n: "(case s of c # r \<Rightarrow> if c = CHR ''-'' then ([c], r) else ([], s) | [] \<Rightarrow> ([], s)) = (neg, s0)"
    by (rule prod.exhaust)
  from assms(2) n obtain ip s1 where ip: "scan_integer s0 = Some (ip, s1)"
    by (cases "scan_integer s0"; cases "the (scan_integer s0)") (simp_all add: scan_number_def)
  obtain fp s2 where fp: "scan_fraction s1 = (fp, s2)" by (rule prod.exhaust)
  obtain ep s3 where ep: "scan_exponent s2 = (ep, s3)" by (rule prod.exhaust)
  have "s \<noteq> []" using n ip by (auto simp: scan_integer_def)
  then have n': "(case s @ r of c # r' \<Rightarrow> if c = CHR ''-'' then ([c], r') else ([], s @ r) | [] \<Rightarrow> ([], s @ r)) = (neg, s0 @ r)"
    using n by (cases s) (simp_all split: if_splits)
  note more = scan_number_unsigned [OF assms(1) ip fp ep]
  from assms(2) show ?thesis
    unfolding scan_number_def n n' Let_def prod.case ip fp ep more option.case by (auto split: if_splits)
qed

end
