(* ===== verification/JsonGrammar.thy ===== *)
theory JsonGrammar
  imports JsonRead
begin

text \<open>
  JSON texts as a grammar, with white space wherever the scanner skips it and without repeated
  keys, and two facts about it: the
  scanner of \<open>JsonRead\<close> reads a text of the grammar as its value, and the writers, \<open>json.dumps\<close> with
  its separators and with an indentation, write texts of the grammar.  Reading back what was written
  follows for every style at once.
\<close>

section \<open>The grammar\<close>

inductive json_text :: "(string \<Rightarrow> pyfloat) \<Rightarrow> pyval \<Rightarrow> string \<Rightarrow> bool"
  and items_text :: "(string \<Rightarrow> pyfloat) \<Rightarrow> pyval list \<Rightarrow> string \<Rightarrow> bool"
  and members_text :: "(string \<Rightarrow> pyfloat) \<Rightarrow> pydict \<Rightarrow> string \<Rightarrow> bool" for fo where
  null: "json_text fo VNone ''null''"
| bool: "json_text fo (VBool b) (if b then ''true'' else ''false'')"
| int: "json_text fo (VInt i) (int_str i)"
| float: "float_reads fo t \<Longrightarrow> float_text t \<Longrightarrow> json_text fo (VFloat (Finite t)) t"
| str: "json_text fo (VStr s) (quote_utf8 s)"
| empty_list: "set w \<subseteq> white_chars \<Longrightarrow> json_text fo (VList []) (''['' @ w @ '']'')"
| list: "set w \<subseteq> white_chars \<Longrightarrow> items_text fo xs t \<Longrightarrow> json_text fo (VList xs) (''['' @ w @ t @ '']'')"
| empty_dict: "set w \<subseteq> white_chars \<Longrightarrow> json_text fo (VDict []) (''{'' @ w @ ''}'')"
| dict: "set w \<subseteq> white_chars \<Longrightarrow> members_text fo d t \<Longrightarrow> distinct (map fst d) \<Longrightarrow>
    json_text fo (VDict d) (''{'' @ w @ t @ ''}'')"
| item: "json_text fo x t \<Longrightarrow> set w \<subseteq> white_chars \<Longrightarrow> items_text fo [x] (t @ w)"
| items: "json_text fo x t \<Longrightarrow> set w \<subseteq> white_chars \<Longrightarrow> set w' \<subseteq> white_chars \<Longrightarrow> items_text fo xs u \<Longrightarrow>
    items_text fo (x # xs) (t @ w @ '','' @ w' @ u)"
| member: "json_text fo v t \<Longrightarrow> set a \<subseteq> white_chars \<Longrightarrow> set b \<subseteq> white_chars \<Longrightarrow> set w \<subseteq> white_chars \<Longrightarrow>
    members_text fo [(k, v)] (quote_utf8 k @ a @ '':'' @ b @ t @ w)"
| members: "json_text fo v t \<Longrightarrow> set a \<subseteq> white_chars \<Longrightarrow> set b \<subseteq> white_chars \<Longrightarrow> set w \<subseteq> white_chars \<Longrightarrow>
    set w' \<subseteq> white_chars \<Longrightarrow> members_text fo d u \<Longrightarrow>
    members_text fo ((k, v) # d) (quote_utf8 k @ a @ '':'' @ b @ t @ w @ '','' @ w' @ u)"

section \<open>The scanner reads the grammar\<close>

definition number_head :: "char \<Rightarrow> bool" where
  "number_head c \<longleftrightarrow> c = CHR ''-'' \<or> is_digit c"

lemma number_head_other:
  assumes "number_head c"
  shows "c \<notin> set [CHR 0x22, CHR ''{'', CHR ''['', CHR ''n'', CHR ''t'', CHR ''f'', CHR '' '', CHR 0x09, CHR 0x0A, CHR 0x0D]"
  using assms by (auto simp: number_head_def is_digit_iff digit_chars_eq)

lemma scan_number_head: "scan_number fo s = Some x \<Longrightarrow> s \<noteq> [] \<and> number_head (hd s)"
  by (cases s) (auto simp: scan_number_def scan_integer_def number_head_def is_digit_def split: if_splits)

lemma scan_value_number:
  assumes "scan_number fo s = Some x"
  shows "scan_value fo (Suc n) s = Some x"
proof -
  obtain c r where s: "s = c # r" "number_head c" using scan_number_head [OF assms] by (cases s) auto
  then show ?thesis
    using number_head_other [OF s(2)] assms by (auto simp: startswith_def)
qed

lemma distinct_merge_Nil: "distinct (map fst d) \<Longrightarrow> dict_merge [] d = d"
proof (induction d rule: rev_induct)
  case (snoc p d)
  then show ?case by (cases p) (auto simp: dict_merge_def AList.update_keys update_fresh map_of_None_keys)
qed simp

lemma skip_white_append [simp]: "set w \<subseteq> white_chars \<Longrightarrow> skip_white (w @ s) = skip_white s"
  by (induction w) (auto simp: white_chars_def)

lemma skip_white_id: "s \<noteq> [] \<Longrightarrow> hd s \<notin> white_chars \<Longrightarrow> skip_white s = s"
  by (cases s) (auto simp: white_chars_def)

lemma quote_hd: "quote_utf8 k @ x = CHR 0x22 # concat (map esc_char k) @ CHR 0x22 # x"
  by (simp add: quote_utf8_def)

text \<open>The first character of a text.\<close>

lemma json_text_hd:
  "json_text fo v t \<Longrightarrow> t \<noteq> [] \<and> hd t \<notin> white_chars \<union> set '',]}''"
  "items_text fo xs t \<Longrightarrow> t \<noteq> [] \<and> hd t \<notin> white_chars \<union> set '',]}''"
  "members_text fo d t \<Longrightarrow> t \<noteq> [] \<and> hd t = CHR 0x22"
proof (induction rule: json_text_items_text_members_text.inducts)
  case (int i)
  with int_str_hd [of i] int_str_ne [of i] show ?case by (auto simp: digit_chars_eq white_chars_def)
next
  case (float t)
  then have "t \<noteq> []" "number_head (hd t)" using scan_number_head by (auto simp: float_reads_def)
  then show ?case by (auto simp: number_head_def is_digit_iff digit_chars_eq white_chars_def)
qed (auto simp: white_chars_def quote_utf8_def)

lemma skip_text:
  "json_text fo v t \<Longrightarrow> skip_white (t @ r) = t @ r"
  "items_text fo xs t \<Longrightarrow> skip_white (t @ r) = t @ r"
  "members_text fo d t \<Longrightarrow> skip_white (t @ r) = t @ r"
  using json_text_hd(1) [of fo v t] json_text_hd(2) [of fo xs t] json_text_hd(3) [of fo d t]
  by (simp_all add: skip_white_id white_chars_def)

lemma scan_text:
  "json_text fo v t \<Longrightarrow> ended r \<Longrightarrow> 2 * length t \<le> n \<Longrightarrow> scan_value fo (Suc n) (t @ r) = Some (v, r)"
  "items_text fo xs t \<Longrightarrow> 2 * length t < n \<Longrightarrow> scan_items fo (Suc n) (t @ CHR '']'' # s) = Some (xs, s)"
  "members_text fo d t \<Longrightarrow> 2 * length t < n \<Longrightarrow> scan_members fo (Suc n) (t @ CHR ''}'' # s) = Some (d, s)"
proof (induction arbitrary: r n and s n and s n rule: json_text_items_text_members_text.inducts)
  case (int i)
  then show ?case by (simp add: scan_value_number scan_number_int del: scan_value.simps(2))
next
  case (float t)
  from scan_number_more [OF float(3)] float(1) have "scan_number fo (t @ r) = Some (VFloat (Finite t), r)"
    by (fastforce simp: float_reads_def)
  then show ?case by (simp add: scan_value_number del: scan_value.simps(2))
next
  case (list w xs t)
  then obtain m where n: "n = Suc m" by (cases n) auto
  have "skip_white (w @ t @ CHR '']'' # r) = t @ CHR '']'' # r" using list(1,2) by (simp add: skip_text(2))
  with list n json_text_hd(2) [OF list(2)] show ?case by auto
next
  case (dict w d t)
  then obtain m where n: "n = Suc m" by (cases n) auto
  have "skip_white (w @ t @ CHR ''}'' # r) = t @ CHR ''}'' # r" using dict(1,3) by (simp add: skip_text(3))
  with dict n json_text_hd(3) [OF dict(3)] distinct_merge_Nil show ?case by auto
next
  case (item x t w)
  then obtain m where n: "n = Suc m" by (cases n) auto
  have "scan_value fo n (t @ w @ CHR '']'' # s) = Some (x, w @ CHR '']'' # s)" using item n by (simp del: scan_value.simps(2))
  with item show ?case by (simp add: skip_white_id white_chars_def del: scan_value.simps(2))
next
  case (items x t w w' xs u)
  then obtain m where n: "n = Suc m" by (cases n) auto
  have "scan_value fo n (t @ w @ CHR '','' # w' @ u @ CHR '']'' # s) = Some (x, w @ CHR '','' # w' @ u @ CHR '']'' # s)"
    using items n by (simp del: scan_value.simps(2))
  with items n show ?case by (simp add: skip_text(2) skip_white_id white_chars_def del: scan_value.simps(2))
next
  case (member v t a b w k)
  then obtain m where n: "n = Suc m" by (cases n) auto
  have "scan_value fo n (t @ w @ CHR ''}'' # s) = Some (v, w @ CHR ''}'' # s)" using member n by (simp del: scan_value.simps(2))
  with member show ?case by (simp add: quote_hd scan_string_quote skip_text(1) skip_white_id white_chars_def del: scan_value.simps(2))
next
  case (members v t a b w w' d u k)
  then obtain m where n: "n = Suc m" by (cases n) auto
  have "scan_value fo n (t @ w @ CHR '','' # w' @ u @ CHR ''}'' # s) = Some (v, w @ CHR '','' # w' @ u @ CHR ''}'' # s)"
    using members n by (simp del: scan_value.simps(2))
  with members n show ?case by (simp add: quote_hd scan_string_quote skip_text(1,3) skip_white_id white_chars_def del: scan_value.simps(2))
qed (simp_all add: startswith_def quote_hd scan_string_quote skip_white_id white_chars_def)

text \<open>A text of the grammar, with white space around it, is read as its value.\<close>

lemma json_loads_text:
  assumes "json_text fo v t" "set w \<subseteq> white_chars" "set w' \<subseteq> white_chars"
  shows "json_loads fo (w @ t @ w') = Inr v"
proof -
  have "scan_value fo (json_fuel (w @ t @ w')) (t @ w') = Some (v, w')"
    using scan_text(1) [OF assms(1), of w' "Suc (2 * length (w @ t @ w'))"] ended_white [OF assms(3), of "[]"]
    by (simp add: json_fuel_def del: scan_value.simps)
  moreover have "skip_white w' = []" using skip_white_append [OF assms(3), of "[]"] by simp
  ultimately show ?thesis using assms(2) by (simp add: json_loads_def skip_text(1) [OF assms(1)])
qed

section \<open>The writers write the grammar\<close>

text \<open>The values that a reader restores, given how it reads the floats among them.\<close>

fun json_reads :: "(string \<Rightarrow> pyfloat) \<Rightarrow> pyval \<Rightarrow> bool" where
  "json_reads fo (VFloat (Finite t)) = float_reads fo t"
| "json_reads fo (VList xs) = list_all (json_reads fo) xs"
| "json_reads fo (VDict d) = list_all (\<lambda>p. json_reads fo (snd p)) d"
| "json_reads fo v = True"

text \<open>
  The styles that are read back: \<open>ensure_ascii=False\<close>, separators with or without a blank, and sorted
  keys or not.
\<close>

definition readable_style :: "json_style \<Rightarrow> bool" where
  "readable_style st \<longleftrightarrow> js_quote st = quote_utf8 \<and> js_item st \<in> {'','', '', ''} \<and> js_key st \<in> {'':'', '': ''}"

text \<open>JSON data as the style writes it: distinct keys, sorted ones if the style sorts.\<close>

fun json_plain :: "json_style \<Rightarrow> pyval \<Rightarrow> bool" where
  "json_plain st VNone = True"
| "json_plain st (VBool b) = True"
| "json_plain st (VInt i) = True"
| "json_plain st (VFloat (Finite t)) = float_text t"
| "json_plain st (VStr s) = True"
| "json_plain st (VList xs) = list_all (json_plain st) xs"
| "json_plain st (VDict d) =
     ((js_sort st \<longrightarrow> sorted (map fst d)) \<and> distinct (map fst d) \<and> list_all (\<lambda>p. json_plain st (snd p)) d)"
| "json_plain st _ = False"

lemma readable_compact [simp]: "readable_style compact"
  by (simp add: readable_style_def)

lemma json_normal_plain: "json_normal v \<Longrightarrow> json_plain compact v"
proof (induction v rule: json_normal.induct)
  case (4 t)
  then show ?case by simp
qed (auto simp: list_all_iff)

lemma readable_parts:
  assumes "readable_style st"
  obtains w b where "js_quote st = quote_utf8" "js_item st = '','' @ w" "js_key st = '':'' @ b"
    "set w \<subseteq> white_chars" "set b \<subseteq> white_chars"
  using assms by (auto simp: readable_style_def white_chars_def)

text \<open>Items and members between separators, with white space after the last.\<close>

lemma items_sep:
  assumes "list_all2 (json_text fo) xs ts" "xs \<noteq> []" "set w' \<subseteq> white_chars" "set w \<subseteq> white_chars"
  shows "items_text fo xs (sep_by ('','' @ w') ts @ w)"
  using assms
proof (induction rule: list_all2_induct)
  case (Cons x xs t ts)
  show ?case
  proof (cases "xs = []")
    case True
    with Cons show ?thesis by (simp add: item)
  next
    case False
    with Cons have "items_text fo xs (sep_by ('','' @ w') ts @ w)" "ts \<noteq> []" by auto
    with Cons items [of fo x t "[]" w'] show ?thesis by (simp add: sep_by_Cons)
  qed
qed simp

lemma members_sep:
  assumes "list_all2 (\<lambda>p u. \<exists>t. u = quote_utf8 (fst p) @ '':'' @ b @ t \<and> json_text fo (snd p) t) d us" "d \<noteq> []"
    and "set b \<subseteq> white_chars" "set w' \<subseteq> white_chars" "set w \<subseteq> white_chars"
  shows "members_text fo d (sep_by ('','' @ w') us @ w)"
  using assms
proof (induction rule: list_all2_induct)
  case (Cons p d u us)
  then obtain t where u: "u = quote_utf8 (fst p) @ '':'' @ b @ t" "json_text fo (snd p) t" by blast
  show ?case
  proof (cases "d = []")
    case True
    with Cons u member [of fo "snd p" t "[]" b w "fst p"] show ?thesis by simp
  next
    case False
    with Cons have "members_text fo d (sep_by ('','' @ w') us @ w)" "us \<noteq> []" by auto
    with Cons.prems u members [of fo "snd p" t "[]" b "[]" w' d _ "fst p"] show ?thesis by (simp add: sep_by_Cons)
  qed
qed simp

text \<open>Lists and dictionaries of written values.\<close>

lemma list_written:
  assumes "mapE f xs = Inr ts" "\<And>x u. x \<in> set xs \<Longrightarrow> f x = Inr u \<Longrightarrow> json_text fo x u"
    and "set v \<subseteq> white_chars" "set w' \<subseteq> white_chars" "set w \<subseteq> white_chars"
  shows "json_text fo (VList xs) (if xs = [] then ''[]'' else ''['' @ v @ sep_by ('','' @ w') ts @ w @ '']'')"
proof (cases "xs = []")
  case True
  with empty_list [of "[]"] show ?thesis by simp
next
  case False
  from assms(1) have "list_all2 (json_text fo) xs ts"
    unfolding mapE_Inr_iff by (rule list.rel_mono_strong) (rule assms(2))
  from list [OF assms(3) items_sep [OF this False assms(4,5)]] False show ?thesis by simp
qed

lemma dict_written:
  assumes "mapE (\<lambda>p. bindE (f (snd p)) (\<lambda>t. Inr (quote_utf8 (fst p) @ '':'' @ b @ t))) d = Inr us"
    and "\<And>k x u. (k, x) \<in> set d \<Longrightarrow> f x = Inr u \<Longrightarrow> json_text fo x u" "distinct (map fst d)"
    and "set b \<subseteq> white_chars" "set v \<subseteq> white_chars" "set w' \<subseteq> white_chars" "set w \<subseteq> white_chars"
  shows "json_text fo (VDict d) (if d = [] then ''{}'' else ''{'' @ v @ sep_by ('','' @ w') us @ w @ ''}'')"
proof (cases "d = []")
  case True
  with empty_dict [of "[]"] show ?thesis by simp
next
  case False
  have "\<exists>t. u = quote_utf8 (fst p) @ '':'' @ b @ t \<and> json_text fo (snd p) t"
    if "p \<in> set d" "bindE (f (snd p)) (\<lambda>t. Inr (quote_utf8 (fst p) @ '':'' @ b @ t)) = Inr u" for p u
    using that assms(2) [of "fst p" "snd p"] by (auto simp: res_simps)
  then have "list_all2 (\<lambda>p u. \<exists>t. u = quote_utf8 (fst p) @ '':'' @ b @ t \<and> json_text fo (snd p) t) d us"
    using assms(1) unfolding mapE_Inr_iff by (auto intro: list.rel_mono_strong)
  from dict [OF assms(5) members_sep [OF this False assms(4,6,7)] assms(3)] False show ?thesis by simp
qed

lemma dumps_text:
  "json_plain st v \<Longrightarrow> json_reads fo v \<Longrightarrow> dumps st v = Inr t \<Longrightarrow> readable_style st \<Longrightarrow> json_text fo v t"
proof (induction v arbitrary: t)
  case (VFloat f)
  then show ?case by (cases f) (auto intro: json_text_items_text_members_text.float)
next
  case (VStr s)
  then show ?case using json_text_items_text_members_text.str [of fo s] by (auto simp: readable_style_def)
next
  case (VList xs)
  obtain w where w: "js_item st = '','' @ w" "set w \<subseteq> white_chars" by (rule readable_parts [OF VList.prems(4)])
  from VList.prems(3) obtain ts where ts: "mapE (dumps st) xs = Inr ts" "t = ''['' @ sep_by (js_item st) ts @ '']''"
    by (auto simp: res_simps)
  have "json_text fo x u" if "x \<in> set xs" "dumps st x = Inr u" for x u
    using VList.IH [OF that(1)] VList.prems(1,2,4) that by (simp add: list_all_iff)
  from list_written [OF ts(1) this, of "[]" w "[]"] w ts show ?case by (cases "xs = []") simp_all
next
  case (VDict d)
  obtain w b where w: "js_item st = '','' @ w" "js_key st = '':'' @ b" "set w \<subseteq> white_chars" "set b \<subseteq> white_chars"
    "js_quote st = quote_utf8" by (rule readable_parts [OF VDict.prems(4)])
  have srt: "(if js_sort st then sort_key fst d else d) = d" using VDict.prems(1) by (auto intro: sort_key_id_if_sorted)
  from VDict.prems(3) obtain us where
    us: "mapE (\<lambda>p. bindE (dumps st (snd p)) (\<lambda>t. Inr (quote_utf8 (fst p) @ '':'' @ b @ t))) d = Inr us"
      "t = ''{'' @ sep_by (js_item st) us @ ''}''"
    unfolding dumps.simps srt w by (auto simp: res_simps)
  have "json_text fo x u" if "(k, x) \<in> set d" "dumps st x = Inr u" for k x u
    using VDict.IH [OF that(1)] VDict.prems(1,2,4) that by (fastforce simp: list_all_iff)
  from dict_written [OF us(1) this, where v = "[]" and w' = w and w = "[]"] VDict.prems(1) w us show ?case
    by (cases "d = []") simp_all
next
  case (VBool b)
  then show ?case using json_text_items_text_members_text.bool [of fo b] by simp
qed (auto intro: json_text_items_text_members_text.intros)

text \<open>What a readable style writes is read back.\<close>

lemma json_loads_written:
  assumes "dumps st v = Inr t" "json_plain st v" "json_reads fo v" "readable_style st"
  shows "json_loads fo t = Inr v"
  using json_loads_text [OF dumps_text [OF assms(2,3,1,4)], of "[]" "[]"] by simp

text \<open>The canonical bytes of a value read back as its canonical form.\<close>

lemma json_loads_canonical:
  assumes "canonical_bytes rt v = Inr b" "canonicalize rt v = Inr u" "wf_pyval v" "json_reads fo u"
  shows "json_loads fo b = Inr u"
proof -
  have "json_normal u" "dumps compact u = Inr b"
    using assms canonicalize_normal [OF assms(2,3)] by (auto simp: canonical_bytes_def)
  then show ?thesis using assms(4) by (intro json_loads_written [of compact]) (simp_all add: json_normal_plain)
qed

section \<open>Properties\<close>

text \<open>
  C20.  The type of a canonical document.  Every value built of JSON data, finite floats and decimals and
  timezone-aware times canonicalises; the result is plain JSON data with sorted, distinct keys; it has
  canonical bytes; and these parse back to exactly that result when the reader restores the floats
  that occur in it.
\<close>

theorem canonical_document_type:
  assumes "canonicalizable v" "wf_pyval v"
  shows "\<exists>u b. canonicalize rt v = Inr u \<and> json_normal u \<and> canonical_bytes rt v = Inr b \<and>
    (json_reads fo u \<longrightarrow> json_loads fo b = Inr u)"
proof -
  obtain b where b: "canonical_bytes rt v = Inr b" using canonical_bytes_total [OF assms(1)] by blast
  then obtain u where u: "canonicalize rt v = Inr u" by (auto simp: canonical_bytes_def res_simps)
  from canonicalize_normal [OF u assms(2)] json_loads_canonical [OF b u assms(2)] b u show ?thesis by blast
qed

theorem canonical_document_type_witness:
  "\<exists>b. canonical_bytes plain_runtime (VDict [(''b'', VTuple [VInt (- 12), VNone]), (''a'', VStr ''x'')]) = Inr b \<and>
     json_loads (\<lambda>_. NaN) b = Inr (VDict [(''a'', VStr ''x''), (''b'', VList [VInt (- 12), VNone])])"
proof -
  let ?v = "VDict [(''b'', VTuple [VInt (- 12), VNone]), (''a'', VStr ''x'')]"
  let ?u = "VDict [(''a'', VStr ''x''), (''b'', VList [VInt (- 12), VNone])]"
  have c: "canonicalizable ?v" "wf_pyval ?v" by simp_all
  have u: "canonicalize plain_runtime ?v = Inr ?u" by (simp add: plain_runtime_def)
  have r: "json_reads (\<lambda>_. NaN) ?u" by simp
  from canonical_document_type [OF c, of plain_runtime "\<lambda>_. NaN"] u r show ?thesis by auto
qed

end
