(* ===== verification/SbpCodec.thy ===== *)
theory SbpCodec
  imports SbpRoot JsonGrammar
begin

text \<open>
  \<open>src/sbp/codec.py\<close>: the closed-schema codec for root and branch metadata.  The lemmas show that
  decoding inverts encoding in both directions and that a branch record survives the wire: its
  canonical bytes parse back to a document that decodes to it.
\<close>

section \<open>Validation\<close>

definition CodecError :: pyexc where
  "CodecError = AppError ''CodecError'' []"

definition root_required :: "string list" where
  "root_required = [''version'', ''root_id'', ''signing_public_key'', ''enc_public_key'', ''created_at'',
     ''algorithm_suite'', ''policy_hash'']"

definition branch_required :: "string list" where
  "branch_required = [''version'', ''branch_id'', ''root_id'', ''parent_branch_id'', ''owner_id'',
     ''capabilities'', ''policy_hash'', ''created_at'', ''label'']"

definition check_exact_keys :: "pydict \<Rightarrow> string list \<Rightarrow> unit res" where
  "check_exact_keys doc required =
     (let present = map fst doc in
      bindE (guardE (list_all (\<lambda>k. k \<in> set present) required) CodecError) (\<lambda>_.
        guardE (list_all (\<lambda>k. k \<in> set required) present) CodecError))"

definition require_nonempty_str :: "pydict \<Rightarrow> string \<Rightarrow> unit res" where
  "require_nonempty_str doc key =
     (case map_of doc key of Some (VStr s) \<Rightarrow> guardE (s \<noteq> []) CodecError | _ \<Rightarrow> Inl CodecError)"

definition require_positive_int :: "pydict \<Rightarrow> string \<Rightarrow> unit res" where
  "require_positive_int doc key =
     (case map_of doc key of Some (VInt i) \<Rightarrow> guardE (1 \<le> i) CodecError | _ \<Rightarrow> Inl CodecError)"

definition validate_root_doc :: "pydict \<Rightarrow> unit res" where
  "validate_root_doc doc =
     bindE (check_exact_keys doc root_required) (\<lambda>_.
     bindE (require_nonempty_str doc ''root_id'') (\<lambda>_.
     bindE (require_nonempty_str doc ''signing_public_key'') (\<lambda>_.
     bindE (require_nonempty_str doc ''enc_public_key'') (\<lambda>_.
     bindE (require_nonempty_str doc ''policy_hash'') (\<lambda>_.
     bindE (require_positive_int doc ''created_at'') (\<lambda>_.
     bindE (require_positive_int doc ''version'') (\<lambda>_.
       case map_of doc ''algorithm_suite'' of
         Some (VDict suite) \<Rightarrow>
           guardE (''signing'' \<in> set (map fst suite) \<and> ''hash'' \<in> set (map fst suite)) CodecError
       | _ \<Rightarrow> Inl CodecError)))))))"

definition validate_branch_doc :: "pydict \<Rightarrow> unit res" where
  "validate_branch_doc doc =
     bindE (check_exact_keys doc branch_required) (\<lambda>_.
     bindE (require_nonempty_str doc ''branch_id'') (\<lambda>_.
     bindE (require_nonempty_str doc ''root_id'') (\<lambda>_.
     bindE (require_nonempty_str doc ''owner_id'') (\<lambda>_.
     bindE (require_nonempty_str doc ''policy_hash'') (\<lambda>_.
     bindE (require_nonempty_str doc ''label'') (\<lambda>_.
     bindE (require_positive_int doc ''created_at'') (\<lambda>_.
     bindE (require_positive_int doc ''version'') (\<lambda>_.
     bindE (case map_of doc ''capabilities'' of Some (VList _) \<Rightarrow> Inr () | _ \<Rightarrow> Inl CodecError) (\<lambda>_.
       case map_of doc ''parent_branch_id'' of
         None \<Rightarrow> Inr () | Some VNone \<Rightarrow> Inr () | Some (VStr _) \<Rightarrow> Inr () | _ \<Rightarrow> Inl CodecError)))))))))"

section \<open>Encoding and decoding\<close>

definition encode_root :: "root_metadata \<Rightarrow> pydict res" where
  "encode_root m = (let doc = root_to_dict m in bindE (validate_root_doc doc) (\<lambda>_. Inr doc))"

definition encode_root_bytes :: "runtime \<Rightarrow> root_metadata \<Rightarrow> string res" where
  "encode_root_bytes rt m = bindE (encode_root m) (\<lambda>doc. canonical_bytes rt (VDict doc))"

text \<open>The conversions meet fields of the validated types only; the last case is the \<open>except\<close> clause.\<close>

definition decode_root :: "pydict \<Rightarrow> root_metadata res" where
  "decode_root doc =
     bindE (validate_root_doc doc) (\<lambda>_.
       case (map_of doc ''version'', map_of doc ''root_id'', map_of doc ''signing_public_key'',
             map_of doc ''enc_public_key'', map_of doc ''created_at'', map_of doc ''algorithm_suite'',
             map_of doc ''policy_hash'') of
         (Some (VInt v), Some (VStr r), Some (VStr sk), Some (VStr ek), Some (VInt c), Some (VDict suite),
          Some (VStr ph)) \<Rightarrow>
           Inr \<lparr>rm_id = r, rm_signing_key = sk, rm_enc_key = ek, rm_created = c, rm_suite = suite,
                rm_policy_hash = ph, rm_version = v\<rparr>
       | _ \<Rightarrow> Inl CodecError)"

definition encode_branch :: "branch_metadata \<Rightarrow> pydict res" where
  "encode_branch m = (let doc = branch_to_dict m in bindE (validate_branch_doc doc) (\<lambda>_. Inr doc))"

definition encode_branch_bytes :: "runtime \<Rightarrow> branch_metadata \<Rightarrow> string res" where
  "encode_branch_bytes rt m = bindE (encode_branch m) (\<lambda>doc. canonical_bytes rt (VDict doc))"

definition decode_branch :: "runtime \<Rightarrow> pydict \<Rightarrow> branch_metadata res" where
  "decode_branch rt doc =
     bindE (validate_branch_doc doc) (\<lambda>_.
       case (map_of doc ''version'', map_of doc ''branch_id'', map_of doc ''root_id'',
             map_of doc ''parent_branch_id'', map_of doc ''owner_id'', map_of doc ''capabilities'',
             map_of doc ''policy_hash'', map_of doc ''created_at'', map_of doc ''label'') of
         (Some (VInt v), Some (VStr b), Some (VStr r), Some parent, Some (VStr ow), Some (VList caps),
          Some (VStr ph), Some (VInt c), Some (VStr l)) \<Rightarrow>
           Inr \<lparr>bm_id = b, bm_root = r, bm_parent = (case parent of VStr p \<Rightarrow> Some p | _ \<Rightarrow> None), bm_owner = ow,
                bm_capabilities = sort (map (py_str rt) caps), bm_policy_hash = ph, bm_created = c,
                bm_label = l, bm_version = v\<rparr>
       | _ \<Rightarrow> Inl CodecError)"

section \<open>What validated documents are\<close>

lemma check_exact_keys_Inr [res_simps]:
  "check_exact_keys doc required = Inr u \<longleftrightarrow> set (map fst doc) = set required"
  by (auto simp: check_exact_keys_def res_simps list_all_iff Let_def)

lemma require_nonempty_str_Inr [res_simps]:
  "require_nonempty_str doc key = Inr u \<longleftrightarrow> (\<exists>s. map_of doc key = Some (VStr s) \<and> s \<noteq> [])"
  by (auto simp: require_nonempty_str_def split: option.splits pyval.splits)

lemma require_positive_int_Inr [res_simps]:
  "require_positive_int doc key = Inr u \<longleftrightarrow> (\<exists>i. map_of doc key = Some (VInt i) \<and> 1 \<le> i)"
  by (auto simp: require_positive_int_def split: option.splits pyval.splits)

text \<open>Validation and decoding see a document through its lookups only.\<close>

lemma map_of_keys: "map_of d = map_of e \<Longrightarrow> set (map fst d) = set (map fst e)"
  by (metis dom_map_of_conv_image_fst image_set)

lemma check_exact_keys_cong: "map_of d = map_of e \<Longrightarrow> check_exact_keys d ks = check_exact_keys e ks"
  using map_of_keys [of d e] by (auto simp: check_exact_keys_def list_all_iff Let_def)

lemma decode_branch_cong: "map_of d = map_of e \<Longrightarrow> decode_branch rt d = decode_branch rt e"
  using check_exact_keys_cong [of d e branch_required]
  by (simp add: decode_branch_def validate_branch_doc_def require_nonempty_str_def require_positive_int_def)

lemma py_str_strs [simp]: "map (py_str rt \<circ> VStr) xs = xs"
  by (induction xs) simp_all

lemma decode_encode_root: "encode_root m = Inr d \<Longrightarrow> decode_root d = Inr m"
  by (auto simp: encode_root_def decode_root_def res_simps Let_def) (simp add: root_to_dict_def)

lemma decode_encode_branch:
  "encode_branch m = Inr d \<Longrightarrow> sorted (bm_capabilities m) \<Longrightarrow> decode_branch rt d = Inr m"
  by (cases m; cases "bm_parent m")
     (auto simp: encode_branch_def decode_branch_def res_simps Let_def,
      auto simp: branch_to_dict_def str_list_def opt_str_def sort_key_id_if_sorted)

text \<open>A document whose keys are the keys of another and that agrees with it there is the same dictionary.\<close>

lemma same_dict:
  assumes "set (map fst d) = set (map fst e)" "\<forall>k \<in> set (map fst e). map_of d k = map_of e k"
  shows "map_of d = map_of e"
proof
  fix k
  show "map_of d k = map_of e k"
  proof (cases "k \<in> set (map fst e)")
    case False
    with assms(1) have "map_of d k = None" "map_of e k = None" by (simp_all add: map_of_None_keys)
    then show ?thesis by simp
  qed (use assms(2) in blast)
qed

lemma validate_root_cong: "map_of d = map_of e \<Longrightarrow> validate_root_doc d = validate_root_doc e"
  using check_exact_keys_cong [of d e root_required]
  by (simp add: validate_root_doc_def require_nonempty_str_def require_positive_int_def)

lemma validate_branch_cong: "map_of d = map_of e \<Longrightarrow> validate_branch_doc d = validate_branch_doc e"
  using check_exact_keys_cong [of d e branch_required]
  by (simp add: validate_branch_doc_def require_nonempty_str_def require_positive_int_def)

lemma decode_root_same:
  assumes "decode_root doc = Inr m"
  shows "map_of (root_to_dict m) = map_of doc" "encode_root m = Inr (root_to_dict m)"
proof -
  from assms have v: "validate_root_doc doc = Inr ()" by (auto simp: decode_root_def res_simps)
  then have "set (map fst doc) = set root_required" by (auto simp: validate_root_doc_def res_simps)
  then have k: "set (map fst (root_to_dict m)) = set (map fst doc)"
    by (auto simp: root_required_def root_to_dict_def)
  show same: "map_of (root_to_dict m) = map_of doc"
  proof (rule same_dict [OF k])
    show "\<forall>k \<in> set (map fst doc). map_of (root_to_dict m) k = map_of doc k"
      unfolding k [symmetric] using assms
      by (auto simp: decode_root_def root_to_dict_def res_simps split: option.splits pyval.splits)
  qed
  show "encode_root m = Inr (root_to_dict m)"
    using v validate_root_cong [OF same] by (simp add: encode_root_def)
qed

lemma decode_branch_same:
  assumes "decode_branch rt doc = Inr m" "map_of doc ''capabilities'' = Some (str_list (bm_capabilities m))"
  shows "map_of (branch_to_dict m) = map_of doc" "encode_branch m = Inr (branch_to_dict m)"
proof -
  from assms have v: "validate_branch_doc doc = Inr ()" by (auto simp: decode_branch_def res_simps)
  then have "set (map fst doc) = set branch_required" by (auto simp: validate_branch_doc_def res_simps)
  then have k: "set (map fst (branch_to_dict m)) = set (map fst doc)"
    by (auto simp: branch_required_def branch_to_dict_def)
  have p: "map_of doc ''parent_branch_id'' = Some (opt_str (bm_parent m))"
    using assms(1) v by (auto simp: decode_branch_def validate_branch_doc_def res_simps opt_str_def
        split: option.splits pyval.splits)
  show same: "map_of (branch_to_dict m) = map_of doc"
  proof (rule same_dict [OF k])
    show "\<forall>k \<in> set (map fst doc). map_of (branch_to_dict m) k = map_of doc k"
      unfolding k [symmetric] using assms p
      by (auto simp: decode_branch_def branch_to_dict_def res_simps split: option.splits pyval.splits)
  qed
  show "encode_branch m = Inr (branch_to_dict m)"
    using v validate_branch_cong [OF same] by (simp add: encode_branch_def)
qed

section \<open>Over the wire\<close>

text \<open>A dictionary of values that are their own canonical form is its own canonical form, up to order.\<close>

lemma canonicalize_stable_dict:
  assumes "distinct (map fst d)" "\<forall>v \<in> snd ` set d. canonicalize rt v = Inr v"
  shows "canonicalize rt (VDict d) = Inr (VDict (sort_key fst d))" "map_of (sort_key fst d) = map_of d"
proof -
  have "mapE (\<lambda>p. bindE (canonicalize rt (snd p)) (\<lambda>v. Inr (fst p, v))) e = Inr e" if "set e \<subseteq> set d" for e
    using that assms(2) by (induction e) (auto simp del: canonicalize.simps)
  from this [of "sort_key fst d"] show "canonicalize rt (VDict d) = Inr (VDict (sort_key fst d))" by simp
  have "distinct (map fst (sort_key fst d))" using assms(1) by (simp add: distinct_keys_sort)
  then show "map_of (sort_key fst d) = map_of d"
    using assms(1) by (intro map_of_inject_set [THEN iffD2]) simp_all
qed

definition branch_texts :: "branch_metadata \<Rightarrow> string set" where
  "branch_texts m = {bm_id m, bm_root m, bm_owner m, bm_policy_hash m, bm_label m} \<union>
     set_option (bm_parent m) \<union> set (bm_capabilities m)"

lemma branch_to_dict_stable:
  assumes "\<forall>s \<in> branch_texts m. rt_nfc rt s = s"
  shows "\<forall>v \<in> snd ` set (branch_to_dict m). canonicalize rt v = Inr v" "distinct (map fst (branch_to_dict m))"
proof -
  have "map (rt_nfc rt) (bm_capabilities m) = bm_capabilities m"
    using assms by (intro map_idI) (simp add: branch_texts_def)
  moreover have "map_option (rt_nfc rt) (bm_parent m) = bm_parent m"
    using assms by (cases "bm_parent m") (simp_all add: branch_texts_def)
  ultimately show "\<forall>v \<in> snd ` set (branch_to_dict m). canonicalize rt v = Inr v"
    using assms by (simp add: branch_to_dict_def branch_texts_def)
  show "distinct (map fst (branch_to_dict m))" by (simp add: branch_to_dict_def)
qed

section \<open>Properties\<close>

text \<open>
  The codec inverts itself: what \<open>encode_root\<close> and \<open>encode_branch\<close> return decodes to the
  record that was encoded (a branch's capabilities being sorted, as every \<open>Branch\<close> has them), and
  every document that \<open>decode_root\<close> accepts is, as a dictionary, the encoding of what it returns;
  so is every document that \<open>decode_branch\<close> accepts whose capabilities are sorted texts.
\<close>

theorem codec_inverts:
  "(encode_root m = Inr d \<longrightarrow> decode_root d = Inr m) \<and>
   (decode_root doc = Inr m \<longrightarrow> encode_root m = Inr (root_to_dict m) \<and> map_of (root_to_dict m) = map_of doc) \<and>
   (encode_branch n = Inr d \<and> sorted (bm_capabilities n) \<longrightarrow> decode_branch rt d = Inr n) \<and>
   (decode_branch rt doc = Inr n \<and> map_of doc ''capabilities'' = Some (str_list (bm_capabilities n)) \<longrightarrow>
      encode_branch n = Inr (branch_to_dict n) \<and> map_of (branch_to_dict n) = map_of doc)"
  using decode_encode_root decode_root_same decode_encode_branch decode_branch_same by blast

text \<open>A root and a branch record.\<close>

definition demo_root_metadata :: root_metadata where
  "demo_root_metadata =
     \<lparr>rm_id = ''r'', rm_signing_key = ''s'', rm_enc_key = ''e'', rm_created = 1,
      rm_suite = [(''signing'', VStr ''Ed25519''), (''hash'', VStr ''SHA3-512'')], rm_policy_hash = ''h'', rm_version = 1\<rparr>"

definition demo_branch_metadata :: branch_metadata where
  "demo_branch_metadata =
     \<lparr>bm_id = ''b'', bm_root = ''r'', bm_parent = None, bm_owner = ''r'', bm_capabilities = [''READ'', ''WRITE''],
      bm_policy_hash = ''h'', bm_created = 1, bm_label = ''l'', bm_version = 1\<rparr>"

lemma demo_root_encodes: "encode_root demo_root_metadata = Inr (root_to_dict demo_root_metadata)"
  by (simp add: encode_root_def validate_root_doc_def root_to_dict_def demo_root_metadata_def check_exact_keys_def
      root_required_def require_nonempty_str_def require_positive_int_def guardE_def)

lemma demo_branch_encodes: "encode_branch demo_branch_metadata = Inr (branch_to_dict demo_branch_metadata)"
  by (simp add: encode_branch_def validate_branch_doc_def branch_to_dict_def demo_branch_metadata_def check_exact_keys_def
      branch_required_def require_nonempty_str_def require_positive_int_def guardE_def str_list_def opt_str_def)

theorem codec_inverts_witness:
  "decode_root (root_to_dict demo_root_metadata) = Inr demo_root_metadata \<and>
   decode_branch plain_runtime (branch_to_dict demo_branch_metadata) = Inr demo_branch_metadata"
proof -
  let ?r = "root_to_dict demo_root_metadata" and ?b = "branch_to_dict demo_branch_metadata"
  have c: "sorted (bm_capabilities demo_branch_metadata)" by (simp add: demo_branch_metadata_def)
  have "decode_root ?r = Inr demo_root_metadata"
    using codec_inverts [of demo_root_metadata ?r ?r demo_branch_metadata plain_runtime] demo_root_encodes by blast
  moreover have "decode_branch plain_runtime ?b = Inr demo_branch_metadata"
    using codec_inverts [of demo_root_metadata ?b ?b demo_branch_metadata plain_runtime] demo_branch_encodes c by blast
  ultimately show ?thesis by blast
qed

text \<open>
  C29.  A branch record survives the wire: the bytes that \<open>encode_branch_bytes\<close> writes parse as JSON
  to a document that decodes to the record, when its texts are in Unicode normal form.
\<close>

theorem branch_survives_wire:
  assumes "encode_branch_bytes rt m = Inr b" "sorted (bm_capabilities m)" "\<forall>s \<in> branch_texts m. rt_nfc rt s = s"
  shows "\<exists>doc. json_loads fo b = Inr (VDict doc) \<and> decode_branch rt doc = Inr m"
proof -
  let ?d = "branch_to_dict m"
  from assms(1) have e: "encode_branch m = Inr ?d" "canonical_bytes rt (VDict ?d) = Inr b"
    by (auto simp: encode_branch_bytes_def encode_branch_def res_simps Let_def)
  note st = canonicalize_stable_dict [OF branch_to_dict_stable(2,1) [OF assms(3)]]
  have "wf_pyval (VDict ?d)" by (simp add: branch_to_dict_def)
  moreover have "json_reads fo (VDict (sort_key fst ?d))"
    by (simp add: list_all_iff branch_to_dict_def opt_str_def str_list_def split: option.splits)
  ultimately have "json_loads fo b = Inr (VDict (sort_key fst ?d))"
    by (rule json_loads_canonical [OF e(2) st(1)])
  moreover have "decode_branch rt (sort_key fst ?d) = Inr m"
    using decode_branch_cong [OF st(2)] decode_encode_branch [OF e(1) assms(2)] by simp
  ultimately show ?thesis by blast
qed

theorem branch_survives_wire_witness:
  "\<exists>b doc. encode_branch_bytes plain_runtime demo_branch_metadata = Inr b \<and> json_loads Finite b = Inr (VDict doc) \<and>
     decode_branch plain_runtime doc = Inr demo_branch_metadata"
proof -
  have "canonicalizable (VDict (branch_to_dict demo_branch_metadata))"
    by (simp add: branch_to_dict_def)
  then obtain b where b: "encode_branch_bytes plain_runtime demo_branch_metadata = Inr b"
    using canonical_bytes_total demo_branch_encodes by (fastforce simp: encode_branch_bytes_def)
  have c: "sorted (bm_capabilities demo_branch_metadata)"
    by (simp add: demo_branch_metadata_def)
  have "\<forall>s \<in> branch_texts demo_branch_metadata. rt_nfc plain_runtime s = s" by (simp add: plain_runtime_def)
  from branch_survives_wire [OF b c this] b show ?thesis by blast
qed

end
