(* ===== verification/SbpAudit.thy ===== *)
theory SbpAudit
  imports SbpRoot
begin

text \<open>
  \<open>src/sbp/audit.py\<close>: the signed, hash-chained audit chain of one branch.  It is the third log of
  the repository that implements the \<open>hash_chain\<close> contract: the interpretation gives that the head
  hash of a verified chain commits to its entries.  The lemmas show that every history of appends
  verifies and that appending is an event of an abstract log (a list of records with fixed past).
\<close>

section \<open>Entries\<close>

record audit_entry =
  ae_sequence :: int
  ae_id :: string
  ae_timestamp :: string
  ae_branch :: string
  ae_actor :: string
  ae_action :: string
  ae_object :: "string option"
  ae_metadata_hash :: "string option"
  ae_prev :: string
  ae_signature :: string
  ae_hash :: string

definition audit_signing_document :: "audit_entry \<Rightarrow> pydict" where
  "audit_signing_document e =
     [(''sequence'', VInt (ae_sequence e)),
      (''entry_id'', VStr (ae_id e)),
      (''timestamp'', VStr (ae_timestamp e)),
      (''branch_id'', VStr (ae_branch e)),
      (''actor_id'', VStr (ae_actor e)),
      (''action'', VStr (ae_action e)),
      (''object_id'', opt_str (ae_object e)),
      (''metadata_hash'', opt_str (ae_metadata_hash e)),
      (''previous_hash'', VStr (ae_prev e))]"

definition audit_entry_to_dict :: "audit_entry \<Rightarrow> pydict" where
  "audit_entry_to_dict e =
     dict_merge (audit_signing_document e) [(''signature'', VStr (ae_signature e)), (''entry_hash'', VStr (ae_hash e))]"

definition sbp_hash_entry :: "runtime \<Rightarrow> pydict \<Rightarrow> string \<Rightarrow> string res" where
  "sbp_hash_entry rt signing_doc signature =
     bindE (canonical_bytes rt (VDict (dict_merge signing_doc [(''signature'', VStr signature)])))
       (\<lambda>b. Inr (hexdigest rt b))"

section \<open>The chain\<close>

record audit_chain =
  ac_branch :: string
  ac_root :: root_authority
  ac_entries :: "audit_entry list"

definition audit_chain_init :: "string \<Rightarrow> root_authority \<Rightarrow> audit_chain res" where
  "audit_chain_init branch_id root =
     (if branch_id = [] then Inl (ValueError ''AuditChain requires a non-empty branch_id'')
      else Inr \<lparr>ac_branch = branch_id, ac_root = root, ac_entries = []\<rparr>)"

text \<open>
  \<open>append\<close>: the clock reading \<open>now\<close> and the fresh \<open>uuid\<close> are used when no timestamp or id is given;
  an explicit id is a string here, so the type check on it cannot fail.
\<close>

definition audit_append :: "runtime \<Rightarrow> string \<Rightarrow> string \<Rightarrow> string \<Rightarrow> string \<Rightarrow> string option \<Rightarrow> pydict option \<Rightarrow>
    string option \<Rightarrow> string option \<Rightarrow> audit_chain \<Rightarrow> audit_entry res \<times> audit_chain" where
  "audit_append rt now uuid actor action object_id metadata timestamp entry_id C =
     (let r =
       (if action = [] then Inl (ValueError ''AuditChain.append requires a non-empty action'')
        else let previous_hash = (if ac_entries C = [] then genesis_hash else ae_hash (last (ac_entries C)));
                 ts = ostr_or timestamp now
             in bindE (case metadata of
                         None \<Rightarrow> Inr None
                       | Some d \<Rightarrow> bindE (canonical_bytes rt (VDict d)) (\<lambda>b. Inr (Some (hexdigest rt b)))) (\<lambda>mh.
                let entry = \<lparr>ae_sequence = int (length (ac_entries C)),
                       ae_id = (case entry_id of Some i \<Rightarrow> i | None \<Rightarrow> uuid), ae_timestamp = ts,
                       ae_branch = ac_branch C, ae_actor = actor, ae_action = action, ae_object = object_id,
                       ae_metadata_hash = mh, ae_prev = previous_hash, ae_signature = [], ae_hash = []\<rparr>;
                    signing_doc = audit_signing_document entry
                in bindE (canonical_bytes rt (VDict signing_doc)) (\<lambda>b.
                   bindE (authority_sign (ac_root C) b) (\<lambda>signature.
                   bindE (sbp_hash_entry rt signing_doc signature) (\<lambda>h.
                     Inr (entry\<lparr>ae_signature := signature, ae_hash := h\<rparr>))))))
      in case r of
           Inl ex \<Rightarrow> (Inl ex, C)
         | Inr e \<Rightarrow> (Inr e, C\<lparr>ac_entries := ac_entries C @ [e]\<rparr>))"

fun audit_verify_from :: "runtime \<Rightarrow> string \<Rightarrow> root_authority \<Rightarrow> nat \<Rightarrow> string \<Rightarrow> audit_entry list \<Rightarrow> bool res" where
  "audit_verify_from rt branch root sequence expected [] = Inr True"
| "audit_verify_from rt branch root sequence expected (e # es) =
     (let doc = audit_signing_document e in
      if ae_sequence e \<noteq> int sequence \<or> ae_branch e \<noteq> branch \<or> ae_prev e \<noteq> expected then Inr False
      else bindE (canonical_bytes rt (VDict doc)) (\<lambda>b.
        if \<not> authority_verify root b (ae_signature e) then Inr False
        else bindE (sbp_hash_entry rt doc (ae_signature e)) (\<lambda>h.
          if ae_hash e \<noteq> h then Inr False
          else audit_verify_from rt branch root (Suc sequence) (ae_hash e) es)))"

definition audit_verify_integrity :: "runtime \<Rightarrow> audit_chain \<Rightarrow> bool res" where
  "audit_verify_integrity rt C = audit_verify_from rt (ac_branch C) (ac_root C) 0 genesis_hash (ac_entries C)"

definition audit_export_bundle :: "audit_chain \<Rightarrow> pydict" where
  "audit_export_bundle C =
     [(''format'', VStr ''SBP-AUDIT-BUNDLE-0.1''),
      (''branch_id'', VStr (ac_branch C)),
      (''root_id'', VStr (rm_id (ra_metadata (ac_root C)))),
      (''entry_count'', VInt (int (length (ac_entries C)))),
      (''entries'', VList (map (\<lambda>e. VDict (audit_entry_to_dict e)) (ac_entries C)))]"

section \<open>The chain as a hash chain\<close>

definition audit_ok :: "runtime \<Rightarrow> string \<Rightarrow> root_authority \<Rightarrow> nat \<Rightarrow> audit_entry \<Rightarrow> bool" where
  "audit_ok rt br r n e \<longleftrightarrow> ae_sequence e = int n \<and> ae_branch e = br \<and>
     (\<exists>b. canonical_bytes rt (VDict (audit_signing_document e)) = Inr b \<and> authority_verify r b (ae_signature e)) \<and>
     sbp_hash_entry rt (audit_signing_document e) (ae_signature e) = Inr (ae_hash e)"

definition audit_record :: "audit_entry \<Rightarrow> pydict" where
  "audit_record e = dict_merge (audit_signing_document e) [(''signature'', VStr (ae_signature e))]"

definition audit_bytes :: "runtime \<Rightarrow> audit_entry \<Rightarrow> string" where
  "audit_bytes rt e = (case canonical_bytes rt (VDict (audit_record e)) of Inr b \<Rightarrow> b | Inl ex \<Rightarrow> [])"

definition audit_canon :: "runtime \<Rightarrow> audit_entry \<Rightarrow> pyval res" where
  "audit_canon rt e = canonicalize rt (VDict (audit_record e))"

lemma audit_record_eq: "audit_record e = audit_signing_document e @ [(''signature'', VStr (ae_signature e))]"
  by (simp add: audit_record_def audit_signing_document_def)

lemma audit_record_wf: "wf_pyval (VDict (audit_record e))"
  by (simp add: audit_record_eq audit_signing_document_def)

lemma audit_record_prev: "map_of (audit_record e) ''previous_hash'' = Some (VStr (ae_prev e))"
  by (simp add: audit_record_eq audit_signing_document_def)

lemma audit_verify_loop:
  "audit_verify_from rt br r n p es = Inr True \<longleftrightarrow> chain_from (audit_ok rt br r) ae_prev ae_hash n p es"
  by (induction es arbitrary: n p) (auto simp: audit_ok_def res_simps Let_def)

lemma audit_ok_bytes:
  assumes "audit_ok rt br r n e"
  shows "canonical_bytes rt (VDict (audit_record e)) = Inr (audit_bytes rt e)" "ae_hash e = hexdigest rt (audit_bytes rt e)"
  using assms by (auto simp: audit_ok_def sbp_hash_entry_def audit_bytes_def audit_record_def res_simps)

interpretation sbp_chain: hash_chain ae_prev ae_hash genesis_hash "audit_ok rt br r"
    "\<lambda>es. audit_verify_integrity rt \<lparr>ac_branch = br, ac_root = r, ac_entries = es\<rparr> = Inr True"
    "audit_canon rt" "\<lambda>e. True" hex_text "nfc_keeps_hex rt" "hexdigest rt" "audit_bytes rt"
  for rt br r
proof unfold_locales
  show "audit_verify_integrity rt \<lparr>ac_branch = br, ac_root = r, ac_entries = es\<rparr> = Inr True \<longleftrightarrow>
      chain_from (audit_ok rt br r) ae_prev ae_hash 0 genesis_hash es" for es
    by (simp add: audit_verify_integrity_def audit_verify_loop)
  show "hex_text genesis_hash" by simp
  show "audit_ok rt br r n e \<Longrightarrow> ae_hash e = hexdigest rt (audit_bytes rt e) \<and> hex_text (ae_hash e)" for n e
    using audit_ok_bytes [of rt br r n e] by (metis hex_text_hexdigest)
  fix e e' n
  assume a: "nfc_keeps_hex rt" "audit_ok rt br r n e" "audit_ok rt br r n e'"
    "audit_bytes rt e = audit_bytes rt e'" "hex_text (ae_prev e)" "hex_text (ae_prev e')"
  note b = audit_ok_bytes(1) [OF a(2)] audit_ok_bytes(1) [OF a(3), folded a(4)]
  from canonical_bytes_binds [OF b audit_record_wf audit_record_wf audit_record_prev audit_record_prev a(1,5,6)]
  show "audit_canon rt e = audit_canon rt e' \<and> ae_prev e = ae_prev e'" unfolding audit_canon_def .
qed

lemma audit_verify_entries:
  "audit_verify_integrity rt C = Inr True \<longleftrightarrow>
   audit_verify_integrity rt \<lparr>ac_branch = ac_branch C, ac_root = ac_root C, ac_entries = ac_entries C\<rparr> = Inr True"
  by (simp add: audit_verify_integrity_def)

section \<open>Appending\<close>

lemma audit_append_cases:
  obtains (fails) ex where "audit_append rt now uuid actor action obj md ts i C = (Inl ex, C)"
  | (appends) e where "audit_append rt now uuid actor action obj md ts i C = (Inr e, C\<lparr>ac_entries := ac_entries C @ [e]\<rparr>)"
      "ae_sequence e = int (length (ac_entries C))" "ae_branch e = ac_branch C" "action \<noteq> []"
      "ae_prev e = head_hash ae_hash genesis_hash (ac_entries C)"
      "ae_actor e = actor" "ae_action e = action" "ae_object e = obj" "ae_timestamp e = ostr_or ts now"
      "ae_id e = (case i of Some x \<Rightarrow> x | None \<Rightarrow> uuid)"
      "\<exists>b. canonical_bytes rt (VDict (audit_signing_document e)) = Inr b \<and> authority_sign (ac_root C) b = Inr (ae_signature e)"
      "sbp_hash_entry rt (audit_signing_document e) (ae_signature e) = Inr (ae_hash e)"
proof -
  define e0 where "e0 mh = \<lparr>ae_sequence = int (length (ac_entries C)),
       ae_id = (case i of Some x \<Rightarrow> x | None \<Rightarrow> uuid), ae_timestamp = ostr_or ts now,
       ae_branch = ac_branch C, ae_actor = actor, ae_action = action, ae_object = obj,
       ae_metadata_hash = mh, ae_prev = (if ac_entries C = [] then genesis_hash else ae_hash (last (ac_entries C))),
       ae_signature = [], ae_hash = []\<rparr>" for mh
  define r where "r = (if action = [] then Inl (ValueError ''AuditChain.append requires a non-empty action'')
     else bindE (case md of None \<Rightarrow> Inr None
                 | Some d \<Rightarrow> bindE (canonical_bytes rt (VDict d)) (\<lambda>b. Inr (Some (hexdigest rt b)))) (\<lambda>mh.
          bindE (canonical_bytes rt (VDict (audit_signing_document (e0 mh)))) (\<lambda>b.
          bindE (authority_sign (ac_root C) b) (\<lambda>signature.
          bindE (sbp_hash_entry rt (audit_signing_document (e0 mh)) signature) (\<lambda>h.
            Inr ((e0 mh)\<lparr>ae_signature := signature, ae_hash := h\<rparr>))))))"
  have app: "audit_append rt now uuid actor action obj md ts i C =
      (case r of Inl ex \<Rightarrow> (Inl ex, C) | Inr e \<Rightarrow> (Inr e, C\<lparr>ac_entries := ac_entries C @ [e]\<rparr>))"
    unfolding audit_append_def r_def e0_def Let_def by (rule refl)
  show thesis
  proof (cases r)
    case (Inl ex)
    with app fails show thesis by simp
  next
    case (Inr e)
    then obtain mh b s h where a: "action \<noteq> []" "canonical_bytes rt (VDict (audit_signing_document (e0 mh))) = Inr b"
      "authority_sign (ac_root C) b = Inr s" "sbp_hash_entry rt (audit_signing_document (e0 mh)) s = Inr h"
      and e: "e = (e0 mh)\<lparr>ae_signature := s, ae_hash := h\<rparr>"
      unfolding r_def by (auto simp: res_simps split: if_splits)
    have doc: "audit_signing_document e = audit_signing_document (e0 mh)"
      by (simp add: e audit_signing_document_def)
    show thesis
      by (rule appends [of e]) (use a Inr in \<open>simp_all add: app doc\<close>, simp_all add: e e0_def head_hash_def)
  qed
qed

lemma audit_append_verified:
  assumes "audit_verify_integrity rt C = Inr True" "authority_sound (ac_root C)"
  shows "audit_verify_integrity rt (snd (audit_append rt now uuid actor action obj md ts i C)) = Inr True"
proof (cases rule: audit_append_cases [of rt now uuid actor action obj md ts i C])
  case (fails ex)
  with assms(1) show ?thesis by simp
next
  case (appends e)
  from appends(11) sbp_root.sign_verify [OF assms(2)]
  have "\<exists>b. canonical_bytes rt (VDict (audit_signing_document e)) = Inr b \<and> authority_verify (ac_root C) b (ae_signature e)"
    by blast
  with appends have "audit_ok rt (ac_branch C) (ac_root C) (length (ac_entries C)) e"
    by (simp add: audit_ok_def)
  with appends(1,5) assms(1) sbp_chain.verify_snoc [of rt "ac_branch C" "ac_root C" "ac_entries C" e]
  show ?thesis
    using audit_verify_entries [of rt C] audit_verify_entries [of rt "C\<lparr>ac_entries := ac_entries C @ [e]\<rparr>"] by simp
qed

inductive audit_history :: "runtime \<Rightarrow> audit_chain \<Rightarrow> bool" for rt where
  start: "audit_chain_init br r = Inr C \<Longrightarrow> audit_history rt C"
| extend: "audit_history rt C \<Longrightarrow> audit_history rt (snd (audit_append rt now uuid actor action obj md ts i C))"

lemma audit_history_invariant:
  "audit_history rt C \<Longrightarrow> authority_sound (ac_root C) \<Longrightarrow> audit_verify_integrity rt C = Inr True"
proof (induction rule: audit_history.induct)
  case (start br r C)
  then show ?case by (auto simp: audit_chain_init_def audit_verify_integrity_def split: if_splits)
next
  case (extend C now uuid actor action obj md ts i)
  have "ac_root (snd (audit_append rt now uuid actor action obj md ts i C)) = ac_root C"
    by (cases rule: audit_append_cases [of rt now uuid actor action obj md ts i C]) simp_all
  with extend show ?case by (intro audit_append_verified) simp_all
qed

lemma audit_append_total:
  assumes "action \<noteq> []" "\<forall>d \<in> set_option md. canonicalizable (VDict d)" "\<And>b. \<exists>s. authority_sign (ac_root C) b = Inr s"
  obtains e where "audit_append rt now uuid actor action obj md ts i C = (Inr e, C\<lparr>ac_entries := ac_entries C @ [e]\<rparr>)"
proof -
  have c: "canonicalizable (VDict (audit_signing_document e))"
    "canonicalizable (VDict (dict_merge (audit_signing_document e) [(''signature'', VStr s)]))" for e s
    by (simp_all add: audit_signing_document_def)
  have m: "\<exists>mh. (case md of None \<Rightarrow> Inr None
      | Some d \<Rightarrow> bindE (canonical_bytes rt (VDict d)) (\<lambda>b. Inr (Some (hexdigest rt b)))) = Inr mh"
    using assms(2) canonical_bytes_total [of "VDict (the md)" rt] by (cases md) auto
  have s: "\<exists>b s h. canonical_bytes rt (VDict (audit_signing_document e)) = Inr b \<and> authority_sign (ac_root C) b = Inr s \<and>
      sbp_hash_entry rt (audit_signing_document e) s = Inr h" for e
  proof -
    obtain b where b: "canonical_bytes rt (VDict (audit_signing_document e)) = Inr b"
      using canonical_bytes_total [OF c(1)] by blast
    obtain s where s: "authority_sign (ac_root C) b = Inr s" using assms(3) by blast
    obtain x where "canonical_bytes rt (VDict (dict_merge (audit_signing_document e) [(''signature'', VStr s)])) = Inr x"
      using canonical_bytes_total [OF c(2)] by blast
    with b s show ?thesis by (simp add: sbp_hash_entry_def)
  qed
  from m obtain mh where mh: "(case md of None \<Rightarrow> Inr None
      | Some d \<Rightarrow> bindE (canonical_bytes rt (VDict d)) (\<lambda>b. Inr (Some (hexdigest rt b)))) = Inr mh" by blast
  show thesis
  proof (cases rule: audit_append_cases [of rt now uuid actor action obj md ts i C])
    case (fails ex)
    then show thesis
      using assms(1) s [of "\<lparr>ae_sequence = int (length (ac_entries C)),
       ae_id = (case i of Some x \<Rightarrow> x | None \<Rightarrow> uuid), ae_timestamp = ostr_or ts now,
       ae_branch = ac_branch C, ae_actor = actor, ae_action = action, ae_object = obj,
       ae_metadata_hash = mh, ae_prev = (if ac_entries C = [] then genesis_hash else ae_hash (last (ac_entries C))),
       ae_signature = [], ae_hash = []\<rparr>"]
      by (auto simp: audit_append_def mh Let_def)
  qed (rule that)
qed

section \<open>Properties\<close>

text \<open>
  Every audit chain built by \<open>append\<close> calls (any metadata, ids and timestamps, failing calls
  included) passes \<open>verify_integrity\<close>, given a root that verifies what it signs.
\<close>

theorem audit_chain_verifies:
  assumes "audit_history rt C" "authority_sound (ac_root C)"
  shows "audit_verify_integrity rt C = Inr True"
  using assms by (rule audit_history_invariant)

definition demo_audit_start :: audit_chain where
  "demo_audit_start = \<lparr>ac_branch = ''b'', ac_root = demo_branch_root, ac_entries = []\<rparr>"

definition demo_audit :: audit_chain where
  "demo_audit = snd (audit_append plain_runtime ''t'' ''u'' ''root'' ''BRANCH_CREATED'' None (Some []) None None demo_audit_start)"

lemma demo_audit_history: "audit_history plain_runtime demo_audit" "ac_root demo_audit = demo_branch_root"
  "ac_branch demo_audit = ''b''" "length (ac_entries demo_audit) = 1"
proof -
  have "audit_history plain_runtime demo_audit_start"
    by (rule audit_history.start [of "''b''" demo_branch_root]) (simp add: audit_chain_init_def demo_audit_start_def)
  then show "audit_history plain_runtime demo_audit" unfolding demo_audit_def by (rule audit_history.extend)
  have "\<exists>s. authority_sign (ac_root demo_audit_start) b = Inr s" for b
    using demo_branch_root_laws(2) by (simp add: demo_audit_start_def)
  then obtain e where "audit_append plain_runtime ''t'' ''u'' ''root'' ''BRANCH_CREATED'' None (Some []) None None demo_audit_start =
      (Inr e, demo_audit_start\<lparr>ac_entries := ac_entries demo_audit_start @ [e]\<rparr>)"
    by (rule audit_append_total [where action = "''BRANCH_CREATED''" and md = "Some []" and C = demo_audit_start, rotated 2]) simp_all
  then have d: "demo_audit = demo_audit_start\<lparr>ac_entries := ac_entries demo_audit_start @ [e]\<rparr>"
    by (simp add: demo_audit_def)
  show "ac_root demo_audit = demo_branch_root" "ac_branch demo_audit = ''b''" "length (ac_entries demo_audit) = 1"
    unfolding d by (simp_all add: demo_audit_start_def)
qed

theorem audit_chain_verifies_witness:
  "audit_verify_integrity plain_runtime demo_audit = Inr True \<and> length (ac_entries demo_audit) = 1"
  using audit_chain_verifies [OF demo_audit_history(1)] demo_branch_root_laws(1) by (simp add: demo_audit_history)

text \<open>
  The head hash of a verified audit chain commits to the canonical record of every entry
  (sequence, id, time, branch, actor, action, object, metadata hash, link and signature), unless
  SHA3-512 collides on the records of the two chains.
\<close>

theorem audit_head_commits:
  assumes "nfc_keeps_hex rt" "inj_on (hexdigest rt) (audit_bytes rt ` (set (ac_entries C) \<union> set (ac_entries D)))"
    and "audit_verify_integrity rt C = Inr True" "audit_verify_integrity rt D = Inr True"
    and "ac_branch C = ac_branch D" "ac_root C = ac_root D" "length (ac_entries C) = length (ac_entries D)"
    and "head_hash ae_hash genesis_hash (ac_entries C) = head_hash ae_hash genesis_hash (ac_entries D)"
  shows "map (audit_canon rt) (ac_entries C) = map (audit_canon rt) (ac_entries D)"
proof (rule sbp_chain.head_determines_content [of rt _ _ "ac_branch C" "ac_root C", OF assms(1,2) _ _ _ _ assms(7,8)])
  show "audit_verify_integrity rt \<lparr>ac_branch = ac_branch C, ac_root = ac_root C, ac_entries = ac_entries C\<rparr> = Inr True"
    "audit_verify_integrity rt \<lparr>ac_branch = ac_branch C, ac_root = ac_root C, ac_entries = ac_entries D\<rparr> = Inr True"
    using assms(3-6) audit_verify_entries [of rt C] audit_verify_entries [of rt D] by simp_all
qed (simp_all add: list_all_iff)

theorem audit_head_commits_witness:
  "map (audit_canon plain_runtime) (ac_entries demo_audit) = map (audit_canon plain_runtime) (ac_entries demo_audit)"
  using audit_history_invariant [OF demo_audit_history(1)] demo_branch_root_laws(1)
  by (intro audit_head_commits) (simp_all add: demo_audit_history)

end
