(* ===== verification/SbpObject.thy ===== *)
theory SbpObject
  imports SbpRoot JsonGrammar
begin

text \<open>
  \<open>src/sbp/object.py\<close>: object manifests and their AES-256-GCM envelopes.  The cipher is a
  parameter.  The main lemma is that unsealing a sealed manifest with the same branch returns the
  manifest, its metadata in canonical form.
\<close>

section \<open>The cipher\<close>

text \<open>
  \<open>AESGCM(key).encrypt(nonce, data, None)\<close> and \<open>decrypt\<close> of the \<open>cryptography\<close> package, with the
  exceptions they raise; the law is that decrypting with the same key and nonce gives the data back.
\<close>

record aesgcm =
  ag_encrypt :: "string \<Rightarrow> string \<Rightarrow> string \<Rightarrow> string res"
  ag_decrypt :: "string \<Rightarrow> string \<Rightarrow> string \<Rightarrow> string res"

definition ag_correct :: "aesgcm \<Rightarrow> bool" where
  "ag_correct ag \<longleftrightarrow> (\<forall>k n p c. ag_encrypt ag k n p = Inr c \<longrightarrow> ag_decrypt ag k n c = Inr p)"

section \<open>Manifests\<close>

record object_manifest =
  om_id :: string
  om_branch :: string
  om_content :: string
  om_owner :: string
  om_algorithm :: string
  om_created :: int
  om_metadata :: pydict
  om_version :: int

definition manifest_to_dict :: "object_manifest \<Rightarrow> pydict" where
  "manifest_to_dict m =
     [(''version'', VInt (om_version m)),
      (''object_id'', VStr (om_id m)),
      (''branch_id'', VStr (om_branch m)),
      (''content_hash'', VStr (om_content m)),
      (''owner_id'', VStr (om_owner m)),
      (''encryption_algorithm'', VStr (om_algorithm m)),
      (''created_at'', VInt (om_created m)),
      (''metadata'', VDict (om_metadata m))]"

definition manifest_identity :: "string \<Rightarrow> string \<Rightarrow> string \<Rightarrow> int \<Rightarrow> pydict \<Rightarrow> pydict" where
  "manifest_identity branch_id content_hash owner_id ts metadata =
     [(''branch_id'', VStr branch_id),
      (''content_hash'', VStr content_hash),
      (''owner_id'', VStr owner_id),
      (''encryption_algorithm'', VStr ''AES-256-GCM''),
      (''created_at'', VInt ts),
      (''metadata'', VDict metadata),
      (''version'', VInt 1)]"

definition manifest_create :: "runtime \<Rightarrow> int \<Rightarrow> branch \<Rightarrow> string \<Rightarrow> pydict option \<Rightarrow> int option \<Rightarrow> object_manifest res" where
  "manifest_create rt clock br content_hash metadata created_at =
     (let ts = (case created_at of Some t \<Rightarrow> t | None \<Rightarrow> clock);
          bm = br_metadata br;
          md = (case metadata of Some d \<Rightarrow> d | None \<Rightarrow> [])
      in bindE (canonical_bytes rt (VDict (manifest_identity (bm_id bm) content_hash (bm_owner bm) ts md))) (\<lambda>b.
           Inr \<lparr>om_id = hexdigest rt (''SBP_OBJECT_ID:'' @ b), om_branch = bm_id bm, om_content = content_hash,
                om_owner = bm_owner bm, om_algorithm = ''AES-256-GCM'', om_created = ts, om_metadata = md,
                om_version = 1\<rparr>))"

section \<open>Envelopes\<close>

record object_envelope =
  oe_id :: string
  oe_branch :: string
  oe_nonce :: string
  oe_ciphertext :: string
  oe_algorithm :: string
  oe_created :: int
  oe_version :: int

definition envelope_to_dict :: "object_envelope \<Rightarrow> pydict" where
  "envelope_to_dict e =
     [(''version'', VInt (oe_version e)),
      (''object_id'', VStr (oe_id e)),
      (''branch_id'', VStr (oe_branch e)),
      (''nonce_hex'', VStr (oe_nonce e)),
      (''ciphertext_hex'', VStr (oe_ciphertext e)),
      (''encryption_algorithm'', VStr (oe_algorithm e)),
      (''created_at'', VInt (oe_created e))]"

definition seal_manifest :: "runtime \<Rightarrow> aesgcm \<Rightarrow> string \<Rightarrow> object_manifest \<Rightarrow> branch \<Rightarrow> string option \<Rightarrow> object_envelope res" where
  "seal_manifest rt ag random12 m br nonce =
     bindE (branch_derive_key br 32) (\<lambda>key.
     let n = (case nonce of None \<Rightarrow> random12 | Some x \<Rightarrow> x) in
     bindE (guardE (length n = 12) (ValueError ''seal_manifest nonce must be exactly 12 bytes'')) (\<lambda>_.
     bindE (canonical_bytes rt (VDict (manifest_to_dict m))) (\<lambda>plaintext.
     bindE (ag_encrypt ag key n plaintext) (\<lambda>ciphertext.
       Inr \<lparr>oe_id = om_id m, oe_branch = om_branch m, oe_nonce = hex n, oe_ciphertext = hex ciphertext,
            oe_algorithm = ''AES-256-GCM'', oe_created = om_created m, oe_version = 1\<rparr>))))"

text \<open>
  \<open>int(v)\<close>: an integer is itself, a Boolean is 0 or 1; \<open>io\<close> is the conversion of a float or a text.
  \<open>raw[key]\<close> raises \<open>KeyError\<close>.
\<close>

definition py_int :: "(pyval \<Rightarrow> int res) \<Rightarrow> pyval \<Rightarrow> int res" where
  "py_int io v =
     (case v of
        VInt i \<Rightarrow> Inr i
      | VBool b \<Rightarrow> Inr (if b then 1 else 0)
      | VStr _ \<Rightarrow> io v
      | VFloat _ \<Rightarrow> io v
      | VDecimal _ \<Rightarrow> io v
      | _ \<Rightarrow> Inl (TypeError ''int() argument must be a string, a bytes-like object or a real number''))"

definition item :: "pydict \<Rightarrow> string \<Rightarrow> pyval res" where
  "item d k = (case map_of d k of Some v \<Rightarrow> Inr v | None \<Rightarrow> Inl (KeyError k))"

definition manifest_of_raw :: "runtime \<Rightarrow> (pyval \<Rightarrow> int res) \<Rightarrow> pyval \<Rightarrow> object_manifest res" where
  "manifest_of_raw rt io raw =
     (case raw of
        VDict d \<Rightarrow>
          let parent = map_of d ''metadata'' in
          bindE (bindE (item d ''version'') (py_int io)) (\<lambda>version.
          bindE (item d ''object_id'') (\<lambda>object_id.
          bindE (item d ''branch_id'') (\<lambda>branch_id.
          bindE (item d ''content_hash'') (\<lambda>content_hash.
          bindE (item d ''owner_id'') (\<lambda>owner_id.
          bindE (item d ''encryption_algorithm'') (\<lambda>algorithm.
          bindE (bindE (item d ''created_at'') (py_int io)) (\<lambda>created.
            Inr \<lparr>om_id = py_str rt object_id, om_branch = py_str rt branch_id, om_content = py_str rt content_hash,
                 om_owner = py_str rt owner_id, om_algorithm = py_str rt algorithm, om_created = created,
                 om_metadata = (case parent of Some (VDict md) \<Rightarrow> md | _ \<Rightarrow> []), om_version = version\<rparr>)))))))
      | _ \<Rightarrow> Inl (AppError ''AttributeError'' ''get''))"

text \<open>The plaintext is taken to be UTF-8, as \<open>seal_manifest\<close> writes it.\<close>

definition unseal_manifest :: "runtime \<Rightarrow> (string \<Rightarrow> pyfloat) \<Rightarrow> (pyval \<Rightarrow> int res) \<Rightarrow> aesgcm \<Rightarrow> object_envelope \<Rightarrow> branch \<Rightarrow>
    object_manifest res" where
  "unseal_manifest rt fo io ag e br =
     bindE (branch_derive_key br 32) (\<lambda>key.
       case fromhex (oe_nonce e) of
         None \<Rightarrow> Inl (ValueError ''non-hexadecimal number found in fromhex() arg'')
       | Some n \<Rightarrow>
           (case fromhex (oe_ciphertext e) of
              None \<Rightarrow> Inl (ValueError ''non-hexadecimal number found in fromhex() arg'')
            | Some ct \<Rightarrow>
                (case ag_decrypt ag key n ct of
                   Inl ex \<Rightarrow> Inl (ValueError ''ObjectEnvelope decryption failed: authentication error or wrong branch key'')
                 | Inr plaintext \<Rightarrow> bindE (json_loads fo plaintext) (manifest_of_raw rt io))))"

section \<open>Sealing and unsealing\<close>

text \<open>The bytes of the manifest read back as its canonical form, whose fields are the manifest's.\<close>

lemma canonicalize_vals_dict:
  assumes "canonicalize rt (VDict d) = Inr (VDict d')" "q \<in> set d'"
  obtains v where "v \<in> snd ` set d" "canonicalize rt v = Inr (snd q)"
proof -
  from assms(1) have "mapE (\<lambda>p. bindE (canonicalize rt (snd p)) (\<lambda>v. Inr (fst p, v))) (sort_key fst d) = Inr d'"
    by (auto simp: res_simps)
  from canonicalize_vals [OF this assms(2)] that show thesis by auto
qed

definition manifest_texts :: "object_manifest \<Rightarrow> string set" where
  "manifest_texts m = {om_id m, om_branch m, om_content m, om_owner m, om_algorithm m}"

lemma manifest_reads_back:
  assumes "canonical_bytes rt (VDict (manifest_to_dict m)) = Inr b" "wf_pyval (VDict (om_metadata m))"
    and "canonicalize rt (VDict (om_metadata m)) = Inr (VDict md)" "json_reads fo (VDict md)"
    and "\<forall>s \<in> manifest_texts m. rt_nfc rt s = s"
  shows "bindE (json_loads fo b) (manifest_of_raw rt io) = Inr (m\<lparr>om_metadata := md\<rparr>)"
proof -
  from assms(1) obtain d' where u: "canonicalize rt (VDict (manifest_to_dict m)) = Inr (VDict d')"
    by (auto simp: canonical_bytes_def res_simps)
  have dist: "distinct (map fst (manifest_to_dict m))" by (simp add: manifest_to_dict_def)
  have wf: "wf_pyval (VDict (manifest_to_dict m))" using assms(2) by (simp add: manifest_to_dict_def)
  have reads: "json_reads fo w" if "v \<in> snd ` set (manifest_to_dict m)" "canonicalize rt v = Inr w" for v w
  proof (cases "v = VDict (om_metadata m)")
    case True
    with that(2) assms(3,4) show ?thesis by (simp del: canonicalize.simps json_reads.simps)
  next
    case False
    with that show ?thesis by (auto simp: manifest_to_dict_def)
  qed
  have "json_reads fo (snd q)" if "q \<in> set d'" for q
    by (rule canonicalize_vals_dict [OF u that]) (rule reads)
  then have "json_reads fo (VDict d')" by (simp add: list_all_iff)
  from json_loads_canonical [OF assms(1) u wf this] have l: "json_loads fo b = Inr (VDict d')" .
  have f: "map_of d' k = Some w" if "map_of (manifest_to_dict m) k = Some v" "canonicalize rt v = Inr w" for k v w
    using canonicalize_field [OF u dist that(1)] that(2) by auto
  have "map_of d' ''version'' = Some (VInt (om_version m))" "map_of d' ''object_id'' = Some (VStr (om_id m))"
    "map_of d' ''branch_id'' = Some (VStr (om_branch m))" "map_of d' ''content_hash'' = Some (VStr (om_content m))"
    "map_of d' ''owner_id'' = Some (VStr (om_owner m))" "map_of d' ''created_at'' = Some (VInt (om_created m))"
    "map_of d' ''encryption_algorithm'' = Some (VStr (om_algorithm m))" "map_of d' ''metadata'' = Some (VDict md)"
    by (rule f, simp add: manifest_to_dict_def, use assms(3,5) in \<open>simp add: manifest_texts_def del: canonicalize.simps(1)\<close>)+
  then show ?thesis by (simp add: l manifest_of_raw_def item_def py_int_def)
qed

section \<open>Properties\<close>

text \<open>
  C25.  Unsealing what was sealed with the same branch returns the manifest, with its metadata in
  canonical form, given that AES-GCM decrypts what it encrypted and the manifest's texts are in
  Unicode normal form; a nonce of another length than 12 is refused.
\<close>

theorem sealed_manifest_reads_back:
  assumes "ag_correct ag" "seal_manifest rt ag random12 m br nonce = Inr e"
    and "wf_pyval (VDict (om_metadata m))" "canonicalize rt (VDict (om_metadata m)) = Inr (VDict md)"
    and "json_reads fo (VDict md)" "\<forall>s \<in> manifest_texts m. rt_nfc rt s = s"
  shows "unseal_manifest rt fo io ag e br = Inr (m\<lparr>om_metadata := md\<rparr>) \<and> oe_id e = om_id m \<and> oe_branch e = om_branch m \<and>
    length (oe_nonce e) = 24"
proof -
  define n where "n = (case nonce of None \<Rightarrow> random12 | Some x \<Rightarrow> x)"
  from assms(2) obtain key b c where k: "branch_derive_key br 32 = Inr key" "length n = 12"
    "canonical_bytes rt (VDict (manifest_to_dict m)) = Inr b" "ag_encrypt ag key n b = Inr c"
    and e: "e = \<lparr>oe_id = om_id m, oe_branch = om_branch m, oe_nonce = hex n, oe_ciphertext = hex c,
            oe_algorithm = ''AES-256-GCM'', oe_created = om_created m, oe_version = 1\<rparr>"
    by (auto simp: seal_manifest_def res_simps Let_def n_def [symmetric])
  have "ag_decrypt ag key n c = Inr b" using assms(1) k(4) by (simp add: ag_correct_def)
  with manifest_reads_back [OF k(3) assms(3-6)] k(1,2) show ?thesis by (simp add: unseal_manifest_def e)
qed

definition demo_ag :: aesgcm where
  "demo_ag = \<lparr>ag_encrypt = (\<lambda>k n p. Inr (k @ p)), ag_decrypt = (\<lambda>k n c. Inr (drop (length k) c))\<rparr>"

definition demo_manifest :: object_manifest where
  "demo_manifest = \<lparr>om_id = ''o'', om_branch = ''b'', om_content = ''c'', om_owner = ''r'', om_algorithm = ''AES-256-GCM'',
     om_created = 1, om_metadata = [(''k'', VInt 7)], om_version = 1\<rparr>"

definition demo_branch :: branch where
  "demo_branch = \<lparr>br_root = demo_branch_root, br_label = ''l'', br_capabilities = [''READ''], br_parent = None, br_created = 1,
     br_policy = default_branch_policy,
     br_metadata = \<lparr>bm_id = ''b'', bm_root = ''r'', bm_parent = None, bm_owner = ''r'', bm_capabilities = [''READ''],
       bm_policy_hash = ''h'', bm_created = 1, bm_label = ''l'', bm_version = 1\<rparr>\<rparr>"

lemma demo_branch_key: "\<exists>k. branch_derive_key demo_branch 32 = Inr k"
  by (simp add: branch_derive_key_def derive_branch_key_def demo_branch_def demo_branch_root_def software_trust_backend_def
      software_derive_key_def derive_loop.simps derive_block_def plain_runtime_def to_bytes4_def)

theorem sealed_manifest_reads_back_witness:
  "\<exists>e. seal_manifest plain_runtime demo_ag (replicate 12 (CHR ''n'')) demo_manifest demo_branch None = Inr e \<and>
     unseal_manifest plain_runtime Finite (\<lambda>v. Inl (TypeError [])) demo_ag e demo_branch = Inr demo_manifest"
proof -
  have ag: "ag_correct demo_ag" by (simp add: ag_correct_def demo_ag_def)
  have "canonicalizable (VDict (manifest_to_dict demo_manifest))"
    by (simp add: manifest_to_dict_def demo_manifest_def)
  from canonical_bytes_total [OF this, of plain_runtime] obtain b
    where "canonical_bytes plain_runtime (VDict (manifest_to_dict demo_manifest)) = Inr b" by blast
  with demo_branch_key obtain e
    where e: "seal_manifest plain_runtime demo_ag (replicate 12 (CHR ''n'')) demo_manifest demo_branch None = Inr e"
    by (auto simp: seal_manifest_def demo_ag_def)
  have "unseal_manifest plain_runtime Finite (\<lambda>v. Inl (TypeError [])) demo_ag e demo_branch =
      Inr (demo_manifest\<lparr>om_metadata := [(''k'', VInt 7)]\<rparr>)"
    using sealed_manifest_reads_back [OF ag e, of "[(''k'', VInt 7)]" Finite "\<lambda>v. Inl (TypeError [])"]
    by (simp add: demo_manifest_def manifest_texts_def plain_runtime_def)
  with e show ?thesis by (simp add: demo_manifest_def)
qed

end
