(* ===== verification/SbpProtocol.thy ===== *)
theory SbpProtocol
  imports SbpObject
begin

text \<open>
  \<open>src/sbp/protocol.py\<close>: the offline protocol contracts.  Capability offers and their negotiation,
  signed authority exchanges and delegations, replication records and the resolution of replication
  conflicts.  The lemmas show that what is created verifies and for whom, that negotiation returns
  the common capabilities, and that replicas converge in whatever order conflicts are resolved.
\<close>

definition PROTOCOL_NAME :: string where
  "PROTOCOL_NAME = ''SBP''"

definition PROTOCOL_VERSION :: string where
  "PROTOCOL_VERSION = ''0.2.0''"

definition SUITE_ID :: string where
  "SUITE_ID = ''SBP-INTEROP-0.2/Ed25519-SHA3-512-AES-256-GCM''"

definition ProtocolError :: pyexc where
  "ProtocolError = AppError ''ProtocolError'' []"

definition require_string :: "string \<Rightarrow> string res" where
  "require_string value = (if value = [] then Inl ProtocolError else Inr value)"

lemma require_string_Inr [res_simps]: "require_string s = Inr t \<longleftrightarrow> s \<noteq> [] \<and> t = s"
  by (auto simp: require_string_def)

lemma require_strings_Inr [res_simps]: "mapE require_string xs = Inr ys \<longleftrightarrow> [] \<notin> set xs \<and> ys = xs"
  by (induction xs arbitrary: ys) (auto simp: res_simps)

section \<open>Capability offers\<close>

record capability_offer =
  co_peer :: string
  co_protocol :: string
  co_version :: string
  co_capabilities :: "string list"
  co_suite :: string

definition offer_post_init :: "capability_offer \<Rightarrow> capability_offer res" where
  "offer_post_init o1 =
     bindE (require_string (co_peer o1)) (\<lambda>_.
     bindE (guardE (co_protocol o1 = PROTOCOL_NAME \<and> co_version o1 = PROTOCOL_VERSION) ProtocolError) (\<lambda>_.
     bindE (mapE require_string (co_capabilities o1)) (\<lambda>caps.
     bindE (guardE (distinct caps) ProtocolError) (\<lambda>_.
     bindE (guardE (sort caps = caps) ProtocolError) (\<lambda>_.
     bindE (require_string (co_suite o1)) (\<lambda>_. Inr (o1\<lparr>co_capabilities := caps\<rparr>)))))))"

definition offer_to_dict :: "capability_offer \<Rightarrow> pydict" where
  "offer_to_dict o1 =
     [(''protocol'', VStr (co_protocol o1)), (''version'', VStr (co_version o1)), (''suite'', VStr (co_suite o1)),
      (''peer_id'', VStr (co_peer o1)), (''capabilities'', str_list (co_capabilities o1))]"

definition negotiate_capabilities :: "capability_offer \<Rightarrow> capability_offer \<Rightarrow> string list res" where
  "negotiate_capabilities local remote =
     bindE (guardE (co_protocol local = co_protocol remote \<and> co_version local = co_version remote) ProtocolError) (\<lambda>_.
     bindE (guardE (co_suite local = co_suite remote) ProtocolError) (\<lambda>_.
       Inr (sorted_set (filter (\<lambda>c. c \<in> set (co_capabilities remote)) (co_capabilities local)))))"

section \<open>Authority exchanges\<close>

record authority_exchange =
  ax_id :: string
  ax_peer :: string
  ax_root :: string
  ax_key :: string
  ax_capabilities :: "string list"
  ax_signature :: string
  ax_version :: int

definition exchange_document :: "authority_exchange \<Rightarrow> pydict" where
  "exchange_document x =
     [(''version'', VInt (ax_version x)),
      (''exchange_id'', VStr (ax_id x)),
      (''peer_id'', VStr (ax_peer x)),
      (''root_id'', VStr (ax_root x)),
      (''signing_public_key'', VStr (ax_key x)),
      (''capabilities'', str_list (ax_capabilities x))]"

definition exchange_to_dict :: "authority_exchange \<Rightarrow> pydict" where
  "exchange_to_dict x = dict_merge (exchange_document x) [(''signature'', VStr (ax_signature x))]"

definition create_authority_exchange :: "runtime \<Rightarrow> root_authority \<Rightarrow> string \<Rightarrow> string \<Rightarrow> string list \<Rightarrow> authority_exchange res" where
  "create_authority_exchange rt root exchange_id peer_id capabilities =
     bindE (require_string exchange_id) (\<lambda>exchange_id.
     bindE (require_string peer_id) (\<lambda>peer_id.
     bindE (mapE require_string capabilities) (\<lambda>cs.
     let record = \<lparr>ax_id = exchange_id, ax_peer = peer_id, ax_root = rm_id (ra_metadata root),
           ax_key = rm_signing_key (ra_metadata root), ax_capabilities = sorted_set cs, ax_signature = [], ax_version = 1\<rparr>
     in bindE (canonical_bytes rt (VDict (exchange_document record))) (\<lambda>b.
        bindE (authority_sign root b) (\<lambda>signature. Inr (record\<lparr>ax_signature := signature\<rparr>))))))"

text \<open>
  Every exception that the body can raise is one of those it catches; \<open>ed_verify\<close> covers both the
  construction of the key and the verification.
\<close>

definition verify_authority_exchange :: "runtime \<Rightarrow> ed25519 \<Rightarrow> authority_exchange \<Rightarrow> bool" where
  "verify_authority_exchange rt ed x =
     (ax_id x \<noteq> [] \<and> ax_peer x \<noteq> [] \<and> ax_root x \<noteq> [] \<and> ax_key x \<noteq> [] \<and> ax_signature x \<noteq> [] \<and>
      (case fromhex (ax_key x) of
         None \<Rightarrow> False
       | Some key_bytes \<Rightarrow>
           ax_root x = hexdigest rt (''SBP_ROOT_SIGNING_IDENTITY:'' @ key_bytes) \<and>
           [] \<notin> set (ax_capabilities x) \<and> distinct (ax_capabilities x) \<and> sort (ax_capabilities x) = ax_capabilities x \<and>
           (case (canonical_bytes rt (VDict (exchange_document x)), fromhex (ax_signature x)) of
              (Inr b, Some raw) \<Rightarrow> ed_verify ed key_bytes raw b
            | _ \<Rightarrow> False)))"

section \<open>Delegations\<close>

record sbp_delegation =
  dg_id :: string
  dg_grantor :: string
  dg_grantee :: string
  dg_branch :: string
  dg_capabilities :: "string list"
  dg_expires :: "int option"
  dg_signature :: string
  dg_version :: int

definition delegation_document :: "sbp_delegation \<Rightarrow> pydict" where
  "delegation_document d =
     [(''version'', VInt (dg_version d)),
      (''delegation_id'', VStr (dg_id d)),
      (''grantor_id'', VStr (dg_grantor d)),
      (''grantee_id'', VStr (dg_grantee d)),
      (''branch_id'', VStr (dg_branch d)),
      (''capabilities'', str_list (dg_capabilities d)),
      (''expires_at'', opt_int (dg_expires d))]"

definition sbp_delegation_to_dict :: "sbp_delegation \<Rightarrow> pydict" where
  "sbp_delegation_to_dict d = dict_merge (delegation_document d) [(''signature'', VStr (dg_signature d))]"

definition create_delegation :: "runtime \<Rightarrow> root_authority \<Rightarrow> string \<Rightarrow> string \<Rightarrow> string \<Rightarrow> string list \<Rightarrow> string list option \<Rightarrow>
    int option \<Rightarrow> sbp_delegation res" where
  "create_delegation rt root delegation_id grantee_id branch_id capabilities parent_capabilities expires_at =
     bindE (require_string delegation_id) (\<lambda>delegation_id.
     bindE (require_string grantee_id) (\<lambda>grantee_id.
     bindE (require_string branch_id) (\<lambda>branch_id.
     bindE (mapE require_string capabilities) (\<lambda>cs.
     bindE (case parent_capabilities of
              None \<Rightarrow> Inr ()
            | Some ps \<Rightarrow> bindE (mapE require_string ps) (\<lambda>parent_caps.
                guardE (list_all (\<lambda>c. c \<in> set parent_caps) cs) ProtocolError)) (\<lambda>_.
     let record = \<lparr>dg_id = delegation_id, dg_grantor = rm_id (ra_metadata root), dg_grantee = grantee_id,
           dg_branch = branch_id, dg_capabilities = sorted_set cs, dg_expires = expires_at, dg_signature = [], dg_version = 1\<rparr>
     in bindE (canonical_bytes rt (VDict (delegation_document record))) (\<lambda>b.
        bindE (authority_sign root b) (\<lambda>signature. Inr (record\<lparr>dg_signature := signature\<rparr>))))))))"

definition verify_delegation :: "runtime \<Rightarrow> sbp_delegation \<Rightarrow> root_authority \<Rightarrow> string option \<Rightarrow> int option \<Rightarrow> bool" where
  "verify_delegation rt d root required now =
     (dg_grantor d = rm_id (ra_metadata root) \<and>
      [] \<notin> set (dg_capabilities d) \<and> distinct (dg_capabilities d) \<and> sort (dg_capabilities d) = dg_capabilities d \<and>
      (case (dg_expires d, now) of (Some e, Some t) \<Rightarrow> t < e | _ \<Rightarrow> True) \<and>
      (case required of Some c \<Rightarrow> c \<in> set (dg_capabilities d) | None \<Rightarrow> True) \<and>
      dg_id d \<noteq> [] \<and> dg_grantee d \<noteq> [] \<and> dg_branch d \<noteq> [] \<and>
      (case canonical_bytes rt (VDict (delegation_document d)) of
         Inr b \<Rightarrow> authority_verify root b (dg_signature d)
       | Inl ex \<Rightarrow> False))"

section \<open>Replication\<close>

record replication_record =
  rr_object :: string
  rr_branch :: string
  rr_envelope :: pydict
  rr_source :: string
  rr_replica :: string
  rr_version :: int

definition replication_to_dict :: "replication_record \<Rightarrow> pydict" where
  "replication_to_dict r =
     [(''version'', VInt (rr_version r)),
      (''object_id'', VStr (rr_object r)),
      (''branch_id'', VStr (rr_branch r)),
      (''envelope'', VDict (rr_envelope r)),
      (''source_root_id'', VStr (rr_source r)),
      (''replica_id'', VStr (rr_replica r))]"

definition from_envelope :: "object_envelope \<Rightarrow> string \<Rightarrow> string \<Rightarrow> replication_record res" where
  "from_envelope e source replica =
     bindE (guardE (oe_id e \<noteq> [] \<and> oe_branch e \<noteq> [] \<and> oe_ciphertext e \<noteq> [] \<and> oe_nonce e \<noteq> []) ProtocolError) (\<lambda>_.
     bindE (require_string source) (\<lambda>_.
     bindE (require_string replica) (\<lambda>_.
       Inr \<lparr>rr_object = oe_id e, rr_branch = oe_branch e, rr_envelope = envelope_to_dict e, rr_source = source,
            rr_replica = replica, rr_version = 1\<rparr>)))"

text \<open>The sort key \<open>(replica_id, canonical_bytes(record))\<close>, as a two-element list; \<open>min\<close> keeps the left record on a tie.\<close>

definition replication_key :: "runtime \<Rightarrow> replication_record \<Rightarrow> string list res" where
  "replication_key rt r = bindE (canonical_bytes rt (VDict (replication_to_dict r))) (\<lambda>b. Inr [rr_replica r, b])"

definition resolve_replication_conflict :: "runtime \<Rightarrow> replication_record \<Rightarrow> replication_record \<Rightarrow> replication_record res" where
  "resolve_replication_conflict rt left right =
     (if rr_object left \<noteq> rr_object right \<or> rr_branch left \<noteq> rr_branch right then Inl ProtocolError
      else bindE (replication_key rt left) (\<lambda>k. bindE (replication_key rt right) (\<lambda>k'.
        Inr (if k' < k then right else left))))"

text \<open>A replica that meets the records \<open>rs\<close> one after another.\<close>

fun resolve_all :: "runtime \<Rightarrow> replication_record \<Rightarrow> replication_record list \<Rightarrow> replication_record res" where
  "resolve_all rt r [] = Inr r"
| "resolve_all rt r (x # xs) = bindE (resolve_replication_conflict rt r x) (\<lambda>w. resolve_all rt w xs)"

section \<open>Creation and verification\<close>

lemma sort_sorted_set [simp]: "sort (sorted_set xs) = sorted_set xs"
  by (rule sort_key_id_if_sorted [where f = "\<lambda>x. x", simplified]) simp

lemma created_exchange_fields:
  assumes "create_authority_exchange rt root i p caps = Inr x"
  obtains b where "canonical_bytes rt (VDict (exchange_document x)) = Inr b" "authority_sign root b = Inr (ax_signature x)"
    "ax_id x = i" "ax_peer x = p" "i \<noteq> []" "p \<noteq> []" "[] \<notin> set caps" "ax_capabilities x = sorted_set caps"
    "ax_root x = rm_id (ra_metadata root)" "ax_key x = rm_signing_key (ra_metadata root)"
  using assms that by (auto simp: create_authority_exchange_def exchange_document_def res_simps Let_def)

lemma created_delegation_fields:
  assumes "create_delegation rt root i g br caps parent ex = Inr d"
  obtains b where "canonical_bytes rt (VDict (delegation_document d)) = Inr b" "authority_sign root b = Inr (dg_signature d)"
    "dg_id d = i" "dg_grantee d = g" "dg_branch d = br" "i \<noteq> []" "g \<noteq> []" "br \<noteq> []" "[] \<notin> set caps"
    "dg_capabilities d = sorted_set caps" "dg_grantor d = rm_id (ra_metadata root)" "dg_expires d = ex"
    "\<forall>ps. parent = Some ps \<longrightarrow> set caps \<subseteq> set ps"
  using assms that
  by (auto simp: create_delegation_def delegation_document_def res_simps Let_def list_all_iff subset_iff split: option.splits)

section \<open>Convergence\<close>

lemma resolve_Inr:
  assumes "resolve_replication_conflict rt l r = Inr w" "replication_key rt l = Inr k" "replication_key rt r = Inr k'"
  shows "(w = l \<or> w = r) \<and> replication_key rt w = Inr (min k k') \<and> rr_object w = rr_object l \<and> rr_branch w = rr_branch l"
  using assms by (auto simp: resolve_replication_conflict_def min_def res_simps split: if_splits)

lemma resolve_all_key:
  "resolve_all rt r rs = Inr w \<Longrightarrow> replication_key rt r = Inr k \<Longrightarrow> mapE (replication_key rt) rs = Inr ks \<Longrightarrow>
   w \<in> set (r # rs) \<and> replication_key rt w = Inr (foldl min k ks)"
proof (induction rs arbitrary: r k ks)
  case Nil
  then show ?case by simp
next
  case (Cons x rs)
  from Cons.prems(1) obtain v where v: "resolve_replication_conflict rt r x = Inr v" "resolve_all rt v rs = Inr w"
    by (auto simp: res_simps)
  from Cons.prems(3) obtain k' ks' where k: "replication_key rt x = Inr k'" "mapE (replication_key rt) rs = Inr ks'" "ks = k' # ks'"
    by (auto simp: res_simps)
  have "v = r \<or> v = x" "replication_key rt v = Inr (min k k')"
    using resolve_Inr [OF v(1) Cons.prems(2) k(1)] by simp_all
  with Cons.IH [OF v(2) _ k(2)] k(3) show ?case by auto
qed

lemma foldl_min_eq: "foldl min (k :: 'a :: linorder) ks = Min (set (k # ks))"
proof (induction ks arbitrary: k)
  case Nil
  then show ?case by simp
next
  case (Cons x ks)
  have "Min (set (min k x # ks)) = Min (set (k # x # ks))"
    by (cases "ks = []") (simp_all add: min.assoc)
  with Cons show ?case by simp
qed

lemma replication_key_total: "canonicalizable (VDict (rr_envelope r)) \<Longrightarrow> \<exists>k. replication_key rt r = Inr k"
  using canonical_bytes_total [of "VDict (replication_to_dict r)" rt]
  by (auto simp: replication_key_def replication_to_dict_def)

lemma resolve_all_total:
  "\<forall>x \<in> set rs. rr_object x = rr_object r \<and> rr_branch x = rr_branch r \<Longrightarrow>
   \<forall>x \<in> set (r # rs). canonicalizable (VDict (rr_envelope x)) \<Longrightarrow> \<exists>w. resolve_all rt r rs = Inr w"
proof (induction rs arbitrary: r)
  case Nil
  then show ?case by simp
next
  case (Cons x rs)
  obtain k k' where k: "replication_key rt r = Inr k" "replication_key rt x = Inr k'"
    using replication_key_total [of r rt] replication_key_total [of x rt] Cons.prems(2) by auto
  define w where "w = (if k' < k then x else r)"
  have w: "resolve_replication_conflict rt r x = Inr w"
    using Cons.prems(1) k by (simp add: resolve_replication_conflict_def w_def)
  have "w = r \<or> w = x" by (simp add: w_def)
  then have "\<forall>z \<in> set rs. rr_object z = rr_object w \<and> rr_branch z = rr_branch w"
    "\<forall>z \<in> set (w # rs). canonicalizable (VDict (rr_envelope z))"
    using Cons.prems by (metis list.set_intros(1,2), metis list.set_intros(1,2) set_ConsD)
  from Cons.IH [OF this] w show ?case by simp
qed

section \<open>Properties\<close>


lemma demo_delegation:
  obtains d where "create_delegation plain_runtime demo_branch_root ''i'' ''g'' ''b'' [''READ''] (Some [''READ'', ''WRITE'']) (Some 10) = Inr d"
proof -
  let ?r = "\<lparr>dg_id = ''i'', dg_grantor = rm_id (ra_metadata demo_branch_root), dg_grantee = ''g'', dg_branch = ''b'',
    dg_capabilities = sorted_set [''READ''], dg_expires = Some 10, dg_signature = [], dg_version = 1\<rparr>"
  have "canonicalizable (VDict (delegation_document ?r))" by (simp add: delegation_document_def)
  from canonical_bytes_total [OF this, of plain_runtime] obtain b
    where b: "canonical_bytes plain_runtime (VDict (delegation_document ?r)) = Inr b" by blast
  obtain s where "authority_sign demo_branch_root b = Inr s" using demo_branch_root_laws(2) by blast
  with b that show thesis by (simp add: create_delegation_def require_string_def Let_def)
qed


lemma exchange_accepted:
  assumes "ed_correct ed" "keypair_ok ed sb" "sb_public_key sb \<noteq> []"
    and "root_authority_init rt ed clock rnd (Some (software_trust_backend rt ed sb)) policy created = Inr root"
    and "create_authority_exchange rt root i p caps = Inr x" "ax_signature x \<noteq> []" "ax_root x \<noteq> []"
  shows "verify_authority_exchange rt ed x" "ax_key x = hex (sb_public_key sb)"
    "ax_root x = hexdigest rt (''SBP_ROOT_SIGNING_IDENTITY:'' @ sb_public_key sb)"
proof -
  obtain b where b: "canonical_bytes rt (VDict (exchange_document x)) = Inr b" "authority_sign root b = Inr (ax_signature x)"
    "ax_id x = i" "ax_peer x = p" "i \<noteq> []" "p \<noteq> []" "[] \<notin> set caps" "ax_capabilities x = sorted_set caps"
    "ax_root x = rm_id (ra_metadata root)" "ax_key x = rm_signing_key (ra_metadata root)"
    by (rule created_exchange_fields [OF assms(5)])
  have root: "ra_backend root = software_trust_backend rt ed sb" "rm_signing_key (ra_metadata root) = hex (sb_public_key sb)"
    "rm_id (ra_metadata root) = hexdigest rt (''SBP_ROOT_SIGNING_IDENTITY:'' @ sb_public_key sb)"
    using assms(4) by (auto simp: root_authority_init_def build_root_metadata_def res_simps Let_def
        software_trust_backend_def domain_signing_id_def)
  with b show "ax_key x = hex (sb_public_key sb)"
    "ax_root x = hexdigest rt (''SBP_ROOT_SIGNING_IDENTITY:'' @ sb_public_key sb)" by simp_all
  have "software_sign ed sb b = Inr (ax_signature x)"
    using b(2) root(1) by (simp add: authority_sign_def software_trust_backend_def)
  from software.sign_verify [of ed sb, OF _ this] assms(1,2) have "software_verify ed sb b (ax_signature x)" by simp
  then obtain raw where "fromhex (ax_signature x) = Some raw" "ed_verify ed (sb_public_key sb) raw b"
    by (auto simp: software_verify_def split: option.splits)
  with b root assms(3,6,7) show "verify_authority_exchange rt ed x" by (simp add: verify_authority_exchange_def)
qed

text \<open>
  An exchange that a root on the software backend created is accepted by whoever knows only the
  exchange, and two accepted exchanges with one root id advertise keys with the same bytes, so a root
  id cannot be claimed with another key (given that Ed25519 verifies its own signatures, and unless
  SHA3-512 collides on the two keys).
\<close>

theorem exchange_binds_key:
  assumes "ed_correct ed" "keypair_ok ed sb" "sb_public_key sb \<noteq> []"
    and "root_authority_init rt ed clock rnd (Some (software_trust_backend rt ed sb)) policy created = Inr root"
    and "create_authority_exchange rt root i p caps = Inr x" "ax_signature x \<noteq> []"
    and "verify_authority_exchange rt ed y" "ax_root y = ax_root x"
    and "\<forall>k l. fromhex (ax_key x) = Some k \<and> fromhex (ax_key y) = Some l \<longrightarrow>
      inj_on (hexdigest rt) {''SBP_ROOT_SIGNING_IDENTITY:'' @ k, ''SBP_ROOT_SIGNING_IDENTITY:'' @ l}"
  shows "verify_authority_exchange rt ed x \<and> fromhex (ax_key y) = Some (sb_public_key sb)"
proof -
  have "ax_root x \<noteq> []" using assms(7,8) by (auto simp: verify_authority_exchange_def)
  note x = exchange_accepted [OF assms(1-6) this]
  obtain l where l: "fromhex (ax_key y) = Some l" "ax_root y = hexdigest rt (''SBP_ROOT_SIGNING_IDENTITY:'' @ l)"
    using assms(7) by (auto simp: verify_authority_exchange_def split: option.splits)
  have "''SBP_ROOT_SIGNING_IDENTITY:'' @ l = ''SBP_ROOT_SIGNING_IDENTITY:'' @ sb_public_key sb"
  proof (rule inj_onD)
    show "inj_on (hexdigest rt) {''SBP_ROOT_SIGNING_IDENTITY:'' @ sb_public_key sb, ''SBP_ROOT_SIGNING_IDENTITY:'' @ l}"
      using assms(9) x(2) l(1) by auto
    show "hexdigest rt (''SBP_ROOT_SIGNING_IDENTITY:'' @ l) = hexdigest rt (''SBP_ROOT_SIGNING_IDENTITY:'' @ sb_public_key sb)"
      using l(2) assms(8) x(3) by simp
  qed simp_all
  with x(1) l(1) show ?thesis by simp
qed

definition demo_backend :: software_backend where
  "demo_backend = software_init plain_runtime demo_ed (Some ''k'') ''k''"

lemma demo_backend_key: "sb_public_key demo_backend = ''SAMA_ED25519_PRIVATE:k''"
  by (simp add: demo_backend_def software_init_def plain_runtime_def demo_ed_def ostr_or_def str_or_def Let_def)

lemma demo_root_created:
  obtains root where "root_authority_init plain_runtime demo_ed 1 [] (Some (software_trust_backend plain_runtime demo_ed demo_backend)) None None = Inr root"
    "ra_backend root = software_trust_backend plain_runtime demo_ed demo_backend"
proof -
  have "canonicalizable (VDict default_root_policy)" by (simp add: default_root_policy_def)
  from canonical_bytes_total [OF this, of plain_runtime] obtain b
    where b: "canonical_bytes plain_runtime (VDict default_root_policy) = Inr b" by blast
  have "\<exists>k. software_derive_key plain_runtime demo_backend (domain_enc_public @ x) 32 = Inr k" for x
    by (simp add: software_derive_key_def derive_loop.simps derive_block_def plain_runtime_def to_bytes4_def domain_enc_public_def)
  then obtain k where "software_derive_key plain_runtime demo_backend (domain_enc_public @ sb_public_key demo_backend) 32 = Inr k"
    by blast
  with b that show thesis
    by (simp add: root_authority_init_def build_root_metadata_def hash_policy_def software_trust_backend_def Let_def)
qed

theorem exchange_binds_key_witness:
  "\<exists>root x. root_authority_init plain_runtime demo_ed 1 [] (Some (software_trust_backend plain_runtime demo_ed demo_backend)) None None = Inr root \<and>
     create_authority_exchange plain_runtime root ''i'' ''p'' [''READ''] = Inr x \<and> verify_authority_exchange plain_runtime demo_ed x"
proof -
  obtain root where root: "root_authority_init plain_runtime demo_ed 1 [] (Some (software_trust_backend plain_runtime demo_ed demo_backend)) None None = Inr root"
    "ra_backend root = software_trust_backend plain_runtime demo_ed demo_backend"
    by (rule demo_root_created)
  let ?r = "\<lparr>ax_id = ''i'', ax_peer = ''p'', ax_root = rm_id (ra_metadata root), ax_key = rm_signing_key (ra_metadata root),
    ax_capabilities = sorted_set [''READ''], ax_signature = [], ax_version = 1\<rparr>"
  have "canonicalizable (VDict (exchange_document ?r))" by (simp add: exchange_document_def)
  from canonical_bytes_total [OF this, of plain_runtime] obtain b
    where b: "canonical_bytes plain_runtime (VDict (exchange_document ?r)) = Inr b" by blast
  obtain s where s: "authority_sign root b = Inr s" "s \<noteq> []"
    by (simp add: authority_sign_def root(2) software_trust_backend_def software_sign_def demo_backend_def software_init_def
        demo_ed_def plain_runtime_def Let_def ostr_or_def str_or_def)
  then obtain x where x: "create_authority_exchange plain_runtime root ''i'' ''p'' [''READ''] = Inr x" "ax_signature x \<noteq> []"
    using b by (simp add: create_authority_exchange_def require_string_def Let_def)
  have k: "keypair_ok demo_ed demo_backend" "sb_public_key demo_backend \<noteq> []"
    by (simp add: demo_backend_def) (simp add: demo_backend_key)
  have "ax_root x \<noteq> []"
    using root(1) x(1) by (auto simp: root_authority_init_def build_root_metadata_def create_authority_exchange_def res_simps Let_def
        hexdigest_def plain_runtime_def domain_signing_id_def)
  from exchange_accepted(1) [OF demo_ed_correct k root(1) x this]
  have "verify_authority_exchange plain_runtime demo_ed x" .
  from exchange_binds_key [OF demo_ed_correct k root(1) x this refl] plain_runtime_laws(2) root(1) x(1)
  show ?thesis by blast
qed

text \<open>
  C28.  Replicas converge.  Whatever order a replica meets the conflicting records of an object in, it
  ends with a record of one and the same replica id and canonical bytes, the least among all records
  met; resolution never fails for records of one object and branch with encodable envelopes.
\<close>

theorem replicas_converge:
  assumes "set (x # xs) = set (y # ys)"
    and "\<forall>r \<in> set (x # xs). rr_object r = rr_object x \<and> rr_branch r = rr_branch x \<and> canonicalizable (VDict (rr_envelope r))"
  shows "\<exists>v w k. resolve_all rt x xs = Inr v \<and> resolve_all rt y ys = Inr w \<and> v \<in> set (x # xs) \<and>
    replication_key rt v = Inr k \<and> replication_key rt w = Inr k \<and>
    (\<forall>r k'. r \<in> set (x # xs) \<and> replication_key rt r = Inr k' \<longrightarrow> k \<le> k')"
proof -
  have y: "\<forall>r \<in> set (y # ys). rr_object r = rr_object y \<and> rr_branch r = rr_branch y \<and> canonicalizable (VDict (rr_envelope r))"
    using assms unfolding assms(1) by (metis list.set_intros(1))
  obtain v w where v: "resolve_all rt x xs = Inr v" "resolve_all rt y ys = Inr w"
    using resolve_all_total [of xs x rt] resolve_all_total [of ys y rt] assms(2) y by (meson list.set_intros(2))
  define key where "key r = projr (replication_key rt r)" for r
  have key: "replication_key rt r = Inr (key r)" if "r \<in> set (x # xs)" for r
    using replication_key_total [of r rt] assms(2) that unfolding key_def by (metis sum.sel(2))
  have keys: "mapE (replication_key rt) zs = Inr (map key zs)" if "set zs \<subseteq> set (x # xs)" for zs
    using that key by (induction zs) auto
  have "set xs \<subseteq> set (x # xs)" "set ys \<subseteq> set (x # xs)" "y \<in> set (x # xs)" using assms(1) by auto
  then have "v \<in> set (x # xs)" "replication_key rt v = Inr (Min (key ` set (x # xs)))"
    "replication_key rt w = Inr (Min (key ` set (y # ys)))"
    using resolve_all_key [OF v(1) key keys] resolve_all_key [OF v(2) key keys] by (simp_all add: foldl_min_eq)
  moreover have "Min (key ` set (x # xs)) \<le> k'" if "r \<in> set (x # xs)" "replication_key rt r = Inr k'" for r k'
    using key [OF that(1)] that by (intro Min_le) auto
  ultimately show ?thesis unfolding assms(1) [symmetric] using v by blast
qed

definition demo_replica :: "string \<Rightarrow> replication_record" where
  "demo_replica n = \<lparr>rr_object = ''o'', rr_branch = ''b'', rr_envelope = [(''version'', VInt 1)], rr_source = ''r'',
     rr_replica = n, rr_version = 1\<rparr>"

theorem replicas_converge_witness:
  "\<exists>v w k. resolve_all plain_runtime (demo_replica ''p'') [demo_replica ''q''] = Inr v \<and>
     resolve_all plain_runtime (demo_replica ''q'') [demo_replica ''p'', demo_replica ''q''] = Inr w \<and>
     replication_key plain_runtime v = Inr k \<and> replication_key plain_runtime w = Inr k"
proof -
  have "set (demo_replica ''p'' # [demo_replica ''q'']) = set (demo_replica ''q'' # [demo_replica ''p'', demo_replica ''q''])"
    by auto
  from replicas_converge [OF this, of plain_runtime] show ?thesis by (auto simp: demo_replica_def)
qed

text \<open>
  Negotiation of two offers is symmetric, returns exactly the capabilities both offer, once each
  and sorted, and fails exactly when the protocols, versions or suites differ.
\<close>

theorem negotiation_is_intersection:
  "negotiate_capabilities a b = negotiate_capabilities b a \<and>
   (case negotiate_capabilities a b of
      Inr cs \<Rightarrow> sorted cs \<and> distinct cs \<and> set cs = set (co_capabilities a) \<inter> set (co_capabilities b) \<and>
        co_protocol a = co_protocol b \<and> co_version a = co_version b \<and> co_suite a = co_suite b
    | Inl ex \<Rightarrow> ex = ProtocolError \<and>
        (co_protocol a \<noteq> co_protocol b \<or> co_version a \<noteq> co_version b \<or> co_suite a \<noteq> co_suite b))"
proof -
  have "sorted_set (filter (\<lambda>c. c \<in> set (co_capabilities b)) (co_capabilities a)) =
      sorted_set (filter (\<lambda>c. c \<in> set (co_capabilities a)) (co_capabilities b))"
    by (rule sorted_set_cong) auto
  then show ?thesis by (auto simp: negotiate_capabilities_def guardE_def)
qed

end
