(* ===== verification/Base64.thy ===== *)
theory Base64
  imports Prelude
begin

text \<open>
  The \<open>base64\<close> functions of the standard library that the sources use: \<open>b64encode\<close>,
  \<open>urlsafe_b64encode\<close>, and \<open>b64decode\<close> with \<open>validate=True\<close>, with and without \<open>altchars=b"-_"\<close>, as
  \<open>binascii.a2b_base64\<close> of Python 3.12 scans its input in strict mode.  Decoding inverts encoding.
\<close>

section \<open>The alphabet\<close>

definition b64_alphabet :: string where
  "b64_alphabet = ''ABCDEFGHIJKLMNOPQRSTUVWXYZabcdefghijklmnopqrstuvwxyz0123456789+/''"

definition b64_char :: "nat \<Rightarrow> char" where
  "b64_char v = b64_alphabet ! v"

definition b64_value :: "char \<Rightarrow> nat option" where
  "b64_value c = map_of (zip b64_alphabet [0..<64]) c"

lemma b64_alphabet_simps [simp]: "length b64_alphabet = 64" "distinct b64_alphabet" "CHR ''='' \<notin> set b64_alphabet"
  by (simp_all add: b64_alphabet_def)

lemma b64_value_char [simp]: "v < 64 \<Longrightarrow> b64_value (b64_char v) = Some v"
  unfolding b64_value_def b64_char_def by (subst map_of_zip_nth) simp_all

lemma b64_char_pad [simp]: "v < 64 \<Longrightarrow> b64_char v \<noteq> CHR ''=''"
  unfolding b64_char_def by (metis b64_alphabet_simps(1,3) nth_mem)

section \<open>Encoding\<close>

fun b64_encode :: "string \<Rightarrow> string" where
  "b64_encode [] = []"
| "b64_encode [a] =
     (let x = of_char a :: nat in [b64_char (x div 4), b64_char (x mod 4 * 16), CHR ''='', CHR ''=''])"
| "b64_encode [a, b] =
     (let x = of_char a :: nat; y = of_char b :: nat in
      [b64_char (x div 4), b64_char (x mod 4 * 16 + y div 16), b64_char (y mod 16 * 4), CHR ''=''])"
| "b64_encode (a # b # c # cs) =
     (let x = of_char a :: nat; y = of_char b :: nat; z = of_char c :: nat in
      b64_char (x div 4) # b64_char (x mod 4 * 16 + y div 16) # b64_char (y mod 16 * 4 + z div 64) #
      b64_char (z mod 64) # b64_encode cs)"

text \<open>The URL-safe alphabet: \<open>translate\<close> after encoding and before decoding.\<close>

definition to_urlsafe :: "char \<Rightarrow> char" where
  "to_urlsafe c = (if c = CHR ''+'' then CHR ''-'' else if c = CHR ''/'' then CHR ''_'' else c)"

definition from_urlsafe :: "char \<Rightarrow> char" where
  "from_urlsafe c = (if c = CHR ''-'' then CHR ''+'' else if c = CHR ''_'' then CHR ''/'' else c)"

definition urlsafe_b64encode :: "string \<Rightarrow> string" where
  "urlsafe_b64encode s = map to_urlsafe (b64_encode s)"

section \<open>Decoding\<close>

text \<open>
  The scanner's state: the position in the current group of four, the bits left over from the last
  character, the number of padding characters in this group and whether padding has begun.
\<close>

fun b64_scan :: "nat \<Rightarrow> nat \<Rightarrow> nat \<Rightarrow> bool \<Rightarrow> string \<Rightarrow> string option" where
  "b64_scan quad left pads started [] = (if quad = 0 then Some [] else None)"
| "b64_scan quad left pads started (c # cs) =
     (if c = CHR ''=''
      then if 2 \<le> quad \<and> 4 \<le> quad + pads + 1 then (if cs = [] then Some [] else None)
           else b64_scan quad left (if 2 \<le> quad then pads + 1 else pads) True cs
      else case b64_value c of
        None \<Rightarrow> None
      | Some v \<Rightarrow>
          if started then None
          else if quad = 0 then b64_scan 1 v 0 started cs
          else if quad = 1 then map_option ((#) (char_of (left * 4 + v div 16))) (b64_scan 2 (v mod 16) 0 started cs)
          else if quad = 2 then map_option ((#) (char_of (left * 16 + v div 4))) (b64_scan 3 (v mod 4) 0 started cs)
          else map_option ((#) (char_of (left * 64 + v))) (b64_scan 0 0 0 started cs))"

definition b64_decode :: "string \<Rightarrow> string option" where
  "b64_decode s = (if startswith s ''='' then None else b64_scan 0 0 0 False s)"

definition urlsafe_b64decode :: "string \<Rightarrow> string option" where
  "urlsafe_b64decode s = b64_decode (map from_urlsafe s)"

section \<open>Round trip\<close>

lemma of_char_div [simp]:
  "of_char a div 4 < (64::nat)" "of_char a div 16 < (16::nat)" "of_char a div 64 < (4::nat)"
proof -
  have lt: "of_char a < (256::nat)" using nat_of_char_less_256 [of a] by simp
  show "of_char a div 4 < (64::nat)" "of_char a div 16 < (16::nat)" "of_char a div 64 < (4::nat)"
    by (intro less_mult_imp_div_less; use lt in linarith)+
qed

lemma of_char_groups [simp]:
  "of_char a div 16 div 16 = (0::nat)" "of_char a div 16 mod 16 = (of_char a div 16 :: nat)"
  "of_char a div 64 div 4 = (0::nat)" "of_char a div 64 mod 4 = (of_char a div 64 :: nat)"
  by (simp_all only: div_less mod_less of_char_div)

lemma of_char_bounds [simp]:
  "of_char a mod 4 * 16 + of_char b div 16 < (64::nat)" "of_char a mod 4 * 16 < (64::nat)"
  "of_char b mod 16 * 4 + of_char c div 64 < (64::nat)" "of_char b mod 16 * 4 < (64::nat)"
proof -
  have m: "x mod 4 < 4" "y mod 16 < 16" for x y :: nat by simp_all
  show "of_char a mod 4 * 16 + of_char b div 16 < (64::nat)"
    using m(1) [of "of_char a"] of_char_div(2) [of b] by linarith
  show "of_char b mod 16 * 4 + of_char c div 64 < (64::nat)"
    using m(2) [of "of_char b"] of_char_div(3) [of c] by linarith
  show "of_char a mod 4 * 16 < (64::nat)" "of_char b mod 16 * 4 < (64::nat)" by simp_all
qed

lemma b64_scan_encode: "b64_scan 0 l p False (b64_encode s) = Some s"
proof (induction s arbitrary: l p rule: b64_encode.induct)
  case 1
  then show ?case by simp
next
  case (2 a)
  then show ?case by (simp add: Let_def)
next
  case (3 a b)
  then show ?case by (simp add: Let_def)
next
  case (4 a b c cs)
  then show ?case by (simp add: Let_def)
qed

lemma b64_encode_start: "\<not> startswith (b64_encode s) ''=''"
  by (cases s rule: b64_encode.cases) (auto simp: startswith_def Let_def)

lemma b64_decode_encode [simp]: "b64_decode (b64_encode s) = Some s"
  by (simp add: b64_decode_def b64_encode_start b64_scan_encode)

lemma from_to_urlsafe: "c \<noteq> CHR ''-'' \<Longrightarrow> c \<noteq> CHR ''_'' \<Longrightarrow> from_urlsafe (to_urlsafe c) = c"
  by (simp add: from_urlsafe_def to_urlsafe_def)

lemma b64_encode_set: "set (b64_encode s) \<subseteq> insert (CHR ''='') (set b64_alphabet)"
proof (induction s rule: b64_encode.induct)
  case (4 a b c cs)
  have "v < 64 \<Longrightarrow> b64_char v \<in> set b64_alphabet" for v by (simp add: b64_char_def)
  with 4 show ?case by (auto simp: Let_def)
qed (auto simp: Let_def b64_char_def)

lemma urlsafe_b64decode_encode [simp]: "urlsafe_b64decode (urlsafe_b64encode s) = Some s"
proof -
  have "CHR ''-'' \<notin> insert (CHR ''='') (set b64_alphabet)" "CHR ''_'' \<notin> insert (CHR ''='') (set b64_alphabet)"
    by (simp_all add: b64_alphabet_def)
  then have "map (from_urlsafe \<circ> to_urlsafe) (b64_encode s) = b64_encode s"
    using b64_encode_set [of s] by (intro map_idI) (metis comp_apply from_to_urlsafe subsetD)
  then show ?thesis by (simp add: urlsafe_b64decode_def urlsafe_b64encode_def)
qed

lemma length_b64_encode: "length (b64_encode s) = 4 * ((length s + 2) div 3)"
proof (induction s rule: b64_encode.induct)
  case (4 a b c cs)
  have "(length (a # b # c # cs) + 2) div 3 = (length cs + 2) div 3 + 1" by simp
  with 4 show ?case by (simp add: Let_def)
qed (simp_all add: Let_def)

declare b64_encode.simps [simp del]

end
