(* ===== verification/Egress.thy ===== *)
theory Egress
  imports HashChain Base64
begin

text \<open>
  \<open>src/sia/egress/envelope.py\<close>: authenticated-encryption envelopes for cloud egress.  AES-GCM, Argon2id
  and SHA-256 are parameters, the random salt and nonce and the clock are arguments.  The lemmas show
  that a sealed envelope opens to its plaintext, and only with its own header.
\<close>

section \<open>Cryptography\<close>

text \<open>
  \<open>AESGCM(k).encrypt(n, p, aad)\<close> and \<open>decrypt\<close> (\<open>None\<close>: \<open>InvalidTag\<close> or \<open>ValueError\<close>),
  \<open>Argon2id(salt, **_KDF_PARAMS).derive(p)\<close>, and the digest of \<open>hashlib.sha256\<close>.
\<close>

record egress_crypto =
  ec_encrypt :: "string \<Rightarrow> string \<Rightarrow> string \<Rightarrow> string \<Rightarrow> string res"
  ec_decrypt :: "string \<Rightarrow> string \<Rightarrow> string \<Rightarrow> string \<Rightarrow> string option"
  ec_kdf :: "string \<Rightarrow> string \<Rightarrow> string"
  ec_sha256 :: "string \<Rightarrow> string"

text \<open>
  Documented laws of the cipher: a ciphertext (which ends with the tag) is not empty and decrypts under
  its own key, nonce and associated data; and it does not decrypt under other associated data.
\<close>

definition ec_correct :: "egress_crypto \<Rightarrow> bool" where
  "ec_correct ec \<longleftrightarrow>
     (\<forall>k n p a c. ec_encrypt ec k n p a = Inr c \<longrightarrow> c \<noteq> [] \<and> ec_decrypt ec k n c a = Some p)"

definition ec_binds :: "egress_crypto \<Rightarrow> bool" where
  "ec_binds ec \<longleftrightarrow>
     (\<forall>k n p a c a' p'. ec_encrypt ec k n p a = Inr c \<longrightarrow> ec_decrypt ec k n c a' = Some p' \<longrightarrow> a' = a)"

section \<open>Constants and errors\<close>

definition egress_schema :: string where "egress_schema = ''sia.cloud-egress.v1''"
definition egress_suite :: string where "egress_suite = ''SIA-E1''"
definition egress_kdf :: string where "egress_kdf = ''argon2id''"

definition kdf_params :: "(string \<times> int) list" where
  "kdf_params = [(''iterations'', 3), (''lanes'', 4), (''memory_cost'', 65536), (''length'', 32)]"

definition SALT_BYTES :: nat where "SALT_BYTES = 16"
definition NONCE_BYTES :: nat where "NONCE_BYTES = 12"

definition recipient_namespaces :: "string list" where
  "recipient_namespaces = [''provider'', ''vault'', ''device'', ''storage'', ''peer'']"

definition EgressEnvelopeError :: pyexc where
  "EgressEnvelopeError = AppError ''EgressEnvelopeError'' []"

text \<open>\<open>v == i\<close> of a Python value and an integer.\<close>

definition py_equals_int :: "pyval \<Rightarrow> int \<Rightarrow> bool" where
  "py_equals_int v i =
     (case v of VInt j \<Rightarrow> j = i | VBool b \<Rightarrow> (if b then 1 else 0) = i | VFloat f \<Rightarrow> f = Finite (int_str i @ ''.0'')
      | VDecimal t \<Rightarrow> t = Some (int_str i) | _ \<Rightarrow> False)"

text \<open>\<open>d == _KDF_PARAMS\<close> as dictionaries.\<close>

definition kdf_params_equal :: "pydict \<Rightarrow> bool" where
  "kdf_params_equal d \<longleftrightarrow>
     set (map fst d) = set (map fst kdf_params) \<and>
     list_all (\<lambda>(k, i). case map_of d k of None \<Rightarrow> False | Some v \<Rightarrow> py_equals_int v i) kdf_params"

section \<open>Validation\<close>

definition parse_timestamp :: "runtime \<Rightarrow> string \<Rightarrow> pydatetime res" where
  "parse_timestamp rt v =
     (case rt_fromiso rt (str_replace ''Z'' ''+00:00'' v) of
        None \<Rightarrow> Inl (ValueError ''Invalid isoformat string'')
      | Some d \<Rightarrow> Inr d)"

definition validate_timestamp :: "runtime \<Rightarrow> string \<Rightarrow> unit res" where
  "validate_timestamp rt v =
     (if \<not> endswith v ''Z'' then Inl (ValueError ''must be an ISO-8601 UTC timestamp'')
      else bindE (parse_timestamp rt v) (\<lambda>parsed.
             case parsed of
               Aware w off \<Rightarrow> guardE (off = 0) (ValueError ''must be an ISO-8601 UTC timestamp'')
             | Naive w \<Rightarrow> Inl (ValueError ''must be an ISO-8601 UTC timestamp'')))"

definition validate_recipient_id :: "string \<Rightarrow> unit res" where
  "validate_recipient_id v =
     (let namespace = takeWhile (\<lambda>c. c \<noteq> CHR '':'') v; name = drop (Suc (length namespace)) v in
      bindE (guardE (CHR '':'' \<in> set v) (ValueError ''recipient_id must use a registered namespace'')) (\<lambda>_.
        guardE (namespace \<in> set recipient_namespaces \<and> name \<noteq> [])
          (ValueError ''recipient_id must use a registered namespace'')))"

text \<open>The instant of a validated timestamp, and \<open>a <= b\<close> of two parsed ones.\<close>

fun instant :: "pydatetime \<Rightarrow> int" where
  "instant (Aware w off) = w - off"
| "instant (Naive w) = w"

definition validate_times :: "runtime \<Rightarrow> string \<Rightarrow> string option \<Rightarrow> unit res" where
  "validate_times rt created expires =
     bindE (validate_timestamp rt created) (\<lambda>_.
       case expires of
         None \<Rightarrow> Inr ()
       | Some x \<Rightarrow>
           bindE (validate_timestamp rt x) (\<lambda>_.
           bindE (parse_timestamp rt x) (\<lambda>px.
           bindE (parse_timestamp rt created) (\<lambda>pc.
             guardE (\<not> instant px \<le> instant pc) (ValueError ''expires must be after created'')))))"

section \<open>Envelopes\<close>

record egress_envelope =
  ee_schema :: string
  ee_suite :: string
  ee_kdf :: string
  ee_kdf_params :: pydict
  ee_recipient :: string
  ee_content_type :: string
  ee_created :: string
  ee_expires :: "string option"
  ee_salt :: string
  ee_nonce :: string
  ee_ciphertext :: string
  ee_id :: string

definition authenticated_header :: "egress_envelope \<Rightarrow> pydict" where
  "authenticated_header e =
     [(''schema'', VStr (ee_schema e)), (''suite'', VStr (ee_suite e)), (''kdf'', VStr (ee_kdf e)),
      (''kdf_params'', VDict (ee_kdf_params e)), (''recipient_id'', VStr (ee_recipient e)),
      (''content_type'', VStr (ee_content_type e)), (''created'', VStr (ee_created e)),
      (''expires'', opt_str (ee_expires e))]"

definition without_envelope_id :: "egress_envelope \<Rightarrow> pydict" where
  "without_envelope_id e =
     authenticated_header e @
     [(''salt'', VStr (ee_salt e)), (''nonce'', VStr (ee_nonce e)), (''ciphertext'', VStr (ee_ciphertext e))]"

definition egress_to_dict :: "egress_envelope \<Rightarrow> pydict" where
  "egress_to_dict e = without_envelope_id e @ [(''envelope_id'', VStr (ee_id e))]"

definition egress_to_json :: "runtime \<Rightarrow> egress_envelope \<Rightarrow> string res" where
  "egress_to_json rt e = canonical_bytes rt (VDict (egress_to_dict e))"

definition envelope_id :: "runtime \<Rightarrow> egress_crypto \<Rightarrow> pydict \<Rightarrow> string res" where
  "envelope_id rt ec v = bindE (canonical_bytes rt (VDict v)) (\<lambda>b. Inr (hex (ec_sha256 ec b)))"

definition egress_derive_key :: "egress_crypto \<Rightarrow> string \<Rightarrow> string \<Rightarrow> string res" where
  "egress_derive_key ec passphrase salt =
     (if passphrase = [] then Inl (ValueError ''passphrase must be a non-empty string'')
      else Inr (ec_kdf ec passphrase salt))"

definition egress_seal :: "runtime \<Rightarrow> egress_crypto \<Rightarrow> string \<Rightarrow> string \<Rightarrow> string \<Rightarrow> string \<Rightarrow> string \<Rightarrow> string \<Rightarrow> string \<Rightarrow>
    string option \<Rightarrow> string option \<Rightarrow> egress_envelope res" where
  "egress_seal rt ec utc_now salt nonce plaintext passphrase recipient_id content_type created expires =
     (if passphrase = [] then Inl (ValueError ''passphrase must be a non-empty string'')
      else bindE (validate_recipient_id recipient_id) (\<lambda>_.
        if content_type = [] then Inl (ValueError ''content_type is required'')
        else let created = ostr_or created utc_now in
          bindE (validate_times rt created expires) (\<lambda>_.
            let header = \<lparr>ee_schema = egress_schema, ee_suite = egress_suite, ee_kdf = egress_kdf,
                  ee_kdf_params = map (\<lambda>(k, i). (k, VInt i)) kdf_params, ee_recipient = recipient_id,
                  ee_content_type = content_type, ee_created = created, ee_expires = expires,
                  ee_salt = urlsafe_b64encode salt, ee_nonce = urlsafe_b64encode nonce, ee_ciphertext = [], ee_id = []\<rparr>
            in bindE (egress_derive_key ec passphrase salt) (\<lambda>key.
               bindE (canonical_bytes rt (VDict (authenticated_header header))) (\<lambda>aad.
               bindE (ec_encrypt ec key nonce plaintext aad) (\<lambda>ciphertext.
               let sealed = header\<lparr>ee_ciphertext := urlsafe_b64encode ciphertext\<rparr> in
               bindE (envelope_id rt ec (without_envelope_id sealed)) (\<lambda>i. Inr (sealed\<lparr>ee_id := i\<rparr>))))))))"

text \<open>\<open>except ValueError\<close> around the metadata checks: they raise nothing else.\<close>

definition egress_validate :: "runtime \<Rightarrow> egress_crypto \<Rightarrow> egress_envelope \<Rightarrow> unit res" where
  "egress_validate rt ec e =
     (if ee_schema e \<noteq> egress_schema \<or> ee_suite e \<noteq> egress_suite \<or> ee_kdf e \<noteq> egress_kdf
      then Inl EgressEnvelopeError
      else if \<not> kdf_params_equal (ee_kdf_params e) then Inl EgressEnvelopeError
      else case bindE (validate_recipient_id (ee_recipient e)) (\<lambda>_. validate_times rt (ee_created e) (ee_expires e)) of
        Inl ex \<Rightarrow> Inl EgressEnvelopeError
      | Inr u \<Rightarrow>
          bindE (envelope_id rt ec (without_envelope_id e)) (\<lambda>i.
            guardE (ee_id e = i) EgressEnvelopeError))"

definition egress_expired :: "runtime \<Rightarrow> int \<Rightarrow> string option \<Rightarrow> bool res" where
  "egress_expired rt now expires =
     (case expires of
        None \<Rightarrow> Inr False
      | Some x \<Rightarrow> bindE (parse_timestamp rt x) (\<lambda>px. Inr (instant px \<le> now)))"

definition egress_open :: "runtime \<Rightarrow> egress_crypto \<Rightarrow> int \<Rightarrow> string \<Rightarrow> string \<Rightarrow> egress_envelope \<Rightarrow> string res" where
  "egress_open rt ec now passphrase recipient_id e =
     bindE (egress_validate rt ec e) (\<lambda>_.
     bindE (egress_expired rt now (ee_expires e)) (\<lambda>expired.
       if expired then Inl EgressEnvelopeError
       else if recipient_id \<noteq> ee_recipient e then Inl EgressEnvelopeError
       else case (urlsafe_b64decode (ee_salt e), urlsafe_b64decode (ee_nonce e), urlsafe_b64decode (ee_ciphertext e)) of
         (Some salt, Some nonce, Some ciphertext) \<Rightarrow>
           if length salt \<noteq> SALT_BYTES \<or> length nonce \<noteq> NONCE_BYTES \<or> ciphertext = [] then Inl EgressEnvelopeError
           else case bindE (egress_derive_key ec passphrase salt) (\<lambda>key.
                  bindE (canonical_bytes rt (VDict (authenticated_header e))) (\<lambda>aad. Inr (key, aad))) of
             Inl ex \<Rightarrow> Inl EgressEnvelopeError
           | Inr (key, aad) \<Rightarrow>
               (case ec_decrypt ec key nonce ciphertext aad of
                  None \<Rightarrow> Inl EgressEnvelopeError
                | Some plaintext \<Rightarrow> Inr plaintext)
       | _ \<Rightarrow> Inl EgressEnvelopeError))"

definition egress_fields :: "string list" where
  "egress_fields = [''schema'', ''suite'', ''kdf'', ''kdf_params'', ''recipient_id'', ''content_type'',
     ''created'', ''expires'', ''salt'', ''nonce'', ''ciphertext'', ''envelope_id'']"

definition read_expires :: "pyval option \<Rightarrow> string option res" where
  "read_expires v =
     (case v of Some VNone \<Rightarrow> Inr None | Some (VStr x) \<Rightarrow> Inr (Some x) | _ \<Rightarrow> Inl EgressEnvelopeError)"

definition egress_from_dict :: "runtime \<Rightarrow> egress_crypto \<Rightarrow> pydict \<Rightarrow> egress_envelope res" where
  "egress_from_dict rt ec v =
     (if set (map fst v) \<noteq> set egress_fields then Inl EgressEnvelopeError
      else case (map_of v ''schema'', map_of v ''suite'', map_of v ''kdf'', map_of v ''recipient_id'',
                 map_of v ''content_type'', map_of v ''created'', map_of v ''salt'', map_of v ''nonce'',
                 map_of v ''ciphertext'', map_of v ''envelope_id'') of
        (Some (VStr sc), Some (VStr su), Some (VStr kd), Some (VStr re), Some (VStr ct), Some (VStr cr), Some (VStr sa),
         Some (VStr no), Some (VStr ci), Some (VStr i)) \<Rightarrow>
          bindE (read_expires (map_of v ''expires'')) (\<lambda>expires.
            case map_of v ''kdf_params'' of
              Some (VDict kp) \<Rightarrow>
                if \<not> kdf_params_equal kp then Inl EgressEnvelopeError
                else let e = \<lparr>ee_schema = sc, ee_suite = su, ee_kdf = kd, ee_kdf_params = kp, ee_recipient = re,
                       ee_content_type = ct, ee_created = cr, ee_expires = expires, ee_salt = sa, ee_nonce = no,
                       ee_ciphertext = ci, ee_id = i\<rparr>
                     in bindE (egress_validate rt ec e) (\<lambda>_. Inr e)
            | _ \<Rightarrow> Inl EgressEnvelopeError)
      | _ \<Rightarrow> Inl EgressEnvelopeError)"

section \<open>Lemmas\<close>

lemma kdf_params_equal_own [simp]: "kdf_params_equal (map (\<lambda>(k, i). (k, VInt i)) kdf_params)"
  by (simp add: kdf_params_equal_def kdf_params_def py_equals_int_def)

text \<open>What sealing returned.\<close>

lemma egress_seal_Inr:
  assumes "egress_seal rt ec utc_now salt nonce plaintext passphrase recipient ct created expires = Inr e"
  obtains aad c where "passphrase \<noteq> []" "validate_recipient_id recipient = Inr ()"
    "validate_times rt (ee_created e) expires = Inr ()" "ct \<noteq> []"
    "canonical_bytes rt (VDict (authenticated_header e)) = Inr aad"
    "ec_encrypt ec (ec_kdf ec passphrase salt) nonce plaintext aad = Inr c"
    "ee_schema e = egress_schema" "ee_suite e = egress_suite" "ee_kdf e = egress_kdf"
    "ee_kdf_params e = map (\<lambda>(k, i). (k, VInt i)) kdf_params" "ee_recipient e = recipient" "ee_content_type e = ct"
    "ee_created e = ostr_or created utc_now" "ee_expires e = expires" "ee_salt e = urlsafe_b64encode salt"
    "ee_nonce e = urlsafe_b64encode nonce" "ee_ciphertext e = urlsafe_b64encode c"
    "envelope_id rt ec (without_envelope_id e) = Inr (ee_id e)"
  using assms that
  by (auto simp: egress_seal_def res_simps Let_def egress_derive_key_def authenticated_header_def without_envelope_id_def
      simp del: canonicalize.simps split: if_splits)

lemma egress_seal_valid:
  assumes "egress_seal rt ec utc_now salt nonce plaintext passphrase recipient ct created expires = Inr e"
  shows "egress_validate rt ec e = Inr ()"
  by (rule egress_seal_Inr [OF assms]) (simp add: egress_validate_def)

text \<open>A dictionary of the envelope reads back when the envelope is valid.\<close>

lemma read_expires_opt [simp]: "read_expires (Some (opt_str x)) = Inr x"
  by (cases x) (simp_all add: read_expires_def opt_str_def)

lemma egress_from_to_dict:
  assumes "egress_validate rt ec e = Inr ()"
  shows "egress_from_dict rt ec (egress_to_dict e) = Inr e"
proof -
  have k: "kdf_params_equal (ee_kdf_params e)"
    using assms by (simp add: egress_validate_def split: if_splits)
  have "set (map fst (egress_to_dict e)) = set egress_fields"
    by (simp add: egress_to_dict_def without_envelope_id_def authenticated_header_def egress_fields_def)
  moreover have "\<lparr>ee_schema = ee_schema e, ee_suite = ee_suite e, ee_kdf = ee_kdf e, ee_kdf_params = ee_kdf_params e,
      ee_recipient = ee_recipient e, ee_content_type = ee_content_type e, ee_created = ee_created e,
      ee_expires = ee_expires e, ee_salt = ee_salt e, ee_nonce = ee_nonce e, ee_ciphertext = ee_ciphertext e,
      ee_id = ee_id e\<rparr> = e" by simp
  ultimately show ?thesis
    using assms k
    by (simp add: egress_from_dict_def egress_to_dict_def without_envelope_id_def authenticated_header_def Let_def
        del: egress_envelope.select_convs)
qed

text \<open>What opening checks.\<close>

lemma egress_open_Inr:
  assumes "egress_open rt ec now passphrase recipient e = Inr plaintext"
  obtains salt nonce c aad where "egress_validate rt ec e = Inr ()" "egress_expired rt now (ee_expires e) = Inr False"
    "recipient = ee_recipient e" "urlsafe_b64decode (ee_salt e) = Some salt" "urlsafe_b64decode (ee_nonce e) = Some nonce"
    "urlsafe_b64decode (ee_ciphertext e) = Some c" "passphrase \<noteq> []"
    "canonical_bytes rt (VDict (authenticated_header e)) = Inr aad"
    "ec_decrypt ec (ec_kdf ec passphrase salt) nonce c aad = Some plaintext"
  using assms that
  by (auto simp: egress_open_def res_simps egress_derive_key_def split: if_splits option.splits sum.splits)

text \<open>Envelopes whose headers have one canonical text agree on every field of the header.\<close>

lemma same_header:
  assumes "canonical_bytes rt (VDict (authenticated_header e')) = Inr b"
    and "canonical_bytes rt (VDict (authenticated_header e)) = Inr b"
    and "wf_pyval (VDict (ee_kdf_params e'))" "wf_pyval (VDict (ee_kdf_params e))"
  shows "rt_nfc rt (ee_recipient e') = rt_nfc rt (ee_recipient e)"
    "rt_nfc rt (ee_content_type e') = rt_nfc rt (ee_content_type e)"
    "rt_nfc rt (ee_created e') = rt_nfc rt (ee_created e)"
    "map_option (rt_nfc rt) (ee_expires e') = map_option (rt_nfc rt) (ee_expires e)"
proof -
  have wf: "wf_pyval (VDict (authenticated_header x))" if "wf_pyval (VDict (ee_kdf_params x))" for x
    using that by (simp add: authenticated_header_def)
  from canonical_bytes_inj [OF assms(1,2) wf [OF assms(3)] wf [OF assms(4)]]
  have c: "canonicalize rt (VDict (authenticated_header e')) = canonicalize rt (VDict (authenticated_header e))" .
  from assms(1) obtain u where u: "canonicalize rt (VDict (authenticated_header e')) = Inr u"
    by (auto simp: canonical_bytes_def res_simps simp del: canonicalize.simps)
  have dist: "distinct (map fst (authenticated_header x))" for x by (simp add: authenticated_header_def)
  note f = canonical_same_field [OF c u dist dist]
  show "map_option (rt_nfc rt) (ee_expires e') = map_option (rt_nfc rt) (ee_expires e)"
    using f [of "''expires''" "opt_str (ee_expires e')" "opt_str (ee_expires e)"]
    by (cases "ee_expires e'"; cases "ee_expires e") (simp_all add: authenticated_header_def opt_str_def)
  show "rt_nfc rt (ee_recipient e') = rt_nfc rt (ee_recipient e)"
    using f [of "''recipient_id''" "VStr (ee_recipient e')" "VStr (ee_recipient e)"]
    by (simp add: authenticated_header_def)
  show "rt_nfc rt (ee_content_type e') = rt_nfc rt (ee_content_type e)"
    using f [of "''content_type''" "VStr (ee_content_type e')" "VStr (ee_content_type e)"]
    by (simp add: authenticated_header_def)
  show "rt_nfc rt (ee_created e') = rt_nfc rt (ee_created e)"
    using f [of "''created''" "VStr (ee_created e')" "VStr (ee_created e)"]
    by (simp add: authenticated_header_def)
qed

text \<open>Opening a sealed envelope.\<close>

lemma egress_seal_open:
  assumes "ec_correct ec" "length salt = 16" "length nonce = 12"
    and "egress_seal rt ec utc_now salt nonce plaintext passphrase recipient ct created expires = Inr e"
  shows "egress_from_dict rt ec (egress_to_dict e) = Inr e \<and>
    egress_open rt ec now passphrase who e =
      (if egress_expired rt now expires = Inr False \<and> who = recipient then Inr plaintext
       else Inl EgressEnvelopeError)"
proof (rule egress_seal_Inr [OF assms(4)])
  fix aad c
  assume s: "passphrase \<noteq> []" "validate_recipient_id recipient = Inr ()"
    "validate_times rt (ee_created e) expires = Inr ()"
    "canonical_bytes rt (VDict (authenticated_header e)) = Inr aad"
    "ec_encrypt ec (ec_kdf ec passphrase salt) nonce plaintext aad = Inr c"
    "ee_recipient e = recipient" "ee_expires e = expires" "ee_salt e = urlsafe_b64encode salt"
    "ee_nonce e = urlsafe_b64encode nonce" "ee_ciphertext e = urlsafe_b64encode c"
  note v = egress_seal_valid [OF assms(4)]
  have d: "c \<noteq> []" "ec_decrypt ec (ec_kdf ec passphrase salt) nonce c aad = Some plaintext"
    using assms(1) s(5) by (auto simp: ec_correct_def)
  obtain x where x: "egress_expired rt now expires = Inr x"
    using s(3) by (cases expires) (auto simp: egress_expired_def validate_times_def res_simps)
  have "egress_open rt ec now passphrase who e = (if \<not> x \<and> who = recipient then Inr plaintext else Inl EgressEnvelopeError)"
    using assms(2,3) s d
    by (simp add: egress_open_def v x egress_derive_key_def SALT_BYTES_def NONCE_BYTES_def)
  then show ?thesis using egress_from_to_dict [OF v] x by simp
qed

section \<open>Properties\<close>

text \<open>
  C15.  Sealing and opening.  An envelope that \<open>seal\<close> returns survives its dictionary form, opens to the
  plaintext for its recipient and passphrase until it expires, and for nobody else and no longer after.
\<close>

theorem sealed_envelope_opens:
  assumes "ec_correct ec" "length salt = 16" "length nonce = 12"
    and "egress_seal rt ec utc_now salt nonce plaintext passphrase recipient ct created expires = Inr e"
  shows "egress_from_dict rt ec (egress_to_dict e) = Inr e \<and>
    egress_open rt ec now passphrase who e =
      (if egress_expired rt now expires = Inr False \<and> who = recipient then Inr plaintext
       else Inl EgressEnvelopeError)"
  by (rule egress_seal_open [OF assms])

text \<open>
  The header is authenticated.  Whatever is done to the routing metadata of a sealed envelope, also
  when its identifier is recomputed: if the changed envelope still opens with the passphrase, its
  recipient, content type and times are those of the sealed one, up to Unicode normalisation.
\<close>

theorem envelope_header_authenticated:
  assumes "ec_binds ec" "egress_seal rt ec utc_now salt nonce plaintext passphrase recipient ct created expires = Inr e"
    and "ee_salt e' = ee_salt e" "ee_nonce e' = ee_nonce e" "ee_ciphertext e' = ee_ciphertext e"
    and "wf_pyval (VDict (ee_kdf_params e'))" "egress_open rt ec now passphrase who e' = Inr plaintext'"
  shows "rt_nfc rt (ee_recipient e') = rt_nfc rt recipient \<and> rt_nfc rt (ee_content_type e') = rt_nfc rt ct \<and>
    rt_nfc rt (ee_created e') = rt_nfc rt (ee_created e) \<and>
    map_option (rt_nfc rt) (ee_expires e') = map_option (rt_nfc rt) expires"
proof (rule egress_seal_Inr [OF assms(2)], rule egress_open_Inr [OF assms(7)])
  fix aad c salt' nonce' c' aad'
  assume s: "canonical_bytes rt (VDict (authenticated_header e)) = Inr aad"
    "ec_encrypt ec (ec_kdf ec passphrase salt) nonce plaintext aad = Inr c"
    "ee_kdf_params e = map (\<lambda>(k, i). (k, VInt i)) kdf_params"
    "ee_recipient e = recipient" "ee_content_type e = ct" "ee_expires e = expires"
    "ee_salt e = urlsafe_b64encode salt" "ee_nonce e = urlsafe_b64encode nonce"
    "ee_ciphertext e = urlsafe_b64encode c"
  assume t: "urlsafe_b64decode (ee_salt e') = Some salt'" "urlsafe_b64decode (ee_nonce e') = Some nonce'"
    "urlsafe_b64decode (ee_ciphertext e') = Some c'" "canonical_bytes rt (VDict (authenticated_header e')) = Inr aad'"
    "ec_decrypt ec (ec_kdf ec passphrase salt') nonce' c' aad' = Some plaintext'"
  have "salt' = salt" "nonce' = nonce" "c' = c" using t(1-3) assms(3-5) s(7-9) by simp_all
  with t(5) have "ec_decrypt ec (ec_kdf ec passphrase salt) nonce c aad' = Some plaintext'" by simp
  with assms(1) s(2) have "aad' = aad" unfolding ec_binds_def by blast
  with t(4) have b: "canonical_bytes rt (VDict (authenticated_header e')) = Inr aad" by simp
  have "wf_pyval (VDict (ee_kdf_params e))" by (simp add: s(3) kdf_params_def)
  from same_header [OF b s(1) assms(6) this] show ?thesis by (simp add: s)
qed

section \<open>Witnesses\<close>

text \<open>A cipher with the two laws, and a runtime that reads timestamps.\<close>

definition demo_cipher :: egress_crypto where
  "demo_cipher =
     \<lparr>ec_encrypt = (\<lambda>k n p a. Inr (replicate (length p) (CHR ''x'') @ CHR ''y'' # p @ a)),
      ec_decrypt = (\<lambda>k n c a. let l = length (takeWhile (\<lambda>x. x = CHR ''x'') c); r = drop (Suc l) c in
        if drop l r = a then Some (take l r) else None),
      ec_kdf = (\<lambda>p s. p), ec_sha256 = (\<lambda>b. b)\<rparr>"

definition egress_runtime :: runtime where
  "egress_runtime = plain_runtime\<lparr>rt_fromiso := (\<lambda>s. Some (Aware (int (length s)) 0))\<rparr>"

lemma demo_cipher_laws: "ec_correct demo_cipher" "ec_binds demo_cipher"
proof -
  have t: "takeWhile (\<lambda>x. x = CHR ''x'') (replicate n (CHR ''x'') @ CHR ''y'' # r) = replicate n (CHR ''x'')" for n r
    by (induction n) simp_all
  show "ec_correct demo_cipher" by (auto simp: ec_correct_def demo_cipher_def t)
  show "ec_binds demo_cipher" by (auto simp: ec_binds_def demo_cipher_def t Let_def split: if_splits)
qed

definition demo_seal :: "egress_envelope res" where
  "demo_seal = egress_seal egress_runtime demo_cipher [] (replicate 16 (CHR ''s'')) (replicate 12 (CHR ''n'')) ''data'' ''pw''
     ''peer:ada'' ''text/plain'' (Some ''1Z'') (Some ''22Z'')"

lemma demo_seal_ex: "\<exists>e. demo_seal = Inr e"
proof -
  have v: "validate_recipient_id ''peer:ada'' = Inr ()"
    by (simp add: validate_recipient_id_def recipient_namespaces_def)
  have t: "validate_times egress_runtime ''1Z'' (Some ''22Z'') = Inr ()"
    by (simp add: validate_times_def validate_timestamp_def parse_timestamp_def egress_runtime_def endswith_def startswith_def)
  have c: "\<exists>b. canonical_bytes egress_runtime (VDict (authenticated_header x)) = Inr b"
    "\<exists>b. canonical_bytes egress_runtime (VDict (without_envelope_id x)) = Inr b"
    if "ee_kdf_params x = map (\<lambda>(k, i). (k, VInt i)) kdf_params" for x
    using that by (intro canonical_bytes_total; simp add: authenticated_header_def without_envelope_id_def kdf_params_def)+
  let ?h = "\<lparr>ee_schema = egress_schema, ee_suite = egress_suite, ee_kdf = egress_kdf,
     ee_kdf_params = map (\<lambda>(k, i). (k, VInt i)) kdf_params, ee_recipient = ''peer:ada'', ee_content_type = ''text/plain'',
     ee_created = ''1Z'', ee_expires = Some ''22Z'', ee_salt = urlsafe_b64encode (replicate 16 (CHR ''s'')),
     ee_nonce = urlsafe_b64encode (replicate 12 (CHR ''n'')), ee_ciphertext = [], ee_id = []\<rparr>"
  obtain b where b: "canonical_bytes egress_runtime (VDict (authenticated_header ?h)) = Inr b" using c(1) [of ?h] by auto
  obtain c' where e: "ec_encrypt demo_cipher ''pw'' (replicate 12 (CHR ''n'')) ''data'' b = Inr c'"
    by (simp add: demo_cipher_def)
  obtain b' where "canonical_bytes egress_runtime
      (VDict (without_envelope_id (?h\<lparr>ee_ciphertext := urlsafe_b64encode c'\<rparr>))) = Inr b'"
    using c(2) [of "?h\<lparr>ee_ciphertext := urlsafe_b64encode c'\<rparr>"] by auto
  moreover have "ec_kdf demo_cipher ''pw'' s = ''pw''" for s by (simp add: demo_cipher_def)
  ultimately show ?thesis
    using b e by (simp add: demo_seal_def egress_seal_def v t ostr_or_def str_or_def egress_derive_key_def envelope_id_def Let_def)
qed

lemma demo_open:
  assumes "demo_seal = Inr e"
  shows "egress_expired egress_runtime 7 (Some ''22Z'') = Inr False" "egress_expired egress_runtime 8 (Some ''22Z'') = Inr True"
    "egress_open egress_runtime demo_cipher 7 ''pw'' ''peer:ada'' e = Inr ''data''"
proof -
  show x: "egress_expired egress_runtime 7 (Some ''22Z'') = Inr False"
    "egress_expired egress_runtime 8 (Some ''22Z'') = Inr True"
    by (simp_all add: egress_expired_def parse_timestamp_def egress_runtime_def startswith_def)
  have l: "length (replicate 16 (CHR ''s'')) = 16" "length (replicate 12 (CHR ''n'')) = 12" by simp_all
  show "egress_open egress_runtime demo_cipher 7 ''pw'' ''peer:ada'' e = Inr ''data''"
    using egress_seal_open [OF demo_cipher_laws(1) l assms [unfolded demo_seal_def], of 7 "''peer:ada''"] x by simp
qed

theorem sealed_envelope_opens_witness:
  "\<exists>e. demo_seal = Inr e \<and> egress_open egress_runtime demo_cipher 8 ''pw'' ''peer:ada'' e = Inl EgressEnvelopeError"
proof -
  obtain e where e: "demo_seal = Inr e" using demo_seal_ex by blast
  have l: "length (replicate 16 (CHR ''s'')) = 16" "length (replicate 12 (CHR ''n'')) = 12" by simp_all
  from sealed_envelope_opens [OF demo_cipher_laws(1) l e [unfolded demo_seal_def], of 8 "''peer:ada''"] e demo_open(2) [OF e]
  show ?thesis by auto
qed

theorem envelope_header_authenticated_witness:
  "\<exists>e. demo_seal = Inr e \<and> egress_open egress_runtime demo_cipher 7 ''pw'' ''peer:ada'' e = Inr ''data'' \<and>
     rt_nfc egress_runtime (ee_content_type e) = ''text/plain''"
proof -
  obtain e where e: "demo_seal = Inr e" using demo_seal_ex by blast
  have "ee_kdf_params e = map (\<lambda>(k, i). (k, VInt i)) kdf_params"
    by (rule egress_seal_Inr [OF e [unfolded demo_seal_def]]) blast
  then have "wf_pyval (VDict (ee_kdf_params e))" by (simp add: kdf_params_def)
  from envelope_header_authenticated [OF demo_cipher_laws(2) e [unfolded demo_seal_def] refl refl refl this
      demo_open(3) [OF e]] e demo_open(3) [OF e]
  show ?thesis by (auto simp: egress_runtime_def plain_runtime_def)
qed

end
