(* ===== verification/PyText.thy ===== *)
theory PyText
  imports JsonGrammar
begin

text \<open>
  Text operations of the standard library on the code points of a text, \<open>str.strip\<close> and the line
  boundaries of \<open>str.splitlines\<close>; the truth value of a Python value; and the UTF-8 decoder's check,
  which the texts that \<open>json.dumps\<close> writes pass.
\<close>

definition white_points :: "nat set" where
  "white_points = {9..13} \<union> {28..32} \<union> {133, 160, 5760} \<union> {8192..8202} \<union> {8232, 8233, 8239, 8287, 12288}"

definition line_points :: "nat set" where
  "line_points = {10..13} \<union> {28..30} \<union> {133, 8232, 8233}"

definition py_strip :: "string \<Rightarrow> string" where
  "py_strip s =
     (let drop_white = dropWhile (\<lambda>c. c \<in> white_points) in
      concat (map utf8_encode (rev (drop_white (rev (drop_white (utf8_points s)))))))"

text \<open>\<open>str.splitlines\<close> on code points.\<close>

fun split_points :: "nat list \<Rightarrow> nat list \<Rightarrow> nat list list" where
  "split_points cur [] = (if cur = [] then [] else [cur])"
| "split_points cur (c # cs) =
     (if c \<in> line_points
      then cur # split_points [] (drop (if c = 13 \<and> take 1 cs = [10] then 1 else 0) cs)
      else split_points (cur @ [c]) cs)"

text \<open>\<open>bool(v)\<close> of a value.\<close>

definition py_truthy :: "pyval \<Rightarrow> bool" where
  "py_truthy v =
     (case v of VNone \<Rightarrow> False | VBool b \<Rightarrow> b | VInt i \<Rightarrow> i \<noteq> 0
      | VFloat f \<Rightarrow> f \<notin> set [Finite ''0.0'', Finite ''-0.0''] | VStr s \<Rightarrow> s \<noteq> [] | VList xs \<Rightarrow> xs \<noteq> []
      | VTuple xs \<Rightarrow> xs \<noteq> [] | VDict d \<Rightarrow> d \<noteq> []
      | VDecimal t \<Rightarrow> t \<notin> set [Some ''0'', Some ''-0''] | VDate t \<Rightarrow> True | VDatetime t \<Rightarrow> True)"

section \<open>UTF-8\<close>

text \<open>
  The decoder as an automaton on bytes: state 0 is between two code points, 1 to 3 count the
  continuation bytes that are due, 4 to 7 follow a lead byte with a restricted second byte.
\<close>

definition utf8_lead :: "nat \<Rightarrow> nat option" where
  "utf8_lead n =
     (if n < 128 then Some 0
      else if 194 \<le> n \<and> n \<le> 223 then Some 1
      else if n = 224 then Some 4
      else if n = 237 then Some 5
      else if 225 \<le> n \<and> n \<le> 239 then Some 2
      else if n = 240 then Some 6
      else if 241 \<le> n \<and> n \<le> 243 then Some 3
      else if n = 244 then Some 7
      else None)"

definition utf8_next :: "nat \<Rightarrow> char \<Rightarrow> nat option" where
  "utf8_next st c =
     (let n = of_char c :: nat;
          within = (\<lambda>lo hi st'. if lo \<le> n \<and> n \<le> hi then Some st' else None) in
      if st = 0 then utf8_lead n
      else if st = 1 then within 128 191 0
      else if st = 2 then within 128 191 1
      else if st = 3 then within 128 191 2
      else if st = 4 then within 160 191 1
      else if st = 5 then within 128 159 1
      else if st = 6 then within 144 191 2
      else within 128 143 2)"

fun utf8_run :: "nat \<Rightarrow> string \<Rightarrow> nat option" where
  "utf8_run st [] = Some st"
| "utf8_run st (c # cs) = (case utf8_next st c of None \<Rightarrow> None | Some st' \<Rightarrow> utf8_run st' cs)"

definition utf8_ok :: "string \<Rightarrow> bool" where
  "utf8_ok s \<longleftrightarrow> utf8_run 0 s = Some 0"

lemma utf8_run_append: "utf8_run st (a @ b) = (case utf8_run st a of None \<Rightarrow> None | Some st' \<Rightarrow> utf8_run st' b)"
  by (induction a arbitrary: st) (auto split: option.split)

lemma utf8_ok_append [simp]: "utf8_ok a \<Longrightarrow> utf8_ok b \<Longrightarrow> utf8_ok (a @ b)"
  by (simp add: utf8_ok_def utf8_run_append)

lemma utf8_ok_Nil [simp]: "utf8_ok []"
  by (simp add: utf8_ok_def)

lemma utf8_next_ascii: "of_char c < (128::nat) \<Longrightarrow> utf8_next st c = (if st = 0 then Some 0 else None)"
  by (auto simp: utf8_next_def utf8_lead_def Let_def)

lemma utf8_ok_ascii: "\<forall>c \<in> set s. of_char c < (128::nat) \<Longrightarrow> utf8_ok s"
  unfolding utf8_ok_def by (induction s) (simp_all add: utf8_next_ascii)

lemma utf8_run_ascii: "\<forall>c \<in> set s. of_char c < (128::nat) \<Longrightarrow> s \<noteq> [] \<Longrightarrow> utf8_run st s = (if st = 0 then Some 0 else None)"
proof (induction s arbitrary: st)
  case (Cons c s)
  then show ?case by (cases "s = []") (simp_all add: utf8_next_ascii)
qed simp

text \<open>Escaping changes nothing for the decoder.\<close>

lemma hex_byte_ascii: "\<forall>d \<in> set (hex_byte c). of_char d < (128::nat)"
proof -
  have h: "of_char (hexdigit n) < (128::nat)" if "n < 16" for n using that by (auto simp: hexdigit_def)
  have "of_char c div 16 < (16::nat)" using of_char_lt [of c] by (simp add: less_mult_imp_div_less)
  then show ?thesis using h by (simp add: hex_byte_def)
qed

lemma utf8_run_esc: "utf8_run st (esc_char c) = utf8_run st [c]"
proof (cases "of_char c < (128::nat)")
  case True
  have "\<forall>d \<in> set (esc_char c). of_char d < (128::nat)"
    using True hex_byte_ascii [of c] by (simp add: esc_char.simps Let_def)
  moreover have "esc_char c \<noteq> []" by (simp add: esc_char.simps Let_def)
  ultimately show ?thesis using True by (simp add: utf8_run_ascii utf8_next_ascii del: esc_char.simps)
next
  case False
  then show ?thesis by (simp add: esc_char.simps Let_def)
qed

lemma utf8_ok_quote [simp]: "utf8_ok s \<Longrightarrow> utf8_ok (quote_utf8 s)"
proof -
  have "utf8_run st (concat (map esc_char s)) = utf8_run st s" for st
  proof (induction s arbitrary: st)
    case (Cons c s)
    then show ?case
      by (simp add: utf8_run_append utf8_run_esc del: esc_char.simps split: option.split)
  qed simp
  then show "utf8_ok s \<Longrightarrow> utf8_ok (quote_utf8 s)"
    by (simp add: utf8_ok_def quote_utf8_def utf8_run_append utf8_next_ascii del: esc_char.simps)
qed

text \<open>The texts of a value, and what a readable style writes of it.\<close>

fun texts_ok :: "pyval \<Rightarrow> bool" where
  "texts_ok (VStr s) = utf8_ok s"
| "texts_ok (VList xs) = list_all texts_ok xs"
| "texts_ok (VDict d) = list_all (\<lambda>p. utf8_ok (fst p) \<and> texts_ok (snd p)) d"
| "texts_ok v = True"

lemma number_chars_ascii: "set t \<subseteq> numchars \<Longrightarrow> utf8_ok t"
proof -
  have "\<forall>c \<in> numchars. of_char c < (128::nat)" by (auto simp: numchars_def digit_chars_eq)
  then show "set t \<subseteq> numchars \<Longrightarrow> utf8_ok t" by (intro utf8_ok_ascii) blast
qed

lemma white_utf8_ok [simp]: "set w \<subseteq> white_chars \<Longrightarrow> utf8_ok w"
  by (rule utf8_ok_ascii) (auto simp: white_chars_def)

lemma punct_utf8_ok [simp]:
  "utf8_ok (CHR '','' # s) = utf8_ok s" "utf8_ok (CHR '':'' # s) = utf8_ok s" "utf8_ok (CHR ''['' # s) = utf8_ok s"
  "utf8_ok (CHR '']'' # s) = utf8_ok s" "utf8_ok (CHR ''{'' # s) = utf8_ok s" "utf8_ok (CHR ''}'' # s) = utf8_ok s"
  "utf8_ok (CHR 0x0A # s) = utf8_ok s"
  by (simp_all add: utf8_ok_def utf8_next_ascii)

text \<open>A JSON text of a value whose texts are UTF-8 is UTF-8.\<close>

lemma json_text_utf8_ok:
  "json_text fo v t \<Longrightarrow> texts_ok v \<Longrightarrow> utf8_ok t"
  "items_text fo xs t \<Longrightarrow> list_all texts_ok xs \<Longrightarrow> utf8_ok t"
  "members_text fo d t \<Longrightarrow> list_all (\<lambda>p. utf8_ok (fst p) \<and> texts_ok (snd p)) d \<Longrightarrow> utf8_ok t"
proof (induction rule: json_text_items_text_members_text.inducts)
  case null
  then show ?case by (intro utf8_ok_ascii) simp
next
  case (bool b)
  then show ?case by (intro utf8_ok_ascii) simp
next
  case (int i)
  then show ?case using number_text(2) [of i] by (auto intro: number_chars_ascii)
next
  case (float t)
  then show ?case using number_text(1) by (auto intro: number_chars_ascii)
qed simp_all

lemma dumps_utf8_ok:
  "json_plain st v \<Longrightarrow> json_reads fo v \<Longrightarrow> texts_ok v \<Longrightarrow> readable_style st \<Longrightarrow> dumps st v = Inr t \<Longrightarrow> utf8_ok t"
  using json_text_utf8_ok(1) dumps_text by blast

section \<open>ASCII texts\<close>

lemma utf8_points_ascii: "\<forall>c \<in> set s. of_char c < (128::nat) \<Longrightarrow> utf8_points s = map of_char s"
  by (induction s) simp_all

lemma utf8_encode_ascii: "of_char c < (128::nat) \<Longrightarrow> utf8_encode (of_char c) = [c]"
  by (simp add: utf8_encode_def)

lemma py_strip_id:
  assumes "\<forall>c \<in> set s. of_char c < (128::nat) \<and> of_char c \<notin> white_points"
  shows "py_strip s = s"
proof -
  have "dropWhile (\<lambda>c. c \<in> white_points) xs = xs" if "set xs \<subseteq> set (map of_char s)" for xs
    using that assms by (cases xs) auto
  then have "py_strip s = concat (map (\<lambda>c. utf8_encode (of_char c)) s)"
    using assms by (simp add: py_strip_def Let_def utf8_points_ascii comp_def)
  also have "\<dots> = s" using assms by (induction s) (simp_all add: utf8_encode_ascii)
  finally show ?thesis .
qed

end
