(* ===== verification/GateOne.thy ===== *)
theory GateOne
  imports Scar Base64 PyText
begin

text \<open>
  \<open>src/gateone/\<close>: the verification core of Gate.one.  An attestation envelope is validated, its
  ML-DSA-87 signature and its TPM quote are verified, a policy decides, and the decision is appended to
  the SCAR ledger.  The \<open>oqs\<close> binding and the \<open>tpm2_checkquote\<close> process are parameters.
\<close>

section \<open>ML-DSA-87: \<open>verifier/pqc.py\<close>\<close>

text \<open>
  The \<open>oqs\<close> module: \<open>None\<close> when it is not installed, else \<open>Signature("ML-DSA-87").verify(payload,
  signature, public_key)\<close>, which may raise.  The texts of exceptions are a parameter as well.
\<close>

type_synonym oqs_backend = "(string \<Rightarrow> string \<Rightarrow> string \<Rightarrow> bool res) option"

record backend_verification =
  bv_verified :: bool
  bv_available :: bool
  bv_code :: string
  bv_reason :: string

definition pqc_failed :: "bool \<Rightarrow> string \<Rightarrow> string \<Rightarrow> backend_verification" where
  "pqc_failed available code reason =
     \<lparr>bv_verified = False, bv_available = available, bv_code = code, bv_reason = reason\<rparr>"

definition pqc_verify :: "(pyexc \<Rightarrow> string) \<Rightarrow> oqs_backend \<Rightarrow> string \<Rightarrow> string \<Rightarrow> string \<Rightarrow> backend_verification" where
  "pqc_verify exc oqs payload signature_b64 public_key_b64 =
     (case (b64_decode signature_b64, b64_decode public_key_b64) of
        (Some signature, Some public_key) \<Rightarrow>
          (case oqs of
             None \<Rightarrow> pqc_failed False ''PQC_BACKEND_UNAVAILABLE''
               (''ML-DSA-87 verification requires the locally installed '' @
                ''liboqs-python backend; install the project's 'pqc' extra.'')
           | Some verify \<Rightarrow>
               (case verify payload signature public_key of
                  Inl ex \<Rightarrow> pqc_failed True ''PQC_VERIFICATION_ERROR'' (''ML-DSA-87 verification failed closed: '' @ exc ex)
                | Inr verified \<Rightarrow>
                    if \<not> verified
                    then pqc_failed True ''PQC_SIGNATURE_INVALID'' ''ML-DSA-87 signature verification failed.''
                    else \<lparr>bv_verified = True, bv_available = True, bv_code = ''PQC_VERIFIED'',
                          bv_reason = ''ML-DSA-87 signature verified.''\<rparr>))
      | _ \<Rightarrow> pqc_failed True ''PQC_ENCODING_INVALID''
               (''ML-DSA-87 material is not valid base64: '' @ exc (ValueError ''base64'')))"

section \<open>TPM quotes: \<open>enclave/tpm_attestation.py\<close>\<close>

record tpm_quote =
  tq_quoted :: string
  tq_signature :: string
  tq_ak_public :: string
  tq_pcr_values :: string
  tq_selection :: string

text \<open>
  What running \<open>tpm2_checkquote\<close> on a command line yields, the files of the temporary directory being
  given with their contents: the process is missing, times out, fails with an \<open>OSError\<close>, or completes
  with a return code, standard output and standard error.
\<close>

datatype tool_run = ToolMissing | ToolTimeout | ToolError pyexc | Completed int string string

type_synonym tpm_tool = "string list \<Rightarrow> (string \<times> string) list \<Rightarrow> tool_run"

definition tpm_invalid :: "string \<Rightarrow> string \<Rightarrow> backend_verification" where
  "tpm_invalid code reason = \<lparr>bv_verified = False, bv_available = True, bv_code = code, bv_reason = reason\<rparr>"

definition tpm_command :: "string \<Rightarrow> string \<Rightarrow> tpm_quote \<Rightarrow> string \<Rightarrow> string list" where
  "tpm_command executable directory quote nonce =
     [executable, ''-u'', directory @ ''/ak.pub'', ''-m'', directory @ ''/quote.msg'', ''-s'', directory @ ''/quote.sig'',
      ''-f'', directory @ ''/pcr.bin'', ''-l'', tq_selection quote, ''-q'', nonce]"

definition tpm_checked :: "(pyexc \<Rightarrow> string) \<Rightarrow> tool_run \<Rightarrow> backend_verification" where
  "tpm_checked exc run =
     (case run of
        ToolMissing \<Rightarrow>
          \<lparr>bv_verified = False, bv_available = False, bv_code = ''TPM_VERIFIER_UNAVAILABLE'',
           bv_reason = ''tpm2_checkquote is not installed; hardware attestation cannot be verified.''\<rparr>
      | ToolTimeout \<Rightarrow> tpm_invalid ''TPM_VERIFICATION_TIMEOUT'' ''TPM quote verification timed out.''
      | ToolError ex \<Rightarrow> tpm_invalid ''TPM_VERIFICATION_ERROR'' (''TPM quote verification failed closed: '' @ exc ex)
      | Completed code out err \<Rightarrow>
          if code \<noteq> 0
          then tpm_invalid ''TPM_QUOTE_INVALID''
                 (''tpm2_checkquote rejected the TPM quote: '' @ str_or (py_strip (str_or err out)) ''no diagnostic output'')
          else \<lparr>bv_verified = True, bv_available = True, bv_code = ''TPM_QUOTE_VERIFIED'',
                bv_reason = ''TPM quote, nonce, PCR values, and attestation key verified.''\<rparr>)"

definition tpm_verify :: "runtime \<Rightarrow> (pyexc \<Rightarrow> string) \<Rightarrow> tpm_tool \<Rightarrow> string \<Rightarrow> string \<Rightarrow> tpm_quote \<Rightarrow> string \<Rightarrow> string \<Rightarrow>
    backend_verification" where
  "tpm_verify rt exc tool executable directory quote nonce trusted_ak_hash =
     (if nonce = [] then tpm_invalid ''TPM_NONCE_MISSING'' ''TPM quote verification requires a nonce.''
      else if tq_selection quote = []
      then tpm_invalid ''TPM_PCR_SELECTION_MISSING'' ''TPM PCR selection is required.''
      else case (b64_decode (tq_quoted quote), b64_decode (tq_signature quote), b64_decode (tq_ak_public quote),
                 b64_decode (tq_pcr_values quote)) of
        (Some quoted, Some signature, Some ak_public, Some pcr_values) \<Rightarrow>
          if quoted = [] \<or> signature = [] \<or> ak_public = [] \<or> pcr_values = []
          then tpm_invalid ''TPM_ARTIFACT_EMPTY'' ''TPM quote artifacts must be non-empty.''
          else if hexdigest rt ak_public \<noteq> trusted_ak_hash
          then tpm_invalid ''TPM_AK_BINDING_INVALID''
                 ''TPM attestation key does not match the identity-bound trusted key.''
          else tpm_checked exc (tool (tpm_command executable directory quote nonce)
                 [(directory @ ''/quote.msg'', quoted), (directory @ ''/quote.sig'', signature),
                  (directory @ ''/ak.pub'', ak_public), (directory @ ''/pcr.bin'', pcr_values)])
      | _ \<Rightarrow> tpm_invalid ''TPM_ARTIFACT_ENCODING_INVALID''
               (''TPM artifact is not valid base64: '' @ exc (ValueError ''base64'')))"

section \<open>Envelopes: \<open>verifier/attestation.py\<close>\<close>

record attestation_envelope =
  at_identity :: string
  at_nonce :: string
  at_issued :: string
  at_payload :: pydict
  at_signature :: string
  at_public_key :: string
  at_trusted_ak :: string
  at_quote :: tpm_quote

record attestation_verification =
  av_payload :: "string option"
  av_pqc :: backend_verification
  av_tpm :: backend_verification
  av_code :: string
  av_reason :: string

text \<open>
  The verifiers and the machine they run on: the two backends, the temporary directory, the accepted age
  and clock skew in microseconds, and the texts of exceptions.
\<close>

record attestation_env =
  ae_oqs :: oqs_backend
  ae_tool :: tpm_tool
  ae_executable :: string
  ae_directory :: string
  ae_max_age :: int
  ae_max_skew :: int
  ae_exc :: "pyexc \<Rightarrow> string"

definition tpm_not_attempted :: backend_verification where
  "tpm_not_attempted =
     \<lparr>bv_verified = False, bv_available = False, bv_code = ''TPM_NOT_ATTEMPTED'',
      bv_reason = ''TPM verification was not attempted.''\<rparr>"

definition attestation_invalid :: "string \<Rightarrow> string \<Rightarrow> attestation_verification" where
  "attestation_invalid code reason =
     \<lparr>av_payload = None,
      av_pqc = \<lparr>bv_verified = False, bv_available = False, bv_code = ''PQC_NOT_ATTEMPTED'',
                bv_reason = ''PQC verification was not attempted.''\<rparr>,
      av_tpm = tpm_not_attempted, av_code = code, av_reason = reason\<rparr>"

text \<open>\<open>datetime.fromisoformat(s.replace("Z", "+00:00"))\<close> as an instant; a naive one is a \<open>ValueError\<close>.\<close>

definition issued_instant :: "runtime \<Rightarrow> string \<Rightarrow> int res" where
  "issued_instant rt issued =
     (case rt_fromiso rt (str_replace ''Z'' ''+00:00'' issued) of
        None \<Rightarrow> Inl (ValueError ''Invalid isoformat string'')
      | Some (Naive w) \<Rightarrow> Inl (ValueError ''timestamp lacks timezone'')
      | Some (Aware w off) \<Rightarrow> Inr (w - off))"

text \<open>\<open>_validate\<close>: \<open>Inr None\<close> is a valid envelope; \<open>Inl\<close> is an exception it does not catch.\<close>

definition attestation_validate :: "runtime \<Rightarrow> attestation_env \<Rightarrow> attestation_envelope \<Rightarrow> string \<Rightarrow> int \<Rightarrow>
    attestation_verification option res" where
  "attestation_validate rt a e expected_nonce now =
     (if expected_nonce = [] \<or> at_nonce e \<noteq> expected_nonce
      then Inr (Some (attestation_invalid ''NONCE_MISMATCH'' ''Attestation nonce does not match the issued challenge.''))
      else if at_identity e = [] \<or> at_trusted_ak e = []
      then Inr (Some (attestation_invalid ''IDENTITY_BINDING_MISSING''
             ''Identity and trusted TPM key binding are required.''))
      else if map_of (at_payload e) ''identity_id'' \<noteq> Some (VStr (at_identity e))
      then Inr (Some (attestation_invalid ''IDENTITY_BINDING_INVALID''
             ''Payload identity is not bound to the envelope identity.''))
      else case issued_instant rt (at_issued e) of
        Inl ex \<Rightarrow> Inr (Some (attestation_invalid ''FRESHNESS_INVALID'' (''Attestation timestamp is invalid: '' @ ae_exc a ex)))
      | Inr issued \<Rightarrow>
          if issued < now - ae_max_age a \<or> now + ae_max_skew a < issued
          then Inr (Some (attestation_invalid ''FRESHNESS_FAILED''
                 ''Attestation timestamp is outside the accepted freshness window.''))
          else case canonical_bytes rt (VDict (at_payload e)) of
            Inr b \<Rightarrow> Inr None
          | Inl ex \<Rightarrow>
              (case ex of
                 TypeError t \<Rightarrow> Inr (Some (attestation_invalid ''PAYLOAD_INVALID'' (''Payload cannot be canonicalized: '' @ ae_exc a ex)))
               | ValueError t \<Rightarrow> Inr (Some (attestation_invalid ''PAYLOAD_INVALID'' (''Payload cannot be canonicalized: '' @ ae_exc a ex)))
               | _ \<Rightarrow> Inl ex))"

definition attestation_verify :: "runtime \<Rightarrow> attestation_env \<Rightarrow> int \<Rightarrow> attestation_envelope \<Rightarrow> string \<Rightarrow>
    attestation_verification res" where
  "attestation_verify rt a now e expected_nonce =
     bindE (attestation_validate rt a e expected_nonce now) (\<lambda>invalid.
       case invalid of
         Some v \<Rightarrow> Inr v
       | None \<Rightarrow>
           bindE (canonical_bytes rt (VDict (at_payload e))) (\<lambda>payload.
             let pqc = pqc_verify (ae_exc a) (ae_oqs a) payload (at_signature e) (at_public_key e) in
             if \<not> bv_verified pqc
             then Inr \<lparr>av_payload = Some payload, av_pqc = pqc, av_tpm = tpm_not_attempted,
                       av_code = bv_code pqc, av_reason = bv_reason pqc\<rparr>
             else let tpm = tpm_verify rt (ae_exc a) (ae_tool a) (ae_executable a) (ae_directory a) (at_quote e)
                              (at_nonce e) (at_trusted_ak e)
                  in Inr \<lparr>av_payload = Some payload, av_pqc = pqc, av_tpm = tpm,
                          av_code = bv_code tpm, av_reason = bv_reason tpm\<rparr>))"

section \<open>Policy and evidence: \<open>verifier/policy.py\<close>, \<open>evidence/scar.py\<close>, \<open>verifier/service.py\<close>\<close>

datatype authority_outcome = ALLOW | QUARANTINE | DENY

fun outcome_value :: "authority_outcome \<Rightarrow> string" where
  "outcome_value ALLOW = ''allow''"
| "outcome_value QUARANTINE = ''quarantine''"
| "outcome_value DENY = ''deny''"

record authority_decision =
  go_outcome :: authority_outcome
  go_code :: string
  go_reason :: string

definition gateone_decide :: "attestation_verification \<Rightarrow> authority_decision" where
  "gateone_decide v =
     (if bv_verified (av_pqc v) \<and> bv_verified (av_tpm v)
      then \<lparr>go_outcome = ALLOW, go_code = ''ATTESTATION_VERIFIED'', go_reason = ''Attestation verified.''\<rparr>
      else if \<not> bv_available (av_pqc v) \<or> \<not> bv_available (av_tpm v)
      then \<lparr>go_outcome = QUARANTINE, go_code = av_code v, go_reason = av_reason v\<rparr>
      else \<lparr>go_outcome = DENY, go_code = av_code v, go_reason = av_reason v\<rparr>)"

record gateone_evidence =
  ge_identity :: string
  ge_decision :: authority_decision
  ge_nonce_hash :: string
  ge_codes :: "string list"

definition evidence_metadata :: "gateone_evidence \<Rightarrow> pydict" where
  "evidence_metadata g =
     [(''decision'', VStr (outcome_value (go_outcome (ge_decision g)))),
      (''reason_code'', VStr (go_code (ge_decision g))),
      (''nonce_hash'', VStr (ge_nonce_hash g)),
      (''verification_codes'', str_list (ge_codes g))]"

definition gateone_record :: "runtime \<Rightarrow> moment \<Rightarrow> gateone_evidence \<Rightarrow> scar_ledger \<Rightarrow> scar_event res \<times> scar_ledger" where
  "gateone_record rt m g L =
     (if ge_identity g \<noteq> sl_identity L
      then (Inl (ValueError ''Gate.one evidence identity does not match the SCAR ledger.''), L)
      else append_event rt m ''GATEONE_VERIFICATION'' (actor_value DEVICE_ACTOR) None None (Some (evidence_metadata g)) None L)"

record gateone_result =
  gr_verification :: attestation_verification
  gr_decision :: authority_decision
  gr_evidence :: scar_event

definition gateone_evidence_of :: "runtime \<Rightarrow> attestation_envelope \<Rightarrow> string \<Rightarrow> attestation_verification \<Rightarrow> gateone_evidence" where
  "gateone_evidence_of rt e expected_nonce v =
     \<lparr>ge_identity = at_identity e, ge_decision = gateone_decide v, ge_nonce_hash = hexdigest rt expected_nonce,
      ge_codes = [av_code v, bv_code (av_pqc v), bv_code (av_tpm v)]\<rparr>"

definition gateone_verify :: "runtime \<Rightarrow> attestation_env \<Rightarrow> int \<Rightarrow> moment \<Rightarrow> attestation_envelope \<Rightarrow> string \<Rightarrow> scar_ledger \<Rightarrow>
    gateone_result res \<times> scar_ledger" where
  "gateone_verify rt a now m e expected_nonce L =
     (case attestation_verify rt a now e expected_nonce of
        Inl ex \<Rightarrow> (Inl ex, L)
      | Inr v \<Rightarrow>
          (case gateone_record rt m (gateone_evidence_of rt e expected_nonce v) L of
             (Inl ex, L') \<Rightarrow> (Inl ex, L')
           | (Inr ev, L') \<Rightarrow> (Inr \<lparr>gr_verification = v, gr_decision = gateone_decide v, gr_evidence = ev\<rparr>, L')))"

section \<open>What is verified\<close>

text \<open>The conditions under which the signature of a valid, fresh envelope has been verified.\<close>

definition envelope_signed :: "runtime \<Rightarrow> attestation_env \<Rightarrow> int \<Rightarrow> attestation_envelope \<Rightarrow> string \<Rightarrow> bool" where
  "envelope_signed rt a now e nonce \<longleftrightarrow>
     nonce \<noteq> [] \<and> at_nonce e = nonce \<and> at_identity e \<noteq> [] \<and> at_trusted_ak e \<noteq> [] \<and>
     map_of (at_payload e) ''identity_id'' = Some (VStr (at_identity e)) \<and>
     (\<exists>t. issued_instant rt (at_issued e) = Inr t \<and> now - ae_max_age a \<le> t \<and> t \<le> now + ae_max_skew a) \<and>
     (\<exists>b sig key verify. canonical_bytes rt (VDict (at_payload e)) = Inr b \<and> b64_decode (at_signature e) = Some sig \<and>
        b64_decode (at_public_key e) = Some key \<and> ae_oqs a = Some verify \<and> verify b sig key = Inr True)"

text \<open>The conditions under which the TPM tool confirmed a quote of the pinned key for the nonce.\<close>

definition quote_genuine :: "runtime \<Rightarrow> attestation_env \<Rightarrow> attestation_envelope \<Rightarrow> string \<Rightarrow> bool" where
  "quote_genuine rt a e nonce \<longleftrightarrow>
     tq_selection (at_quote e) \<noteq> [] \<and>
     (\<exists>quoted sig key pcrs out err. b64_decode (tq_quoted (at_quote e)) = Some quoted \<and>
        b64_decode (tq_signature (at_quote e)) = Some sig \<and> b64_decode (tq_ak_public (at_quote e)) = Some key \<and>
        b64_decode (tq_pcr_values (at_quote e)) = Some pcrs \<and> [] \<notin> {quoted, sig, key, pcrs} \<and>
        hexdigest rt key = at_trusted_ak e \<and>
        ae_tool a (tpm_command (ae_executable a) (ae_directory a) (at_quote e) nonce)
          [(ae_directory a @ ''/quote.msg'', quoted), (ae_directory a @ ''/quote.sig'', sig),
           (ae_directory a @ ''/ak.pub'', key), (ae_directory a @ ''/pcr.bin'', pcrs)] = Completed 0 out err)"

lemma pqc_verify_verified:
  "bv_verified (pqc_verify exc oqs b s k) \<longleftrightarrow>
   (\<exists>sig key verify. b64_decode s = Some sig \<and> b64_decode k = Some key \<and> oqs = Some verify \<and> verify b sig key = Inr True)"
  by (auto simp: pqc_verify_def pqc_failed_def split: option.splits sum.splits)

lemma pqc_verified_available: "bv_verified (pqc_verify exc oqs b s k) \<Longrightarrow> bv_available (pqc_verify exc oqs b s k)"
  by (auto simp: pqc_verify_def pqc_failed_def split: option.splits sum.splits if_splits)

lemma tpm_checked_verified: "bv_verified (tpm_checked exc r) \<longleftrightarrow> (\<exists>out err. r = Completed 0 out err)"
  by (auto simp: tpm_checked_def tpm_invalid_def split: tool_run.splits)

lemma tpm_verify_verified:
  "nonce \<noteq> [] \<Longrightarrow> at_nonce e = nonce \<Longrightarrow>
   bv_verified (tpm_verify rt (ae_exc a) (ae_tool a) (ae_executable a) (ae_directory a) (at_quote e) (at_nonce e)
     (at_trusted_ak e)) \<longleftrightarrow> quote_genuine rt a e nonce"
  by (auto simp: tpm_verify_def quote_genuine_def tpm_checked_verified tpm_invalid_def split: option.splits)

lemma attestation_validate_None:
  "attestation_validate rt a e nonce now = Inr None \<longleftrightarrow>
     nonce \<noteq> [] \<and> at_nonce e = nonce \<and> at_identity e \<noteq> [] \<and> at_trusted_ak e \<noteq> [] \<and>
     map_of (at_payload e) ''identity_id'' = Some (VStr (at_identity e)) \<and>
     (\<exists>t. issued_instant rt (at_issued e) = Inr t \<and> now - ae_max_age a \<le> t \<and> t \<le> now + ae_max_skew a) \<and>
     (\<exists>b. canonical_bytes rt (VDict (at_payload e)) = Inr b)"
  by (auto simp: attestation_validate_def not_less split: sum.splits pyexc.splits)

lemma attestation_validate_Some:
  "attestation_validate rt a e nonce now = Inr (Some v) \<Longrightarrow> \<not> bv_available (av_pqc v) \<and> \<not> bv_verified (av_pqc v)"
  by (auto simp: attestation_validate_def attestation_invalid_def split: sum.splits pyexc.splits if_splits)

text \<open>The outcome of one verification.\<close>

lemma attestation_outcome:
  assumes "attestation_verify rt a now e nonce = Inr v"
  shows "bv_verified (av_pqc v) \<longleftrightarrow> envelope_signed rt a now e nonce"
    "bv_verified (av_pqc v) \<Longrightarrow> bv_available (av_pqc v) \<and> (bv_verified (av_tpm v) \<longleftrightarrow> quote_genuine rt a e nonce)"
    "\<not> bv_verified (av_pqc v) \<Longrightarrow> \<not> bv_available (av_pqc v) \<or> \<not> bv_available (av_tpm v)"
proof -
  from assms obtain i where i: "attestation_validate rt a e nonce now = Inr i" by (auto simp: attestation_verify_def res_simps)
  have "(bv_verified (av_pqc v) \<longleftrightarrow> envelope_signed rt a now e nonce) \<and>
    (bv_verified (av_pqc v) \<longrightarrow> bv_available (av_pqc v) \<and> (bv_verified (av_tpm v) \<longleftrightarrow> quote_genuine rt a e nonce)) \<and>
    (\<not> bv_verified (av_pqc v) \<longrightarrow> \<not> bv_available (av_pqc v) \<or> \<not> bv_available (av_tpm v))"
  proof (cases i)
    case (Some w)
    with assms i have "v = w" by (simp add: attestation_verify_def)
    with attestation_validate_Some i Some have "\<not> bv_available (av_pqc v)" "\<not> bv_verified (av_pqc v)" by auto
    moreover have "\<not> envelope_signed rt a now e nonce"
      using i Some attestation_validate_None [of rt a e nonce now] by (auto simp: envelope_signed_def)
    ultimately show ?thesis by simp
  next
    case None
    with i have n: "attestation_validate rt a e nonce now = Inr None" by simp
    then obtain b where b: "canonical_bytes rt (VDict (at_payload e)) = Inr b"
      unfolding attestation_validate_None by blast
    from n have nn: "nonce \<noteq> []" "at_nonce e = nonce" unfolding attestation_validate_None by simp_all
    let ?p = "pqc_verify (ae_exc a) (ae_oqs a) b (at_signature e) (at_public_key e)"
    have s: "envelope_signed rt a now e nonce \<longleftrightarrow> bv_verified ?p"
      using n b unfolding attestation_validate_None envelope_signed_def pqc_verify_verified by auto
    show ?thesis
      using assms i None b s pqc_verified_available tpm_verify_verified [OF nn, of rt a]
      by (auto simp: attestation_verify_def Let_def tpm_not_attempted_def split: if_splits)
  qed
  then show "bv_verified (av_pqc v) \<longleftrightarrow> envelope_signed rt a now e nonce"
    "bv_verified (av_pqc v) \<Longrightarrow> bv_available (av_pqc v) \<and> (bv_verified (av_tpm v) \<longleftrightarrow> quote_genuine rt a e nonce)"
    "\<not> bv_verified (av_pqc v) \<Longrightarrow> \<not> bv_available (av_pqc v) \<or> \<not> bv_available (av_tpm v)" by blast+
qed

lemma gateone_verify_Inr:
  assumes "gateone_verify rt a now m e nonce L = (Inr r, L')"
  obtains v where "attestation_verify rt a now e nonce = Inr v" "gr_decision r = gateone_decide v"
    "gateone_record rt m (gateone_evidence_of rt e nonce v) L = (Inr (gr_evidence r), L')"
  using assms that by (auto simp: gateone_verify_def split: sum.splits prod.splits)

section \<open>Properties\<close>

text \<open>
  C14.  What Gate.one decides.  A verification allows exactly when the envelope answers the challenge, is
  bound to its identity, is fresh and carries a valid ML-DSA-87 signature over its canonical payload,
  and the TPM tool confirmed the quote of the pinned key; and it denies only envelopes whose signature
  was verified: every envelope that fails before the TPM step, also by a signature the backend
  rejected, is quarantined.
\<close>

theorem gateone_decides_exactly:
  assumes "gateone_verify rt a now m e nonce L = (Inr r, L')"
  shows "(go_outcome (gr_decision r) = ALLOW \<longleftrightarrow> envelope_signed rt a now e nonce \<and> quote_genuine rt a e nonce) \<and>
    (go_outcome (gr_decision r) = DENY \<longrightarrow> envelope_signed rt a now e nonce \<and> \<not> quote_genuine rt a e nonce) \<and>
    (\<not> envelope_signed rt a now e nonce \<longrightarrow> go_outcome (gr_decision r) = QUARANTINE)"
proof (rule gateone_verify_Inr [OF assms])
  fix v
  assume v: "attestation_verify rt a now e nonce = Inr v" "gr_decision r = gateone_decide v"
  note o = attestation_outcome [OF v(1)]
  show ?thesis
  proof (cases "bv_verified (av_pqc v)")
    case True
    with o(1) o(2) [OF True] show ?thesis by (simp add: v(2) gateone_decide_def)
  next
    case False
    with o(1) o(3) [OF False] show ?thesis by (simp add: v(2) gateone_decide_def)
  qed
qed

text \<open>
  No decision without evidence.  A verification that returns has appended exactly one device event
  with the decision, its reason code and the hash of the nonce to the ledger of the envelope's
  identity; one that raises has appended none; and a verifiable SCAR ledger stays verifiable.
\<close>

theorem gateone_leaves_evidence:
  assumes "gateone_verify rt a now m e nonce L = (res, L')"
    and "root_sound (sl_root L)" "verify_integrity rt L = Inr True"
  shows "verify_integrity rt L' = Inr True \<and>
    (case res of
       Inl ex \<Rightarrow> L' = L
     | Inr r \<Rightarrow> at_identity e = sl_identity L \<and> L' = L\<lparr>sl_events := sl_events L @ [gr_evidence r]\<rparr> \<and>
         se_type (gr_evidence r) = ''GATEONE_VERIFICATION'' \<and> se_actor (gr_evidence r) = DEVICE_ACTOR \<and>
         se_metadata (gr_evidence r) = freeze_dict (evidence_metadata (gateone_evidence_of rt e nonce (gr_verification r))) \<and>
         gr_decision r = gateone_decide (gr_verification r))"
proof (cases "attestation_verify rt a now e nonce")
  case (Inl ex)
  with assms show ?thesis by (auto simp: gateone_verify_def)
next
  case (Inr v)
  let ?g = "gateone_evidence_of rt e nonce v"
  let ?a = "append_event rt m ''GATEONE_VERIFICATION'' (actor_value DEVICE_ACTOR) None None (Some (evidence_metadata ?g)) None L"
  have id: "ge_identity ?g = at_identity e" by (simp add: gateone_evidence_of_def)
  show ?thesis
  proof (cases "at_identity e = sl_identity L")
    case False
    with assms Inr id show ?thesis by (auto simp: gateone_verify_def gateone_record_def)
  next
    case True
    from append_event_integrity [OF assms(3,2)]
    have i: "verify_integrity rt (snd ?a) = Inr True" .
    show ?thesis
    proof (cases rule: append_event_cases [of rt m "''GATEONE_VERIFICATION''" "actor_value DEVICE_ACTOR" None None
          "Some (evidence_metadata ?g)" None L])
      case (fails ex)
      with assms Inr id True show ?thesis by (auto simp: gateone_verify_def gateone_record_def)
    next
      case (appends ev)
      from appends(6) have "se_actor ev = DEVICE_ACTOR" unfolding actor_of_value by simp
      with appends(1,9,13) i assms(1) Inr id True show ?thesis
        by (auto simp: gateone_verify_def gateone_record_def)
    qed
  qed
qed

section \<open>Witnesses\<close>

definition gateone_runtime :: runtime where
  "gateone_runtime = plain_runtime\<lparr>rt_fromiso := (\<lambda>s. Some (Aware 0 0))\<rparr>"

definition demo_attestation_env :: attestation_env where
  "demo_attestation_env =
     \<lparr>ae_oqs = Some (\<lambda>b sig key. Inr (sig = ''sig'')), ae_tool = (\<lambda>args files. Completed 0 [] []),
      ae_executable = ''tpm2_checkquote'', ae_directory = ''/t'', ae_max_age = 300, ae_max_skew = 30, ae_exc = (\<lambda>_. [])\<rparr>"

text \<open>A genuine envelope, and one whose signature the backend rejects.\<close>

definition demo_attestation :: "string \<Rightarrow> attestation_envelope" where
  "demo_attestation signature =
     \<lparr>at_identity = ''ada'', at_nonce = ''n'', at_issued = ''t'', at_payload = [(''identity_id'', VStr ''ada'')],
      at_signature = b64_encode signature, at_public_key = b64_encode ''pk'',
      at_trusted_ak = hexdigest gateone_runtime ''ak'',
      at_quote = \<lparr>tq_quoted = b64_encode ''q'', tq_signature = b64_encode ''s'', tq_ak_public = b64_encode ''ak'',
        tq_pcr_values = b64_encode ''p'', tq_selection = ''sha256:0''\<rparr>\<rparr>"

lemma demo_attestation_fields:
  "at_identity (demo_attestation s) = ''ada''" "at_nonce (demo_attestation s) = ''n''"
  "at_payload (demo_attestation s) = [(''identity_id'', VStr ''ada'')]"
  by (simp_all add: demo_attestation_def)

lemma demo_payload: "\<exists>b. canonical_bytes gateone_runtime (VDict (at_payload (demo_attestation s))) = Inr b"
  by (rule canonical_bytes_total) (simp add: demo_attestation_fields)

lemma demo_quote_genuine: "quote_genuine gateone_runtime demo_attestation_env (demo_attestation s) ''n''"
  by (simp add: quote_genuine_def demo_attestation_def demo_attestation_env_def)

lemma demo_envelope_signed:
  "envelope_signed gateone_runtime demo_attestation_env 0 (demo_attestation s) ''n'' \<longleftrightarrow> s = ''sig''"
proof -
  have "hexdigest gateone_runtime ''ak'' \<noteq> []" by (simp add: hexdigest_def gateone_runtime_def plain_runtime_def)
  then show ?thesis
    using demo_payload [of s]
    by (auto simp: envelope_signed_def demo_attestation_def demo_attestation_env_def issued_instant_def gateone_runtime_def)
qed

lemma demo_gateone:
  obtains r L where "gateone_verify gateone_runtime demo_attestation_env 0 demo_moment (demo_attestation s) ''n'' demo_scar0
    = (Inr r, L)"
proof -
  let ?e = "demo_attestation s"
  have "\<exists>i. attestation_validate gateone_runtime demo_attestation_env ?e ''n'' 0 = Inr i"
    using demo_payload [of s]
    by (auto simp: attestation_validate_def split: sum.split)
  then obtain v where v: "attestation_verify gateone_runtime demo_attestation_env 0 ?e ''n'' = Inr v"
    using demo_payload [of s]
    by (fastforce simp: attestation_verify_def Let_def split: option.split)
  let ?g = "gateone_evidence_of gateone_runtime ?e ''n'' v"
  have sign: "\<exists>so. root_sign gateone_runtime (mo_clock demo_moment) (sl_root demo_scar0) b = Inr so" for b
    using demo_root_signs by (simp add: demo_scar0_def)
  have md: "\<forall>d \<in> set_option (Some (evidence_metadata ?g)). canonicalizable (VDict d)"
    by (simp add: evidence_metadata_def)
  have ty: "''GATEONE_VERIFICATION'' \<noteq> []" by simp
  from append_event_total [OF sign ty _ md, of DEVICE_ACTOR None None None] obtain ev where
    "gateone_record gateone_runtime demo_moment ?g demo_scar0 = (Inr ev, demo_scar0\<lparr>sl_events := sl_events demo_scar0 @ [ev]\<rparr>)"
    by (auto simp: gateone_record_def gateone_evidence_of_def demo_attestation_fields demo_scar0_def)
  with v that show thesis by (simp add: gateone_verify_def)
qed

theorem gateone_decides_exactly_witness:
  "\<exists>r L r' L'. gateone_verify gateone_runtime demo_attestation_env 0 demo_moment (demo_attestation ''sig'') ''n'' demo_scar0
      = (Inr r, L) \<and> go_outcome (gr_decision r) = ALLOW \<and>
    gateone_verify gateone_runtime demo_attestation_env 0 demo_moment (demo_attestation ''forged'') ''n'' demo_scar0
      = (Inr r', L') \<and> go_outcome (gr_decision r') = QUARANTINE"
proof -
  obtain r L where r: "gateone_verify gateone_runtime demo_attestation_env 0 demo_moment (demo_attestation ''sig'') ''n'' demo_scar0
      = (Inr r, L)" by (rule demo_gateone)
  obtain r' L' where r': "gateone_verify gateone_runtime demo_attestation_env 0 demo_moment (demo_attestation ''forged'') ''n''
      demo_scar0 = (Inr r', L')" by (rule demo_gateone)
  from gateone_decides_exactly [OF r] gateone_decides_exactly [OF r'] r r' show ?thesis
    by (simp add: demo_quote_genuine demo_envelope_signed)
qed

theorem gateone_leaves_evidence_witness:
  "\<exists>r L. gateone_verify gateone_runtime demo_attestation_env 0 demo_moment (demo_attestation ''forged'') ''n'' demo_scar0
      = (Inr r, L) \<and> verify_integrity gateone_runtime L = Inr True \<and> length (sl_events L) = 1"
proof -
  obtain r L where r: "gateone_verify gateone_runtime demo_attestation_env 0 demo_moment (demo_attestation ''forged'') ''n'' demo_scar0
      = (Inr r, L)" by (rule demo_gateone)
  have s: "root_sound (sl_root demo_scar0)" "verify_integrity gateone_runtime demo_scar0 = Inr True" "sl_events demo_scar0 = []"
    by (simp_all add: demo_scar0_def demo_root_sound verify_integrity_def)
  from gateone_leaves_evidence [OF r s(1,2)] r s(3) show ?thesis by (intro exI conjI) auto
qed

end
