(* ===== verification/MemoryStore.thy ===== *)
theory MemoryStore
  imports Records TrustRoot Base64 PyText
begin

text \<open>
  \<open>src/sia/providers/memory_store.py\<close>, \<open>ProviderMemoryStore\<close>, with \<open>MemoryRecord.from_dict\<close> of
  \<open>src/sia/memory/models.py\<close>: the encrypted memory file of one provider.  Fernet is a parameter, the
  file is its content or \<open>None\<close>.  What was written is read back, filtered by consent.
\<close>

section \<open>Records read from JSON\<close>

text \<open>
  \<open>from_dict\<close> does not check types, so a record that was read has arbitrary values in its fields.
\<close>

record raw_memory =
  rw_id :: pyval
  rw_model :: pyval
  rw_content :: pyval
  rw_consent :: pyval
  rw_created :: pyval
  rw_version :: pyval

definition get_or :: "pydict \<Rightarrow> string \<Rightarrow> pyval \<Rightarrow> pyval" where
  "get_or d k v = (case map_of d k of None \<Rightarrow> v | Some w \<Rightarrow> w)"

definition get_item :: "pydict \<Rightarrow> string \<Rightarrow> pyval res" where
  "get_item d k = (case map_of d k of None \<Rightarrow> Inl (KeyError k) | Some v \<Rightarrow> Inr v)"

definition memory_from_dict :: "pydict \<Rightarrow> raw_memory res" where
  "memory_from_dict data =
     bindE (get_item data ''record_id'') (\<lambda>record_id.
     bindE (get_item data ''model_id'') (\<lambda>model_id.
     bindE (get_item data ''content'') (\<lambda>content.
       Inr \<lparr>rw_id = record_id, rw_model = model_id, rw_content = content,
            rw_consent = get_or data ''consent'' (VList []), rw_created = get_or data ''created_at'' (VStr []),
            rw_version = get_or data ''schema_version'' (VStr ''1.0'')\<rparr>)))"

definition raw_to_dict :: "raw_memory \<Rightarrow> pydict" where
  "raw_to_dict r =
     [(''schema_version'', rw_version r), (''record_id'', rw_id r), (''model_id'', rw_model r),
      (''content'', rw_content r), (''consent'', rw_consent r), (''created_at'', rw_created r)]"

text \<open>\<open>q in v\<close> for a string \<open>q\<close>: membership, keys or substring.\<close>

fun contains_text :: "string \<Rightarrow> string \<Rightarrow> bool" where
  "contains_text q [] = (q = [])"
| "contains_text q (c # cs) = (startswith (c # cs) q \<or> contains_text q cs)"

definition py_in :: "string \<Rightarrow> pyval \<Rightarrow> bool res" where
  "py_in q v =
     (case v of
        VList xs \<Rightarrow> Inr (VStr q \<in> set xs)
      | VTuple xs \<Rightarrow> Inr (VStr q \<in> set xs)
      | VDict d \<Rightarrow> Inr (q \<in> set (map fst d))
      | VStr s \<Rightarrow> Inr (contains_text q s)
      | _ \<Rightarrow> Inl (TypeError ''argument is not iterable''))"

definition raw_has_consent :: "raw_memory \<Rightarrow> string \<Rightarrow> bool res" where
  "raw_has_consent r requesting_model_id =
     (if VStr requesting_model_id = rw_model r then Inr True else py_in requesting_model_id (rw_consent r))"

section \<open>The store\<close>

text \<open>
  \<open>Fernet(key).encrypt\<close> and \<open>decrypt\<close> (\<open>None\<close>: \<open>InvalidToken\<close>), and the law that a token decrypts
  under its own key.
\<close>

record fernet =
  fe_encrypt :: "string \<Rightarrow> string \<Rightarrow> string"
  fe_decrypt :: "string \<Rightarrow> string \<Rightarrow> string option"

definition fernet_correct :: "fernet \<Rightarrow> bool" where
  "fernet_correct fe \<longleftrightarrow> (\<forall>k p. fe_decrypt fe k (fe_encrypt fe k p) = Some p)"

definition STORE_SCHEMA_VERSION :: string where "STORE_SCHEMA_VERSION = ''1.0''"
definition KEY_CONTEXT_PREFIX :: string where "KEY_CONTEXT_PREFIX = ''SAMA_PROVIDER_MEMORY:''"

record memory_store =
  ps_provider :: string
  ps_path :: string
  ps_key :: string

definition store_file_name :: "string \<Rightarrow> string" where
  "store_file_name provider_id = str_replace ''.'' ''_'' provider_id @ ''.json''"

definition build_fernet :: "root_of_trust \<Rightarrow> string \<Rightarrow> string res" where
  "build_fernet root provider_id =
     bindE (tb_derive (rot_backend root) (KEY_CONTEXT_PREFIX @ provider_id) 32) (\<lambda>raw_key.
       if length raw_key \<noteq> 32 then Inl (ValueError ''Fernet key must be 32 url-safe base64-encoded bytes.'')
       else Inr (urlsafe_b64encode raw_key))"

definition store_init :: "root_of_trust \<Rightarrow> string \<Rightarrow> string \<Rightarrow> memory_store res" where
  "store_init root dir_path provider_id =
     bindE (build_fernet root provider_id) (\<lambda>key.
       Inr \<lparr>ps_provider = provider_id, ps_path = dir_path @ ''/'' @ store_file_name provider_id, ps_key = key\<rparr>)"

definition store_style :: json_style where
  "store_style = \<lparr>js_quote = quote_utf8, js_nan = True, js_item = '', '', js_key = '': '', js_sort = False\<rparr>"

definition store_payload :: "memory_store \<Rightarrow> raw_memory list \<Rightarrow> pydict" where
  "store_payload S records =
     [(''schema_version'', VStr STORE_SCHEMA_VERSION), (''provider_id'', VStr (ps_provider S)),
      (''records'', VList (map (VDict \<circ> raw_to_dict) records))]"

text \<open>The operations act on the file; \<open>os.replace\<close> makes the write one step.\<close>

type_synonym store_file = "string option"

definition write_records :: "fernet \<Rightarrow> memory_store \<Rightarrow> raw_memory list \<Rightarrow> store_file \<Rightarrow> unit res \<times> store_file" where
  "write_records fe S records F =
     (case dumps store_style (VDict (store_payload S records)) of
        Inl ex \<Rightarrow> (Inl ex, F)
      | Inr plaintext \<Rightarrow> (Inr (), Some (fe_encrypt fe (ps_key S) plaintext)))"

definition load_raw_records :: "fernet \<Rightarrow> (string \<Rightarrow> pyfloat) \<Rightarrow> memory_store \<Rightarrow> store_file \<Rightarrow> pyval res" where
  "load_raw_records fe fo S F =
     (case F of
        None \<Rightarrow> Inr (VList [])
      | Some ciphertext \<Rightarrow>
          (case fe_decrypt fe (ps_key S) ciphertext of
             None \<Rightarrow> Inl (SIAErr MemoryDecryptError)
           | Some plaintext \<Rightarrow>
               if \<not> utf8_ok plaintext then Inl (SIAErr MemoryDecryptError)
               else (case json_loads fo plaintext of
                       Inl ex \<Rightarrow> Inl (SIAErr MemoryDecryptError)
                     | Inr (VDict payload) \<Rightarrow> Inr (get_or payload ''records'' (VList []))
                     | Inr v \<Rightarrow> Inl (AppError ''AttributeError'' ''object has no attribute get''))))"

text \<open>\<open>for d in raw\<close>, of which each must be a dictionary for what follows.\<close>

definition record_dicts :: "pyexc \<Rightarrow> pyval \<Rightarrow> pydict res list res" where
  "record_dicts wrong v =
     (case v of
        VList xs \<Rightarrow> Inr (map (\<lambda>x. case x of VDict d \<Rightarrow> Inr d | _ \<Rightarrow> Inl wrong) xs)
      | VDict d \<Rightarrow> Inr (map (\<lambda>p. Inl wrong) d)
      | VStr s \<Rightarrow> Inr (map (\<lambda>c. Inl wrong) s)
      | _ \<Rightarrow> Inl (TypeError ''object is not iterable''))"

definition append_record :: "fernet \<Rightarrow> (string \<Rightarrow> pyfloat) \<Rightarrow> memory_store \<Rightarrow> raw_memory \<Rightarrow> store_file \<Rightarrow>
    unit res \<times> store_file" where
  "append_record fe fo S r F =
     (case bindE (load_raw_records fe fo S F) (\<lambda>existing.
             case existing of
               VList xs \<Rightarrow>
                 mapE (\<lambda>x. case x of VDict d \<Rightarrow> memory_from_dict d | _ \<Rightarrow> Inl (TypeError ''indices must be integers''))
                   (xs @ [VDict (raw_to_dict r)])
             | _ \<Rightarrow> Inl (AppError ''AttributeError'' ''object has no attribute append'')) of
        Inl ex \<Rightarrow> (Inl ex, F)
      | Inr records \<Rightarrow> write_records fe S records F)"

fun consented :: "string \<Rightarrow> pydict res list \<Rightarrow> raw_memory list res" where
  "consented q [] = Inr []"
| "consented q (d # ds) =
     bindE d (\<lambda>d. bindE (memory_from_dict d) (\<lambda>r. bindE (raw_has_consent r q) (\<lambda>ok.
       bindE (consented q ds) (\<lambda>rs. Inr (if ok then r # rs else rs)))))"

definition read_records :: "fernet \<Rightarrow> (string \<Rightarrow> pyfloat) \<Rightarrow> memory_store \<Rightarrow> string \<Rightarrow> store_file \<Rightarrow> raw_memory list res" where
  "read_records fe fo S q F =
     bindE (load_raw_records fe fo S F) (\<lambda>raw.
     bindE (record_dicts (TypeError ''indices must be integers'') raw) (consented q))"

fun find_strict :: "string \<Rightarrow> string \<Rightarrow> pydict res list \<Rightarrow> raw_memory res" where
  "find_strict record_id q [] = Inl (KeyError record_id)"
| "find_strict record_id q (d # ds) =
     bindE d (\<lambda>d.
       if map_of d ''record_id'' = Some (VStr record_id)
       then bindE (memory_from_dict d) (\<lambda>r. bindE (raw_has_consent r q) (\<lambda>ok.
              if \<not> ok then Inl (SIAErr MemoryConsentDeniedError) else Inr r))
       else find_strict record_id q ds)"

definition read_record_strict :: "fernet \<Rightarrow> (string \<Rightarrow> pyfloat) \<Rightarrow> memory_store \<Rightarrow> string \<Rightarrow> string \<Rightarrow> store_file \<Rightarrow>
    raw_memory res" where
  "read_record_strict fe fo S record_id q F =
     bindE (load_raw_records fe fo S F) (\<lambda>raw.
     bindE (record_dicts (AppError ''AttributeError'' ''object has no attribute get'') raw) (find_strict record_id q))"

definition file_exists :: "store_file \<Rightarrow> bool" where
  "file_exists F \<longleftrightarrow> F \<noteq> None"

section \<open>Typed records\<close>

definition raw_memory_of :: "memory_record \<Rightarrow> raw_memory" where
  "raw_memory_of r =
     \<lparr>rw_id = VStr (mr_id r), rw_model = VStr (mr_model r), rw_content = mr_content r,
      rw_consent = str_list (mr_consent r), rw_created = VStr (mr_created r), rw_version = VStr (mr_version r)\<rparr>"

text \<open>A record whose texts are well-formed and whose content is JSON data that the reader restores.\<close>

definition storable :: "(string \<Rightarrow> pyfloat) \<Rightarrow> memory_record \<Rightarrow> bool" where
  "storable fo r \<longleftrightarrow>
     list_all utf8_ok ([mr_id r, mr_model r, mr_created r, mr_version r] @ mr_consent r) \<and>
     json_plain store_style (mr_content r) \<and> texts_ok (mr_content r) \<and> json_reads fo (mr_content r)"


lemma store_unsorted [simp]: "js_sort store_style = False"
  by (simp add: store_style_def)

lemma storable_dict:
  assumes "storable fo r"
  shows "json_plain store_style (VDict (raw_to_dict (raw_memory_of r)))"
    and "texts_ok (VDict (raw_to_dict (raw_memory_of r)))"
    and "json_reads fo (VDict (raw_to_dict (raw_memory_of r)))"
  using assms by (auto simp: storable_def raw_to_dict_def raw_memory_of_def str_list_def list_all_iff intro!: utf8_ok_ascii)

lemma memory_from_to_dict [simp]: "memory_from_dict (raw_to_dict r) = Inr r"
  by (simp add: memory_from_dict_def raw_to_dict_def get_item_def get_or_def)

lemma raw_record_id [simp]: "map_of (raw_to_dict r) ''record_id'' = Some (rw_id r)"
  by (simp add: raw_to_dict_def)

lemma raw_consent_of [simp]: "raw_has_consent (raw_memory_of r) q = Inr (has_consent r q)"
  by (auto simp: raw_has_consent_def raw_memory_of_def py_in_def str_list_def has_consent_def)

lemma raw_id_of [simp]: "rw_id (raw_memory_of r) = VStr (mr_id r)"
  by (simp add: raw_memory_of_def)

lemma raw_to_dict_of: "raw_to_dict (raw_memory_of r) = memory_to_dict r"
  by (simp add: raw_to_dict_def raw_memory_of_def memory_to_dict_def)

lemma plain_encodable: "json_plain st v \<Longrightarrow> encodable v"
  by (induction st v rule: json_plain.induct) (auto simp: list_all_iff)

lemma readable_store [simp]: "readable_style store_style"
  by (simp add: readable_style_def store_style_def)

abbreviation stored_records :: "memory_record list \<Rightarrow> pyval" where
  "stored_records rs \<equiv> VList (map (\<lambda>r. VDict (raw_to_dict (raw_memory_of r))) rs)"

lemma storable_list:
  assumes "list_all (storable fo) rs"
  shows "json_plain store_style (stored_records rs) \<and> texts_ok (stored_records rs) \<and> json_reads fo (stored_records rs)"
  using assms storable_dict [of fo]
  by (induction rs) (simp_all del: json_plain.simps(7) texts_ok.simps(3) json_reads.simps(3))

text \<open>Writing succeeds on storable records, and the file holds their dictionaries.\<close>

lemma write_then_load:
  assumes "fernet_correct fe" "list_all (storable fo) rs" "utf8_ok (ps_provider S)"
  shows "\<exists>F'. write_records fe S (map raw_memory_of rs) F = (Inr (), F') \<and>
    load_raw_records fe fo S F' = Inr (stored_records rs)"
proof -
  let ?p = "VDict (store_payload S (map raw_memory_of rs))"
  have p: "json_plain store_style ?p" "texts_ok ?p" "json_reads fo ?p"
    using storable_list [OF assms(2)] assms(3)
    by (simp_all add: store_payload_def comp_def STORE_SCHEMA_VERSION_def utf8_ok_ascii
        del: json_plain.simps(6) texts_ok.simps(2) json_reads.simps(2))
  obtain t where t: "dumps store_style ?p = Inr t"
    using dumps_total [OF plain_encodable [OF p(1)]] by blast
  have "utf8_ok t" "json_loads fo t = Inr ?p"
    by (rule dumps_utf8_ok [OF p(1,3,2) readable_store t], rule json_loads_written [OF t p(1,3) readable_store])
  with t assms(1) show ?thesis
    by (simp del: dumps.simps add: write_records_def load_raw_records_def fernet_correct_def store_payload_def get_or_def)
qed

lemma consented_stored:
  "consented q (map (\<lambda>r. Inr (raw_to_dict (raw_memory_of r))) rs) =
    Inr (map raw_memory_of (filter (\<lambda>r. has_consent r q) rs))"
  by (induction rs) simp_all

lemma find_strict_stored:
  "find_strict i q (map (\<lambda>r. Inr (raw_to_dict (raw_memory_of r))) rs) =
    (case find (\<lambda>r. mr_id r = i) rs of None \<Rightarrow> Inl (KeyError i)
     | Some r \<Rightarrow> if has_consent r q then Inr (raw_memory_of r) else Inl (SIAErr MemoryConsentDeniedError))"
  by (induction rs) auto

lemma append_stored:
  assumes "load_raw_records fe fo S F = Inr (stored_records rs)"
  shows "append_record fe fo S (raw_memory_of r) F = write_records fe S (map raw_memory_of (rs @ [r])) F"
proof -
  have "mapE (\<lambda>x. case x of VDict d \<Rightarrow> memory_from_dict d | _ \<Rightarrow> Inl (TypeError ''indices must be integers''))
      (map (\<lambda>r. VDict (raw_to_dict (raw_memory_of r))) us) = Inr (map raw_memory_of us)" for us
    by (induction us) simp_all
  from this [of "rs @ [r]"] show ?thesis using assms by (simp add: append_record_def)
qed

section \<open>Properties\<close>

text \<open>
  C21.  What a provider's memory file holds is read back exactly, under consent.  With a correct Fernet,
  writing storable records succeeds; a later read by \<open>q\<close> returns, in order, exactly the records that
  belong to \<open>q\<close> or name \<open>q\<close> in their consent list; a strict read of an identifier returns its first
  record, is refused without consent, and is a \<open>KeyError\<close> for an absent one; and an append is a write
  of the records with the new one at the end.
\<close>

theorem provider_memory_reads_back:
  assumes "fernet_correct fe" "list_all (storable fo) rs" "utf8_ok (ps_provider S)"
  shows "\<exists>F'. write_records fe S (map raw_memory_of rs) F = (Inr (), F') \<and>
    (\<forall>q. read_records fe fo S q F' = Inr (map raw_memory_of (filter (\<lambda>r. has_consent r q) rs))) \<and>
    (\<forall>q i. read_record_strict fe fo S i q F' =
       (case find (\<lambda>r. mr_id r = i) rs of None \<Rightarrow> Inl (KeyError i)
        | Some r \<Rightarrow> if has_consent r q then Inr (raw_memory_of r) else Inl (SIAErr MemoryConsentDeniedError))) \<and>
    (\<forall>r. append_record fe fo S (raw_memory_of r) F' = write_records fe S (map raw_memory_of (rs @ [r])) F')"
proof -
  from write_then_load [OF assms] obtain F' where F: "write_records fe S (map raw_memory_of rs) F = (Inr (), F')"
    "load_raw_records fe fo S F' = Inr (stored_records rs)" by blast
  have dicts: "record_dicts w (stored_records rs) = Inr (map (\<lambda>r. Inr (raw_to_dict (raw_memory_of r))) rs)" for w
    by (simp add: record_dicts_def)
  from F append_stored [OF F(2)] dicts show ?thesis
    by (simp add: read_records_def read_record_strict_def consented_stored find_strict_stored)
qed

definition demo_fernet :: fernet where
  "demo_fernet = \<lparr>fe_encrypt = (\<lambda>k p. k @ p),
     fe_decrypt = (\<lambda>k c. if take (length k) c = k then Some (drop (length k) c) else None)\<rparr>"

definition demo_memory :: "string \<Rightarrow> string list \<Rightarrow> memory_record" where
  "demo_memory i consent = \<lparr>mr_id = i, mr_model = ''openai.gpt'', mr_content = VStr ''hello'', mr_consent = consent,
     mr_created = ''2025-01-01'', mr_version = ''1.0''\<rparr>"

theorem provider_memory_reads_back_witness:
  "\<exists>F'. write_records demo_fernet \<lparr>ps_provider = ''openai.gpt'', ps_path = ''p'', ps_key = ''k''\<rparr>
       (map raw_memory_of [demo_memory ''a'' [], demo_memory ''b'' [''xai.grok'']]) None = (Inr (), F') \<and>
     read_records demo_fernet (\<lambda>_. NaN) \<lparr>ps_provider = ''openai.gpt'', ps_path = ''p'', ps_key = ''k''\<rparr> ''xai.grok'' F' =
       Inr [raw_memory_of (demo_memory ''b'' [''xai.grok''])] \<and>
     read_record_strict demo_fernet (\<lambda>_. NaN) \<lparr>ps_provider = ''openai.gpt'', ps_path = ''p'', ps_key = ''k''\<rparr>
       ''a'' ''xai.grok'' F' = Inl (SIAErr MemoryConsentDeniedError)"
proof -
  let ?S = "\<lparr>ps_provider = ''openai.gpt'', ps_path = ''p'', ps_key = ''k''\<rparr>"
  let ?rs = "[demo_memory ''a'' [], demo_memory ''b'' [''xai.grok'']]"
  have h: "fernet_correct demo_fernet" "list_all (storable (\<lambda>_. NaN)) ?rs" "utf8_ok (ps_provider ?S)"
    by (simp_all add: fernet_correct_def demo_fernet_def storable_def demo_memory_def utf8_ok_ascii)
  have c: "filter (\<lambda>r. has_consent r ''xai.grok'') ?rs = [demo_memory ''b'' [''xai.grok'']]"
    "find (\<lambda>r. mr_id r = ''a'') ?rs = Some (demo_memory ''a'' [])"
    "\<not> has_consent (demo_memory ''a'' []) ''xai.grok''"
    by (simp_all add: has_consent_def demo_memory_def)
  show ?thesis using provider_memory_reads_back [OF h, of None] c by fastforce
qed

end
