(* ===== verification/StateLogic.thy ===== *)
theory StateLogic
  imports StateOps
begin

text \<open>
  Postconditions of operations that may raise: \<open>wp m Q s\<close> says that \<open>m\<close> run in \<open>s\<close> ends with a result
  and a state that satisfy \<open>Q\<close>.  The collection \<open>wp\<close> computes it along the operations of \<open>StateOps\<close>, so
  that a method of several calls is followed call by call, its exceptions included.
\<close>

named_theorems wp \<open>postconditions of sequenced operations\<close>

definition wp :: "('s, 'a) op \<Rightarrow> ('a res \<Rightarrow> 's \<Rightarrow> bool) \<Rightarrow> 's \<Rightarrow> bool" where
  "wp m Q s \<longleftrightarrow> (case m s of (r, t) \<Rightarrow> Q r t)"

lemma wp_pure [wp]:
  "wp (returnS x) Q s \<longleftrightarrow> Q (Inr x) s"
  "wp (raiseS e) Q s \<longleftrightarrow> Q (Inl e) s"
  "wp (getS f) Q s \<longleftrightarrow> Q (Inr (f s)) s"
  "wp (liftS r) Q s \<longleftrightarrow> Q r s"
  by (simp_all add: wp_def)

lemma wp_modify [wp]: "wp (modifyS g) Q s \<longleftrightarrow> Q (Inr ()) (g s)"
  by (simp add: wp_def)

lemma wp_bind [wp]:
  "wp (bindS m k) Q s \<longleftrightarrow> wp m (\<lambda>r t. case r of Inl e \<Rightarrow> Q (Inl e) t | Inr x \<Rightarrow> wp (k x) Q t) s"
  by (auto simp: wp_def bindS_def split: prod.split sum.split)

lemma wp_catch [wp]:
  "wp (catch_reraise m h) Q s \<longleftrightarrow>
     wp m (\<lambda>r t. case r of
         Inr x \<Rightarrow> Q (Inr x) t
       | Inl e \<Rightarrow> wp (h e) (\<lambda>r' u. case r' of Inl e' \<Rightarrow> Q (Inl e') u | Inr _ \<Rightarrow> Q (Inl e) u) t) s"
  by (auto simp: wp_def catch_reraise_def split: prod.split sum.split)

lemma wp_if [wp]: "wp (if b then m else n) Q s \<longleftrightarrow> (if b then wp m Q s else wp n Q s)"
  by simp

lemma wp_option [wp]:
  "wp (case v of None \<Rightarrow> m | Some x \<Rightarrow> k x) Q s \<longleftrightarrow> (case v of None \<Rightarrow> wp m Q s | Some x \<Rightarrow> wp (k x) Q s)"
  by (cases v) simp_all

lemma wp_on: "wp (onS get put m) Q s \<longleftrightarrow> wp m (\<lambda>r c. Q r (put c s)) (get s)"
  by (simp add: wp_def onS_def split: prod.split)

lemma wpI: "m s = (r, t) \<Longrightarrow> Q r t \<Longrightarrow> wp m Q s"
  by (simp add: wp_def)

lemma wpD: "wp m Q s \<Longrightarrow> m s = (r, t) \<Longrightarrow> Q r t"
  by (simp add: wp_def)

lemma wp_mono: "wp m Q s \<Longrightarrow> (\<And>r t. Q r t \<Longrightarrow> Q' r t) \<Longrightarrow> wp m Q' s"
  by (auto simp: wp_def split: prod.splits)

text \<open>A step whose result goes on to the rest, and one that can only return.\<close>

lemma wp_bindI:
  assumes "wp m R s" "\<And>e t. R (Inl e) t \<Longrightarrow> Q (Inl e) t" "\<And>x t. R (Inr x) t \<Longrightarrow> wp (k x) Q t"
  shows "wp (bindS m k) Q s"
  unfolding wp_bind by (rule wp_mono [OF assms(1)]) (auto split: sum.split intro: assms(2,3))

lemma wp_liftI:
  "(\<And>e. r = Inl e \<Longrightarrow> Q (Inl e) s) \<Longrightarrow> (\<And>x. r = Inr x \<Longrightarrow> wp (k x) Q s) \<Longrightarrow> wp (bindS (liftS r) k) Q s"
  by (cases r) (simp_all add: wp)

text \<open>A loop: what holds after every step, with the results of the steps.\<close>

lemma wp_mapI:
  assumes step: "\<And>x t. x \<in> set xs \<Longrightarrow> I t \<Longrightarrow> wp (f x) (\<lambda>r u. I u \<and> (\<forall>y. r = Inr y \<longrightarrow> P x y)) t" and "I s"
  shows "wp (mapS f xs) (\<lambda>r u. I u \<and> (\<forall>ys. r = Inr ys \<longrightarrow> list_all2 P xs ys)) s"
  using assms
proof (induction xs arbitrary: s)
  case (Cons x xs)
  have rest: "wp (mapS f xs) (\<lambda>r u. I u \<and> (\<forall>ys. r = Inr ys \<longrightarrow> list_all2 P xs ys)) t" if "I t" for t
    using Cons.IH [OF _ that] Cons.prems(1) by simp
  have "wp (f x) (\<lambda>r u. I u \<and> (\<forall>y. r = Inr y \<longrightarrow> P x y)) s" using Cons.prems by simp
  then show ?case
    unfolding mapS.simps
  proof (rule wp_bindI, simp, goal_cases)
    case (1 y t)
    then show ?case
      by (intro wp_bindI [OF rest]) (simp_all add: wp)
  qed
qed (simp add: wp)

end
