(* ===== verification/Lifecycle.thy ===== *)
theory Lifecycle
  imports AuthorityLife StateLogic
begin

text \<open>
  The provider lifecycle that \<open>src/sia/audit/provider_events.py\<close> names, as a state machine, and the proof
  that \<open>call_provider_authorized\<close> of \<open>src/sia/authority.py\<close> implements it: whatever happens in a call, the
  provider events that it adds to the ledger are a run of the machine, and the phase reached tells how
  the call ended.
\<close>

section \<open>The machine\<close>

datatype call_phase = Idle | Requested | Approved | Completed | Failed

inductive call_step :: "call_phase \<Rightarrow> provider_event_type \<Rightarrow> call_phase \<Rightarrow> bool" where
  refuse: "call_step Idle FAILED Failed"
| request: "call_step Idle REQUESTED Requested"
| approve: "call_step Requested APPROVED Approved"
| complete: "call_step Approved COMPLETED Completed"
| fail: "call_step Approved FAILED Failed"

inductive_cases step_idleE [elim!]: "call_step Idle ev q"
inductive_cases step_requestedE [elim!]: "call_step Requested ev q"
inductive_cases step_approvedE [elim!]: "call_step Approved ev q"
inductive_cases step_completedE [elim!]: "call_step Completed ev q"
inductive_cases step_failedE [elim!]: "call_step Failed ev q"

inductive call_trace :: "call_phase \<Rightarrow> provider_event_type list \<Rightarrow> call_phase \<Rightarrow> bool" for p where
  start: "call_trace p [] p"
| advance: "call_trace p evs q \<Longrightarrow> call_step q ev r \<Longrightarrow> call_trace p (evs @ [ev]) r"

lemma step_deterministic: "call_step p ev q \<Longrightarrow> call_step p ev r \<Longrightarrow> q = r"
  by (cases p) auto

text \<open>The runs of the machine from its start, by the phase they reach.\<close>

lemma trace_from_idle:
  "call_trace Idle evs p \<Longrightarrow>
   (case p of
      Idle \<Rightarrow> evs = []
    | Requested \<Rightarrow> evs = [REQUESTED]
    | Approved \<Rightarrow> evs = [REQUESTED, APPROVED]
    | Completed \<Rightarrow> evs = [REQUESTED, APPROVED, COMPLETED]
    | Failed \<Rightarrow> evs = [FAILED] \<or> evs = [REQUESTED, APPROVED, FAILED])"
proof (induction rule: call_trace.induct)
  case (advance evs q ev r)
  then show ?case by (cases q) auto
qed simp

section \<open>The events of a ledger\<close>

definition entry_type :: "ledger_entry \<Rightarrow> provider_event_type option" where
  "entry_type y =
     find (\<lambda>ty. le_event y = ''provider.'' @ event_type_value ty) [REQUESTED, APPROVED, COMPLETED, FAILED]"

definition provider_events :: "ledger_entry list \<Rightarrow> provider_event_type list" where
  "provider_events L = List.map_filter entry_type L"

lemma provider_events_append: "provider_events (L @ M) = provider_events L @ provider_events M"
  by (simp add: provider_events_def map_filter_def)

lemma provider_entry_type:
  assumes "provider_entry ty n y"
  shows "entry_type y = Some ty"
proof -
  from assms have "le_event y = ''provider.'' @ event_type_value ty" by (simp add: provider_entry_def)
  then show ?thesis by (cases ty) (simp_all add: entry_type_def)
qed

lemma provider_events_one: "provider_entry ty n y \<Longrightarrow> provider_events [y] = [ty]"
  by (simp add: provider_events_def map_filter_simps provider_entry_type)

lemma provider_events_other: "le_event y = ''memory.access'' \<Longrightarrow> provider_events [y] = []"
  by (simp add: provider_events_def map_filter_simps entry_type_def)

section \<open>The phase of a call\<close>

text \<open>The call that started in \<open>s0\<close> is in phase \<open>p\<close>; the stored memory is as it was.\<close>

definition in_phase :: "sovereign_authority \<Rightarrow> call_phase \<Rightarrow> sovereign_authority \<Rightarrow> bool" where
  "in_phase s0 p s \<longleftrightarrow> au_memory s = au_memory s0 \<and>
     (\<exists>new. au_ledger s = au_ledger s0 @ new \<and> call_trace Idle (provider_events new) p)"

lemma in_phase_start: "in_phase s Idle s"
  unfolding in_phase_def
  by (intro conjI exI [of _ "[]"]) (simp_all add: provider_events_def map_filter_simps call_trace.start)

lemma in_phase_authorize: "in_phase s0 p s \<Longrightarrow> wp (authorize_operation rt e req) (\<lambda>r t. in_phase s0 p t) s"
  by (auto simp: wp_def authorize_operation_def onS_def in_phase_def split: prod.split)

text \<open>An entry of one event moves the machine, an entry of no event leaves it.\<close>

lemma in_phase_entry:
  assumes "in_phase s0 p s" "call_trace p (provider_events [y]) q"
  shows "in_phase s0 q (s\<lparr>au_ledger := au_ledger s @ [y]\<rparr>)"
proof -
  from assms(1) obtain new where new: "au_ledger s = au_ledger s0 @ new" "call_trace Idle (provider_events new) p"
    "au_memory s = au_memory s0" by (auto simp: in_phase_def)
  have "call_trace p evs q \<Longrightarrow> call_trace Idle (provider_events new @ evs) q" for evs
    by (induction rule: call_trace.induct) (simp_all add: new(2) call_trace.advance flip: append_assoc)
  from this [OF assms(2)] new(1,3) show ?thesis
    by (auto simp: in_phase_def provider_events_append intro!: exI [of _ "new @ [y]"])
qed

lemma in_phase_event:
  assumes "in_phase s0 p s" "call_step p ty q"
  shows "wp (record_provider_event rt now ty ctx pid code cat retry) (\<lambda>r t. r = Inr () \<and> in_phase s0 q t) s"
proof (rule record_provider_event_eq [of rt now ty ctx pid code cat retry s])
  fix y
  assume y: "record_provider_event rt now ty ctx pid code cat retry s = (Inr (), s\<lparr>au_ledger := au_ledger s @ [y]\<rparr>)"
    "provider_entry ty (rc_sequence ctx) y"
  have "call_trace p (provider_events [y]) q"
    using call_trace.advance [OF call_trace.start assms(2)] by (simp add: provider_events_one [OF y(2)])
  from in_phase_entry [OF assms(1) this] show ?thesis by (simp add: wp_def y(1))
qed

definition stored_for :: "sovereign_authority \<Rightarrow> string \<Rightarrow> string \<Rightarrow> memory_record \<Rightarrow> bool" where
  "stored_for s mo rid m \<longleftrightarrow> map_of (au_memory s) rid = Some m \<and> has_consent m mo"

lemma in_phase_read:
  assumes "in_phase s0 p s"
  shows "wp (read_memory rt e rid mo) (\<lambda>r t. in_phase s0 p t \<and> (\<forall>m. r = Inr m \<longrightarrow> stored_for s0 mo rid m)) s"
proof (cases "au_initialized s \<and> (\<exists>m. stored_for s mo rid m)")
  case True
  then obtain m where m: "au_initialized s" "map_of (au_memory s) rid = Some m" "has_consent m mo"
    by (auto simp: stored_for_def)
  then obtain y where y: "read_memory rt e rid mo s = (Inr m, s\<lparr>au_ledger := au_ledger s @ [y]\<rparr>)"
    "le_event y = ''memory.access''" by (rule read_memory_eq)
  have "call_trace p (provider_events [y]) p"
    by (simp add: provider_events_other [OF y(2)] call_trace.start)
  from in_phase_entry [OF assms this] m assms show ?thesis
    by (simp add: wp_def y(1) stored_for_def) (simp add: in_phase_def)
next
  case False
  then have "\<exists>ex. read_memory rt e rid mo s = (Inl ex, s)"
    by (auto simp: read_memory_def assert_read_access_def guardE_def stored_for_def split: option.split)
  with assms show ?thesis by (auto simp: wp_def)
qed

lemma in_phase_reads:
  assumes "in_phase s0 p s"
  shows "wp (mapS (\<lambda>(i, rid). read_memory rt (later (k + i) e) rid mo) (enumerate n ids))
    (\<lambda>r t. in_phase s0 p t \<and> (\<forall>rs. r = Inr rs \<longrightarrow> list_all2 (stored_for s0 mo) ids rs)) s"
proof -
  have "wp (mapS (\<lambda>(i, rid). read_memory rt (later (k + i) e) rid mo) (enumerate n ids))
    (\<lambda>r t. in_phase s0 p t \<and> (\<forall>rs. r = Inr rs \<longrightarrow> list_all2 (\<lambda>x. stored_for s0 mo (snd x)) (enumerate n ids) rs)) s"
    by (rule wp_mapI) (simp_all add: assms case_prod_beta in_phase_read)
  moreover have "list_all2 (\<lambda>x. stored_for s0 mo (snd x)) (enumerate n ids) rs = list_all2 (stored_for s0 mo) ids rs" for rs
    using list.rel_map(1) [of "stored_for s0 mo" snd "enumerate n ids" rs] by (simp add: list_all2_map1)
  ultimately show ?thesis by simp
qed

section \<open>The call\<close>

text \<open>
  How a call may end, by its result: the phase it reached, the decision, and for a returned result that
  it is the provider's answer to a packet of stored records that are shared with the provider.
\<close>

definition call_outcome :: "runtime \<Rightarrow> operation_request \<Rightarrow> ai_provider \<Rightarrow> string list \<Rightarrow> sovereign_authority \<Rightarrow> call_phase \<Rightarrow>
    (authorization_decision \<times> pydict option) res \<Rightarrow> bool" where
  "call_outcome rt req prov ids s p r =
     (case r of
        Inr (d, Some out) \<Rightarrow> p = Completed \<and> ad_allowed d \<and>
          (\<exists>rs packet. list_all2 (stored_for s (pr_id prov)) ids rs \<and>
             build_context_packet rt req d (pr_id prov) (map ItemRecord rs) = Inr packet \<and> pr_execute prov packet = Inr out)
      | Inr (d, None) \<Rightarrow> p = Failed \<and> \<not> ad_allowed d
      | Inl ex \<Rightarrow> p \<in> (if pr_id prov = [] then {Idle, Requested, Failed} else {Idle, Failed}))"

abbreviation call_ends :: "runtime \<Rightarrow> operation_request \<Rightarrow> ai_provider \<Rightarrow> string list \<Rightarrow> sovereign_authority \<Rightarrow>
    (authorization_decision \<times> pydict option) res \<Rightarrow> sovereign_authority \<Rightarrow> bool" where
  "call_ends rt req prov ids s r t \<equiv> \<exists>p. in_phase s p t \<and> call_outcome rt req prov ids s p r"

lemma call_raises: "in_phase s Idle t \<Longrightarrow> call_ends rt req prov ids s (Inl ex) t"
  by (rule exI [of _ Idle]) (simp add: call_outcome_def)

lemma execution_ends:
  assumes "in_phase s Approved t" "ad_allowed d" "list_all2 (stored_for s (pr_id prov)) ids rs"
    and "build_context_packet rt req d (pr_id prov) (map ItemRecord rs) = Inr packet"
  shows "wp (bindS (catch_reraise (liftS (pr_execute prov packet))
         (\<lambda>exc. record_provider_event rt n1 FAILED c1 i1 (Some (exc_code exc)) (Some ''execution'') (Some False)))
       (\<lambda>result. bindS (record_provider_event rt n2 COMPLETED c2 i2 None None None) (\<lambda>_. returnS (d, Some result))))
     (call_ends rt req prov ids s) t"
proof (cases "pr_execute prov packet")
  case (Inl exc)
  have "call_outcome rt req prov ids s Failed (Inl exc)" by (simp add: call_outcome_def)
  then show ?thesis
    unfolding wp_bind wp_catch wp_pure Inl sum.case
    by (intro wp_mono [OF in_phase_event [OF assms(1) call_step.fail]]) auto
next
  case (Inr out)
  have "call_outcome rt req prov ids s Completed (Inr (d, Some out))"
    using assms(2-4) Inr by (auto simp: call_outcome_def)
  then show ?thesis
    unfolding wp_bind wp_catch wp_pure Inr sum.case
    by (intro wp_mono [OF in_phase_event [OF assms(1) call_step.complete]]) (auto simp: wp)
qed

lemma request_ends:
  assumes "in_phase s Idle t" "ad_allowed d" "list_all2 (stored_for s (pr_id prov)) ids rs"
    and "build_context_packet rt req d (pr_id prov) (map ItemRecord rs) = Inr packet" "or_provider req = Some (pr_id prov)"
  shows "wp (bindS (record_provider_event rt n1 REQUESTED c1 (Some (pr_id prov)) None None None) (\<lambda>_.
       bindS (liftS (router_select [(pr_id prov, prov)] req)) (\<lambda>selected.
       bindS (record_provider_event rt n2 APPROVED c2 (Some (pr_id selected)) None None None) (\<lambda>_.
       bindS (catch_reraise (liftS (pr_execute selected packet))
         (\<lambda>exc. record_provider_event rt n3 FAILED c3 (Some (pr_id selected)) (Some (exc_code exc)) (Some ''execution'') (Some False)))
       (\<lambda>result. bindS (record_provider_event rt n4 COMPLETED c3 (Some (pr_id selected)) None None None)
         (\<lambda>_. returnS (d, Some result)))))))
     (call_ends rt req prov ids s) t"
proof (rule wp_bindI [OF in_phase_event [OF assms(1) call_step.request]], simp, rule wp_liftI)
  fix u v ex
  assume v: "Inr u = (Inr () :: unit res) \<and> in_phase s Requested v" "router_select [(pr_id prov, prov)] req = Inl ex"
  then have "pr_id prov = []" using assms(5) by (simp add: router_select_def split: if_splits)
  with v(1) show "call_ends rt req prov ids s (Inl ex) v" by (auto simp: call_outcome_def)
next
  fix u v selected
  assume v: "Inr u = (Inr () :: unit res) \<and> in_phase s Requested v" "router_select [(pr_id prov, prov)] req = Inr selected"
  then have sel: "selected = prov" using assms(5) by (simp add: router_select_def split: if_splits)
  show "wp (bindS (record_provider_event rt n2 APPROVED c2 (Some (pr_id selected)) None None None) (\<lambda>_.
       bindS (catch_reraise (liftS (pr_execute selected packet))
         (\<lambda>exc. record_provider_event rt n3 FAILED c3 (Some (pr_id selected)) (Some (exc_code exc)) (Some ''execution'') (Some False)))
       (\<lambda>result. bindS (record_provider_event rt n4 COMPLETED c3 (Some (pr_id selected)) None None None)
         (\<lambda>_. returnS (d, Some result))))) (call_ends rt req prov ids s) v"
    unfolding sel
    by (rule wp_bindI [OF in_phase_event [OF conjunct2 [OF v(1)] call_step.approve]], simp, rule execution_ends [OF _ assms(2-4)], simp)
qed

lemma refusal_ends:
  assumes "in_phase s Idle t" "\<not> ad_allowed d"
  shows "wp (bindS (record_provider_event rt n FAILED c i (Some (ad_code d)) (Some ''authorization'') (Some False))
       (\<lambda>_. returnS (d, None))) (call_ends rt req prov ids s) t"
proof -
  have "call_outcome rt req prov ids s Failed (Inr (d, None))" using assms(2) by (simp add: call_outcome_def)
  then show ?thesis
    by (intro wp_bindI [OF in_phase_event [OF assms(1) call_step.refuse]]) (auto simp: wp)
qed

lemma decided_ends:
  assumes t: "in_phase s Idle t" and provider: "or_provider req = Some (pr_id prov)"
  shows "wp (if \<not> ad_allowed d
     then bindS (record_provider_event rt n0 FAILED c0 i0 (Some (ad_code d)) (Some ''authorization'') (Some False))
       (\<lambda>_. returnS (d, None))
     else bindS (mapS (\<lambda>(i, rid). read_memory rt (later (8 + i) e) rid (pr_id prov)) (enumerate 0 ids)) (\<lambda>rs.
       bindS (liftS (build_context_packet rt req d (pr_id prov) (map ItemRecord rs))) (\<lambda>packet.
       bindS (record_provider_event rt n1 REQUESTED c1 (Some (pr_id prov)) None None None) (\<lambda>_.
       bindS (liftS (router_select [(pr_id prov, prov)] req)) (\<lambda>selected.
       bindS (record_provider_event rt n2 APPROVED c2 (Some (pr_id selected)) None None None) (\<lambda>_.
       bindS (catch_reraise (liftS (pr_execute selected packet))
         (\<lambda>exc. record_provider_event rt n3 FAILED c3 (Some (pr_id selected)) (Some (exc_code exc)) (Some ''execution'') (Some False)))
       (\<lambda>result. bindS (record_provider_event rt n4 COMPLETED c3 (Some (pr_id selected)) None None None)
         (\<lambda>_. returnS (d, Some result))))))))) (call_ends rt req prov ids s) t"
proof (cases "ad_allowed d")
  case False
  from refusal_ends [OF t this] show ?thesis by (simp only: False if_True simp_thms)
next
  case True
  show ?thesis
    unfolding eqTrueI [OF True] simp_thms if_False
  proof (rule wp_bindI [OF in_phase_reads [OF t]], goal_cases)
    case (1 ex u)
    from conjunct1 [OF this] show ?case by (rule call_raises)
  next
    case (2 rs u)
    then have u: "in_phase s Idle u" "list_all2 (stored_for s (pr_id prov)) ids rs" by simp_all
    show ?case
      by (rule wp_liftI) (rule call_raises [OF u(1)], rule request_ends [OF u(1) True u(2) _ provider], assumption)
  qed
qed

lemma provider_call_ends: "wp (call_provider_authorized rt e req prov ids) (call_ends rt req prov ids s) s"
proof (cases "au_initialized s \<and> or_provider req = Some (pr_id prov)")
  case False
  then show ?thesis
    using call_raises [OF in_phase_start] by (auto simp: wp_def call_provider_authorized_def)
next
  case True
  show ?thesis
    unfolding wp_def call_provider_authorized_def Let_def bind_require bindS_get eqTrueI [OF conjunct1 [OF True]] conjunct2 [OF True]
      if_True if_False simp_thms not_not
    unfolding wp_def [symmetric]
    by (rule wp_bindI [OF in_phase_authorize [OF in_phase_start]])
      (erule call_raises, erule decided_ends [OF _ conjunct2 [OF True]])
qed

section \<open>Properties\<close>

text \<open>
  C5.  A governed provider call follows the lifecycle.  Whatever happens in the call, the provider events
  that it adds to the ledger are a run of the lifecycle machine from its start, and nothing else of the
  ledger and no memory changes.  A result is returned only from the phase \<open>Completed\<close>, for an allowed
  decision, and it is the provider's answer to the packet that the firewall built of stored records
  which are the provider's own or shared with it; a decision alone is returned only from the phase
  \<open>Failed\<close>, and then it is a denial; a call that raises never leaves a request open: it ends before the
  request or in the phase \<open>Failed\<close> (only the empty provider id, which no router entry admits, ends
  after the request).
\<close>

theorem provider_call_follows_lifecycle:
  "case call_provider_authorized rt e req prov ids s of (r, s') \<Rightarrow>
     \<exists>new p. au_ledger s' = au_ledger s @ new \<and> au_memory s' = au_memory s \<and>
       call_trace Idle (provider_events new) p \<and>
       (case r of
          Inr (d, Some out) \<Rightarrow> p = Completed \<and> ad_allowed d \<and>
            (\<exists>rs packet. list_all2 (\<lambda>rid m. map_of (au_memory s) rid = Some m \<and> has_consent m (pr_id prov)) ids rs \<and>
               build_context_packet rt req d (pr_id prov) (map ItemRecord rs) = Inr packet \<and> pr_execute prov packet = Inr out)
        | Inr (d, None) \<Rightarrow> p = Failed \<and> \<not> ad_allowed d
        | Inl ex \<Rightarrow> p \<in> (if pr_id prov = [] then {Idle, Requested, Failed} else {Idle, Failed}))"
  using provider_call_ends [of rt e req prov ids s]
  unfolding wp_def in_phase_def call_outcome_def stored_for_def case_prod_unfold
  by blast

end
