(* ===== verification/Providers.thy ===== *)
theory Providers
  imports MemoryStore GateAdapters
begin

text \<open>
  \<open>src/sia/providers/registry.py\<close>, the allowed and the banned providers, and the four HTTP drivers
  \<open>openai.py\<close>, \<open>xai.py\<close>, \<open>copilot.py\<close> and \<open>anthropic.py\<close>.  The key file, the network and
  \<open>str\<close> of a value that is not a text are parameters of a driver.  The lemmas say which identifiers
  the registry admits and what leaves the device in a driver's request.
\<close>

section \<open>The registry\<close>

datatype provider_enum = XAI_GROK | OPENAI_GPT | ANTHROPIC_CLAUDE | GITHUB_COPILOT

fun provider_value :: "provider_enum \<Rightarrow> string" where
  "provider_value XAI_GROK = ''xai.grok''"
| "provider_value OPENAI_GPT = ''openai.gpt''"
| "provider_value ANTHROPIC_CLAUDE = ''anthropic.claude''"
| "provider_value GITHUB_COPILOT = ''github.copilot''"

definition BANNED_PROVIDER_PREFIXES :: "string list" where
  "BANNED_PROVIDER_PREFIXES = [''google.'', ''meta.'', ''firebase.'', ''vertex.'']"

definition KNOWN_BANNED_PROVIDERS :: "string list" where
  "KNOWN_BANNED_PROVIDERS =
     [''google.gemini'', ''google.palm'', ''meta.llama'', ''meta.codellama'', ''firebase.genai'', ''vertex.ai'']"

record registry_provider =
  pe_id :: string
  pe_name :: string
  pe_models :: "string list"
  pe_roles :: "string list"
  pe_never_primary :: bool
  pe_memory :: string

definition memory_path :: "string \<Rightarrow> string" where
  "memory_path provider_id = ''~/.sia/providers/'' @ str_replace ''.'' ''_'' provider_id @ ''.json''"

fun PROVIDER_REGISTRY :: "provider_enum \<Rightarrow> registry_provider" where
  "PROVIDER_REGISTRY XAI_GROK =
     \<lparr>pe_id = provider_value XAI_GROK, pe_name = ''xAI / Grok'', pe_models = [''grok-4.5'', ''SuperGrok''],
      pe_roles = [''judge'', ''council'', ''daily'', ''code'', ''medical''], pe_never_primary = False,
      pe_memory = memory_path (provider_value XAI_GROK)\<rparr>"
| "PROVIDER_REGISTRY OPENAI_GPT =
     \<lparr>pe_id = provider_value OPENAI_GPT, pe_name = ''OpenAI / GPT'',
      pe_models = [''gpt-5.6'', ''gpt-5.5-codex'', ''gpt-5.5-mini''],
      pe_roles = [''daily'', ''code'', ''council''], pe_never_primary = False,
      pe_memory = memory_path (provider_value OPENAI_GPT)\<rparr>"
| "PROVIDER_REGISTRY ANTHROPIC_CLAUDE =
     \<lparr>pe_id = provider_value ANTHROPIC_CLAUDE, pe_name = ''Anthropic / Claude'',
      pe_models = [''claude-fable-5'', ''claude-sonnet-5''],
      pe_roles = [''daily'', ''code'', ''medical'', ''council''], pe_never_primary = False,
      pe_memory = memory_path (provider_value ANTHROPIC_CLAUDE)\<rparr>"
| "PROVIDER_REGISTRY GITHUB_COPILOT =
     \<lparr>pe_id = provider_value GITHUB_COPILOT, pe_name = ''GitHub Copilot'', pe_models = [''copilot-hybrid''],
      pe_roles = [''code'', ''judge''], pe_never_primary = True,
      pe_memory = memory_path (provider_value GITHUB_COPILOT)\<rparr>"

text \<open>
  \<open>lower\<close> on ASCII letters is enough: no other character whose lower case is an ASCII letter yields a
  letter of a banned prefix alone.
\<close>

definition is_banned :: "string \<Rightarrow> bool" where
  "is_banned provider_id \<longleftrightarrow> (let lower = str_lower provider_id in list_ex (startswith lower) BANNED_PROVIDER_PREFIXES)"

text \<open>\<open>ProviderID(provider_id)\<close>; \<open>None\<close> is the \<open>ValueError\<close>.\<close>

definition provider_enum_of :: "string \<Rightarrow> provider_enum option" where
  "provider_enum_of s = find (\<lambda>p. provider_value p = s) [XAI_GROK, OPENAI_GPT, ANTHROPIC_CLAUDE, GITHUB_COPILOT]"

definition lookup_provider :: "string \<Rightarrow> registry_provider res" where
  "lookup_provider provider_id =
     (if is_banned provider_id then Inl (SIAErr (BannedProviderError provider_id))
      else (case provider_enum_of provider_id of
              None \<Rightarrow> Inl (SIAErr RegistryNotFoundError)
            | Some pid \<Rightarrow> Inr (PROVIDER_REGISTRY pid)))"

section \<open>The drivers\<close>

text \<open>What \<open>urlopen\<close> gives: a body, an HTTP status, a network error, or another exception.\<close>

datatype http_outcome = HttpBody string | HttpStatus int | NetworkError | HttpRaise pyexc

record http_request =
  hq_url :: string
  hq_body :: string
  hq_headers :: "(string \<times> string) list"
  hq_timeout :: int

record driver_env =
  de_keys :: "string \<Rightarrow> string option"
  de_post :: "http_request \<Rightarrow> http_outcome"
  de_float :: "string \<Rightarrow> pyfloat"
  de_runtime :: runtime

record driver =
  dr_model :: string
  dr_key_file :: string
  dr_timeout :: int

definition load_api_key :: "string \<Rightarrow> driver_env \<Rightarrow> string \<Rightarrow> string res" where
  "load_api_key provider_id de key_file =
     (case de_keys de key_file of
        None \<Rightarrow> Inl (SIAErr (ProviderConfigError provider_id))
      | Some content \<Rightarrow>
          if \<not> utf8_ok content then Inl (AppError ''UnicodeDecodeError'' ''invalid utf-8'')
          else let key = py_strip content in
            if key = [] then Inl (SIAErr (ProviderConfigError provider_id)) else Inr key)"

definition text_contents :: "pydict list \<Rightarrow> string list" where
  "text_contents recs =
     concat (map (\<lambda>rec. case map_of rec ''content'' of
       Some (VStr content) \<Rightarrow> (if content \<noteq> [] then [content] else []) | _ \<Rightarrow> []) recs)"

definition packet_prompt :: "context_packet \<Rightarrow> pyval" where
  "packet_prompt packet =
     (let prompt = get_or (cp_metadata packet) ''prompt'' VNone;
          query = get_or (cp_metadata packet) ''query'' VNone in
      if py_truthy prompt then prompt else if py_truthy query then query else VStr [])"

definition chat_message :: "string \<Rightarrow> string \<Rightarrow> pyval" where
  "chat_message role content = VDict [(''role'', VStr role), (''content'', VStr content)]"

definition build_messages :: "driver_env \<Rightarrow> context_packet \<Rightarrow> pyval list" where
  "build_messages de packet =
     (let system = map (chat_message ''system'') (text_contents (cp_memory packet));
          prompt = packet_prompt packet;
          messages = system @ (if py_truthy prompt then [chat_message ''user'' (py_str (de_runtime de) prompt)] else []) in
      if messages = [] then [chat_message ''user'' (''operation:'' @ cp_operation packet)] else messages)"

text \<open>\<open>json.dumps\<close> with its defaults.\<close>

definition default_style :: json_style where
  "default_style = \<lparr>js_quote = quote_ascii, js_nan = True, js_item = '', '', js_key = '': '', js_sort = False\<rparr>"

text \<open>The request, and the reply as a dictionary; a body that is not UTF-8 or not JSON raises.\<close>

definition post_json :: "string \<Rightarrow> driver_env \<Rightarrow> http_request \<Rightarrow> pydict res" where
  "post_json provider_id de req =
     (case de_post de req of
        HttpStatus code \<Rightarrow> Inl (SIAErr (ProviderCallError provider_id (Some code)))
      | NetworkError \<Rightarrow> Inl (SIAErr (ProviderCallError provider_id None))
      | HttpRaise exc \<Rightarrow> Inl exc
      | HttpBody raw \<Rightarrow>
          if \<not> utf8_ok raw then Inl (AppError ''UnicodeDecodeError'' ''invalid utf-8'')
          else (case json_loads (de_float de) raw of
                  Inl exc \<Rightarrow> Inl exc
                | Inr (VDict data) \<Rightarrow> Inr data
                | Inr v \<Rightarrow> Inl (AppError ''AttributeError'' ''object has no attribute get'')))"

definition chat_request :: "string \<Rightarrow> (string \<times> string) list \<Rightarrow> driver \<Rightarrow> string \<Rightarrow> context_packet \<Rightarrow> string \<Rightarrow> http_request" where
  "chat_request url extra D api_key packet body =
     \<lparr>hq_url = url, hq_body = body,
      hq_headers = [(''Authorization'', ''Bearer '' @ api_key), (''Content-Type'', ''application/json''),
        (''X-SIA-Packet-ID'', cp_id packet)] @ extra,
      hq_timeout = dr_timeout D\<rparr>"

definition chat_result :: "string \<Rightarrow> driver \<Rightarrow> context_packet \<Rightarrow> pydict \<Rightarrow> pydict" where
  "chat_result provider_id D packet data =
     [(''provider_id'', VStr provider_id), (''packet_id'', VStr (cp_id packet)),
      (''model'', get_or data ''model'' (VStr (dr_model D))), (''choices'', get_or data ''choices'' (VList [])),
      (''usage'', get_or data ''usage'' (VDict [])), (''authorized'', VBool True)]"

text \<open>
  \<open>execute\<close> of the three chat drivers: the files differ in their constants, and each has its own functions
  \<open>_load_api_key\<close> and \<open>_build_messages\<close>.
\<close>

definition chat_execute :: "string \<Rightarrow> string \<Rightarrow> (string \<times> string) list \<Rightarrow> (driver_env \<Rightarrow> string \<Rightarrow> string res) \<Rightarrow>
    (driver_env \<Rightarrow> context_packet \<Rightarrow> pyval list) \<Rightarrow> driver_env \<Rightarrow> driver \<Rightarrow> context_packet \<Rightarrow> pydict res" where
  "chat_execute provider_id url extra load_key messages_of de D packet =
     (if \<not> cp_authorized packet then Inl (ValueError ''requires an authorized context packet'')
      else bindE (load_key de (dr_key_file D)) (\<lambda>api_key.
           let messages = messages_of de packet in
           bindE (dumps default_style
             (VDict [(''model'', VStr (dr_model D)), (''messages'', VList messages), (''stream'', VBool False)])) (\<lambda>body.
           bindE (post_json provider_id de (chat_request url extra D api_key packet body)) (\<lambda>data.
             Inr (chat_result provider_id D packet data)))))"

definition OPENAI_ID :: string where "OPENAI_ID = ''openai.gpt''"
definition OPENAI_URL :: string where "OPENAI_URL = ''https://api.openai.com/v1/chat/completions''"
definition OPENAI_DRIVER :: driver where
  "OPENAI_DRIVER = \<lparr>dr_model = ''gpt-5.6'', dr_key_file = ''~/.sia/vault/keys/openai.gpt.key'', dr_timeout = 60\<rparr>"

definition openai_execute :: "driver_env \<Rightarrow> driver \<Rightarrow> context_packet \<Rightarrow> pydict res" where
  "openai_execute = chat_execute OPENAI_ID OPENAI_URL [] (load_api_key OPENAI_ID) build_messages"

definition XAI_ID :: string where "XAI_ID = ''xai.grok''"
definition XAI_URL :: string where "XAI_URL = ''https://api.x.ai/v1/chat/completions''"
definition XAI_DRIVER :: driver where
  "XAI_DRIVER = \<lparr>dr_model = ''grok-4.5'', dr_key_file = ''~/.sia/vault/keys/xai.grok.key'', dr_timeout = 60\<rparr>"

definition xai_load_api_key :: "driver_env \<Rightarrow> string \<Rightarrow> string res" where
  "xai_load_api_key = load_api_key XAI_ID"

definition xai_build_messages :: "driver_env \<Rightarrow> context_packet \<Rightarrow> pyval list" where
  "xai_build_messages = build_messages"

definition xai_execute :: "driver_env \<Rightarrow> driver \<Rightarrow> context_packet \<Rightarrow> pydict res" where
  "xai_execute = chat_execute XAI_ID XAI_URL [] xai_load_api_key xai_build_messages"

definition COPILOT_ID :: string where "COPILOT_ID = ''github.copilot''"
definition COPILOT_URL :: string where "COPILOT_URL = ''https://api.githubcopilot.com/chat/completions''"
definition COPILOT_DRIVER :: driver where
  "COPILOT_DRIVER = \<lparr>dr_model = ''copilot-hybrid'', dr_key_file = ''~/.sia/vault/keys/github.copilot.key'', dr_timeout = 60\<rparr>"

definition copilot_load_api_key :: "driver_env \<Rightarrow> string \<Rightarrow> string res" where
  "copilot_load_api_key = load_api_key COPILOT_ID"

definition copilot_build_messages :: "driver_env \<Rightarrow> context_packet \<Rightarrow> pyval list" where
  "copilot_build_messages = build_messages"

definition copilot_execute :: "driver_env \<Rightarrow> driver \<Rightarrow> context_packet \<Rightarrow> pydict res" where
  "copilot_execute = chat_execute COPILOT_ID COPILOT_URL [(''Copilot-Integration-Id'', ''sia-sovereignty-gate'')] copilot_load_api_key copilot_build_messages"

definition ANTHROPIC_ID :: string where "ANTHROPIC_ID = ''anthropic.claude''"
definition ANTHROPIC_URL :: string where "ANTHROPIC_URL = ''https://api.anthropic.com/v1/messages''"
definition ANTHROPIC_VERSION :: string where "ANTHROPIC_VERSION = ''2023-06-01''"
definition MAX_TOKENS :: int where "MAX_TOKENS = 4096"
definition ANTHROPIC_DRIVER :: driver where
  "ANTHROPIC_DRIVER =
     \<lparr>dr_model = ''claude-sonnet-5'', dr_key_file = ''~/.sia/vault/keys/anthropic.claude.key'', dr_timeout = 60\<rparr>"

definition anthropic_load_api_key :: "driver_env \<Rightarrow> string \<Rightarrow> string res" where
  "anthropic_load_api_key = load_api_key ANTHROPIC_ID"

definition build_payload :: "driver_env \<Rightarrow> context_packet \<Rightarrow> string \<Rightarrow> pydict" where
  "build_payload de packet model =
     (let system_parts = text_contents (cp_memory packet);
          prompt = packet_prompt packet;
          user_text = (if py_truthy prompt then py_str (de_runtime de) prompt else ''operation:'' @ cp_operation packet) in
      [(''model'', VStr model), (''max_tokens'', VInt MAX_TOKENS), (''messages'', VList [chat_message ''user'' user_text])] @
      (if system_parts = [] then [] else [(''system'', VStr (sep_by [CHR 0x0A, CHR 0x0A] system_parts))]))"

definition anthropic_request :: "driver \<Rightarrow> string \<Rightarrow> context_packet \<Rightarrow> string \<Rightarrow> http_request" where
  "anthropic_request D api_key packet body =
     \<lparr>hq_url = ANTHROPIC_URL, hq_body = body,
      hq_headers = [(''x-api-key'', api_key), (''anthropic-version'', ANTHROPIC_VERSION),
        (''Content-Type'', ''application/json''), (''X-SIA-Packet-ID'', cp_id packet)],
      hq_timeout = dr_timeout D\<rparr>"

definition anthropic_result :: "driver \<Rightarrow> context_packet \<Rightarrow> pydict \<Rightarrow> pydict" where
  "anthropic_result D packet data =
     [(''provider_id'', VStr ANTHROPIC_ID), (''packet_id'', VStr (cp_id packet)),
      (''model'', get_or data ''model'' (VStr (dr_model D))), (''content'', get_or data ''content'' (VList [])),
      (''usage'', get_or data ''usage'' (VDict [])), (''stop_reason'', get_or data ''stop_reason'' VNone),
      (''authorized'', VBool True)]"

definition anthropic_execute :: "driver_env \<Rightarrow> driver \<Rightarrow> int \<Rightarrow> context_packet \<Rightarrow> pydict res" where
  "anthropic_execute de D max_tokens packet =
     (if \<not> cp_authorized packet then Inl (ValueError ''requires an authorized context packet'')
      else bindE (anthropic_load_api_key de (dr_key_file D)) (\<lambda>api_key.
           let payload = AList.update ''max_tokens'' (VInt max_tokens) (build_payload de packet (dr_model D)) in
           bindE (dumps default_style (VDict payload)) (\<lambda>body.
           bindE (post_json ANTHROPIC_ID de (anthropic_request D api_key packet body)) (\<lambda>data.
             Inr (anthropic_result D packet data)))))"


section \<open>What leaves the device\<close>

lemma text_contents_cong:
  "list_all2 (\<lambda>a b. map_of a ''content'' = map_of b ''content'') xs ys \<Longrightarrow> text_contents xs = text_contents ys"
  unfolding text_contents_def by (induction rule: list_all2_induct) simp_all

lemma sanitized_texts: "text_contents (map sanitize_item items) = text_contents (map item_fields items)"
  by (rule text_contents_cong) (simp add: list_all2_map1 list_all2_map2 list_all2_same sanitize_item_lookup)

lemma built_packet_memory:
  assumes "build_context_packet rt r d prov items = Inr p"
  shows "cp_memory p = map sanitize_item items"
    and "cp_operation p = operation_name r"
    and "cp_metadata p = [(''resource_id'', VStr (or_resource r)), (''model_id'', VStr (or_model r))]"
  using assms by (auto simp: build_context_packet_def Let_def res_simps split: if_splits option.splits)

lemma built_packet_prompt:
  "build_context_packet rt r d prov items = Inr p \<Longrightarrow> packet_prompt p = VStr []"
  by (simp add: packet_prompt_def built_packet_memory get_or_def py_truthy_def Let_def)

text \<open>
  What a driver makes of a packet that the firewall built: the non-empty texts among the contents of the
  offered items, in order, and nothing else; when there is none, the operation's name.  The prompt, which
  the drivers take from the metadata, is not among what the firewall puts there.
\<close>

lemma build_messages_released:
  "build_context_packet rt r d prov items = Inr p \<Longrightarrow>
   build_messages de p =
     (let texts = text_contents (map item_fields items) in
      if texts = [] then [chat_message ''user'' (''operation:'' @ operation_name r)]
      else map (chat_message ''system'') texts)"
  by (simp add: build_messages_def built_packet_memory built_packet_prompt sanitized_texts py_truthy_def Let_def)

lemma build_payload_released:
  "build_context_packet rt r d prov items = Inr p \<Longrightarrow>
   build_payload de p model =
     (let texts = text_contents (map item_fields items) in
      [(''model'', VStr model), (''max_tokens'', VInt MAX_TOKENS),
       (''messages'', VList [chat_message ''user'' (''operation:'' @ operation_name r)])] @
      (if texts = [] then [] else [(''system'', VStr (sep_by [CHR 0x0A, CHR 0x0A] texts))]))"
  by (simp add: build_payload_def built_packet_memory built_packet_prompt sanitized_texts py_truthy_def Let_def)

lemma ex_provider: "(\<exists>q. P q) = (P XAI_GROK \<or> P OPENAI_GPT \<or> P ANTHROPIC_CLAUDE \<or> P GITHUB_COPILOT)"
  by (metis provider_enum.exhaust)

lemma lookup_id: "lookup_provider (provider_value p) = Inr (PROVIDER_REGISTRY p)"
  by (cases p) (simp_all add: lookup_provider_def is_banned_def BANNED_PROVIDER_PREFIXES_def provider_enum_of_def
      str_lower_def lower_char_def startswith_def Let_def)

lemma provider_enum_Some: "provider_enum_of s = Some q \<Longrightarrow> s = provider_value q"
  unfolding provider_enum_of_def find_Some_iff by blast

section \<open>Properties\<close>

text \<open>
  The registry admits exactly the four provider identifiers, each with its own entry; an identifier
  is reported as banned exactly when it starts, in any case, with a banned prefix, which the known
  banned providers do; every other identifier is not found; and the default model of each driver
  belongs to the models of its entry.
\<close>

theorem registry_admits_exactly:
  "((\<exists>e. lookup_provider s = Inr e) = (s \<in> {''xai.grok'', ''openai.gpt'', ''anthropic.claude'', ''github.copilot''})) \<and>
   (lookup_provider s = Inl (SIAErr (BannedProviderError s))) = list_ex (startswith (str_lower s)) BANNED_PROVIDER_PREFIXES \<and>
   list_all (\<lambda>p. lookup_provider p = Inl (SIAErr (BannedProviderError p))) KNOWN_BANNED_PROVIDERS \<and>
   list_all (\<lambda>p. lookup_provider (provider_value p) = Inr (PROVIDER_REGISTRY p) \<and> pe_id (PROVIDER_REGISTRY p) = provider_value p)
     [XAI_GROK, OPENAI_GPT, ANTHROPIC_CLAUDE, GITHUB_COPILOT] \<and>
   list_all (\<lambda>(i, D). case lookup_provider i of Inr e \<Rightarrow> dr_model D \<in> set (pe_models e) | Inl _ \<Rightarrow> False)
     [(OPENAI_ID, OPENAI_DRIVER), (XAI_ID, XAI_DRIVER), (COPILOT_ID, COPILOT_DRIVER), (ANTHROPIC_ID, ANTHROPIC_DRIVER)]"
proof -
  have known: "list_all (\<lambda>p. lookup_provider p = Inl (SIAErr (BannedProviderError p))) KNOWN_BANNED_PROVIDERS"
    by (simp add: KNOWN_BANNED_PROVIDERS_def lookup_provider_def is_banned_def BANNED_PROVIDER_PREFIXES_def
        str_lower_def lower_char_def startswith_def)
  have banned: "(lookup_provider s = Inl (SIAErr (BannedProviderError s))) = is_banned s"
    by (auto simp: lookup_provider_def split: option.split)
  have drivers: "list_all (\<lambda>(i, D). case lookup_provider i of Inr e \<Rightarrow> dr_model D \<in> set (pe_models e) | Inl _ \<Rightarrow> False)
     [(OPENAI_ID, OPENAI_DRIVER), (XAI_ID, XAI_DRIVER), (COPILOT_ID, COPILOT_DRIVER), (ANTHROPIC_ID, ANTHROPIC_DRIVER)]"
    using lookup_id [of OPENAI_GPT] lookup_id [of XAI_GROK] lookup_id [of GITHUB_COPILOT] lookup_id [of ANTHROPIC_CLAUDE]
    by (simp add: OPENAI_ID_def XAI_ID_def COPILOT_ID_def ANTHROPIC_ID_def OPENAI_DRIVER_def XAI_DRIVER_def
        COPILOT_DRIVER_def ANTHROPIC_DRIVER_def)
  have "\<exists>q. s = provider_value q" if "lookup_provider s = Inr e" for e
    using that provider_enum_Some [of s] by (auto simp: lookup_provider_def split: if_splits option.splits)
  moreover have "\<exists>e. lookup_provider s = Inr e" if "s = provider_value q" for q using lookup_id that by blast
  ultimately have "(\<exists>e. lookup_provider s = Inr e) = (\<exists>q. s = provider_value q)" by blast
  also have "\<dots> = (s \<in> {''xai.grok'', ''openai.gpt'', ''anthropic.claude'', ''github.copilot''})"
    by (simp add: ex_provider)
  finally show ?thesis using banned known drivers lookup_id by (simp add: is_banned_def Let_def)
qed

end
