(* ===== verification/GovernedDrivers.thy ===== *)
theory GovernedDrivers
  imports Lifecycle Providers
begin

text \<open>
  The drivers of \<open>src/sia/providers/\<close> as the providers of \<open>call_provider_authorized\<close>: what a governed call
  posts to a provider, from the stored memory to the body of the HTTP request.
\<close>

section \<open>The driver objects\<close>

definition openai_provider :: "driver_env \<Rightarrow> driver \<Rightarrow> ai_provider" where
  "openai_provider de D = \<lparr>pr_id = OPENAI_ID, pr_execute = openai_execute de D\<rparr>"

definition xai_provider :: "driver_env \<Rightarrow> driver \<Rightarrow> ai_provider" where
  "xai_provider de D = \<lparr>pr_id = XAI_ID, pr_execute = xai_execute de D\<rparr>"

definition copilot_provider :: "driver_env \<Rightarrow> driver \<Rightarrow> ai_provider" where
  "copilot_provider de D = \<lparr>pr_id = COPILOT_ID, pr_execute = copilot_execute de D\<rparr>"

definition anthropic_provider :: "driver_env \<Rightarrow> driver \<Rightarrow> int \<Rightarrow> ai_provider" where
  "anthropic_provider de D max_tokens = \<lparr>pr_id = ANTHROPIC_ID, pr_execute = anthropic_execute de D max_tokens\<rparr>"

section \<open>What is posted\<close>

text \<open>The document of a request that carries the given texts, or the operation's name when there is none.\<close>

definition released_request :: "string \<Rightarrow> driver \<Rightarrow> int \<Rightarrow> string list \<Rightarrow> string \<Rightarrow> pydict" where
  "released_request pid D max_tokens texts operation =
     (let fallback = chat_message ''user'' (''operation:'' @ operation) in
      if pid = ANTHROPIC_ID
      then [(''model'', VStr (dr_model D)), (''max_tokens'', VInt max_tokens), (''messages'', VList [fallback])] @
        (if texts = [] then [] else [(''system'', VStr (sep_by [CHR 0x0A, CHR 0x0A] texts))])
      else [(''model'', VStr (dr_model D)),
        (''messages'', VList (if texts = [] then [fallback] else map (chat_message ''system'') texts)),
        (''stream'', VBool False)])"

text \<open>
  A driver asked the network one request, \<open>asked\<close> for the packet, and made its result of the answer: whatever
  the network says elsewhere, the same answer gives the same result, and no answer a failed call.
\<close>

definition asked :: "(driver_env \<Rightarrow> ai_provider) \<Rightarrow> driver_env \<Rightarrow> context_packet \<Rightarrow> http_request \<Rightarrow> pydict \<Rightarrow> bool" where
  "asked drv de p q out \<longleftrightarrow> pr_execute (drv de) p = Inr out \<and>
     (\<forall>net. (net q = de_post de q \<longrightarrow> pr_execute (drv (de\<lparr>de_post := net\<rparr>)) p = Inr out) \<and>
            (net q = NetworkError \<longrightarrow>
              pr_execute (drv (de\<lparr>de_post := net\<rparr>)) p = Inl (SIAErr (ProviderCallError (pr_id (drv de)) None))))"

lemma askedI:
  assumes "\<And>net. pr_execute (drv (de\<lparr>de_post := net\<rparr>)) p =
      bindE (post_json (pr_id (drv de)) (de\<lparr>de_post := net\<rparr>) q) (\<lambda>data. Inr (f data))"
    and "pr_execute (drv de) p = Inr out"
  shows "asked drv de p q out"
proof -
  have "de\<lparr>de_post := de_post de\<rparr> = de" by simp
  with assms(1) [of "de_post de"] assms(2)
  have "bindE (post_json (pr_id (drv de)) de q) (\<lambda>data. Inr (f data)) = Inr out" by simp
  moreover have "post_json pid (de\<lparr>de_post := net\<rparr>) q = post_json pid de q" if "net q = de_post de q" for net pid
    using that by (cases "de_post de q") (simp_all add: post_json_def)
  ultimately show ?thesis using assms(2) unfolding asked_def assms(1) by (auto simp: post_json_def)
qed

definition posted :: "(driver_env \<Rightarrow> ai_provider) \<Rightarrow> driver_env \<Rightarrow> context_packet \<Rightarrow> pydict \<Rightarrow> pydict \<Rightarrow> bool" where
  "posted drv de p doc out \<longleftrightarrow> map_of out ''provider_id'' = Some (VStr (pr_id (drv de))) \<and>
     (\<exists>q. dumps default_style (VDict doc) = Inr (hq_body q) \<and> asked drv de p q out)"

lemma record_texts: "text_contents (map (item_fields \<circ> ItemRecord) rs) = text_contents (map memory_to_dict rs)"
  by (simp add: item_fields_def comp_def)

lemma drivers_read_keys:
  "load_api_key pid (de\<lparr>de_post := net\<rparr>) f = load_api_key pid de f" "build_messages (de\<lparr>de_post := net\<rparr>) p = build_messages de p"
  "build_payload (de\<lparr>de_post := net\<rparr>) p m = build_payload de p m"
  by (simp_all add: load_api_key_def build_messages_def build_payload_def Let_def)

lemma chat_posts:
  assumes "build_context_packet rt r d prov (map ItemRecord rs) = Inr p" "pid \<noteq> ANTHROPIC_ID"
    and "drv = (\<lambda>de. \<lparr>pr_id = pid, pr_execute = chat_execute pid url extra (load_api_key pid) build_messages de D\<rparr>)"
    and "pr_execute (drv de) p = Inr out"
  shows "posted drv de p (released_request pid D mt (text_contents (map memory_to_dict rs)) (operation_name r)) out"
proof -
  have m: "build_messages de p = (let texts = text_contents (map memory_to_dict rs) in
      if texts = [] then [chat_message ''user'' (''operation:'' @ operation_name r)] else map (chat_message ''system'') texts)"
    by (simp add: build_messages_released [OF assms(1)] record_texts)
  let ?doc = "[(''model'', VStr (dr_model D)), (''messages'', VList (build_messages de p)), (''stream'', VBool False)]"
  have doc: "released_request pid D mt (text_contents (map memory_to_dict rs)) (operation_name r) = ?doc"
    using assms(2) by (simp add: released_request_def m Let_def)
  from assms(4) obtain key body data where q: "cp_authorized p" "load_api_key pid de (dr_key_file D) = Inr key"
      "dumps default_style (VDict ?doc) = Inr body" "out = chat_result pid D p data"
    by (auto simp: assms(3) chat_execute_def Let_def res_simps simp del: dumps.simps split: if_splits)
  have "asked drv de p (chat_request url extra D key p body) out"
    using q(1,2,3) assms(4)
    by (intro askedI [where f = "chat_result pid D p"])
      (simp_all add: assms(3) chat_execute_def drivers_read_keys Let_def del: dumps.simps)
  moreover have "hq_body (chat_request url extra D key p body) = body" by (simp add: chat_request_def)
  moreover have "map_of out ''provider_id'' = Some (VStr (pr_id (drv de)))" by (simp add: q(4) chat_result_def assms(3))
  ultimately show ?thesis using q(3) unfolding posted_def doc by metis
qed

lemma anthropic_posts:
  assumes "build_context_packet rt r d prov (map ItemRecord rs) = Inr p"
    and "pr_execute (anthropic_provider de D mt) p = Inr out"
  shows "posted (\<lambda>de. anthropic_provider de D mt) de p
    (released_request ANTHROPIC_ID D mt (text_contents (map memory_to_dict rs)) (operation_name r)) out"
proof -
  let ?doc = "AList.update ''max_tokens'' (VInt mt) (build_payload de p (dr_model D))"
  have doc: "released_request ANTHROPIC_ID D mt (text_contents (map memory_to_dict rs)) (operation_name r) = ?doc"
    by (simp add: build_payload_released [OF assms(1)] record_texts released_request_def Let_def)
  from assms(2) obtain key body data where q: "cp_authorized p" "anthropic_load_api_key de (dr_key_file D) = Inr key"
      "dumps default_style (VDict ?doc) = Inr body" "out = anthropic_result D p data"
    by (auto simp: anthropic_provider_def anthropic_execute_def Let_def res_simps simp del: dumps.simps split: if_splits)
  have "asked (\<lambda>de. anthropic_provider de D mt) de p (anthropic_request D key p body) out"
    using q(1,2,3) assms(2)
    by (intro askedI [where f = "anthropic_result D p"])
      (simp_all add: anthropic_provider_def anthropic_execute_def anthropic_load_api_key_def drivers_read_keys Let_def del: dumps.simps)
  moreover have "hq_body (anthropic_request D key p body) = body" by (simp add: anthropic_request_def)
  moreover have "map_of out ''provider_id'' = Some (VStr (pr_id (anthropic_provider de D mt)))"
    by (simp add: q(4) anthropic_result_def anthropic_provider_def)
  ultimately show ?thesis using q(3) unfolding posted_def doc by metis
qed

text \<open>The four drivers, each made for its surroundings.\<close>

definition drivers :: "driver \<Rightarrow> int \<Rightarrow> (driver_env \<Rightarrow> ai_provider) set" where
  "drivers D mt = {\<lambda>de. openai_provider de D, \<lambda>de. xai_provider de D, \<lambda>de. copilot_provider de D, \<lambda>de. anthropic_provider de D mt}"

lemma driver_posts:
  assumes "drv \<in> drivers D mt"
    and "build_context_packet rt r d (pr_id (drv de)) (map ItemRecord rs) = Inr p" "pr_execute (drv de) p = Inr out"
  shows "posted drv de p
    (released_request (pr_id (drv de)) D mt (text_contents (map memory_to_dict rs)) (operation_name r)) out"
proof -
  consider (openai) "drv = (\<lambda>de. openai_provider de D)" | (xai) "drv = (\<lambda>de. xai_provider de D)"
    | (copilot) "drv = (\<lambda>de. copilot_provider de D)" | (anthropic) "drv = (\<lambda>de. anthropic_provider de D mt)"
    using assms(1) unfolding drivers_def by blast
  then show ?thesis
  proof cases
    case openai
    have m: "drv = (\<lambda>de. \<lparr>pr_id = OPENAI_ID, pr_execute =
        chat_execute OPENAI_ID OPENAI_URL [] (load_api_key OPENAI_ID) build_messages de D\<rparr>)"
      by (simp add: openai openai_provider_def openai_execute_def)
    from chat_posts [OF assms(2) _ m assms(3)] show ?thesis by (simp add: m OPENAI_ID_def ANTHROPIC_ID_def)
  next
    case xai
    have m: "drv = (\<lambda>de. \<lparr>pr_id = XAI_ID, pr_execute =
        chat_execute XAI_ID XAI_URL [] (load_api_key XAI_ID) build_messages de D\<rparr>)"
      by (simp add: xai xai_provider_def xai_execute_def xai_load_api_key_def xai_build_messages_def)
    from chat_posts [OF assms(2) _ m assms(3)] show ?thesis by (simp add: m XAI_ID_def ANTHROPIC_ID_def)
  next
    case copilot
    obtain extra where m: "drv = (\<lambda>de. \<lparr>pr_id = COPILOT_ID, pr_execute =
        chat_execute COPILOT_ID COPILOT_URL extra (load_api_key COPILOT_ID) build_messages de D\<rparr>)"
      by (auto simp: copilot copilot_provider_def copilot_execute_def copilot_load_api_key_def copilot_build_messages_def)
    from chat_posts [OF assms(2) _ m assms(3)] show ?thesis by (simp add: m COPILOT_ID_def ANTHROPIC_ID_def)
  next
    case anthropic
    from anthropic_posts [OF assms(2)] assms(3) show ?thesis by (simp add: anthropic anthropic_provider_def)
  qed
qed

section \<open>Properties\<close>


text \<open>A call to the OpenAI driver with one shared record.\<close>

definition demo_driver_env :: driver_env where
  "demo_driver_env = \<lparr>de_keys = (\<lambda>_. Some ''key''), de_post = (\<lambda>_. HttpBody ''{}''), de_float = Finite,
     de_runtime = plain_runtime\<rparr>"

definition shared_record :: memory_record where
  "shared_record = \<lparr>mr_id = ''r1'', mr_model = ''m'', mr_content = VStr ''hello'', mr_consent = [OPENAI_ID],
     mr_created = ''t'', mr_version = ''1.0''\<rparr>"

definition sharing_authority :: sovereign_authority where
  "sharing_authority = demo_authority\<lparr>au_memory := [(''r1'', shared_record)]\<rparr>"

lemma demo_key: "load_api_key OPENAI_ID demo_driver_env f = Inr ''key''"
proof -
  have "utf8_ok ''key''" by (rule utf8_ok_ascii) simp
  moreover have "py_strip ''key'' = ''key''" by (rule py_strip_id) (simp add: white_points_def)
  ultimately show ?thesis by (simp add: load_api_key_def demo_driver_env_def)
qed

lemma demo_answer: "post_json pid demo_driver_env q = Inr []"
proof -
  have "utf8_ok ''{}''" by (rule utf8_ok_ascii) simp
  moreover have "json_loads Finite ''{}'' = Inr (VDict [])"
    by (rule json_loads_written [of compact]) (simp_all add: readable_style_def)
  ultimately show ?thesis by (simp add: post_json_def demo_driver_env_def)
qed

lemma demo_openai_answers:
  assumes "build_context_packet rt r d prov items = Inr p"
  shows "\<exists>out. pr_execute (openai_provider demo_driver_env OPENAI_DRIVER) p = Inr out"
proof -
  have a: "cp_authorized p" using build_packet_Inr [OF assms] by simp
  have "encodable (VDict [(''model'', VStr m), (''messages'', VList (build_messages de p)), (''stream'', VBool False)])" for m de
    by (simp add: build_messages_released [OF assms] chat_message_def list_all_iff Let_def)
  from dumps_total [OF this] obtain body where "dumps default_style (VDict [(''model'', VStr (dr_model OPENAI_DRIVER)),
      (''messages'', VList (build_messages demo_driver_env p)), (''stream'', VBool False)]) = Inr body" by blast
  with a show ?thesis
    by (simp add: openai_provider_def openai_execute_def chat_execute_def demo_key demo_answer Let_def del: dumps.simps)
qed

lemma sharing_call:
  "\<exists>d out s'. call_provider_authorized plain_runtime demo_env (demo_request_for CALL_PROVIDER ''provider.call'' (Some OPENAI_ID))
     (openai_provider demo_driver_env OPENAI_DRIVER) [''r1''] sharing_authority = (Inr (d, Some out), s')"
proof -
  let ?r = "demo_request_for CALL_PROVIDER ''provider.call'' (Some OPENAI_ID)"
  let ?prov = "openai_provider demo_driver_env OPENAI_DRIVER"
  have sc: "''provider.call'' \<in> set (operation_scopes CALL_PROVIDER)" by simp
  obtain d s1 where "authorize_operation plain_runtime (later 2 demo_env) ?r demo_authority = (Inr d, s1)" "ad_allowed d"
    by (rule demo_authorize_op [OF sc demo_request_access])
  then obtain E where a: "authorize_operation plain_runtime (later 2 demo_env) ?r sharing_authority =
      (Inr d, sharing_authority\<lparr>au_evidence := E\<rparr>)" and d: "ad_allowed d"
    by (auto simp: authorize_operation_def onS_def sharing_authority_def split: prod.splits)
  let ?s1 = "sharing_authority\<lparr>au_evidence := E\<rparr>"
  have s: "au_initialized ?s1" "map_of (au_memory ?s1) ''r1'' = Some shared_record" "has_consent shared_record OPENAI_ID"
    by (simp_all add: sharing_authority_def has_consent_def shared_record_def)
  obtain y where y: "read_memory plain_runtime (later (8 + 0) demo_env) ''r1'' OPENAI_ID ?s1 =
      (Inr shared_record, ?s1\<lparr>au_ledger := au_ledger ?s1 @ [y]\<rparr>)" by (rule read_memory_eq [OF s])
  have m: "mapS (\<lambda>(i, rid). read_memory plain_runtime (later (8 + i) demo_env) rid (pr_id ?prov)) (enumerate 0 [''r1'']) ?s1 =
      (Inr [shared_record], ?s1\<lparr>au_ledger := au_ledger ?s1 @ [y]\<rparr>)"
    using y by (simp add: openai_provider_def bindS_def)
  have i: "or_identity ?r = Some (adapter_identity_context demo_identity)" "or_provider ?r = Some (pr_id ?prov)"
    "pr_id ?prov \<noteq> []" "au_initialized sharing_authority"
    by (simp_all add: demo_request_for_def openai_provider_def OPENAI_ID_def sharing_authority_def)
  have "list_all (\<lambda>x. canonicalizable (VDict x)) (map sanitize_item (map ItemRecord [shared_record]))"
    by (simp add: sanitize_item_def shared_record_def)
  from build_packet_total [OF d i(1) this] obtain p
    where p: "build_context_packet plain_runtime ?r d (pr_id ?prov) (map ItemRecord [shared_record]) = Inr p" by blast
  from demo_openai_answers [OF p] obtain out where "pr_execute ?prov p = Inr out" by blast
  with provider_call_runs [OF i(4,2,3) a d m p] show ?thesis by auto
qed


end
