(* ===== verification/JsonFiles.thy ===== *)
theory JsonFiles
  imports MemoryStore StateOps
begin

text \<open>
  The helpers of \<open>src/sia/utils/serialization.py\<close>: a value as JSON text with or without indentation, and
  the JSON files that they write and read.  The indenting writer of \<open>json\<close> yields the text in chunks,
  which \<open>json.dump\<close> writes one by one, so a value that cannot be serialized leaves the chunks before it
  in the file.
\<close>

section \<open>The indenting writer\<close>

text \<open>\<open>_make_iterencode\<close>: an operation on the text written so far.\<close>

definition fh_write :: "string \<Rightarrow> (string, unit) op" where
  "fh_write chunk = modifyS (\<lambda>t. t @ chunk)"

fun emit_seq :: "string \<Rightarrow> string \<Rightarrow> ('a \<Rightarrow> (string, unit) op) \<Rightarrow> 'a list \<Rightarrow> (string, unit) op" where
  "emit_seq buf separator f [] = returnS ()"
| "emit_seq buf separator f (x # xs) =
     bindS (fh_write buf) (\<lambda>_. bindS (f x) (\<lambda>_. emit_seq separator separator f xs))"

lemma emit_seq_cong [fundef_cong]:
  "xs = ys \<Longrightarrow> (\<And>x. x \<in> set ys \<Longrightarrow> f x = g x) \<Longrightarrow> buf = buf' \<Longrightarrow> sep = sep' \<Longrightarrow>
   emit_seq buf sep f xs = emit_seq buf' sep' g ys"
  by (induction ys arbitrary: xs buf buf') auto

definition newline_indent :: "int \<Rightarrow> nat \<Rightarrow> string" where
  "newline_indent indent level = CHR 0x0A # replicate (nat indent * level) (CHR '' '')"

function emit :: "json_style \<Rightarrow> int \<Rightarrow> nat \<Rightarrow> pyval \<Rightarrow> (string, unit) op" where
  "emit st indent level (VList xs) =
     (if xs = [] then fh_write ''[]''
      else bindS (emit_seq (''['' @ newline_indent indent (Suc level)) ('','' @ newline_indent indent (Suc level))
             (emit st indent (Suc level)) xs)
           (\<lambda>_. fh_write (newline_indent indent level @ '']'')))"
| "emit st indent level (VTuple xs) =
     (if xs = [] then fh_write ''[]''
      else bindS (emit_seq (''['' @ newline_indent indent (Suc level)) ('','' @ newline_indent indent (Suc level))
             (emit st indent (Suc level)) xs)
           (\<lambda>_. fh_write (newline_indent indent level @ '']'')))"
| "emit st indent level (VDict d) =
     (if d = [] then fh_write ''{}''
      else bindS (emit_seq (''{'' @ newline_indent indent (Suc level)) ('','' @ newline_indent indent (Suc level))
             (\<lambda>p. bindS (fh_write (js_quote st (fst p) @ '': '')) (\<lambda>_. emit st indent (Suc level) (snd p)))
             (if js_sort st then sort_key fst d else d))
           (\<lambda>_. fh_write (newline_indent indent level @ ''}'')))"
| "emit st indent level VNone = fh_write ''null''"
| "emit st indent level (VBool b) = fh_write (if b then ''true'' else ''false'')"
| "emit st indent level (VInt i) = fh_write (int_str i)"
| "emit st indent level (VFloat f) = bindS (liftS (dumps st (VFloat f))) fh_write"
| "emit st indent level (VStr s) = fh_write (js_quote st s)"
| "emit st indent level (VDatetime t) = raiseS (TypeError ''Object of type datetime is not JSON serializable'')"
| "emit st indent level (VDate s) = raiseS (TypeError ''Object of type date is not JSON serializable'')"
| "emit st indent level (VDecimal t) = raiseS (TypeError ''Object of type Decimal is not JSON serializable'')"
  by pat_completeness auto
termination
  by (relation "measure (\<lambda>(st, i, l, v). size v)") (auto simp: size_dict_mem less_Suc_eq_le size_list_estimation' split: if_splits)

section \<open>Texts and files\<close>

text \<open>\<open>to_json_str\<close> joins the chunks; without an indentation it is the writer of \<open>Canonical\<close>.\<close>

definition to_json_str :: "pyval \<Rightarrow> int option \<Rightarrow> string res" where
  "to_json_str obj indent =
     (case indent of
        None \<Rightarrow> dumps store_style obj
      | Some i \<Rightarrow> (case emit store_style i 0 obj [] of (Inl ex, t) \<Rightarrow> Inl ex | (Inr _, t) \<Rightarrow> Inr t))"

definition from_json_str :: "(string \<Rightarrow> pyfloat) \<Rightarrow> string \<Rightarrow> pyval res" where
  "from_json_str fo s = json_loads fo s"

text \<open>The file of a path, \<open>None\<close> if there is none; opening for writing empties it.\<close>

type_synonym json_file = "string option"

definition load_json :: "(string \<Rightarrow> pyfloat) \<Rightarrow> json_file \<Rightarrow> pyval res" where
  "load_json fo F =
     (case F of
        None \<Rightarrow> Inl (AppError ''FileNotFoundError'' ''No such file or directory'')
      | Some text \<Rightarrow>
          if \<not> utf8_ok text then Inl (AppError ''UnicodeDecodeError'' ''invalid utf-8'')
          else json_loads fo text)"

definition dump_json :: "pyval \<Rightarrow> int \<Rightarrow> json_file \<Rightarrow> unit res \<times> json_file" where
  "dump_json obj indent F =
     (case bindS (emit store_style indent 0 obj) (\<lambda>_. fh_write [CHR 0x0A]) [] of (r, text) \<Rightarrow> (r, Some text))"

section \<open>What the writer writes\<close>

text \<open>Whatever happens, the text written so far stays.\<close>

lemma emit_seq_extends:
  "(\<And>x s. x \<in> set xs \<Longrightarrow> \<exists>t. snd (f x s) = s @ t) \<Longrightarrow> \<exists>t. snd (emit_seq buf sep f xs s) = s @ t"
proof (induction xs arbitrary: buf s)
  case (Cons x xs)
  obtain t where t: "snd (f x (s @ buf)) = (s @ buf) @ t" using Cons.prems [of x "s @ buf"] by auto
  obtain u where "snd (emit_seq sep sep f xs ((s @ buf) @ t)) = ((s @ buf) @ t) @ u"
    using Cons.IH [where s = "(s @ buf) @ t" and buf = sep] Cons.prems by auto
  with t show ?case
    by (cases "f x (s @ buf)"; cases "fst (f x (s @ buf))") (simp_all add: fh_write_def bindS_def)
qed simp

lemma bind_extends:
  "\<exists>t. snd (m s) = s @ t \<Longrightarrow> (\<And>x s. \<exists>t. snd (k x s) = s @ t) \<Longrightarrow> \<exists>t. snd (bindS m k s) = (s :: string) @ t"
  by (cases "m s"; cases "fst (m s)") (auto simp: bindS_def, metis append.assoc)

lemma write_extends: "\<exists>t. snd (fh_write c s) = s @ t"
  by (simp add: fh_write_def)

lemma emit_extends: "\<exists>t. snd (emit st i l v s) = s @ t"
proof (induction st i l v arbitrary: s rule: emit.induct)
  case (1 st i l xs)
  then show ?case by (simp add: write_extends) (intro impI bind_extends emit_seq_extends write_extends; blast)
next
  case (2 st i l xs)
  then show ?case by (simp add: write_extends) (intro impI bind_extends emit_seq_extends write_extends; blast)
next
  case (3 st i l d)
  show ?case
  proof (cases "d = []")
    case False
    with 3 show ?thesis
      unfolding emit.simps if_not_P [OF False] by (intro bind_extends emit_seq_extends write_extends; blast)
  qed (simp add: write_extends)
next
  case (7 st i l f)
  show ?case unfolding emit.simps by (rule bind_extends) (simp_all add: write_extends)
qed (simp_all add: write_extends)

text \<open>A sequence whose elements are written, between its separators.\<close>

lemma emit_seq_written:
  assumes "\<And>x s. x \<in> set xs \<Longrightarrow> \<exists>t. f x s = (Inr (), s @ t) \<and> P x t" "xs \<noteq> []"
  shows "\<exists>ts. emit_seq buf sep f xs s = (Inr (), s @ buf @ sep_by sep ts) \<and> list_all2 P xs ts"
  using assms
proof (induction xs arbitrary: buf s)
  case (Cons x xs)
  obtain t where t: "f x (s @ buf) = (Inr (), (s @ buf) @ t)" "P x t" using Cons.prems(1) [of x "s @ buf"] by auto
  show ?case
  proof (cases "xs = []")
    case True
    with t show ?thesis by (intro exI [of _ "[t]"]) (simp add: fh_write_def bindS_def)
  next
    case False
    obtain ts where ts: "emit_seq sep sep f xs ((s @ buf) @ t) = (Inr (), ((s @ buf) @ t) @ sep @ sep_by sep ts)" "list_all2 P xs ts"
      using Cons.IH [where s = "(s @ buf) @ t" and buf = sep] Cons.prems(1) False by auto
    with False have "ts \<noteq> []" by auto
    with t ts show ?thesis by (intro exI [of _ "t # ts"]) (simp add: fh_write_def bindS_def sep_by_Cons)
  qed
qed simp

lemma newline_white [simp]: "set (newline_indent i l) \<subseteq> white_chars"
  by (auto simp: newline_indent_def white_chars_def)

lemma json_bool: "json_text fo (VBool True) ''true''" "json_text fo (VBool False) ''false''"
  using json_text_items_text_members_text.bool [of fo True] json_text_items_text_members_text.bool [of fo False] by simp_all

lemma store_quote [simp]: "js_quote store_style = quote_utf8" "\<not> js_sort store_style"
  by (simp_all add: store_style_def)

text \<open>The containers, given what is written of their elements.\<close>

lemma emit_list:
  assumes "xs \<noteq> []" "\<And>x s. x \<in> set xs \<Longrightarrow> \<exists>t. emit st i (Suc l) x s = (Inr (), s @ t) \<and> P x t"
  shows "\<exists>ts. list_all2 P xs ts \<and>
    emit st i l (VList xs) s = (Inr (), s @ ''['' @ newline_indent i (Suc l) @
       sep_by ('','' @ newline_indent i (Suc l)) ts @ newline_indent i l @ '']'')"
proof -
  let ?buf = "''['' @ newline_indent i (Suc l)" and ?sep = "'','' @ newline_indent i (Suc l)"
  from emit_seq_written [where f = "emit st i (Suc l)" and P = P and buf = ?buf and sep = ?sep and s = s, OF assms(2,1)]
  obtain ts where ts: "emit_seq ?buf ?sep (emit st i (Suc l)) xs s = (Inr (), s @ ?buf @ sep_by ?sep ts)" "list_all2 P xs ts"
    by blast
  have "emit st i l (VList xs) s = (Inr (), s @ ?buf @ sep_by ?sep ts @ newline_indent i l @ '']'')"
    unfolding emit.simps if_not_P [OF assms(1)] bindS_Inr [of "emit_seq ?buf ?sep (emit st i (Suc l)) xs" s, OF ts(1)]
    by (simp add: fh_write_def)
  with ts(2) show ?thesis by (intro exI [of _ ts]) simp
qed

lemma emit_dict:
  assumes "d \<noteq> []" "\<And>p s. p \<in> set d \<Longrightarrow> \<exists>t. emit st i (Suc l) (snd p) s = (Inr (), s @ t) \<and> P p t"
  shows "\<exists>ts.
    list_all2 (\<lambda>p u. \<exists>t. u = js_quote st (fst p) @ '':'' @ '' '' @ t \<and> P p t) (if js_sort st then sort_key fst d else d) ts \<and>
    emit st i l (VDict d) s = (Inr (), s @ ''{'' @ newline_indent i (Suc l) @
       sep_by ('','' @ newline_indent i (Suc l)) ts @ newline_indent i l @ ''}'')"
proof -
  let ?buf = "''{'' @ newline_indent i (Suc l)" and ?sep = "'','' @ newline_indent i (Suc l)"
  let ?f = "\<lambda>p. bindS (fh_write (js_quote st (fst p) @ '': '')) (\<lambda>_. emit st i (Suc l) (snd p))"
  let ?d = "if js_sort st then sort_key fst d else d"
  have ne: "?d \<noteq> []" using assms(1) by (metis length_0_conv length_sort)
  have "\<exists>u. ?f p s = (Inr (), s @ u) \<and> (\<exists>t. u = js_quote st (fst p) @ '':'' @ '' '' @ t \<and> P p t)" if "p \<in> set ?d" for p s
    using assms(2) [of p "s @ js_quote st (fst p) @ '': ''"] that by (auto simp: bindS_def fh_write_def split: if_splits)
  from emit_seq_written [where f = ?f and buf = ?buf and sep = ?sep and s = s, OF this ne] obtain ts where
    ts: "emit_seq ?buf ?sep ?f ?d s = (Inr (), s @ ?buf @ sep_by ?sep ts)"
    "list_all2 (\<lambda>p u. \<exists>t. u = js_quote st (fst p) @ '':'' @ '' '' @ t \<and> P p t) ?d ts" by blast
  have "emit st i l (VDict d) s = (Inr (), s @ ?buf @ sep_by ?sep ts @ newline_indent i l @ ''}'')"
    unfolding emit.simps if_not_P [OF assms(1)] bindS_Inr [of "emit_seq ?buf ?sep ?f ?d" s, OF ts(1)]
    by (simp add: fh_write_def)
  with ts(2) show ?thesis by (intro exI [of _ ts]) simp
qed

lemma emit_written:
  "json_plain store_style v \<Longrightarrow> json_reads fo v \<Longrightarrow> \<exists>t. emit store_style i l v s = (Inr (), s @ t) \<and> json_text fo v t"
proof (induction v arbitrary: l s)
  case (VList xs)
  show ?case
  proof (cases "xs = []")
    case False
    have "\<exists>t. emit store_style i (Suc l) x s = (Inr (), s @ t) \<and> json_text fo x t" if "x \<in> set xs" for x s
      using VList.IH [OF that] VList.prems that by (simp add: list_all_iff)
    from emit_list [OF False this, of s] obtain ts where "list_all2 (json_text fo) xs ts" "emit store_style i l (VList xs) s =
        (Inr (), s @ ''['' @ newline_indent i (Suc l) @ sep_by ('','' @ newline_indent i (Suc l)) ts @ newline_indent i l @ '']'')"
      by auto
    with list [OF newline_white items_sep [OF _ False newline_white newline_white]] show ?thesis by auto
  qed (use empty_list [of "[]" fo] in \<open>simp add: fh_write_def\<close>)
next
  case (VDict d)
  have w: "set '' '' \<subseteq> white_chars" "distinct (map fst d)" using VDict.prems by (simp_all add: white_chars_def)
  show ?case
  proof (cases "d = []")
    case False
    have "\<exists>t. emit store_style i (Suc l) (snd p) s = (Inr (), s @ t) \<and> json_text fo (snd p) t" if "p \<in> set d" for p s
      using VDict.IH [of p "snd p" "Suc l" s] VDict.prems that by (auto simp: list_all_iff snds.simps)
    from emit_dict [OF False this, of s] obtain us where
      "list_all2 (\<lambda>p u. \<exists>t. u = quote_utf8 (fst p) @ '':'' @ '' '' @ t \<and> json_text fo (snd p) t) d us"
      "emit store_style i l (VDict d) s =
        (Inr (), s @ ''{'' @ newline_indent i (Suc l) @ sep_by ('','' @ newline_indent i (Suc l)) us @ newline_indent i l @ ''}'')"
      by auto
    with dict [OF newline_white members_sep [OF _ False w(1) newline_white newline_white] w(2)] show ?thesis by auto
  qed (use empty_dict [of "[]" fo] in \<open>simp add: fh_write_def\<close>)
next
  case (VFloat f)
  then show ?case
    by (cases f) (auto simp: fh_write_def intro: json_text_items_text_members_text.float)
qed (simp_all add: fh_write_def json_text_items_text_members_text.null json_text_items_text_members_text.int
    json_text_items_text_members_text.str json_bool)

section \<open>Properties\<close>

text \<open>A failed dump: the exception goes on, and what the file held before is gone.\<close>

lemma failed_dump_truncates:
  "dump_json (VDict [(''a'', VInt 1), (''b'', VDecimal x)]) 2 F =
     (Inl (TypeError ''Object of type Decimal is not JSON serializable''),
      Some (''{'' @ [CHR 0x0A] @ ''  '' @ quote_utf8 ''a'' @ '': 1,'' @ [CHR 0x0A] @ ''  '' @ quote_utf8 ''b'' @ '': ''))"
proof -
  have "int_str 1 = ''1''" by code_simp
  then show ?thesis by (simp add: dump_json_def bindS_def fh_write_def newline_indent_def eval_nat_numeral)
qed

text \<open>
  JSON helpers round trip.  Plain JSON data with UTF-8 texts is dumped without an exception, whatever
  the file held and whatever the indentation; the file is then exactly the indented text and a final
  newline, and it loads as the value; the texts with and without indentation read back as the value,
  too.
\<close>

theorem json_helpers_round_trip:
  assumes "json_plain store_style v" "json_reads fo v" "texts_ok v"
  shows "\<exists>t u. to_json_str v (Some indent) = Inr t \<and> dump_json v indent F = (Inr (), Some (t @ [CHR 0x0A])) \<and>
    load_json fo (Some (t @ [CHR 0x0A])) = Inr v \<and> from_json_str fo t = Inr v \<and>
    to_json_str v None = Inr u \<and> from_json_str fo u = Inr v"
proof -
  obtain t where t: "emit store_style indent 0 v [] = (Inr (), t)" "json_text fo v t" using emit_written [OF assms(1,2), of indent 0 "[]"] by auto
  obtain u where u: "dumps store_style v = Inr u" using dumps_total [OF plain_encodable [OF assms(1)]] by blast
  have nl: "set [CHR 0x0A] \<subseteq> white_chars" by (simp add: white_chars_def)
  have "utf8_ok (t @ [CHR 0x0A])" using json_text_utf8_ok(1) [OF t(2) assms(3)] by simp
  with t json_loads_text [OF t(2), of "[]" "[]"] json_loads_text [OF t(2), of "[]", OF _ nl] u
    json_loads_written [OF u assms(1,2) readable_store]
  show ?thesis
    by (simp add: to_json_str_def from_json_str_def dump_json_def load_json_def fh_write_def bindS_def)
qed

theorem json_helpers_round_trip_witness:
  "\<exists>t. dump_json (VDict [(''a'', VList [VInt 1, VNone]), (''b'', VStr ''x'')]) 2 (Some ''old'') = (Inr (), Some t) \<and>
     load_json (\<lambda>_. NaN) (Some t) = Inr (VDict [(''a'', VList [VInt 1, VNone]), (''b'', VStr ''x'')])"
proof -
  let ?v = "VDict [(''a'', VList [VInt 1, VNone]), (''b'', VStr ''x'')]"
  have "json_plain store_style ?v" "json_reads (\<lambda>_. NaN) ?v" "texts_ok ?v" by (simp_all add: utf8_ok_ascii)
  from json_helpers_round_trip [OF this, of 2 "Some ''old''"] show ?thesis by blast
qed

end
