(* ===== verification/BundleWire.thy ===== *)
theory BundleWire
  imports JsonFiles Delegation
begin

text \<open>
  Bundles, imported ledgers and delegation tokens as JSON text: \<open>from_dict\<close> of
  \<open>src/sia/export/models.py\<close>, \<open>src/sia/imports/models.py\<close> and \<open>src/sia/delegation/models.py\<close>, with
  the text helpers of \<open>JsonFiles\<close>.  A bundle that was validated for export is read back on the other side and passes the import validation.
\<close>

section \<open>Reading dictionaries\<close>

text \<open>\<open>from_dict\<close> checks no types.\<close>

record raw_bundle =
  rb_id :: pyval
  rb_created_by :: pyval
  rb_payload :: pyval
  rb_payload_hash :: pyval
  rb_signature :: pyval
  rb_created_at :: pyval
  rb_version :: pyval

definition export_from_dict :: "pydict \<Rightarrow> raw_bundle res" where
  "export_from_dict data =
     bindE (get_item data ''bundle_id'') (\<lambda>bundle_id.
     bindE (get_item data ''created_by'') (\<lambda>created_by.
     bindE (get_item data ''payload'') (\<lambda>payload.
     bindE (get_item data ''payload_hash'') (\<lambda>payload_hash.
     bindE (get_item data ''signature'') (\<lambda>signature.
       Inr \<lparr>rb_id = bundle_id, rb_created_by = created_by, rb_payload = payload, rb_payload_hash = payload_hash,
            rb_signature = signature, rb_created_at = get_or data ''created_at'' (VStr []),
            rb_version = get_or data ''schema_version'' (VStr EXPORT_SCHEMA_VERSION)\<rparr>)))))"

text \<open>The second \<open>ImportBundle\<close> of the module is the one in force; it requires \<open>created_at\<close>.\<close>

definition import_from_dict :: "pydict \<Rightarrow> raw_bundle res" where
  "import_from_dict data =
     bindE (get_item data ''bundle_id'') (\<lambda>bundle_id.
     bindE (get_item data ''created_by'') (\<lambda>created_by.
     bindE (get_item data ''payload'') (\<lambda>payload.
     bindE (get_item data ''payload_hash'') (\<lambda>payload_hash.
     bindE (get_item data ''signature'') (\<lambda>signature.
     bindE (get_item data ''created_at'') (\<lambda>created_at.
       Inr \<lparr>rb_id = bundle_id, rb_created_by = created_by, rb_payload = payload, rb_payload_hash = payload_hash,
            rb_signature = signature, rb_created_at = created_at,
            rb_version = get_or data ''schema_version'' (VStr ''1.0'')\<rparr>))))))"

definition import_to_dict :: "raw_bundle \<Rightarrow> pydict" where
  "import_to_dict b =
     [(''schema_version'', rb_version b), (''bundle_id'', rb_id b), (''created_by'', rb_created_by b),
      (''created_at'', rb_created_at b), (''payload'', rb_payload b), (''payload_hash'', rb_payload_hash b),
      (''signature'', rb_signature b)]"

lemma import_dict_read [simp]: "import_from_dict (import_to_dict b) = Inr b"
  by (simp add: import_from_dict_def import_to_dict_def get_item_def get_or_def)

text \<open>\<open>tuple(v)\<close>; what is not iterable raises.\<close>

definition py_tuple :: "pyval \<Rightarrow> pyval list res" where
  "py_tuple v =
     (case v of
        VList xs \<Rightarrow> Inr xs
      | VTuple xs \<Rightarrow> Inr xs
      | VDict d \<Rightarrow> Inr (map (\<lambda>p. VStr (fst p)) d)
      | VStr s \<Rightarrow> Inr (map (\<lambda>n. VStr (utf8_encode n)) (utf8_points s))
      | _ \<Rightarrow> Inl (TypeError ''object is not iterable''))"

record raw_ledger =
  rl_version :: pyval
  rl_hash :: pyval
  rl_records :: "pyval list"
  rl_schema :: pyval

definition ledger_from_dict :: "pydict \<Rightarrow> raw_ledger res" where
  "ledger_from_dict data =
     bindE (get_item data ''ledger_version'') (\<lambda>version.
     bindE (get_item data ''ledger_hash'') (\<lambda>ledger_hash.
     bindE (get_item data ''records'') (\<lambda>records.
     bindE (py_tuple records) (\<lambda>rs.
       Inr \<lparr>rl_version = version, rl_hash = ledger_hash, rl_records = rs,
            rl_schema = get_or data ''schema_version'' (VStr ''1.0'')\<rparr>))))"

text \<open>A delegation token's dictionary; the fields with a default may be missing.\<close>

record raw_token =
  rk_id :: pyval
  rk_grantor :: pyval
  rk_grantee :: pyval
  rk_scope :: pyval
  rk_issued :: pyval
  rk_expires :: pyval
  rk_depth :: pyval
  rk_revoked :: pyval
  rk_parent :: pyval
  rk_version :: pyval

definition delegation_from_dict :: "pydict \<Rightarrow> raw_token res" where
  "delegation_from_dict data =
     bindE (get_item data ''token_id'') (\<lambda>token_id.
     bindE (get_item data ''grantor_id'') (\<lambda>grantor_id.
     bindE (get_item data ''grantee_id'') (\<lambda>grantee_id.
     bindE (get_item data ''scope'') (\<lambda>scope.
       Inr \<lparr>rk_id = token_id, rk_grantor = grantor_id, rk_grantee = grantee_id, rk_scope = scope,
            rk_issued = get_or data ''issued_at'' (VStr []), rk_expires = get_or data ''expires_at'' VNone,
            rk_depth = get_or data ''depth'' (VInt 0), rk_revoked = get_or data ''revoked'' (VBool False),
            rk_parent = get_or data ''parent_id'' VNone, rk_version = get_or data ''schema_version'' (VStr ''1.0'')\<rparr>))))"

section \<open>Typed bundles\<close>

definition raw_bundle_of :: "portable_bundle \<Rightarrow> raw_bundle" where
  "raw_bundle_of b =
     \<lparr>rb_id = VStr (bu_id b), rb_created_by = VStr (bu_created_by b), rb_payload = bu_payload b,
      rb_payload_hash = VStr (bu_payload_hash b), rb_signature = VStr (bu_signature b),
      rb_created_at = VStr (bu_created_at b), rb_version = VStr (bu_version b)\<rparr>"

definition raw_ledger_of :: "imported_ledger \<Rightarrow> raw_ledger" where
  "raw_ledger_of l =
     \<lparr>rl_version = il_version l, rl_hash = il_hash l, rl_records = il_records l, rl_schema = VStr (il_schema l)\<rparr>"

definition raw_token_of :: "delegation_token \<Rightarrow> raw_token" where
  "raw_token_of t =
     \<lparr>rk_id = VStr (dt_id t), rk_grantor = VStr (dt_grantor t), rk_grantee = VStr (dt_grantee t),
      rk_scope = str_list (dt_scope t), rk_issued = VStr (dt_issued t), rk_expires = opt_str (dt_expires t),
      rk_depth = VInt (dt_depth t), rk_revoked = VBool (dt_revoked t), rk_parent = opt_str (dt_parent t),
      rk_version = VStr (dt_version t)\<rparr>"

lemma delegation_dict_read [simp]: "delegation_from_dict (delegation_to_dict t) = Inr (raw_token_of t)"
  by (simp add: delegation_from_dict_def delegation_to_dict_def raw_token_of_def get_item_def get_or_def)

lemma bundle_dict_read [simp]:
  "export_from_dict (bundle_to_dict b) = Inr (raw_bundle_of b)"
  "import_from_dict (bundle_to_dict b) = Inr (raw_bundle_of b)"
  by (simp_all add: export_from_dict_def import_from_dict_def bundle_to_dict_def raw_bundle_of_def get_item_def get_or_def)

lemma ledger_dict_read [simp]: "ledger_from_dict (imported_to_dict l) = Inr (raw_ledger_of l)"
  by (simp add: ledger_from_dict_def imported_to_dict_def raw_ledger_of_def get_item_def get_or_def py_tuple_def)

text \<open>What the JSON text of a dictionary of plain data reads back as.\<close>

lemma json_str_reads_back:
  assumes "json_plain store_style v" "json_reads fo v"
  obtains t where "to_json_str v None = Inr t" "from_json_str fo t = Inr v"
proof -
  obtain t where t: "dumps store_style v = Inr t" using dumps_total [OF plain_encodable [OF assms(1)]] by blast
  from json_loads_written [OF t assms readable_store] t that show thesis
    by (simp add: to_json_str_def from_json_str_def)
qed

lemma bundle_dict_plain:
  assumes "json_plain store_style (bu_payload b)" "json_reads fo (bu_payload b)"
  shows "json_plain store_style (VDict (bundle_to_dict b))" "json_reads fo (VDict (bundle_to_dict b))"
  using assms by (simp_all add: bundle_to_dict_def)

section \<open>Properties\<close>

text \<open>
  An export reaches the other side.  A bundle of plain JSON data that passes the export validation
  has a JSON text; the text reads back as its dictionary, from which both \<open>from_dict\<close> functions restore
  its fields; and the import validation accepts the bundle.  An imported ledger is restored from its
  dictionary in the same way.
\<close>

theorem export_reaches_import:
  assumes "validate_bundle rt b = Inr ()" "json_plain store_style (bu_payload b)" "json_reads fo (bu_payload b)"
  shows "(\<exists>t. to_json_str (VDict (bundle_to_dict b)) None = Inr t \<and>
      (\<exists>d. from_json_str fo t = Inr (VDict d) \<and> import_from_dict d = Inr (raw_bundle_of b) \<and>
         export_from_dict d = Inr (raw_bundle_of b))) \<and>
    validate_import rt b = Inr () \<and>
    (case import_ledger rt (Some b) of Inl ex \<Rightarrow> True | Inr l \<Rightarrow> ledger_from_dict (imported_to_dict l) = Inr (raw_ledger_of l))"
proof -
  obtain t where "to_json_str (VDict (bundle_to_dict b)) None = Inr t" "from_json_str fo t = Inr (VDict (bundle_to_dict b))"
    by (rule json_str_reads_back [OF bundle_dict_plain [OF assms(2,3)]])
  moreover have "validate_import rt b = Inr ()"
    using assms(1) by (simp add: validate_bundle_Inr validate_import_def SUPPORTED_VERSIONS_def EXPORT_SCHEMA_VERSION_def)
  ultimately show ?thesis by (auto split: sum.split)
qed

theorem export_reaches_import_witness:
  "validate_import plain_runtime demo_bundle = Inr () \<and>
   (\<exists>t. to_json_str (VDict (bundle_to_dict demo_bundle)) None = Inr t \<and> from_json_str (\<lambda>_. NaN) t \<noteq> Inr VNone)"
proof -
  have "json_plain store_style (bu_payload demo_bundle)" "json_reads (\<lambda>_. NaN) (bu_payload demo_bundle)"
    by (simp_all add: demo_bundle_def)
  from export_reaches_import [OF demo_bundle_valid this] show ?thesis by auto
qed

end
