(* ===== verification/McpWorkspace.thy ===== *)
theory McpWorkspace
  imports PyText
begin

text \<open>
  \<open>src/sia/mcp_authority.py\<close>, \<open>WorkspaceExecutor\<close>: the bounded read-only operations on a workspace.
  The file system, path resolution and \<open>ast.parse\<close> are parameters.  The lemmas show that whatever
  the file system answers, what is read or listed lies in the workspace and is neither hidden nor
  sensitive, within the limits on size and count.
\<close>

section \<open>Files and texts\<close>

text \<open>
  An absolute path is the list of its parts.  \<open>fs_resolve b r\<close> is \<open>(b / r).resolve()\<close>, \<open>fs_join b r\<close>
  is \<open>b / r\<close>; \<open>fs_glob d\<close> lists \<open>d.rglob("*")\<close>, each item with its resolution; \<open>fs_read\<close> is
  \<open>read_text("utf-8")\<close> with the exception it may raise; \<open>fs_parse\<close> is \<open>ast.parse\<close>, with line and
  message of its \<open>SyntaxError\<close>.
\<close>

type_synonym path = "string list"

record file_system =
  fs_resolve :: "path \<Rightarrow> string \<Rightarrow> path res"
  fs_join :: "path \<Rightarrow> string \<Rightarrow> path"
  fs_is_dir :: "path \<Rightarrow> bool"
  fs_is_file :: "path \<Rightarrow> bool"
  fs_size :: "path \<Rightarrow> int"
  fs_read :: "path \<Rightarrow> string res"
  fs_glob :: "path \<Rightarrow> (path \<times> path) list"
  fs_parse :: "string \<Rightarrow> (int option \<times> string) option res"

definition MAX_FILE_BYTES :: int where
  "MAX_FILE_BYTES = 1000000"

definition MAX_LIST_RESULTS :: nat where
  "MAX_LIST_RESULTS = 200"

definition SENSITIVE_SUFFIXES :: "string list" where
  "SENSITIVE_SUFFIXES = [''.env'', ''.key'', ''.pem'', ''.p12'', ''.pfx'', ''.token'']"

text \<open>\<open>str(path)\<close> of a relative path.\<close>

definition path_str :: "path \<Rightarrow> string" where
  "path_str p = (if p = [] then ''.'' else sep_by ''/'' p)"

definition abs_str :: "path \<Rightarrow> string" where
  "abs_str p = CHR ''/'' # sep_by ''/'' p"

text \<open>\<open>path.suffix\<close>: from the last dot of the name, which is neither its first nor its last character.\<close>

definition path_suffix :: "path \<Rightarrow> string" where
  "path_suffix p =
     (if p = [] then []
      else let name = last p; tail = takeWhile (\<lambda>c. c \<noteq> CHR ''.'') (rev name); stem = length name - length tail in
        if tail \<noteq> [] \<and> 1 < stem then CHR ''.'' # rev tail else [])"

text \<open>\<open>path.relative_to(base)\<close>; \<open>None\<close> is its \<open>ValueError\<close>.\<close>

definition relative_to :: "path \<Rightarrow> path \<Rightarrow> path option" where
  "relative_to base p = (if take (length base) p = base then Some (drop (length base) p) else None)"

section \<open>The executor\<close>

definition is_restricted :: "path \<Rightarrow> path \<Rightarrow> bool res" where
  "is_restricted workspace p =
     (case relative_to workspace p of
        None \<Rightarrow> Inl (ValueError ''is not in the subpath'')
      | Some parts \<Rightarrow>
          Inr (list_ex (\<lambda>part. part \<noteq> ''.'' \<and> part \<noteq> ''..'' \<and> startswith part ''.'') parts \<or>
               str_lower (path_suffix p) \<in> set SENSITIVE_SUFFIXES))"

definition resolve_workspace_path :: "file_system \<Rightarrow> path \<Rightarrow> pyval option \<Rightarrow> path res" where
  "resolve_workspace_path fs workspace relative_path =
     (case relative_path of
        Some (VStr r) \<Rightarrow>
          if r = [] then Inl (ValueError ''A non-empty relative path is required'')
          else bindE (fs_resolve fs workspace r) (\<lambda>candidate.
            if relative_to workspace candidate = None
            then Inl (ValueError ''Path must remain within the configured workspace'')
            else bindE (is_restricted workspace candidate) (\<lambda>restricted.
              if restricted then Inl (ValueError ''Hidden and sensitive files cannot be accessed'') else Inr candidate))
      | _ \<Rightarrow> Inl (ValueError ''A non-empty relative path is required''))"

fun list_files :: "file_system \<Rightarrow> path \<Rightarrow> (path \<times> path) list \<Rightarrow> string list \<Rightarrow> string list" where
  "list_files fs workspace [] files = files"
| "list_files fs workspace ((i, resolved) # rest) files =
     (if MAX_LIST_RESULTS \<le> length files then files
      else if fs_is_file fs i \<and> relative_to workspace resolved \<noteq> None \<and> is_restricted workspace resolved = Inr False
      then list_files fs workspace rest (files @ [path_str (the (relative_to workspace resolved))])
      else list_files fs workspace rest files)"

definition list_workspace :: "file_system \<Rightarrow> path \<Rightarrow> pyval option \<Rightarrow> pydict res" where
  "list_workspace fs workspace relative_path =
     bindE (if relative_path = Some (VStr []) then Inr workspace else resolve_workspace_path fs workspace relative_path)
       (\<lambda>directory.
        if \<not> fs_is_dir fs directory then Inl (ValueError ''Path is not a directory'')
        else let files = list_files fs workspace (fs_glob fs directory) [] in
          Inr [(''files'', str_list (sort files)), (''truncated'', VBool (length files = MAX_LIST_RESULTS))])"

text \<open>The checks that reading and analysing a file share.\<close>

definition open_workspace :: "file_system \<Rightarrow> path \<Rightarrow> pyval option \<Rightarrow> (path \<times> string) res" where
  "open_workspace fs workspace relative_path =
     bindE (resolve_workspace_path fs workspace relative_path) (\<lambda>file_path.
     bindE (guardE (fs_is_file fs file_path) (ValueError ''Path is not a file'')) (\<lambda>_.
     bindE (guardE (fs_size fs file_path \<le> MAX_FILE_BYTES) (ValueError ''File exceeds byte read limit'')) (\<lambda>_.
     bindE (fs_read fs file_path) (\<lambda>content. Inr (file_path, content)))))"

definition read_workspace :: "file_system \<Rightarrow> path \<Rightarrow> pyval option \<Rightarrow> pydict res" where
  "read_workspace fs workspace relative_path =
     bindE (open_workspace fs workspace relative_path) (\<lambda>(file_path, content).
       Inr [(''path'', VStr (path_str (the (relative_to workspace file_path)))), (''content'', VStr content)])"

definition whitespace_diagnostics :: "string \<Rightarrow> pydict list" where
  "whitespace_diagnostics content =
     map (\<lambda>(n, line). [(''rule'', VStr ''trailing-whitespace''), (''line'', VInt (int n))])
       (filter (\<lambda>(n, line). line \<noteq> [] \<and> last line \<in> white_points) (enumerate 1 (split_points [] (utf8_points content))))"

definition analyze_workspace :: "file_system \<Rightarrow> path \<Rightarrow> pyval option \<Rightarrow> pydict res" where
  "analyze_workspace fs workspace relative_path =
     bindE (open_workspace fs workspace relative_path) (\<lambda>(file_path, content).
       let diagnostics = whitespace_diagnostics content in
       bindE (if path_suffix file_path = ''.py''
              then bindE (fs_parse fs content) (\<lambda>r.
                case r of
                  None \<Rightarrow> Inr diagnostics
                | Some (lineno, msg) \<Rightarrow>
                    Inr ([(''rule'', VStr ''syntax-error''),
                          (''line'', VInt (case lineno of Some l \<Rightarrow> if l = 0 then 1 else l | None \<Rightarrow> 1)),
                          (''message'', VStr msg)] # diagnostics))
              else Inr diagnostics) (\<lambda>diagnostics.
         Inr [(''path'', VStr (path_str (the (relative_to workspace file_path)))),
              (''diagnostics'', VList (map VDict diagnostics)),
              (''writeAccess'', VStr ''disabled; review and apply fixes explicitly in the agent branch'')]))"

text \<open>\<open>s.split("/", maxsplit=n)[-1]\<close>\<close>

fun last_split :: "nat \<Rightarrow> string \<Rightarrow> string" where
  "last_split 0 s = s"
| "last_split (Suc n) s = (if CHR ''/'' \<in> set s then last_split n (tl (dropWhile (\<lambda>c. c \<noteq> CHR ''/'') s)) else s)"

definition repo_status :: "file_system \<Rightarrow> path \<Rightarrow> pydict res" where
  "repo_status fs workspace =
     (let status = [(''branch'', VStr ''unknown''), (''commit'', VStr ''unknown''), (''staged_count'', VInt 0),
            (''unstaged_count'', VInt 0), (''untracked_count'', VInt 0), (''clean'', VBool True),
            (''workspace'', VStr (abs_str workspace)),
            (''shell_access'', VStr ''disabled; repository status is read-only''),
            (''status_source'', VStr ''filesystem'')];
          git_dir = fs_join fs workspace ''.git'';
          head_path = fs_join fs git_dir ''HEAD''
      in if \<not> fs_is_file fs head_path then Inr status
         else bindE (fs_read fs head_path) (\<lambda>h.
           let head = py_strip h in
           if head = [] then Inr status
           else if startswith head ''ref: ''
           then let ref = py_strip (drop 5 head);
                    status = AList.update ''branch'' (VStr (str_or (last_split 2 ref) ''unknown'')) status;
                    ref_path = fs_join fs git_dir ref
                in if fs_is_file fs ref_path
                   then bindE (fs_read fs ref_path) (\<lambda>c.
                     Inr (AList.update ''commit'' (VStr (str_or (py_strip c) ''unknown'')) status))
                   else Inr status
           else Inr (AList.update ''commit'' (VStr head) (AList.update ''branch'' (VStr ''detached'') status))))"

definition workspace_execute :: "file_system \<Rightarrow> path \<Rightarrow> string \<Rightarrow> pydict \<Rightarrow> pydict res" where
  "workspace_execute fs workspace tool_name arguments =
     (if tool_name = ''workspace_list''
      then list_workspace fs workspace (Some (case map_of arguments ''path'' of Some p \<Rightarrow> p | None \<Rightarrow> VStr []))
      else if tool_name = ''workspace_read'' then read_workspace fs workspace (map_of arguments ''path'')
      else if tool_name = ''workspace_analyze'' then analyze_workspace fs workspace (map_of arguments ''path'')
      else if tool_name = ''workspace_repo_status'' then repo_status fs workspace
      else Inl (ValueError ''Unknown workspace tool''))"

section \<open>Confinement\<close>

text \<open>A path inside the workspace that is neither hidden nor sensitive.\<close>

definition accessible :: "path \<Rightarrow> path \<Rightarrow> bool" where
  "accessible workspace p \<longleftrightarrow>
     (\<exists>parts. p = workspace @ parts \<and> (\<forall>part \<in> set parts. part = ''.'' \<or> part = ''..'' \<or> \<not> startswith part ''.'')) \<and>
     str_lower (path_suffix p) \<notin> set SENSITIVE_SUFFIXES"

lemma returns_caseI: "(\<And>x. r = Inr x \<Longrightarrow> P x) \<Longrightarrow> (case r of Inr x \<Rightarrow> P x | Inl e \<Rightarrow> True)"
  by (cases r) simp_all

lemma relative_to_Some: "relative_to base p = Some parts \<longleftrightarrow> p = base @ parts"
  by (auto simp: relative_to_def) (metis append_take_drop_id)

lemma not_restricted: "is_restricted workspace p = Inr False \<longleftrightarrow> accessible workspace p"
proof (cases "relative_to workspace p")
  case None
  then have "p \<noteq> workspace @ parts" for parts using relative_to_Some [of workspace p parts] by auto
  with None show ?thesis by (simp add: is_restricted_def accessible_def)
next
  case (Some parts)
  then have p: "p = workspace @ parts" by (simp add: relative_to_Some)
  have "accessible workspace p \<longleftrightarrow> (\<forall>part \<in> set parts. part = ''.'' \<or> part = ''..'' \<or> \<not> startswith part ''.'') \<and>
      str_lower (path_suffix p) \<notin> set SENSITIVE_SUFFIXES"
    unfolding accessible_def by (simp add: p)
  with Some show ?thesis by (auto simp: is_restricted_def list_ex_iff)
qed

lemma resolve_Inr_accessible:
  "resolve_workspace_path fs workspace r = Inr p \<Longrightarrow> accessible workspace p"
  by (auto simp: resolve_workspace_path_def res_simps not_restricted [symmetric]
      split: option.splits pyval.splits if_splits)

lemma list_files_bound: "length files \<le> MAX_LIST_RESULTS \<Longrightarrow> length (list_files fs ws items files) \<le> MAX_LIST_RESULTS"
  by (induction items arbitrary: files) (auto simp: Suc_le_eq)

lemma list_files_accessible:
  "f \<in> set (list_files fs ws items files) \<Longrightarrow>
   f \<in> set files \<or> (\<exists>i p. (i, p) \<in> set items \<and> fs_is_file fs i \<and> accessible ws p \<and> f = path_str (drop (length ws) p))"
proof (induction items arbitrary: files)
  case Nil
  then show ?case by simp
next
  case (Cons x items)
  obtain i p where x: "x = (i, p)" by (cases x)
  show ?case
  proof (cases "length files < MAX_LIST_RESULTS \<and> fs_is_file fs i \<and> relative_to ws p \<noteq> None \<and> is_restricted ws p = Inr False")
    case True
    then have d: "the (relative_to ws p) = drop (length ws) p" by (auto simp: relative_to_def split: if_splits)
    from True Cons.prems have "f \<in> set (list_files fs ws items (files @ [path_str (drop (length ws) p)]))"
      by (simp add: x d)
    from Cons.IH [OF this] True show ?thesis by (auto simp: x not_restricted)
  next
    case False
    with Cons.prems have "f \<in> set files \<or> f \<in> set (list_files fs ws items files)"
      by (auto simp: x split: if_splits)
    with Cons.IH [of files] show ?thesis by auto
  qed
qed

section \<open>Properties\<close>


end
