(* ===== verification/Mcp.thy ===== *)
theory Mcp
  imports McpWorkspace AuthorityLife
begin

text \<open>
  \<open>src/sia/mcp_authority.py\<close>, \<open>MCPAuthorityAdapter\<close>: tool calls of the Model Context Protocol as
  governed authority operations.  A call is checked, its identity and capabilities are read from the
  message, the authority decides, the workspace is touched only after an allow, and one
  \<open>mcp.operation\<close> entry records the outcome.  The adapter's own recorder is the authority's ledger.
\<close>

section \<open>Calls and results\<close>

record mcp_call_result =
  mc_payload :: pydict
  mc_error :: bool

definition to_mcp_result :: "mcp_call_result \<Rightarrow> pydict res" where
  "to_mcp_result r =
     bindE (dumps \<lparr>js_quote = quote_ascii, js_nan = True, js_item = '', '', js_key = '': '', js_sort = True\<rparr>
              (VDict (mc_payload r))) (\<lambda>t.
       Inr ([(''content'', VList [VDict [(''type'', VStr ''text''), (''text'', VStr t)]])] @
            (if mc_error r then [(''isError'', VBool True)] else [])))"

text \<open>A member of \<open>params\<close> that may be an object of the package instead of a JSON value.\<close>

datatype 'a raw = RawValue pyval | RawObject 'a

record mcp_params =
  mp_name :: "pyval option"
  mp_arguments :: "pyval option"
  mp_identity :: "identity_context raw option"
  mp_capability :: "capability_value raw option"
  mp_parent :: "capability_value raw option"

definition tool_arguments :: "(string \<times> string list) list" where
  "tool_arguments =
     [(''sovereignty_status'', []),
      (''workspace_list'', [''path'']),
      (''workspace_read'', [''path'']),
      (''workspace_analyze'', [''path'']),
      (''workspace_repo_status'', [])]"

definition workspace_operations :: "(string \<times> protected_operation) list" where
  "workspace_operations =
     [(''workspace_list'', WORKSPACE_LIST),
      (''workspace_read'', WORKSPACE_READ),
      (''workspace_analyze'', WORKSPACE_ANALYZE),
      (''workspace_repo_status'', WORKSPACE_REPO_STATUS)]"

definition mcp_tool :: "string \<Rightarrow> string \<Rightarrow> pydict \<Rightarrow> string list \<Rightarrow> pyval" where
  "mcp_tool name description properties required =
     VDict [(''name'', VStr name), (''description'', VStr description),
       (''inputSchema'', VDict ([(''type'', VStr ''object''), (''properties'', VDict properties),
          (''additionalProperties'', VBool False)] @
          (if required = [] then [] else [(''required'', str_list required)])))]"

definition mcp_tools :: "pyval list" where
  "mcp_tools =
     (let path = (\<lambda>d. [(''path'', VDict [(''type'', VStr ''string''), (''description'', VStr d)])]) in
      [mcp_tool ''sovereignty_status'' ''Report local server security boundaries.'' [] [],
       mcp_tool ''workspace_list'' ''List non-hidden, non-sensitive files in the local workspace.''
         (path ''Optional relative directory.'') [],
       mcp_tool ''workspace_read'' ''Read a bounded UTF-8 text file from the local workspace.''
         (path ''Required relative file path.'') [''path''],
       mcp_tool ''workspace_analyze'' ''Produce read-only syntax and whitespace diagnostics for a workspace file.''
         (path ''Required relative file path.'') [''path''],
       mcp_tool ''workspace_repo_status'' ''Report bounded repository status without exposing shell access.'' [] []])"

section \<open>Reading the message\<close>

definition opt_text :: "pydict \<Rightarrow> string \<Rightarrow> string \<Rightarrow> string option res" where
  "opt_text d key message =
     (case map_of d key of
        None \<Rightarrow> Inr None
      | Some VNone \<Rightarrow> Inr None
      | Some (VStr s) \<Rightarrow> Inr (Some s)
      | _ \<Rightarrow> Inl (ValueError message))"

definition nonempty_text :: "pydict \<Rightarrow> string \<Rightarrow> string \<Rightarrow> string res" where
  "nonempty_text d key message =
     (case map_of d key of Some (VStr s) \<Rightarrow> if s = [] then Inl (ValueError message) else Inr s | _ \<Rightarrow> Inl (ValueError message))"

definition coerce_identity :: "identity_context raw option \<Rightarrow> identity_context option res" where
  "coerce_identity raw_identity =
     (case raw_identity of
        None \<Rightarrow> Inr None
      | Some (RawObject i) \<Rightarrow> Inr (Some i)
      | Some (RawValue VNone) \<Rightarrow> Inr None
      | Some (RawValue (VDict d)) \<Rightarrow>
          bindE (nonempty_text d ''identity_id'' ''Identity context requires a non-empty identity_id'') (\<lambda>identity_id.
          bindE (case map_of d ''verified'' of
                   Some (VBool b) \<Rightarrow> Inr b
                 | _ \<Rightarrow> Inl (ValueError ''Identity context requires a verified boolean'')) (\<lambda>verified.
          bindE (opt_text d ''device_id'' ''Identity context device_id must be a string'') (\<lambda>device_id.
          bindE (case map_of d ''metadata'' of
                   None \<Rightarrow> Inr []
                 | Some (VDict m) \<Rightarrow> Inr m
                 | _ \<Rightarrow> Inl (ValueError ''Identity context metadata must be an object'')) (\<lambda>metadata.
            Inr (Some \<lparr>ic_identity = identity_id, ic_device = device_id, ic_verified = verified, ic_hardware = False,
                       ic_metadata = metadata\<rparr>)))))
      | _ \<Rightarrow> Inl (ValueError ''Identity context must be an object''))"

definition coerce_scopes :: "pydict \<Rightarrow> string list res" where
  "coerce_scopes d =
     (case map_of d ''scopes'' of
        Some (VList xs) \<Rightarrow>
          mapE (\<lambda>x. case x of VStr s \<Rightarrow> Inr s | _ \<Rightarrow> Inl (ValueError ''Capability scopes must be a list of strings'')) xs
      | _ \<Rightarrow> Inl (ValueError ''Capability scopes must be a list of strings''))"

text \<open>A value that is not an object of JSON is passed on as it is, to be refused by the gate's adapter.\<close>

definition coerce_capability :: "capability_value raw option \<Rightarrow> capability_value option res" where
  "coerce_capability raw_capability =
     (case raw_capability of
        None \<Rightarrow> Inr None
      | Some (RawObject c) \<Rightarrow> Inr (Some c)
      | Some (RawValue VNone) \<Rightarrow> Inr None
      | Some (RawValue (VDict d)) \<Rightarrow>
          bindE (nonempty_text d ''capability_id'' ''Capability requires a non-empty capability_id'') (\<lambda>capability_id.
          bindE (nonempty_text d ''owner_identity'' ''Capability requires a non-empty owner_identity'') (\<lambda>owner.
          bindE (coerce_scopes d) (\<lambda>scopes.
          bindE (case map_of d ''expires_at'' of
                   None \<Rightarrow> Inr None
                 | Some VNone \<Rightarrow> Inr None
                 | Some (VStr s) \<Rightarrow> Inr (Some (ExpiresIso s))
                 | Some (VInt i) \<Rightarrow> Inr (Some (ExpiresAt i))
                 | Some (VBool b) \<Rightarrow> Inr (Some (ExpiresAt (if b then 1 else 0)))
                 | _ \<Rightarrow> Inl (ValueError ''Capability expires_at must be a string or integer timestamp'')) (\<lambda>expires_at.
          bindE (case map_of d ''revoked'' of
                   None \<Rightarrow> Inr False
                 | Some (VBool b) \<Rightarrow> Inr b
                 | _ \<Rightarrow> Inl (ValueError ''Capability revoked must be a boolean'')) (\<lambda>revoked.
          bindE (opt_text d ''provider_id'' ''Capability provider_id must be a string'') (\<lambda>provider_id.
          bindE (opt_text d ''issuer_device'' ''Capability issuer_device must be a string'') (\<lambda>issuer_device.
          bindE (opt_text d ''parent_capability_id'' ''Capability parent_capability_id must be a string'') (\<lambda>parent_id.
            Inr (Some (CapRecord
              \<lparr>kr_id = capability_id, kr_owner = owner, kr_scopes = fromkeys scopes, kr_provider = provider_id,
               kr_device = issuer_device, kr_expires = expires_at, kr_revoked = revoked, kr_parent = parent_id\<rparr>))))))))))
      | Some (RawValue v) \<Rightarrow> Inr (Some CapOther))"

definition resource_id :: "runtime \<Rightarrow> string \<Rightarrow> pydict \<Rightarrow> string" where
  "resource_id rt tool_name arguments =
     (if tool_name = ''workspace_repo_status'' then ''.''
      else case map_of arguments ''path'' of
        None \<Rightarrow> ''.''
      | Some v \<Rightarrow> if py_truthy v then py_str rt v else ''.'')"

definition decision_payload :: "pyval \<Rightarrow> operation_request \<Rightarrow> authorization_decision \<Rightarrow> string \<Rightarrow> string option \<Rightarrow> pydict" where
  "decision_payload request_id request d result failure_reason =
     [(''request_id'', request_id),
      (''operation'', VStr (operation_name request)),
      (''identity_id'', opt_str (map_option ic_identity (or_identity request))),
      (''capability_id'', opt_str (ad_capability d)),
      (''policy_hash'', VStr (ad_policy d)),
      (''decision'', VStr (ad_code d)),
      (''result'', VStr result),
      (''failure_reason'', opt_str failure_reason)]"

section \<open>The call\<close>

text \<open>\<open>except (OSError, UnicodeDecodeError, ValueError)\<close>, by class name.\<close>

definition workspace_error :: "pyexc \<Rightarrow> bool" where
  "workspace_error ex =
     (case ex of
        ValueError _ \<Rightarrow> True
      | PermissionError _ \<Rightarrow> True
      | AppError n _ \<Rightarrow> n \<in> set [''OSError'', ''UnicodeDecodeError'', ''FileNotFoundError'', ''IsADirectoryError'', ''NotADirectoryError'']
      | _ \<Rightarrow> False)"

text \<open>What is checked of a call before any identity is looked at: the tool's name and its arguments.\<close>

definition check_call :: "mcp_params \<Rightarrow> (string \<times> pydict) res" where
  "check_call params =
     (case (mp_name params, (case mp_arguments params of None \<Rightarrow> VDict [] | Some v \<Rightarrow> v)) of
        (Some (VStr name), VDict arguments) \<Rightarrow>
          (case map_of tool_arguments name of
             None \<Rightarrow> Inl (ValueError ''Unknown tool'')
           | Some allowed \<Rightarrow>
               if list_all (\<lambda>k. k \<in> set allowed) (map fst arguments) then Inr (name, arguments)
               else Inl (ValueError ''Unsupported tool arguments''))
      | _ \<Rightarrow> Inl (ValueError ''Tool name and arguments must be valid''))"

definition mcp_request :: "runtime \<Rightarrow> string \<Rightarrow> pydict \<Rightarrow> mcp_params \<Rightarrow> operation_request res" where
  "mcp_request rt name arguments params =
     bindE (coerce_identity (mp_identity params)) (\<lambda>identity.
     bindE (coerce_capability (mp_capability params)) (\<lambda>capability.
     bindE (coerce_capability (mp_parent params)) (\<lambda>parent.
       Inr \<lparr>or_operation = op_value (the (map_of workspace_operations name)), or_identity = identity,
            or_capability = capability, or_parent = parent,
            or_requester = (case identity of None \<Rightarrow> [] | Some i \<Rightarrow> ic_identity i),
            or_resource = resource_id rt name arguments, or_model = [], or_provider = None,
            or_metadata = [(''tool_name'', VStr name), (''arguments'', VDict arguments)]\<rparr>)))"

definition record_mcp :: "runtime \<Rightarrow> call_env \<Rightarrow> operation_request \<Rightarrow> pydict \<Rightarrow> unit authority_op" where
  "record_mcp rt e request payload =
     on_ledger (record_mcp_operation rt (iso_at e 1) (str_or (or_requester request) ''anonymous'') ''mcp.operation'' payload)"

definition governed_workspace :: "runtime \<Rightarrow> call_env \<Rightarrow> (string \<Rightarrow> pydict \<Rightarrow> pydict res) \<Rightarrow> pyval \<Rightarrow> string \<Rightarrow> pydict \<Rightarrow>
    operation_request \<Rightarrow> mcp_call_result authority_op" where
  "governed_workspace rt e exec request_id name arguments request =
     bindS (authorize_operation rt e request) (\<lambda>d.
       if \<not> ad_allowed d
       then let denial = decision_payload request_id request d ''denied'' (Some (ad_reason d)) in
            bindS (record_mcp rt e request denial) (\<lambda>_. returnS \<lparr>mc_payload = denial, mc_error = True\<rparr>)
       else case exec name arguments of
         Inl ex \<Rightarrow>
           if workspace_error ex
           then let failure = decision_payload request_id request d ''error'' (Some (ce_exc e ex)) in
                bindS (record_mcp rt e request failure) (\<lambda>_. returnS \<lparr>mc_payload = failure, mc_error = True\<rparr>)
           else raiseS ex
       | Inr payload \<Rightarrow>
           bindS (record_mcp rt e request (decision_payload request_id request d ''success'' None)) (\<lambda>_.
             returnS \<lparr>mc_payload = payload, mc_error = False\<rparr>))"

definition call_tool :: "runtime \<Rightarrow> call_env \<Rightarrow> path \<Rightarrow> string \<Rightarrow> (string \<Rightarrow> pydict \<Rightarrow> pydict res) \<Rightarrow> pyval \<Rightarrow> mcp_params \<Rightarrow>
    mcp_call_result authority_op" where
  "call_tool rt e workspace mode exec request_id params =
     bindS (liftS (check_call params)) (\<lambda>(name, arguments).
       if name = ''sovereignty_status''
       then returnS \<lparr>mc_payload = [(''mode'', VStr mode), (''workspace'', VStr (abs_str workspace)),
              (''network'', VStr ''disabled by this MCP server''),
              (''credentials'', VStr ''not accepted, stored, or transmitted'')], mc_error = False\<rparr>
       else bindS (liftS (mcp_request rt name arguments params)) (\<lambda>request.
              governed_workspace rt e exec request_id name arguments request))"

section \<open>Outcomes\<close>

lemma decision_payload_canonicalizable:
  "canonicalizable request_id \<Longrightarrow> canonicalizable (VDict (decision_payload request_id request d r f))"
  by (simp add: decision_payload_def)

lemma record_mcp_eq:
  assumes "canonicalizable request_id"
  obtains y where "record_mcp rt e request (decision_payload request_id request d r f) s =
      (Inr (), s\<lparr>au_ledger := au_ledger s @ [y]\<rparr>)" "le_event y = ''mcp.operation''"
    "le_payload y = decision_payload request_id request d r f" "le_actor y = str_or (or_requester request) ''anonymous''"
  unfolding record_mcp_def record_mcp_operation_def
  by (rule on_ledger_record [OF decision_payload_canonicalizable [OF assms]]) blast

text \<open>A workspace tool's call that passes the checks is the governed operation.\<close>

lemma call_tool_governed:
  assumes "check_call params = Inr (name, arguments)" "name \<noteq> ''sovereignty_status''"
    and "mcp_request rt name arguments params = Inr request"
  shows "call_tool rt e ws mode exec request_id params s = governed_workspace rt e exec request_id name arguments request s"
  using assms by (simp add: call_tool_def)

section \<open>Properties\<close>

text \<open>The entry of one governed call: its event, its payload's decision and result.\<close>

definition mcp_entry :: "pyval \<Rightarrow> operation_request \<Rightarrow> authorization_decision \<Rightarrow> string \<Rightarrow> string option \<Rightarrow> ledger_entry \<Rightarrow> bool" where
  "mcp_entry request_id request d result failure y \<longleftrightarrow>
     le_event y = ''mcp.operation'' \<and> le_payload y = decision_payload request_id request d result failure \<and>
     le_actor y = str_or (or_requester request) ''anonymous''"

text \<open>What a workspace call does after the decision, by the decision and the executor's outcome.\<close>

lemma governed_workspace_cases:
  assumes "authorize_operation rt e request s = (Inr d, s1)"
  shows "governed_workspace rt e exec request_id name arguments request s =
     (if \<not> ad_allowed d
       then let denial = decision_payload request_id request d ''denied'' (Some (ad_reason d)) in
            bindS (record_mcp rt e request denial) (\<lambda>_. returnS \<lparr>mc_payload = denial, mc_error = True\<rparr>) s1
       else (case exec name arguments of
         Inl ex \<Rightarrow>
           if workspace_error ex
           then let failure = decision_payload request_id request d ''error'' (Some (ce_exc e ex)) in
                bindS (record_mcp rt e request failure) (\<lambda>_. returnS \<lparr>mc_payload = failure, mc_error = True\<rparr>) s1
           else (Inl ex, s1)
       | Inr payload \<Rightarrow>
           bindS (record_mcp rt e request (decision_payload request_id request d ''success'' None)) (\<lambda>_.
             returnS \<lparr>mc_payload = payload, mc_error = False\<rparr>) s1))"
  unfolding governed_workspace_def bindS_Inr [of "authorize_operation rt e request" s d s1, OF assms]
  by (auto simp: Let_def split: sum.split)

lemma record_mcp_entry:
  assumes "canonicalizable request_id"
  shows "\<exists>y. bindS (record_mcp rt e request (decision_payload request_id request d r f)) (\<lambda>_. returnS x) s =
      (Inr x, s\<lparr>au_ledger := au_ledger s @ [y]\<rparr>) \<and> mcp_entry request_id request d r f y"
  by (rule record_mcp_eq [OF assms, of rt e request d r f s]) (auto simp: mcp_entry_def bindS_def)


text \<open>The demonstration call: reading a file with the demonstration's identity and capability.\<close>

definition demo_mcp_params :: mcp_params where
  "demo_mcp_params =
     \<lparr>mp_name = Some (VStr ''workspace_read''), mp_arguments = Some (VDict [(''path'', VStr ''a'')]),
      mp_identity = Some (RawObject (adapter_identity_context demo_identity)),
      mp_capability = Some (RawObject (CapRecord (demo_capability ''workspace.read''))), mp_parent = None\<rparr>"


end
