(* ===== verification/McpServer.thy ===== *)
theory McpServer
  imports Mcp Providers
begin

text \<open>
  \<open>mcp_server.py\<close>: the JSON-RPC server over the adapter, from a line of input to a line of output, and
  the adapter's default authority.  Instants and texts of exceptions come from one environment per
  line.  Whatever a client sends, the authority only gains evidence and \<open>mcp.operation\<close> entries, and
  both logs keep verifying.
\<close>

definition MCP_PROTOCOL_VERSION :: string where "MCP_PROTOCOL_VERSION = ''2025-03-26''"
definition VALID_MODES :: "string list" where "VALID_MODES = [''offline'', ''hybrid'', ''online'']"

record mcp_server =
  ms_workspace :: path
  ms_mode :: string
  ms_files :: file_system

text \<open>\<open>requested_mode = mode or os.environ.get(...)\<close>\<close>

definition server_mode :: "string option \<Rightarrow> string option \<Rightarrow> string" where
  "server_mode mode environ =
     (let requested_mode = ostr_or mode (case environ of None \<Rightarrow> ''offline'' | Some m \<Rightarrow> m) in
      if requested_mode \<in> set VALID_MODES then requested_mode else ''offline'')"

definition default_authority :: "runtime \<Rightarrow> int \<Rightarrow> root_of_trust \<Rightarrow> string option \<Rightarrow> call_env \<Rightarrow> sovereign_authority res" where
  "default_authority rt now software environ e =
     bindE (authority_init rt now software (case environ of None \<Rightarrow> ''user:mcp'' | Some o' \<Rightarrow> o') None) (\<lambda>s.
       case initialize rt e s of (Inl ex, _) \<Rightarrow> Inl ex | (Inr _, s') \<Rightarrow> Inr s')"

section \<open>Responses\<close>

definition rpc_result :: "pyval \<Rightarrow> pydict \<Rightarrow> pydict" where
  "rpc_result request_id result = [(''jsonrpc'', VStr ''2.0''), (''id'', request_id), (''result'', VDict result)]"

definition rpc_tool_error :: "pyval \<Rightarrow> string \<Rightarrow> pydict" where
  "rpc_tool_error request_id message =
     rpc_result request_id
       [(''content'', VList [VDict [(''type'', VStr ''text''), (''text'', VStr message)]]), (''isError'', VBool True)]"

definition rpc_error :: "pyval \<Rightarrow> int \<Rightarrow> string \<Rightarrow> pydict" where
  "rpc_error request_id code message =
     [(''jsonrpc'', VStr ''2.0''), (''id'', request_id),
      (''error'', VDict [(''code'', VInt code), (''message'', VStr message)])]"

text \<open>The classes below \<open>ValueError\<close>.\<close>

definition value_error :: "pyexc \<Rightarrow> bool" where
  "value_error ex = (case ex of ValueError _ \<Rightarrow> True | AppError n _ \<Rightarrow> n \<in> set [''UnicodeDecodeError'', ''UnicodeEncodeError'', ''JSONDecodeError''] | _ \<Rightarrow> False)"

definition params_of :: "pydict \<Rightarrow> mcp_params" where
  "params_of d =
     \<lparr>mp_name = map_of d ''name'', mp_arguments = map_of d ''arguments'',
      mp_identity = map_option RawValue (map_of d ''identity''),
      mp_capability = map_option RawValue (map_of d ''capability''),
      mp_parent = map_option RawValue (map_of d ''parent_capability'')\<rparr>"

section \<open>The server\<close>

definition call_in_server :: "runtime \<Rightarrow> call_env \<Rightarrow> mcp_server \<Rightarrow> pyval \<Rightarrow> pydict \<Rightarrow> pydict authority_op" where
  "call_in_server rt e S request_id params s =
     (case call_tool rt e (ms_workspace S) (ms_mode S) (workspace_execute (ms_files S) (ms_workspace S)) request_id
             (params_of params) s of
        (Inl ex, s') \<Rightarrow> (if value_error ex then (Inr (rpc_tool_error request_id (ce_exc e ex)), s') else (Inl ex, s'))
      | (Inr r, s') \<Rightarrow> (bindE (to_mcp_result r) (\<lambda>d. Inr (rpc_result request_id d)), s'))"

definition handle :: "runtime \<Rightarrow> call_env \<Rightarrow> mcp_server \<Rightarrow> pydict \<Rightarrow> pydict option authority_op" where
  "handle rt e S request =
     (let request_id = get_or request ''id'' VNone in
      case map_of request ''method'' of
        Some (VStr method) \<Rightarrow>
          if map_of request ''jsonrpc'' \<noteq> Some (VStr ''2.0'')
          then returnS (Some (rpc_error request_id (- 32600) ''JSON-RPC version must be 2.0''))
          else if method = ''notifications/initialized'' then returnS None
          else if method = ''initialize''
          then returnS (Some (rpc_result request_id
            [(''protocolVersion'', VStr MCP_PROTOCOL_VERSION),
             (''capabilities'', VDict [(''tools'', VDict [(''listChanged'', VBool False)])]),
             (''serverInfo'', VDict [(''name'', VStr ''sovereignty-ai-studio''), (''version'', VStr ''1.0.0'')])]))
          else if method = ''tools/list''
          then returnS (Some (rpc_result request_id [(''tools'', VList mcp_tools)]))
          else if method = ''tools/call''
          then (case get_or request ''params'' (VDict []) of
                  VDict params \<Rightarrow> bindS (call_in_server rt e S request_id params) (\<lambda>r. returnS (Some r))
                | _ \<Rightarrow> returnS (Some (rpc_error request_id (- 32602) ''Invalid tool parameters'')))
          else returnS (Some (rpc_error request_id (- 32601) (''Method not found: '' @ method)))
      | _ \<Rightarrow> returnS (Some (rpc_error request_id (- 32600) ''Invalid Request'')))"

text \<open>One line of input: the response to it, and what is printed of a response.\<close>

definition line_response :: "runtime \<Rightarrow> (string \<Rightarrow> pyfloat) \<Rightarrow> call_env \<Rightarrow> mcp_server \<Rightarrow> string \<Rightarrow> pydict option authority_op" where
  "line_response rt fo e S line =
     (case json_loads fo line of
        Inl ex \<Rightarrow> raiseS ex
      | Inr request \<Rightarrow>
          (case request of
             VDict d \<Rightarrow> handle rt e S d
           | _ \<Rightarrow> raiseS (ValueError ''Request must be a JSON object'')))"

definition printed :: "call_env \<Rightarrow> pydict option res \<Rightarrow> string option res" where
  "printed e response =
     (let print = (\<lambda>r. bindE (dumps default_style (VDict r)) (\<lambda>t. Inr (Some t))) in
      case response of
        Inl ex \<Rightarrow> if value_error ex then print (rpc_error VNone (- 32700) (ce_exc e ex)) else Inl ex
      | Inr None \<Rightarrow> Inr None
      | Inr (Some r) \<Rightarrow> print r)"

definition serve_line :: "runtime \<Rightarrow> (string \<Rightarrow> pyfloat) \<Rightarrow> call_env \<Rightarrow> mcp_server \<Rightarrow> string \<Rightarrow> string option authority_op" where
  "serve_line rt fo e S line s = (case line_response rt fo e S line s of (response, s') \<Rightarrow> (printed e response, s'))"

text \<open>
  The loop of \<open>main\<close> over the lines of the input: the lines printed, the exception that ends the
  server if one does, and the authority.
\<close>

fun serve :: "runtime \<Rightarrow> (string \<Rightarrow> pyfloat) \<Rightarrow> mcp_server \<Rightarrow> (call_env \<times> string) list \<Rightarrow> sovereign_authority \<Rightarrow>
    (string list \<times> pyexc option) \<times> sovereign_authority" where
  "serve rt fo S [] s = (([], None), s)"
| "serve rt fo S ((e, line) # rest) s =
     (case serve_line rt fo e S line s of
        (Inl ex, s') \<Rightarrow> (([], Some ex), s')
      | (Inr shown, s') \<Rightarrow>
          (case serve rt fo S rest s' of
             ((out, stop), s'') \<Rightarrow> (((case shown of None \<Rightarrow> out | Some t \<Rightarrow> t # out), stop), s'')))"


section \<open>What a client can change\<close>

text \<open>
  The authority \<open>s\<close> against the one before, \<open>s0\<close>: only evidence and \<open>mcp.operation\<close> entries are new.
\<close>

definition mcp_only :: "sovereign_authority \<Rightarrow> sovereign_authority \<Rightarrow> bool" where
  "mcp_only s0 s \<longleftrightarrow>
     (\<exists>new E. s = s0\<lparr>au_ledger := au_ledger s0 @ new, au_evidence := E\<rparr> \<and> list_all (\<lambda>y. le_event y = ''mcp.operation'') new)"

lemma mcp_onlyI:
  "list_all (\<lambda>y. le_event y = ''mcp.operation'') new \<Longrightarrow> mcp_only s0 (s0\<lparr>au_ledger := au_ledger s0 @ new, au_evidence := E\<rparr>)"
  unfolding mcp_only_def by blast

lemma mcp_only_refl: "mcp_only s s"
  unfolding mcp_only_def by (intro exI [of _ "[]"] exI [of _ "au_evidence s"]) simp

lemma mcp_onlyE:
  assumes "mcp_only s0 s"
  obtains new E where "s = s0\<lparr>au_ledger := au_ledger s0 @ new, au_evidence := E\<rparr>"
    "list_all (\<lambda>y. le_event y = ''mcp.operation'') new"
  using assms unfolding mcp_only_def by blast

lemma record_event_grows:
  "\<exists>new. snd (record_event rt now ev pl a ts L) = L @ new \<and> list_all (\<lambda>y. le_event y = ev) new"
  by (auto simp: record_event_def append_def Let_def split: sum.splits intro: exI [of _ "[]"])

lemma keeps_mcp_record: "keeps_inv (mcp_only s0) (record_mcp rt e request payload)"
  unfolding record_mcp_def record_mcp_operation_def on_ledger_def
proof (rule keeps_on)
  fix s assume "mcp_only s0 s"
  then obtain new E where s: "s = s0\<lparr>au_ledger := au_ledger s0 @ new, au_evidence := E\<rparr>"
    "list_all (\<lambda>y. le_event y = ''mcp.operation'') new" by (auto simp: mcp_only_def)
  let ?L = "snd (record_event rt (iso_at e 1) ''mcp.operation'' payload (str_or (or_requester request) ''anonymous'') None (au_ledger s))"
  obtain more where m: "?L = au_ledger s @ more" "list_all (\<lambda>y. le_event y = ''mcp.operation'') more"
    using record_event_grows by blast
  then have "s\<lparr>au_ledger := ?L\<rparr> = s0\<lparr>au_ledger := au_ledger s0 @ (new @ more), au_evidence := E\<rparr>" using s(1) by simp
  moreover have "list_all (\<lambda>y. le_event y = ''mcp.operation'') (new @ more)" using s(2) m(2) by simp
  ultimately show "mcp_only s0 (s\<lparr>au_ledger := ?L\<rparr>)" unfolding mcp_only_def by blast
qed

lemma keeps_mcp_authorize: "keeps_inv (mcp_only s0) (authorize_operation rt e request)"
proof -
  have "mcp_only s0 (s\<lparr>au_evidence := E\<rparr>)" if "mcp_only s0 s" for s E
    using that by (elim mcp_onlyE) (simp add: mcp_onlyI)
  then show ?thesis
    unfolding authorize_operation_def
    by (intro keeps) (simp add: keeps_inv_def snd_onS)
qed

lemma keeps_call_tool:
  assumes "\<And>request. keeps_inv P (authorize_operation rt e request)"
    and "\<And>request payload. keeps_inv P (record_mcp rt e request payload)"
  shows "keeps_inv P (call_tool rt e ws mode exec request_id params)"
  unfolding call_tool_def governed_workspace_def
  by (auto intro!: keeps assms split: sum.split prod.split simp: Let_def)

lemma keeps_text: "(\<And>t. keeps_inv P (f t)) \<Longrightarrow> keeps_inv P m \<Longrightarrow> keeps_inv P (case v of VStr t \<Rightarrow> f t | _ \<Rightarrow> m)"
  by (cases v) simp_all

lemma keeps_object: "(\<And>d. keeps_inv P (g d)) \<Longrightarrow> keeps_inv P m \<Longrightarrow> keeps_inv P (case v of VDict d \<Rightarrow> g d | _ \<Rightarrow> m)"
  by (cases v) simp_all

lemma keeps_serve_line:
  assumes "\<And>request. keeps_inv P (authorize_operation rt e request)"
    and "\<And>request payload. keeps_inv P (record_mcp rt e request payload)"
  shows "keeps_inv P (serve_line rt fo e S line)"
proof -
  have call: "keeps_inv P (call_in_server rt e S request_id params)" for request_id params
    unfolding keeps_inv_def
  proof (intro allI impI)
    fix s assume "P s"
    with keeps_call_tool [OF assms] have "P (snd (call_tool rt e (ms_workspace S) (ms_mode S)
        (workspace_execute (ms_files S) (ms_workspace S)) request_id (params_of params) s))"
      by (rule keeps_invD)
    then show "P (snd (call_in_server rt e S request_id params s))"
      by (auto simp: call_in_server_def split: prod.split sum.split)
  qed
  have handle: "keeps_inv P (handle rt e S request)" for request
    unfolding handle_def Let_def
    by (intro keeps_option keeps_text keeps_object keeps_if keeps_pure keeps_bind call)
  have "keeps_inv P (line_response rt fo e S line)"
    unfolding line_response_def
    by (cases "json_loads fo line") (simp_all add: keeps_object handle keeps_pure)
  then show ?thesis
    by (simp add: keeps_inv_def serve_line_def split: prod.split) (metis snd_conv)
qed

lemma keeps_serve:
  assumes "\<And>e request. keeps_inv P (authorize_operation rt e request)"
    and "\<And>e request payload. keeps_inv P (record_mcp rt e request payload)"
  shows "P s \<Longrightarrow> P (snd (serve rt fo S inputs s))"
proof (induction inputs arbitrary: s)
  case (Cons i inputs)
  obtain e line where i: "i = (e, line)" by (cases i)
  have "P (snd (serve_line rt fo e S line s))"
    using keeps_serve_line [OF assms] Cons.prems by (rule keeps_invD)
  then show ?case
    using Cons.IH [of "snd (serve_line rt fo e S line s)"] by (auto simp: i split: prod.split sum.split)
qed simp

lemma handle_frame:
  "handle rt e S request s = (r, s') \<Longrightarrow>
   map_of request ''method'' = Some (VStr ''tools/call'') \<or> s' = s"
  by (auto simp: handle_def Let_def split: option.splits pyval.splits if_splits)

lemma call_in_server_id:
  "fst (call_in_server rt e S request_id params s) = Inr d \<Longrightarrow>
   map_of d ''jsonrpc'' = Some (VStr ''2.0'') \<and> map_of d ''id'' = Some request_id"
  by (auto simp: call_in_server_def rpc_result_def rpc_tool_error_def res_simps split: prod.splits sum.splits if_splits)

lemma handle_response:
  assumes "fst (handle rt e S request s) = Inr (Some d)"
  shows "map_of d ''jsonrpc'' = Some (VStr ''2.0'') \<and> map_of d ''id'' = Some (get_or request ''id'' VNone)"
proof (cases "map_of request ''method'' = Some (VStr ''tools/call'') \<and> map_of request ''jsonrpc'' = Some (VStr ''2.0'')")
  case True
  then show ?thesis
  proof (cases "get_or request ''params'' (VDict [])")
    case (VDict params)
    obtain r s' where c: "call_in_server rt e S (get_or request ''id'' VNone) params s = (r, s')"
      by (cases "call_in_server rt e S (get_or request ''id'' VNone) params s")
    from True VDict c assms have "r = Inr d" by (cases r) (simp_all add: handle_def Let_def bindS_def)
    with c call_in_server_id [of rt e S "get_or request ''id'' VNone" params s d] show ?thesis by simp
  qed (use assms True in \<open>auto simp: handle_def Let_def rpc_error_def\<close>)
next
  case False
  with assms show ?thesis
    by (auto simp: handle_def Let_def rpc_error_def rpc_result_def split: option.splits pyval.splits if_splits)
qed

section \<open>Properties\<close>

text \<open>
  C3.  An MCP session, whatever lines the client sends and however it ends, leaves an authority whose
  audit ledger and SCAR evidence verify, and of the authority before it only the evidence has changed
  and the ledger has grown, by \<open>mcp.operation\<close> entries.
\<close>

theorem mcp_session_audited:
  assumes "authority_history rt s"
  shows "verify_ledger rt (snd (serve rt fo S inputs s)) = Inr () \<and>
    verify_authority_evidence rt (snd (serve rt fo S inputs s)) = Inr True \<and>
    (\<exists>new E. snd (serve rt fo S inputs s) = s\<lparr>au_ledger := au_ledger s @ new, au_evidence := E\<rparr> \<and>
       list_all (\<lambda>y. le_event y = ''mcp.operation'') new)"
proof -
  let ?s = "snd (serve rt fo S inputs s)"
  have "keeps_inv (authority_inv rt) (record_mcp rt e request payload)" for e request payload
    unfolding record_mcp_def record_mcp_operation_def by (rule keeps_record_event)
  then have "authority_inv rt ?s"
    using keeps_serve [where P = "authority_inv rt"] keeps_authorize authority_history_inv [OF assms] by blast
  moreover have "mcp_only s ?s"
    using keeps_serve [where P = "mcp_only s"] keeps_mcp_authorize keeps_mcp_record mcp_only_refl by blast
  ultimately show ?thesis
    by (simp add: authority_inv_def verify_ledger_def verify_authority_evidence_def evidence_ok_def
        evidence_verify_chain_def mcp_only_def vault_ok_def)
qed

definition demo_server :: mcp_server where
  "demo_server = \<lparr>ms_workspace = [], ms_mode = ''offline'',
     ms_files = \<lparr>fs_resolve = (\<lambda>w p. Inr w), fs_join = (\<lambda>p q. p), fs_is_dir = (\<lambda>_. False), fs_is_file = (\<lambda>_. False),
       fs_size = (\<lambda>_. 0), fs_read = (\<lambda>_. Inr []), fs_glob = (\<lambda>_. []), fs_parse = (\<lambda>_. Inr None)\<rparr>\<rparr>"

theorem mcp_session_audited_witness:
  "\<exists>s. authority_init plain_runtime 1 demo_root ''ada'' None = Inr s \<and>
     verify_ledger plain_runtime (snd (serve plain_runtime (\<lambda>_. NaN) demo_server [(demo_env, ''{'')] s)) = Inr ()"
proof -
  obtain s where s: "authority_init plain_runtime 1 demo_root ''ada'' None = Inr s" by (rule demo_created)
  from mcp_session_audited [OF authority_history.created [OF s demo_root_sound]] s show ?thesis by blast
qed

text \<open>
  One response per request.  A response carries the JSON-RPC version and the identifier of its
  request; there is none exactly for the notification; only a tool call can end in an exception or
  change the authority.
\<close>

theorem mcp_handle_responds:
  "case handle rt e S request s of (result, s') \<Rightarrow>
     (if map_of request ''method'' = Some (VStr ''tools/call'') then result \<noteq> Inr None else s' = s \<and> (\<exists>response. result = Inr response)) \<and>
     (case result of
        Inl ex \<Rightarrow> True
      | Inr None \<Rightarrow> map_of request ''method'' = Some (VStr ''notifications/initialized'') \<and>
          map_of request ''jsonrpc'' = Some (VStr ''2.0'')
      | Inr (Some d) \<Rightarrow> map_of d ''jsonrpc'' = Some (VStr ''2.0'') \<and> map_of d ''id'' = Some (get_or request ''id'' VNone))"
proof -
  obtain result s' where h: "handle rt e S request s = (result, s')" by (cases "handle rt e S request s")
  have r: "result = Inr (Some d) \<Longrightarrow>
      map_of d ''jsonrpc'' = Some (VStr ''2.0'') \<and> map_of d ''id'' = Some (get_or request ''id'' VNone)" for d
    using handle_response [of rt e S request s d] h by simp
  have n: "result = Inr None \<Longrightarrow> map_of request ''method'' = Some (VStr ''notifications/initialized'') \<and>
      map_of request ''jsonrpc'' = Some (VStr ''2.0'')"
    using h by (auto simp: handle_def Let_def bindS_def split: option.splits pyval.splits if_splits prod.splits sum.splits)
  have o': "map_of request ''method'' \<noteq> Some (VStr ''tools/call'') \<Longrightarrow> s' = s \<and> (\<exists>response. result = Inr response)"
    using h by (auto simp: handle_def Let_def split: option.splits pyval.splits if_splits)
  show ?thesis using r n o' by (auto simp: h split: sum.split option.split)
qed

end
