(* ===== verification/Conformance.thy ===== *)
theory Conformance
  imports PyText
begin

text \<open>
  \<open>src/sia/conformance/evidence.py\<close> and \<open>src/sia/conformance/harness.py\<close>: registered assertions are
  run in order and each leaves one evidence record.  An assertion is an operation on a world \<open>'w\<close> that
  may raise; identifiers, times and the texts of exceptions are parameters.
\<close>

record evidence_record =
  ev_id :: string
  ev_rfc :: string
  ev_assertion :: string
  ev_result :: string
  ev_details :: pydict
  ev_timestamp :: string
  ev_version :: string

definition evidence_to_dict :: "evidence_record \<Rightarrow> pydict" where
  "evidence_to_dict e =
     [(''schema_version'', VStr (ev_version e)), (''evidence_id'', VStr (ev_id e)), (''rfc'', VStr (ev_rfc e)),
      (''assertion_id'', VStr (ev_assertion e)), (''result'', VStr (ev_result e)),
      (''details'', VDict (ev_details e)), (''timestamp'', VStr (ev_timestamp e))]"

definition evidence_is_pass :: "evidence_record \<Rightarrow> bool" where
  "evidence_is_pass e \<longleftrightarrow> ev_result e = ''pass''"

definition evidence_is_fail :: "evidence_record \<Rightarrow> bool" where
  "evidence_is_fail e \<longleftrightarrow> ev_result e = ''fail''"

section \<open>The harness\<close>

text \<open>What the clock, \<open>uuid4\<close>, \<open>str(exc)\<close> and \<open>type(exc).__name__\<close> give; the first two by the call's number.\<close>

record harness_env =
  he_uuid :: "nat \<Rightarrow> string"
  he_now :: "nat \<Rightarrow> string"
  he_text :: "pyexc \<Rightarrow> string"
  he_class :: "pyexc \<Rightarrow> string"

type_synonym 'w assertion = "string \<times> string \<times> ('w \<Rightarrow> pyval res \<times> 'w)"

record 'w harness =
  ch_assertions :: "'w assertion list"
  ch_evidence :: "evidence_record list"

definition harness_init :: "'w harness" where
  "harness_init = \<lparr>ch_assertions = [], ch_evidence = []\<rparr>"

definition harness_add :: "string \<Rightarrow> string \<Rightarrow> ('w \<Rightarrow> pyval res \<times> 'w) \<Rightarrow> 'w harness \<Rightarrow> 'w harness" where
  "harness_add rfc assertion_id fn H = H\<lparr>ch_assertions := ch_assertions H @ [(rfc, assertion_id, fn)]\<rparr>"

text \<open>\<open>details = fn() or {}\<close>, a dictionary or replaced by one.\<close>

definition pass_details :: "pyval \<Rightarrow> pydict" where
  "pass_details v = (case (if py_truthy v then v else VDict []) of VDict d \<Rightarrow> d | _ \<Rightarrow> [])"

definition judged :: "harness_env \<Rightarrow> nat \<Rightarrow> string \<Rightarrow> string \<Rightarrow> pyval res \<Rightarrow> evidence_record" where
  "judged env i rfc assertion_id outcome =
     (let record' = (\<lambda>result details. \<lparr>ev_id = he_uuid env i, ev_rfc = rfc, ev_assertion = assertion_id,
            ev_result = result, ev_details = details, ev_timestamp = he_now env i, ev_version = ''1.0''\<rparr>) in
      case outcome of
        Inr v \<Rightarrow> record' ''pass'' (pass_details v)
      | Inl exc \<Rightarrow>
          if exc = SIAErr ConformanceAssertionError then record' ''fail'' [(''error'', VStr (he_text env exc))]
          else record' ''fail'' [(''exception'', VStr (he_class env exc)), (''message'', VStr (he_text env exc))])"

definition run_one :: "harness_env \<Rightarrow> nat \<Rightarrow> 'w assertion \<Rightarrow> 'w harness \<Rightarrow> 'w \<Rightarrow> evidence_record \<times> 'w harness \<times> 'w" where
  "run_one env i a H w =
     (case a of (rfc, assertion_id, fn) \<Rightarrow>
        case fn w of (outcome, w') \<Rightarrow>
          let e = judged env i rfc assertion_id outcome in (e, H\<lparr>ch_evidence := ch_evidence H @ [e]\<rparr>, w'))"

fun run_each :: "harness_env \<Rightarrow> nat \<Rightarrow> 'w assertion list \<Rightarrow> 'w harness \<Rightarrow> 'w \<Rightarrow> evidence_record list \<times> 'w harness \<times> 'w" where
  "run_each env i [] H w = ([], H, w)"
| "run_each env i (a # as) H w =
     (case run_one env i a H w of (e, H', w') \<Rightarrow>
        case run_each env (Suc i) as H' w' of (es, H'', w'') \<Rightarrow> (e # es, H'', w''))"

definition run_all :: "harness_env \<Rightarrow> 'w harness \<Rightarrow> 'w \<Rightarrow> evidence_record list \<times> 'w harness \<times> 'w" where
  "run_all env H w =
     (case run_each env 0 (ch_assertions H) (H\<lparr>ch_evidence := []\<rparr>) w of (es, H', w') \<Rightarrow> (ch_evidence H', H', w'))"

definition run_rfc :: "harness_env \<Rightarrow> string \<Rightarrow> 'w harness \<Rightarrow> 'w \<Rightarrow> evidence_record list \<times> 'w harness \<times> 'w" where
  "run_rfc env rfc H w = run_each env 0 (filter (\<lambda>a. fst a = rfc) (ch_assertions H)) H w"

definition harness_passed :: "'w harness \<Rightarrow> bool" where
  "harness_passed H \<longleftrightarrow> list_all evidence_is_pass (ch_evidence H)"

definition count_result :: "(string \<times> nat) list \<Rightarrow> evidence_record \<Rightarrow> (string \<times> nat) list" where
  "count_result counts e =
     AList.update (ev_result e) ((case map_of counts (ev_result e) of None \<Rightarrow> 0 | Some n \<Rightarrow> n) + 1) counts"

definition harness_summary :: "'w harness \<Rightarrow> (string \<times> nat) list" where
  "harness_summary H = foldl count_result [(''pass'', 0), (''fail'', 0), (''skip'', 0)] (ch_evidence H)"

section \<open>Runs\<close>

text \<open>What the assertions of a list return or raise, one after the other.\<close>

fun outcomes :: "'w assertion list \<Rightarrow> 'w \<Rightarrow> pyval res list" where
  "outcomes [] w = []"
| "outcomes ((rfc, assertion_id, fn) # as) w = (case fn w of (r, w') \<Rightarrow> r # outcomes as w')"

lemma judged_fields [simp]:
  "ev_rfc (judged env i rfc a r) = rfc" "ev_assertion (judged env i rfc a r) = a"
  "ev_result (judged env i rfc a r) = (case r of Inr v \<Rightarrow> ''pass'' | Inl e \<Rightarrow> ''fail'')"
  by (simp_all add: judged_def Let_def split: sum.split)

definition told :: "evidence_record \<Rightarrow> string \<times> string \<times> string" where
  "told e = (ev_rfc e, ev_assertion e, ev_result e)"

lemma run_each_evidence:
  assumes "run_each env i as H w = (es, H', w')"
  shows "ch_evidence H' = ch_evidence H @ es \<and> ch_assertions H' = ch_assertions H \<and>
    map told es = map2 (\<lambda>a r. (fst a, fst (snd a), case r of Inr v \<Rightarrow> ''pass'' | Inl e \<Rightarrow> ''fail'')) as (outcomes as w)"
  using assms
proof (induction as arbitrary: i H w es)
  case (Cons a as)
  obtain rfc aid fn where a: "a = (rfc, aid, fn)" by (cases a)
  obtain r v where f: "fn w = (r, v)" by (cases "fn w")
  let ?e = "judged env i rfc aid r"
  obtain es' where r: "run_each env (Suc i) as (H\<lparr>ch_evidence := ch_evidence H @ [?e]\<rparr>) v = (es', H', w')" "es = ?e # es'"
    using Cons.prems by (auto simp: a f run_one_def Let_def split: prod.splits)
  from Cons.IH [OF r(1)] show ?case by (simp add: a f r(2) told_def)
qed simp

lemma length_outcomes [simp]: "length (outcomes as w) = length as"
  by (induction as w rule: outcomes.induct) (simp_all split: prod.split)

lemma count_result_known:
  "ev_result e = ''pass'' \<Longrightarrow> count_result [(''pass'', p), (''fail'', f), (''skip'', k)] e = [(''pass'', Suc p), (''fail'', f), (''skip'', k)]"
  "ev_result e = ''fail'' \<Longrightarrow> count_result [(''pass'', p), (''fail'', f), (''skip'', k)] e = [(''pass'', p), (''fail'', Suc f), (''skip'', k)]"
  by (simp_all add: count_result_def)

lemma summary_counts:
  assumes "list_all (\<lambda>e. ev_result e = ''pass'' \<or> ev_result e = ''fail'') es"
  shows "foldl count_result [(''pass'', p), (''fail'', f), (''skip'', k)] es =
    [(''pass'', p + length (filter evidence_is_pass es)), (''fail'', f + length (filter evidence_is_fail es)), (''skip'', k)]"
  using assms
proof (induction es arbitrary: p f)
  case (Cons e es)
  then consider "ev_result e = ''pass''" | "ev_result e = ''fail''" by auto
  then show ?case
    by cases (use Cons in \<open>simp_all add: count_result_known evidence_is_pass_def evidence_is_fail_def\<close>)
qed simp

section \<open>Properties\<close>

text \<open>
  A conformance run judges every registered assertion once, in order: its evidence names the
  assertions with \<open>pass\<close> for those that returned and \<open>fail\<close> for those that raised, whatever they raised;
  the summary counts them, and the run has passed exactly when no assertion raised.
\<close>

theorem conformance_run_judges_all:
  "case run_all env H w of (es, H', w') \<Rightarrow>
     ch_evidence H' = es \<and>
     map told es = map2 (\<lambda>a r. (fst a, fst (snd a), case r of Inr v \<Rightarrow> ''pass'' | Inl e \<Rightarrow> ''fail''))
       (ch_assertions H) (outcomes (ch_assertions H) w) \<and>
     harness_passed H' = list_all (Not \<circ> isl) (outcomes (ch_assertions H) w) \<and>
     harness_summary H' = [(''pass'', length (filter (Not \<circ> isl) (outcomes (ch_assertions H) w))),
       (''fail'', length (filter isl (outcomes (ch_assertions H) w))), (''skip'', 0)]"
proof -
  let ?as = "ch_assertions H"
  let ?rs = "outcomes ?as w"
  obtain es H' w' where r: "run_each env 0 ?as (H\<lparr>ch_evidence := []\<rparr>) w = (es, H', w')" by (metis prod_cases3)
  from run_each_evidence [OF r] have e: "ch_evidence H' = es"
    "map told es = map2 (\<lambda>a r. (fst a, fst (snd a), case r of Inr v \<Rightarrow> ''pass'' | Inl e \<Rightarrow> ''fail'')) ?as ?rs" by simp_all
  have "map ev_result es = map (\<lambda>t. snd (snd t)) (map told es)" by (simp add: told_def)
  also have "\<dots> = map (\<lambda>r. case r of Inr v \<Rightarrow> ''pass'' | Inl e \<Rightarrow> ''fail'') ?rs"
    unfolding e(2) by (rule nth_equalityI) simp_all
  finally have res: "map ev_result es = map (\<lambda>r. case r of Inr v \<Rightarrow> ''pass'' | Inl e \<Rightarrow> ''fail'') ?rs" .
  have rel: "list_all2 (\<lambda>e r. ev_result e = (case r of Inr v \<Rightarrow> ''pass'' | Inl x \<Rightarrow> ''fail'')) es ?rs"
    using res by (simp add: list_all2_conv_all_nth list_eq_iff_nth_eq)
  have "list_all evidence_is_pass es = list_all (Not \<circ> isl) ?rs \<and> length (filter evidence_is_pass es) = length (filter (Not \<circ> isl) ?rs) \<and>
      length (filter evidence_is_fail es) = length (filter isl ?rs) \<and> list_all (\<lambda>e. ev_result e = ''pass'' \<or> ev_result e = ''fail'') es"
    using rel
    by (induction rule: list_all2_induct) (auto simp: evidence_is_pass_def evidence_is_fail_def split: sum.splits)
  with e r summary_counts [of es 0 0 0] show ?thesis
    by (simp add: run_all_def harness_passed_def harness_summary_def)
qed

end
