(* ===== verification/Quota.thy ===== *)
theory Quota
  imports Canonical
begin

text \<open>
  \<open>quota_manager.py\<close> and \<open>gate_one_quota_integration.py\<close>: the weekly token quota of a tier and the
  preview, commit and status calls over it.  Instants are microseconds; each operation takes the two
  readings of the clock it may make.  The lemmas say what is counted and that a preview predicts the
  commit that follows it.
\<close>

record tier_limits =
  tl_voice :: int
  tl_text :: int
  tl_total :: int
  tl_bypass :: bool
  tl_guidance :: "string list"

definition TIER_LIMITS :: "(string \<times> tier_limits) list" where
  "TIER_LIMITS =
    [(''root'', \<lparr>tl_voice = 1000000, tl_text = 1000000, tl_total = 2000000, tl_bypass = True, tl_guidance = []\<rparr>),
     (''admin'', \<lparr>tl_voice = 500000, tl_text = 500000, tl_total = 800000, tl_bypass = True, tl_guidance = []\<rparr>),
     (''developer'', \<lparr>tl_voice = 250000, tl_text = 250000, tl_total = 400000, tl_bypass = True,
        tl_guidance = [''reduce_context'', ''split_request'', ''switch_mode'']\<rparr>),
     (''supergrok'', \<lparr>tl_voice = 120000, tl_text = 120000, tl_total = 200000, tl_bypass = False,
        tl_guidance = [''reduce_context'', ''switch_mode'', ''wait_for_reset'']\<rparr>),
     (''paid'', \<lparr>tl_voice = 60000, tl_text = 60000, tl_total = 100000, tl_bypass = False,
        tl_guidance = [''reduce_context'', ''wait_for_reset'', ''switch_mode'']\<rparr>),
     (''free'', \<lparr>tl_voice = 25000, tl_text = 25000, tl_total = 40000, tl_bypass = False,
        tl_guidance = [''reduce_context'', ''wait_for_reset'', ''switch_mode'']\<rparr>)]"

record quota_manager =
  qm_tier :: string
  qm_voice :: int
  qm_text :: int
  qm_total :: int
  qm_last :: int
  qm_weekly :: int

definition WEEK :: int where "WEEK = 7 * 86400 * 1000000"

text \<open>\<open>lower\<close> is \<open>str.lower\<close>.\<close>

definition quota_init :: "(string \<Rightarrow> string) \<Rightarrow> int \<Rightarrow> string \<Rightarrow> quota_manager" where
  "quota_init lower now user_tier =
     \<lparr>qm_tier = lower user_tier, qm_voice = 0, qm_text = 0, qm_total = 0, qm_last = now, qm_weekly = now + WEEK\<rparr>"

definition get_limits :: "quota_manager \<Rightarrow> tier_limits" where
  "get_limits q =
     (case map_of TIER_LIMITS (qm_tier q) of Some l \<Rightarrow> l | None \<Rightarrow> the (map_of TIER_LIMITS ''free''))"

definition quota_reset :: "int \<Rightarrow> quota_manager \<Rightarrow> quota_manager" where
  "quota_reset now q = q\<lparr>qm_voice := 0, qm_text := 0, qm_total := 0, qm_last := now, qm_weekly := now + WEEK\<rparr>"

definition maybe_reset :: "int \<times> int \<Rightarrow> quota_manager \<Rightarrow> quota_manager" where
  "maybe_reset clock q = (if qm_weekly q \<le> fst clock then quota_reset (snd clock) q else q)"

definition estimate_usage :: "int \<times> int \<Rightarrow> int \<Rightarrow> bool \<Rightarrow> quota_manager \<Rightarrow> pydict \<times> quota_manager" where
  "estimate_usage clock tokens is_voice q0 =
     (let q = maybe_reset clock q0;
          limits = get_limits q;
          voice = qm_voice q + (if is_voice then tokens else 0);
          text = qm_text q + (if is_voice then 0 else tokens);
          total = voice + text in
      ([(''tier'', VStr (qm_tier q)), (''voice_used'', VInt voice), (''text_used'', VInt text),
        (''total_used'', VInt total), (''remaining'', VInt (tl_total limits - total)),
        (''would_throttle'', VBool (total > tl_total limits)), (''can_bypass'', VBool (tl_bypass limits)),
        (''guidance'', str_list (tl_guidance limits))], q))"

definition add_usage :: "int \<Rightarrow> bool \<Rightarrow> quota_manager \<Rightarrow> quota_manager" where
  "add_usage tokens is_voice q =
     (let q1 = (if is_voice then q\<lparr>qm_voice := qm_voice q + tokens\<rparr> else q\<lparr>qm_text := qm_text q + tokens\<rparr>) in
      q1\<lparr>qm_total := qm_voice q1 + qm_text q1\<rparr>)"

definition record_usage :: "int \<times> int \<Rightarrow> int \<Rightarrow> bool \<Rightarrow> quota_manager \<Rightarrow> pydict \<times> quota_manager" where
  "record_usage clock tokens is_voice q0 =
     (let q = add_usage tokens is_voice (maybe_reset clock q0);
          limits = get_limits q;
          remaining = tl_total limits - qm_total q;
          used = [(''tier'', VStr (qm_tier q)), (''voice_used'', VInt (qm_voice q)), (''text_used'', VInt (qm_text q)),
                  (''total_used'', VInt (qm_total q)), (''remaining'', VInt remaining)] in
      (if qm_total q > tl_total limits
       then [(''status'', VStr ''throttled'')] @ used @
            [(''message'', VStr (''Shared weekly limit reached for '' @ qm_tier q @ '' tier.'')),
             (''guidance'', str_list (tl_guidance limits))]
       else [(''status'', VStr ''ok'')] @ used @ [(''can_bypass'', VBool (tl_bypass limits))], q))"

definition get_status :: "(int \<Rightarrow> string) \<Rightarrow> int \<times> int \<Rightarrow> quota_manager \<Rightarrow> pydict \<times> quota_manager" where
  "get_status isoformat clock q0 =
     (let q = maybe_reset clock q0; limits = get_limits q in
      ([(''tier'', VStr (qm_tier q)), (''voice_used'', VInt (qm_voice q)), (''text_used'', VInt (qm_text q)),
        (''total_used'', VInt (qm_total q)), (''voice_limit'', VInt (tl_voice limits)),
        (''text_limit'', VInt (tl_text limits)), (''total_limit'', VInt (tl_total limits)),
        (''remaining'', VInt (tl_total limits - qm_total q)), (''can_bypass'', VBool (tl_bypass limits)),
        (''guidance'', str_list (tl_guidance limits)), (''weekly_reset'', VStr (isoformat (qm_weekly q)))], q))"

section \<open>The integration\<close>

record quota_prompt =
  qp_title :: string
  qp_message :: string
  qp_proceed :: bool
  qp_guidance :: "string list"

definition dict_int :: "pydict \<Rightarrow> string \<Rightarrow> int" where
  "dict_int d k = (case map_of d k of Some (VInt i) \<Rightarrow> i | _ \<Rightarrow> 0)"

definition preview_request :: "int \<times> int \<Rightarrow> int \<Rightarrow> bool \<Rightarrow> quota_manager \<Rightarrow> quota_prompt \<times> quota_manager" where
  "preview_request clock tokens is_voice q0 =
     (let (estimate, q) = estimate_usage clock tokens is_voice q0 in
      (if map_of estimate ''would_throttle'' = Some (VBool True)
       then \<lparr>qp_title = ''Quota warning'',
             qp_message = ''This request would exceed your '' @ qm_tier q @ '' weekly quota. Used: '' @
               int_str (dict_int estimate ''total_used'') @ ''/'' @ int_str (tl_total (get_limits q)) @ ''.'',
             qp_proceed = False, qp_guidance = tl_guidance (get_limits q)\<rparr>
       else \<lparr>qp_title = ''Quota check passed'',
             qp_message = ''Remaining quota: '' @ int_str (dict_int estimate ''remaining'') @ '' tokens. Voice used: '' @
               int_str (dict_int estimate ''voice_used'') @ '', text used: '' @ int_str (dict_int estimate ''text_used'') @ ''.'',
             qp_proceed = True, qp_guidance = tl_guidance (get_limits q)\<rparr>, q))"

definition commit_request :: "int \<times> int \<Rightarrow> int \<Rightarrow> bool \<Rightarrow> quota_manager \<Rightarrow> pydict \<times> quota_manager" where
  "commit_request = record_usage"

definition quota_status :: "(int \<Rightarrow> string) \<Rightarrow> int \<times> int \<Rightarrow> quota_manager \<Rightarrow> pydict \<times> quota_manager" where
  "quota_status = get_status"

definition next_best_action :: "(int \<Rightarrow> string) \<Rightarrow> int \<times> int \<Rightarrow> quota_manager \<Rightarrow> string option \<times> quota_manager" where
  "next_best_action isoformat clock q0 =
     (let (status, q) = get_status isoformat clock q0;
          remaining = dict_int status ''remaining'' in
      (if remaining \<le> 0 then Some ''wait_for_reset''
       else if remaining < 2000 then Some ''reduce_context'' else None, q))"

section \<open>Lemmas\<close>

lemma limits_cong [simp]: "get_limits (quota_reset t q) = get_limits q" "get_limits (add_usage n v q) = get_limits q"
  by (simp_all add: get_limits_def quota_reset_def add_usage_def Let_def)

lemma add_usage_fields [simp]:
  "qm_voice (add_usage n v q) = qm_voice q + (if v then n else 0)"
  "qm_text (add_usage n v q) = qm_text q + (if v then 0 else n)"
  "qm_total (add_usage n v q) = qm_voice q + qm_text q + n"
  "qm_weekly (add_usage n v q) = qm_weekly q" "qm_tier (add_usage n v q) = qm_tier q"
  by (simp_all add: add_usage_def Let_def)

lemma record_status:
  "map_of (fst (record_usage clock n v q)) ''status'' =
     Some (VStr (if tl_total (get_limits q) < qm_total (snd (record_usage clock n v q)) then ''throttled'' else ''ok''))"
  by (simp add: record_usage_def maybe_reset_def Let_def)

lemma record_state: "snd (record_usage clock n v q) = add_usage n v (maybe_reset clock q)"
  by (simp add: record_usage_def Let_def)

text \<open>The commits of a session, each with its clock, and those since the last reset.\<close>

type_synonym commit = "(int \<times> int) \<times> int \<times> bool"

fun commit_run :: "commit list \<Rightarrow> quota_manager \<Rightarrow> quota_manager" where
  "commit_run [] q = q"
| "commit_run ((clock, n, v) # cs) q = commit_run cs (snd (commit_request clock n v q))"

fun since_reset :: "int \<Rightarrow> (int \<times> bool) list \<Rightarrow> commit list \<Rightarrow> (int \<times> bool) list" where
  "since_reset weekly acc [] = acc"
| "since_reset weekly acc ((clock, n, v) # cs) =
     (if weekly \<le> fst clock then since_reset (snd clock + WEEK) [(n, v)] cs
      else since_reset weekly (acc @ [(n, v)]) cs)"

definition used :: "bool \<Rightarrow> (int \<times> bool) list \<Rightarrow> int" where
  "used voice cs = sum_list (map fst (filter (\<lambda>c. snd c = voice) cs))"

lemma used_simps [simp]: "used b [] = 0" "used b (acc @ [(n, v)]) = used b acc + (if v = b then n else 0)"
  by (simp_all add: used_def)

lemma used_one [simp]: "used b [(n, v)] = (if v = b then n else 0)"
  by (simp add: used_def)

lemma maybe_reset_fields:
  "qm_voice (maybe_reset c q) = (if qm_weekly q \<le> fst c then 0 else qm_voice q)"
  "qm_text (maybe_reset c q) = (if qm_weekly q \<le> fst c then 0 else qm_text q)"
  "qm_weekly (maybe_reset c q) = (if qm_weekly q \<le> fst c then snd c + WEEK else qm_weekly q)"
  by (simp_all add: maybe_reset_def quota_reset_def)

lemma commit_run_used:
  assumes "qm_voice q = used True acc" "qm_text q = used False acc" "qm_total q = qm_voice q + qm_text q"
  shows "let w = since_reset (qm_weekly q) acc cs; q' = commit_run cs q in
    qm_voice q' = used True w \<and> qm_text q' = used False w \<and> qm_total q' = qm_voice q' + qm_text q'"
  using assms
proof (induction cs arbitrary: q acc)
  case Nil
  then show ?case by simp
next
  case (Cons c cs)
  obtain clock n v where c: "c = (clock, n, v)" by (cases c)
  let ?q = "snd (commit_request clock n v q)"
  let ?acc = "if qm_weekly q \<le> fst clock then [(n, v)] else acc @ [(n, v)]"
  have "qm_voice ?q = used True ?acc" "qm_text ?q = used False ?acc" "qm_total ?q = qm_voice ?q + qm_text ?q"
    "qm_weekly ?q = (if qm_weekly q \<le> fst clock then snd clock + WEEK else qm_weekly q)"
    using Cons.prems by (auto simp: commit_request_def record_state maybe_reset_fields)
  with Cons.IH [of ?q ?acc] show ?case by (simp add: c Let_def split: if_splits)
qed

lemma commit_run_append: "commit_run (cs @ ds) q = commit_run ds (commit_run cs q)"
  by (induction cs q rule: commit_run.induct) simp_all

lemma commit_run_limits [simp]: "get_limits (commit_run cs q) = get_limits q"
proof (induction cs arbitrary: q)
  case (Cons c cs)
  then show ?case by (cases c) (simp add: commit_request_def record_state maybe_reset_def)
qed simp

section \<open>Properties\<close>

text \<open>
  C38.  What the quota counts.  After any sequence of commits on a new manager the voice, text and total
  counters are the sums of the tokens committed since the last weekly reset, throttled ones included,
  and the status of a further commit is \<open>throttled\<close> exactly when the total of its week, with its own
  tokens, exceeds the shared limit of the tier.
\<close>

theorem quota_counts_week:
  "let q = quota_init lower now tier; q' = commit_run cs q; w = since_reset (now + WEEK) [] cs;
       w' = since_reset (now + WEEK) [] (cs @ [(clock, n, v)]) in
   qm_voice q' = used True w \<and> qm_text q' = used False w \<and> qm_total q' = used True w + used False w \<and>
   map_of (fst (commit_request clock n v q')) ''status'' =
     Some (VStr (if tl_total (get_limits q) < used True w' + used False w' then ''throttled'' else ''ok''))"
proof -
  let ?q = "quota_init lower now tier"
  have q: "qm_voice ?q = used True []" "qm_text ?q = used False []" "qm_total ?q = qm_voice ?q + qm_text ?q"
    "qm_weekly ?q = now + WEEK" by (simp_all add: quota_init_def)
  from commit_run_used [OF q(1-3), of cs] commit_run_used [OF q(1-3), of "cs @ [(clock, n, v)]"]
  show ?thesis using q(4) by (simp add: commit_run_append Let_def commit_request_def record_status)
qed

text \<open>
  A preview predicts the commit.  When the commit reads its clock before the weekly reset that is due
  after the preview, the preview allows the request exactly when the commit is not throttled, and
  estimates the usage that the commit leaves.
\<close>

theorem preview_predicts_commit:
  assumes "preview_request c1 n v q = (prompt, q1)" "fst c2 < qm_weekly q1"
    and "commit_request c2 n v q1 = (result, q2)"
  shows "(qp_proceed prompt = (map_of result ''status'' = Some (VStr ''ok''))) \<and>
    map_of (fst (estimate_usage c1 n v q)) ''total_used'' = map_of result ''total_used'' \<and>
    map_of (fst (estimate_usage c1 n v q)) ''remaining'' = map_of result ''remaining'' \<and>
    map_of (fst (estimate_usage c1 n v q)) ''voice_used'' = map_of result ''voice_used'' \<and>
    map_of (fst (estimate_usage c1 n v q)) ''text_used'' = map_of result ''text_used''"
proof -
  have q1: "q1 = maybe_reset c1 q" "qp_proceed prompt = (qm_voice q1 + qm_text q1 + n \<le> tl_total (get_limits q1))"
    using assms(1) by (auto simp: preview_request_def estimate_usage_def Let_def split: if_splits)
  have "maybe_reset c2 q1 = q1" using assms(2) by (simp add: maybe_reset_def)
  with assms(3) q1 show ?thesis
    by (auto simp: commit_request_def record_usage_def estimate_usage_def Let_def split: if_splits)
qed

theorem preview_predicts_commit_witness:
  "\<exists>prompt q1 result q2. preview_request (1, 1) 30000 True (quota_init id 0 ''free'') = (prompt, q1) \<and>
     commit_request (2, 2) 30000 True q1 = (result, q2) \<and> qp_proceed prompt \<and>
     map_of result ''status'' = Some (VStr ''ok'') \<and> tl_voice (get_limits q2) < qm_voice q2"
proof -
  let ?q = "quota_init id 0 ''free''"
  obtain prompt q1 where p: "preview_request (1, 1) 30000 True ?q = (prompt, q1)" by (cases "preview_request (1, 1) 30000 True ?q")
  obtain result q2 where c: "commit_request (2, 2) 30000 True q1 = (result, q2)" by (cases "commit_request (2, 2) 30000 True q1")
  have q1: "q1 = ?q" using p
    by (auto simp: preview_request_def estimate_usage_def maybe_reset_def quota_init_def WEEK_def Let_def split: if_splits)
  have w: "fst (2, 2) < qm_weekly q1" by (simp add: q1 quota_init_def WEEK_def)
  have r: "map_of result ''status'' = Some (VStr ''ok'')" "tl_voice (get_limits q2) < qm_voice q2"
    using c unfolding q1
    by (auto simp: commit_request_def record_usage_def add_usage_def maybe_reset_def quota_init_def WEEK_def
        get_limits_def TIER_LIMITS_def Let_def split: if_splits)
  from preview_predicts_commit [OF p w c] r p c show ?thesis by blast
qed

end
