(* ===== verification/DependencyPolicy.thy ===== *)
theory DependencyPolicy
  imports BundleWire
begin

text \<open>
  \<open>src/scripts/check_dependency_policy.py\<close>, the release check of the dependencies: pinned in
  \<open>pyproject.toml\<close>, present among the pins of the constraints file, declared when imported, and exact
  and locked in the npm manifests.  The parsed documents and the syntax trees of the sources are
  arguments, with the imports of a tree as its only nodes.
\<close>

section \<open>Texts\<close>

text \<open>\<open>str.lower\<close>, and \<open>\d+\<close> of the regular expressions, which both go beyond ASCII.\<close>

record text_library =
  tl_lower :: "string \<Rightarrow> string"
  tl_digits :: "string \<Rightarrow> bool"

definition is_alnum :: "char \<Rightarrow> bool" where
  "is_alnum c \<longleftrightarrow> (let n = of_char c :: nat in 48 \<le> n \<and> n \<le> 57 \<or> 65 \<le> n \<and> n \<le> 90 \<or> 97 \<le> n \<and> n \<le> 122)"

text \<open>\<open>s.split(sep, 1)\<close> when the separator occurs, and its first part.\<close>

fun split_first :: "string \<Rightarrow> string \<Rightarrow> (string \<times> string) option" where
  "split_first sep [] = None"
| "split_first sep (c # r) =
     (if startswith (c # r) sep then Some ([], drop (length sep) (c # r))
      else map_option (\<lambda>(a, b). (c # a, b)) (split_first sep r))"

definition head_part :: "string \<Rightarrow> string \<Rightarrow> string" where
  "head_part sep s = (case split_first sep s of None \<Rightarrow> s | Some (a, _) \<Rightarrow> a)"

definition underscored :: "string \<Rightarrow> string" where
  "underscored s = map (\<lambda>c. if c = CHR ''-'' then CHR ''_'' else c) s"

definition normalize_package_name :: "text_library \<Rightarrow> string \<Rightarrow> string" where
  "normalize_package_name L name = tl_lower L (underscored (head_part ''['' (py_strip name)))"

section \<open>The pins\<close>

text \<open>\<open>PIN_PATTERN.match\<close> on a stripped line: the name cannot contain an equals sign.\<close>

definition PIN_PATTERN :: "string \<Rightarrow> bool" where
  "PIN_PATTERN s \<longleftrightarrow>
     (let name_char = (\<lambda>c. is_alnum c \<or> c \<in> set ''_.-''); rest = dropWhile name_char s; version = drop 2 rest in
      takeWhile name_char s \<noteq> [] \<and> startswith rest ''=='' \<and> version \<noteq> [] \<and>
      list_all (\<lambda>c. is_alnum c \<or> c \<in> set ''_.+-'') version)"

definition stripped_lines :: "string \<Rightarrow> string list" where
  "stripped_lines text = map (\<lambda>ps. py_strip (concat (map utf8_encode ps))) (split_points [] (utf8_points text))"

definition constraint_line :: "text_library \<Rightarrow> string \<Rightarrow> string list res" where
  "constraint_line L stripped =
     (if stripped = [] \<or> startswith stripped ''#'' then Inr []
      else if \<not> PIN_PATTERN stripped then Inl (ValueError (''constraints entry must be exact-pinned: '' @ stripped))
      else Inr [normalize_package_name L (head_part ''=='' stripped)])"

definition parse_constraint_pins :: "text_library \<Rightarrow> string \<Rightarrow> string list res" where
  "parse_constraint_pins L text = bindE (mapE (constraint_line L) (stripped_lines text)) (\<lambda>pins. Inr (concat pins))"

section \<open>The declared dependencies\<close>

text \<open>\<open>v.get(k, d)\<close>, \<open>v.values()\<close> and \<open>v.items()\<close> of a parsed document.\<close>

definition no_attribute :: pyexc where
  "no_attribute = AppError ''AttributeError'' ''object has no attribute''"

definition dict_of :: "pyval \<Rightarrow> pydict res" where
  "dict_of v = (case v of VDict d \<Rightarrow> Inr d | _ \<Rightarrow> Inl no_attribute)"

definition py_get :: "pyval \<Rightarrow> string \<Rightarrow> pyval \<Rightarrow> pyval res" where
  "py_get v k d = bindE (dict_of v) (\<lambda>m. Inr (get_or m k d))"

text \<open>\<open>"==" not in dep\<close>, then \<open>dep.split("==", 1)[0]\<close>.\<close>

definition pinned_name :: "text_library \<Rightarrow> string \<Rightarrow> pyval \<Rightarrow> string res" where
  "pinned_name L which dep =
     (let floating = ValueError (which @ '' dependency must be exact pinned'') in
      case dep of
        VStr s \<Rightarrow>
          (case split_first ''=='' s of
             None \<Rightarrow> Inl floating
           | Some (name, _) \<Rightarrow> Inr (normalize_package_name L name))
      | VList xs \<Rightarrow> Inl (if VStr ''=='' \<in> set xs then no_attribute else floating)
      | VTuple xs \<Rightarrow> Inl (if VStr ''=='' \<in> set xs then no_attribute else floating)
      | VDict d \<Rightarrow> Inl (if ''=='' \<in> set (map fst d) then no_attribute else floating)
      | _ \<Rightarrow> Inl (TypeError ''argument is not iterable''))"

definition assert_python_dependency_pins :: "text_library \<Rightarrow> pydict \<Rightarrow> string list res" where
  "assert_python_dependency_pins L data =
     (let project = get_or data ''project'' (VDict []) in
      bindE (py_get project ''dependencies'' (VList [])) (\<lambda>deps.
      bindE (py_tuple deps) (\<lambda>deps.
      bindE (mapE (pinned_name L ''project'') deps) (\<lambda>declared.
      bindE (py_get project ''optional-dependencies'' (VDict [])) (\<lambda>groups.
      bindE (dict_of groups) (\<lambda>groups.
      bindE (mapE (\<lambda>(_, group). bindE (py_tuple group) (mapE (pinned_name L ''optional''))) groups) (\<lambda>optional.
        Inr (declared @ concat optional))))))))"

definition DIST_IMPORT_ALIASES :: "(string \<times> string list) list" where
  "DIST_IMPORT_ALIASES = [(''liboqs_python'', [''oqs''])]"

definition expand_declared_import_names :: "string list \<Rightarrow> string list" where
  "expand_declared_import_names declared =
     declared @ concat (map snd (filter (\<lambda>(dist_name, aliases). dist_name \<in> set declared) DIST_IMPORT_ALIASES))"

section \<open>The npm manifests\<close>

definition npm_sections :: "string list" where
  "npm_sections = [''dependencies'', ''devDependencies'']"

text \<open>\<open>\d+\.\d+\.\d+(?:[-+][A-Za-z0-9.]+)?\<close> on the whole text.\<close>

definition exact_version :: "text_library \<Rightarrow> string \<Rightarrow> bool" where
  "exact_version L version =
     (case split_first ''.'' version of
        None \<Rightarrow> False
      | Some (major, r) \<Rightarrow>
          (case split_first ''.'' r of
             None \<Rightarrow> False
           | Some (minor, r) \<Rightarrow>
               let patch = takeWhile (\<lambda>c. c \<notin> set ''-+'') r; suffix = dropWhile (\<lambda>c. c \<notin> set ''-+'') r in
               tl_digits L major \<and> tl_digits L minor \<and> tl_digits L patch \<and>
               (suffix = [] \<or> tl suffix \<noteq> [] \<and> list_all (\<lambda>c. is_alnum c \<or> c = CHR ''.'') (tl suffix))))"

definition check_exact :: "text_library \<Rightarrow> string \<times> pyval \<Rightarrow> unit res" where
  "check_exact L p =
     (case snd p of
        VStr version \<Rightarrow> guardE (exact_version L version) (ValueError (''dependency must be exact pinned: '' @ fst p))
      | _ \<Rightarrow> Inl (TypeError ''expected string or bytes-like object''))"

definition check_locked :: "pyval \<Rightarrow> string \<times> pyval \<Rightarrow> unit res" where
  "check_locked locked_deps p =
     bindE (py_get locked_deps (fst p) VNone) (\<lambda>v.
       guardE (v = snd p) (ValueError (''package-lock mismatch for '' @ fst p)))"

definition assert_npm_pins :: "text_library \<Rightarrow> pyval \<Rightarrow> pyval \<Rightarrow> unit res" where
  "assert_npm_pins L package lock =
     bindE (mapE (\<lambda>section.
         bindE (py_get package section (VDict [])) (\<lambda>deps. bindE (dict_of deps) (mapE (check_exact L)))) npm_sections) (\<lambda>_.
     bindE (py_get lock ''packages'' (VDict [])) (\<lambda>packages.
     bindE (py_get packages [] (VDict [])) (\<lambda>lock_root.
     bindE (mapE (\<lambda>section.
         bindE (py_get package section (VDict [])) (\<lambda>deps.
         bindE (py_get lock_root section (VDict [])) (\<lambda>locked_deps.
         bindE (dict_of deps) (mapE (check_locked locked_deps))))) npm_sections) (\<lambda>_. Inr ()))))"

section \<open>The imports\<close>

datatype import_node = Import "string list" | ImportFrom nat "string option"

definition imported_names :: "import_node \<Rightarrow> string list" where
  "imported_names node =
     (case node of
        Import names \<Rightarrow> map (head_part ''.'') names
      | ImportFrom level None \<Rightarrow> []
      | ImportFrom level (Some module) \<Rightarrow> if level > 0 \<or> module = [] then [] else [head_part ''.'' module])"

definition import_key :: "text_library \<Rightarrow> string \<Rightarrow> string" where
  "import_key L name = tl_lower L (underscored name)"

definition find_undeclared_imports :: "text_library \<Rightarrow> string list \<Rightarrow> string list \<Rightarrow> import_node list res list \<Rightarrow>
    string list \<Rightarrow> string list res" where
  "find_undeclared_imports L stdlib local_modules trees declared =
     (let allowed_imports = expand_declared_import_names declared in
      bindE (mapE (\<lambda>tree. tree) trees) (\<lambda>trees.
        Inr (filter (\<lambda>name. import_key L name \<notin> set stdlib \<union> set local_modules \<union> set allowed_imports)
               (concat (map imported_names (concat trees))))))"

section \<open>The check\<close>

record repository_files =
  rf_pyproject :: pydict
  rf_constraints :: string
  rf_package :: pyval
  rf_lock :: pyval
  rf_modules :: "string list"
  rf_trees :: "import_node list res list"

definition policy_main :: "text_library \<Rightarrow> string list \<Rightarrow> repository_files \<Rightarrow> int res" where
  "policy_main L stdlib R =
     bindE (assert_python_dependency_pins L (rf_pyproject R)) (\<lambda>declared.
     bindE (parse_constraint_pins L (rf_constraints R)) (\<lambda>pins.
     let missing = sorted_set (filter (\<lambda>dep. dep \<notin> set pins) declared) in
     bindE (guardE (missing = [])
       (ValueError (''dependencies missing in constraints/py312.txt: '' @ sep_by '', '' missing))) (\<lambda>_.
     bindE (find_undeclared_imports L stdlib (rf_modules R) (rf_trees R) declared) (\<lambda>undeclared.
     bindE (guardE (undeclared = [])
       (ValueError (''source imports undeclared third-party modules: '' @ sep_by '', '' (sorted_set undeclared)))) (\<lambda>_.
     bindE (assert_npm_pins L (rf_package R) (rf_lock R)) (\<lambda>_. Inr 0))))))"

section \<open>When the check passes\<close>

lemma mapE_checked:
  "(\<And>x. x \<in> set xs \<Longrightarrow> f x = (if P x then Inr (g x) else Inl (e x))) \<Longrightarrow>
   mapE f xs = Inr ys \<longleftrightarrow> list_all P xs \<and> ys = map g xs"
  by (induction xs arbitrary: ys) (auto simp: res_simps)

text \<open>The entries of the constraints file, and the name that a requirement declares.\<close>

definition constraint_entries :: "string \<Rightarrow> string list" where
  "constraint_entries text = filter (\<lambda>l. l \<noteq> [] \<and> \<not> startswith l ''#'') (stripped_lines text)"

definition requirement_name :: "text_library \<Rightarrow> string \<Rightarrow> string" where
  "requirement_name L dep = normalize_package_name L (head_part ''=='' dep)"

definition pinned :: "string \<Rightarrow> bool" where
  "pinned dep \<longleftrightarrow> split_first ''=='' dep \<noteq> None"

lemma constraint_pins_Inr:
  "parse_constraint_pins L text = Inr pins \<longleftrightarrow>
     list_all PIN_PATTERN (constraint_entries text) \<and> pins = map (requirement_name L) (constraint_entries text)"
proof -
  have "concat (map (\<lambda>l. if l = [] \<or> startswith l ''#'' then [] else [requirement_name L l]) ls) =
      map (requirement_name L) (filter (\<lambda>l. l \<noteq> [] \<and> \<not> startswith l ''#'') ls)" for ls
    by (induction ls) auto
  moreover have "mapE (constraint_line L) ls = Inr ps \<longleftrightarrow>
      list_all (\<lambda>l. l = [] \<or> startswith l ''#'' \<or> PIN_PATTERN l) ls \<and>
      ps = map (\<lambda>l. if l = [] \<or> startswith l ''#'' then [] else [requirement_name L l]) ls" for ls ps
    by (rule mapE_checked) (auto simp: constraint_line_def requirement_name_def)
  ultimately show ?thesis
    by (auto simp: parse_constraint_pins_def constraint_entries_def res_simps list_all_iff)
qed

lemma pinned_names_Inr:
  "mapE (pinned_name L which) (map VStr deps) = Inr ns \<longleftrightarrow> list_all pinned deps \<and> ns = map (requirement_name L) deps"
proof -
  have "mapE (pinned_name L which) (map VStr deps) = mapE (pinned_name L which \<circ> VStr) deps"
    by (induction deps) simp_all
  also have "\<dots> = Inr ns \<longleftrightarrow> list_all pinned deps \<and> ns = map (requirement_name L) deps"
    by (rule mapE_checked) (auto simp: pinned_name_def pinned_def requirement_name_def head_part_def split: option.split)
  finally show ?thesis .
qed

text \<open>The documents as their schemas have them.\<close>

definition pyproject_of :: "string list \<Rightarrow> (string \<times> string list) list \<Rightarrow> pydict" where
  "pyproject_of deps groups =
     [(''project'', VDict [(''dependencies'', str_list deps),
        (''optional-dependencies'', VDict (map (\<lambda>(g, ds). (g, str_list ds)) groups))])]"

definition npm_document :: "(string \<times> string) list \<Rightarrow> (string \<times> string) list \<Rightarrow> pyval" where
  "npm_document deps dev =
     VDict [(''dependencies'', VDict (map (\<lambda>(n, v). (n, VStr v)) deps)),
       (''devDependencies'', VDict (map (\<lambda>(n, v). (n, VStr v)) dev))]"

definition lock_document :: "(string \<times> string) list \<Rightarrow> (string \<times> string) list \<Rightarrow> pyval" where
  "lock_document deps dev = VDict [(''packages'', VDict [([], npm_document deps dev)])]"

lemma python_pins_Inr:
  "assert_python_dependency_pins L (pyproject_of deps groups) = Inr ns \<longleftrightarrow>
     list_all pinned (deps @ concat (map snd groups)) \<and> ns = map (requirement_name L) (deps @ concat (map snd groups))"
proof -
  have "mapE (\<lambda>(_, group). bindE (py_tuple group) (mapE (pinned_name L ''optional''))) (map (\<lambda>(g, ds). (g, str_list ds)) gs) = Inr os \<longleftrightarrow>
      list_all (\<lambda>p. list_all pinned (snd p)) gs \<and> os = map (\<lambda>p. map (requirement_name L) (snd p)) gs" for gs os
    by (induction gs arbitrary: os) (auto simp: res_simps str_list_def py_tuple_def pinned_names_Inr)
  then show ?thesis
    by (auto simp: assert_python_dependency_pins_def pyproject_of_def get_or_def py_get_def dict_of_def str_list_def
        py_tuple_def res_simps pinned_names_Inr list_all_iff map_concat comp_def) force
qed

lemma npm_lookup: "map_of (map (\<lambda>(n, v). (n, VStr v)) a) n = map_option VStr (map_of a n)"
  by (induction a) auto

lemma npm_pins_Inr:
  "assert_npm_pins L (npm_document a b) (lock_document a' b') = Inr () \<longleftrightarrow>
     list_all (\<lambda>(n, v). exact_version L v \<and> map_of a' n = Some v) a \<and>
     list_all (\<lambda>(n, v). exact_version L v \<and> map_of b' n = Some v) b"
proof -
  have exact: "(\<exists>us. mapE (check_exact L) (map (\<lambda>(n, v). (n, VStr v)) ps) = Inr us) \<longleftrightarrow>
      list_all (\<lambda>(n, v). exact_version L v) ps" for ps
    by (induction ps) (auto simp: check_exact_def res_simps)
  have locked: "(\<exists>us. mapE (check_locked (VDict (map (\<lambda>(n, v). (n, VStr v)) q))) (map (\<lambda>(n, v). (n, VStr v)) ps) = Inr us) \<longleftrightarrow>
      list_all (\<lambda>(n, v). map_of q n = Some v) ps" for ps q
    by (induction ps) (auto simp: check_locked_def py_get_def dict_of_def get_or_def npm_lookup res_simps split: option.split)
  have "assert_npm_pins L (npm_document a b) (lock_document a' b') = Inr () \<longleftrightarrow>
      (\<exists>us. mapE (check_exact L) (map (\<lambda>(n, v). (n, VStr v)) a) = Inr us) \<and>
      (\<exists>us. mapE (check_exact L) (map (\<lambda>(n, v). (n, VStr v)) b) = Inr us) \<and>
      (\<exists>us. mapE (check_locked (VDict (map (\<lambda>(n, v). (n, VStr v)) a'))) (map (\<lambda>(n, v). (n, VStr v)) a) = Inr us) \<and>
      (\<exists>us. mapE (check_locked (VDict (map (\<lambda>(n, v). (n, VStr v)) b'))) (map (\<lambda>(n, v). (n, VStr v)) b) = Inr us)"
    by (simp add: assert_npm_pins_def npm_document_def lock_document_def npm_sections_def py_get_def dict_of_def
        get_or_def res_simps) blast
  then show ?thesis unfolding exact locked by (auto simp: list_all_iff)
qed

lemma undeclared_Inr:
  "find_undeclared_imports L stdlib mods (map Inr trees) declared = Inr us \<longleftrightarrow>
     us = filter (\<lambda>name. import_key L name \<notin> set stdlib \<union> set mods \<union> set (expand_declared_import_names declared))
       (concat (map imported_names (concat trees)))"
proof -
  have "mapE (\<lambda>tree. tree) (map Inr ts) = Inr ts" for ts :: "import_node list list" by (induction ts) simp_all
  then show ?thesis by (auto simp: find_undeclared_imports_def)
qed

lemma policy_main_Inr:
  "policy_main L stdlib \<lparr>rf_pyproject = pyproject_of deps groups, rf_constraints = text, rf_package = npm_document a b,
     rf_lock = lock_document a' b', rf_modules = mods, rf_trees = map Inr trees\<rparr> = Inr 0 \<longleftrightarrow>
   (let requirements = deps @ concat (map snd groups); names = map (requirement_name L) requirements in
    list_all PIN_PATTERN (constraint_entries text) \<and>
    list_all (\<lambda>dep. pinned dep \<and> requirement_name L dep \<in> requirement_name L ` set (constraint_entries text)) requirements \<and>
    list_all (\<lambda>name. import_key L name \<in> set stdlib \<union> set mods \<union> set (expand_declared_import_names names))
      (concat (map imported_names (concat trees))) \<and>
    list_all (\<lambda>(n, v). exact_version L v \<and> map_of a' n = Some v) a \<and>
    list_all (\<lambda>(n, v). exact_version L v \<and> map_of b' n = Some v) b)"
proof -
  define requirements where "requirements = deps @ concat (map snd groups)"
  have missing: "sorted_set xs = [] \<longleftrightarrow> xs = []" for xs by (metis set_empty sorted_set_props(3))
  note python = python_pins_Inr [of L deps groups, folded requirements_def]
  show ?thesis
    unfolding policy_main_def repository_files.simps Let_def requirements_def [symmetric]
    by (auto simp: res_simps python constraint_pins_Inr undeclared_Inr npm_pins_Inr missing filter_empty_conv
        list_all_iff image_iff)
qed

section \<open>Properties\<close>

text \<open>
  The dependency check passes exactly when every line of the constraints file that is neither empty nor
  a comment is a pin, every declared requirement, optional groups included, has an equality and its
  name is among the names of these pins, every absolute import of the sources is of the standard
  library, of a local package or of a declared distribution (or of the alias of one), and every npm
  dependency has an exact version that the lock file repeats.
\<close>

theorem dependency_check_passes_exactly:
  "policy_main L stdlib \<lparr>rf_pyproject = pyproject_of deps groups, rf_constraints = text, rf_package = npm_document a b,
     rf_lock = lock_document a' b', rf_modules = mods, rf_trees = map Inr trees\<rparr> = Inr 0 \<longleftrightarrow>
   (let requirements = deps @ concat (map snd groups); names = map (requirement_name L) requirements in
    list_all PIN_PATTERN (constraint_entries text) \<and>
    list_all (\<lambda>dep. pinned dep \<and> requirement_name L dep \<in> requirement_name L ` set (constraint_entries text)) requirements \<and>
    list_all (\<lambda>name. import_key L name \<in> set stdlib \<union> set mods \<union> set (expand_declared_import_names names))
      (concat (map imported_names (concat trees))) \<and>
    list_all (\<lambda>(n, v). exact_version L v \<and> map_of a' n = Some v) a \<and>
    list_all (\<lambda>(n, v). exact_version L v \<and> map_of b' n = Some v) b)"
  by (rule policy_main_Inr)

text \<open>A requirement with a wildcard has an equality, so it passes; its version floats.\<close>

lemma stripped_line:
  assumes "\<forall>c \<in> set s. of_char c < (128::nat) \<and> of_char c \<notin> white_points" "s \<noteq> []"
  shows "stripped_lines s = [s]"
proof -
  have sub: "line_points \<subseteq> white_points" by (auto simp: line_points_def white_points_def)
  have "set ps \<inter> line_points = {} \<Longrightarrow> split_points cur ps = (if cur @ ps = [] then [] else [cur @ ps])" for cur ps
    by (induction ps arbitrary: cur) auto
  from this [of "map of_char s" "[]"] have "split_points [] (map of_char s) = [map of_char s]"
    using assms sub by auto
  moreover have "concat (map (utf8_encode \<circ> of_char) s) = s"
    using assms(1) by (induction s) (auto simp: utf8_encode_ascii)
  ultimately show ?thesis using assms(1) py_strip_id [of s] by (simp add: stripped_lines_def utf8_points_ascii)
qed

lemma floating_version_passes:
  "policy_main \<lparr>tl_lower = str_lower, tl_digits = (\<lambda>s. s \<noteq> [] \<and> list_all is_digit s)\<rparr> []
     \<lparr>rf_pyproject = pyproject_of [''pytest==9.*''] [], rf_constraints = ''pytest==9.1.1'',
       rf_package = npm_document [] [], rf_lock = lock_document [] [], rf_modules = [], rf_trees = map Inr []\<rparr> = Inr 0"
proof -
  have "stripped_lines ''pytest==9.1.1'' = [''pytest==9.1.1'']"
    by (rule stripped_line) (simp_all add: white_points_def)
  moreover have "PIN_PATTERN ''pytest==9.1.1''" by code_simp
  ultimately show ?thesis
    unfolding policy_main_Inr Let_def
    by (simp add: constraint_entries_def pinned_def requirement_name_def head_part_def startswith_def)
qed

end
