(* ===== verification/Sbom.thy ===== *)
theory Sbom
  imports DependencyPolicy "HOL-Library.Product_Lexorder" "HOL-Library.Multiset"
begin

text \<open>
  \<open>src/scripts/generate_sbom.py\<close>: the bill of materials of the declared dependencies, its text, and the
  command that writes or checks it.  \<open>sha256\<close> is the hexadecimal digest; the documents are given parsed
  and as the bytes of their files.
\<close>

section \<open>The components\<close>

record sbom_inputs =
  si_pyproject :: pydict
  si_package :: pyval
  si_lock :: pyval
  si_pyproject_bytes :: string
  si_constraints_bytes :: string
  si_package_bytes :: string
  si_lock_bytes :: string

text \<open>\<open>name, version = dep.split("==", 1)\<close>\<close>

definition pip_component :: "string \<Rightarrow> pyval \<Rightarrow> pydict res" where
  "pip_component section dep =
     (case dep of
        VStr s \<Rightarrow>
          (case split_first ''=='' s of
             None \<Rightarrow> Inl (ValueError ''not enough values to unpack (expected 2, got 1)'')
           | Some (name, version) \<Rightarrow>
               Inr [(''ecosystem'', VStr ''pip''), (''name'', VStr name), (''version'', VStr version),
                 (''scope'', VStr section), (''source'', VStr ''pyproject.toml'')])
      | _ \<Rightarrow> Inl no_attribute)"

definition python_components :: "pydict \<Rightarrow> pydict list res" where
  "python_components data =
     (let project = get_or data ''project'' (VDict []) in
      bindE (py_get project ''dependencies'' (VList [])) (\<lambda>runtime.
      bindE (py_get project ''optional-dependencies'' (VDict [])) (\<lambda>groups.
      bindE (dict_of groups) (\<lambda>groups.
      bindE (mapE (\<lambda>(_, group). py_tuple group) groups) (\<lambda>optional.
      bindE (py_tuple runtime) (\<lambda>runtime.
      bindE (mapE (pip_component ''runtime'') runtime) (\<lambda>a.
      bindE (mapE (pip_component ''optional'') (concat optional)) (\<lambda>b. Inr (a @ b)))))))))"

definition npm_component :: "pyval \<Rightarrow> pyval \<Rightarrow> string \<Rightarrow> string \<times> pyval \<Rightarrow> pydict res" where
  "npm_component lock root_meta section p =
     bindE (py_get root_meta section (VDict [])) (\<lambda>lock_section.
     bindE (py_get lock ''packages'' (VDict [])) (\<lambda>packages.
     bindE (py_get packages (''node_modules/'' @ fst p) (VDict [])) (\<lambda>package_info.
     bindE (py_get package_info ''integrity'' (VStr [])) (\<lambda>integrity.
     bindE (py_get lock_section (fst p) (VStr [])) (\<lambda>lock_version.
       Inr [(''ecosystem'', VStr ''npm''), (''name'', VStr (fst p)), (''version'', snd p),
         (''scope'', VStr (if section = ''dependencies'' then ''runtime'' else ''development'')),
         (''integrity'', integrity), (''lock_version'', lock_version), (''source'', VStr ''package-lock.json'')])))))"

definition npm_components :: "pyval \<Rightarrow> pyval \<Rightarrow> pydict list res" where
  "npm_components package lock =
     bindE (py_get lock ''packages'' (VDict [])) (\<lambda>packages.
     bindE (py_get packages [] (VDict [])) (\<lambda>root_meta.
     bindE (mapE (\<lambda>section.
         bindE (py_get package section (VDict [])) (\<lambda>deps.
         bindE (dict_of deps) (mapE (npm_component lock root_meta section)))) npm_sections) (\<lambda>components.
       Inr (concat components))))"

definition text_field :: "pydict \<Rightarrow> string \<Rightarrow> string" where
  "text_field d k = (case map_of d k of Some (VStr s) \<Rightarrow> s | _ \<Rightarrow> [])"

definition component_key :: "pydict \<Rightarrow> string \<times> string" where
  "component_key item = (text_field item ''ecosystem'', text_field item ''name'')"

definition build_sbom :: "(string \<Rightarrow> string) \<Rightarrow> sbom_inputs \<Rightarrow> pydict res" where
  "build_sbom sha256 S =
     bindE (python_components (si_pyproject S)) (\<lambda>pip.
     bindE (npm_components (si_package S) (si_lock S)) (\<lambda>npm.
       let components = sort_key component_key (pip @ npm) in
       Inr [(''schema'', VStr ''Sovereignty-AI-Gate-SBOM-v1''), (''repository'', VStr ''Appel420/Sovereignty-AI-Gate''),
         (''components'', VList (map VDict components)),
         (''verification'', VDict
           [(''pyproject.toml.sha256'', VStr (sha256 (si_pyproject_bytes S))),
            (''constraints/py312.txt.sha256'', VStr (sha256 (si_constraints_bytes S))),
            (''package.json.sha256'', VStr (sha256 (si_package_bytes S))),
            (''package-lock.json.sha256'', VStr (sha256 (si_lock_bytes S)))])]))"

section \<open>The command\<close>

text \<open>\<open>json.dumps(payload, indent=2, sort_keys=True) + "\n"\<close>\<close>

definition sbom_style :: json_style where
  "sbom_style = \<lparr>js_quote = quote_ascii, js_nan = True, js_item = '','', js_key = '': '', js_sort = True\<rparr>"

definition render_sbom :: "(string \<Rightarrow> string) \<Rightarrow> sbom_inputs \<Rightarrow> string res" where
  "render_sbom sha256 S =
     bindE (build_sbom sha256 S) (\<lambda>payload.
       case emit sbom_style 2 0 (VDict payload) [] of
         (Inl ex, _) \<Rightarrow> Inl ex
       | (Inr _, text) \<Rightarrow> Inr (text @ [CHR 0x0A]))"

text \<open>\<open>read_text\<close> reads every line end as a newline.\<close>

fun universal_newlines :: "string \<Rightarrow> string" where
  "universal_newlines [] = []"
| "universal_newlines (c # r) =
     (if c = CHR 0x0D then CHR 0x0A # universal_newlines (drop (if take 1 r = [CHR 0x0A] then 1 else 0) r)
      else c # universal_newlines r)"

definition sbom_main :: "(string \<Rightarrow> string) \<Rightarrow> sbom_inputs \<Rightarrow> string option \<Rightarrow> string option \<Rightarrow>
    (string \<rightharpoonup> string) \<Rightarrow> int res \<times> (string \<rightharpoonup> string)" where
  "sbom_main sha256 S out chk files =
     (case render_sbom sha256 S of
        Inl ex \<Rightarrow> (Inl ex, files)
      | Inr rendered \<Rightarrow>
          let files = (case out of None \<Rightarrow> files | Some path \<Rightarrow> files(path \<mapsto> rendered)) in
          case chk of
            None \<Rightarrow> (Inr 0, files)
          | Some path \<Rightarrow>
              (case files path of
                 None \<Rightarrow> (Inl (AppError ''FileNotFoundError'' ''No such file or directory''), files)
               | Some raw \<Rightarrow>
                   if \<not> utf8_ok raw then (Inl (AppError ''UnicodeDecodeError'' ''invalid utf-8''), files)
                   else if universal_newlines raw \<noteq> rendered
                   then (Inl (ValueError (''SBOM is out of date: regenerate '' @ path)), files)
                   else (Inr 0, files)))"

section \<open>What the bill lists\<close>

text \<open>A component as ecosystem, name and version.\<close>

definition component_of :: "pydict \<Rightarrow> string \<times> string \<times> string" where
  "component_of item = (text_field item ''ecosystem'', text_field item ''name'', text_field item ''version'')"

definition required_component :: "string \<Rightarrow> string \<times> string \<times> string" where
  "required_component dep = (''pip'', case split_first ''=='' dep of None \<Rightarrow> (dep, []) | Some p \<Rightarrow> p)"

text \<open>A document of texts alone.\<close>

fun texts_only :: "pyval \<Rightarrow> bool" where
  "texts_only (VStr s) = True"
| "texts_only (VList xs) = list_all texts_only xs"
| "texts_only (VDict d) = list_all (\<lambda>p. texts_only (snd p)) d"
| "texts_only v = False"

lemma pip_components_Inr:
  "mapE (pip_component section) (map VStr deps) = Inr cs \<Longrightarrow>
   map component_of cs = map required_component deps \<and> list_all (\<lambda>c. texts_only (VDict c)) cs"
proof (induction deps arbitrary: cs)
  case (Cons dep deps)
  then show ?case
    by (auto simp: res_simps pip_component_def component_of_def required_component_def text_field_def split: option.splits prod.splits)
qed simp

lemma pip_components_total:
  "list_all pinned deps \<Longrightarrow> \<exists>cs. mapE (pip_component section) (map VStr deps) = Inr cs"
  by (induction deps) (auto simp: pip_component_def pinned_def)

lemma python_components_Inr:
  assumes "list_all pinned (deps @ concat (map snd groups))"
  obtains cs where "python_components (pyproject_of deps groups) = Inr cs"
    "map component_of cs = map required_component (deps @ concat (map snd groups))" "list_all (\<lambda>c. texts_only (VDict c)) cs"
proof -
  have g: "mapE (\<lambda>(_, group). py_tuple group) (map (\<lambda>(g, ds). (g, str_list ds)) gs) = Inr (map (map VStr \<circ> snd) gs)" for gs
    by (induction gs) (auto simp: str_list_def py_tuple_def)
  have c: "concat (map (map VStr \<circ> snd) gs) = map VStr (concat (map snd gs))" for gs :: "(string \<times> string list) list"
    by (induction gs) simp_all
  obtain a b where ab: "mapE (pip_component ''runtime'') (map VStr deps) = Inr a"
    "mapE (pip_component ''optional'') (map VStr (concat (map snd groups))) = Inr b"
    using pip_components_total assms by (metis list_all_append)
  have "python_components (pyproject_of deps groups) = Inr (a @ b)"
    using ab by (simp add: python_components_def pyproject_of_def get_or_def py_get_def dict_of_def str_list_def [of deps]
        py_tuple_def [of "VList _"] g c)
  with pip_components_Inr [OF ab(1)] pip_components_Inr [OF ab(2)] that show thesis by auto
qed

lemma npm_components_Inr:
  obtains cs where "npm_components (npm_document a b) (lock_document a' b') = Inr cs"
    "map component_of cs = map (\<lambda>(n, v). (''npm'', n, v)) (a @ b)" "list_all (\<lambda>c. texts_only (VDict c)) cs"
proof -
  let ?one = "\<lambda>section. npm_component (lock_document a' b') (npm_document a' b') section"
  have one: "\<exists>c. ?one sec (n, VStr v) = Inr c \<and> component_of c = (''npm'', n, v) \<and> texts_only (VDict c)"
    if "sec \<in> set npm_sections" for sec n v
    using that by (auto simp: npm_sections_def npm_component_def lock_document_def npm_document_def py_get_def dict_of_def get_or_def
        npm_lookup component_of_def text_field_def split: option.split)
  have many: "\<exists>cs. mapE (?one sec) (map (\<lambda>(n, v). (n, VStr v)) d) = Inr cs \<and>
      map component_of cs = map (\<lambda>(n, v). (''npm'', n, v)) d \<and> list_all (\<lambda>c. texts_only (VDict c)) cs"
    if "sec \<in> set npm_sections" for sec d
  proof (induction d)
    case (Cons p d)
    with one [OF that, of "fst p" "snd p"] show ?case by (cases p) auto
  qed simp
  obtain x y where xy: "mapE (?one ''dependencies'') (map (\<lambda>(n, v). (n, VStr v)) a) = Inr x"
    "mapE (?one ''devDependencies'') (map (\<lambda>(n, v). (n, VStr v)) b) = Inr y"
    "map component_of x = map (\<lambda>(n, v). (''npm'', n, v)) a" "map component_of y = map (\<lambda>(n, v). (''npm'', n, v)) b"
    "list_all (\<lambda>c. texts_only (VDict c)) x" "list_all (\<lambda>c. texts_only (VDict c)) y"
    using many [of "''dependencies''" a] many [of "''devDependencies''" b] by (auto simp: npm_sections_def)
  have "npm_components (npm_document a b) (lock_document a' b') = Inr (x @ y)"
    using xy(1,2) unfolding npm_components_def
    by (simp add: lock_document_def [of a' b'] npm_document_def [of a b] npm_sections_def py_get_def dict_of_def get_or_def)
  with xy that show thesis by simp
qed

section \<open>The text\<close>

text \<open>The rendered text is ASCII without carriage returns, so a check reads it as it was written.\<close>

definition printable :: "char set" where
  "printable = {c. of_char c = (10::nat) \<or> 32 \<le> (of_char c :: nat) \<and> (of_char c :: nat) < 127}"

lemma hexdigit_printable: "n < 16 \<Longrightarrow> hexdigit n \<in> printable"
  by (auto simp: hexdigit_def printable_def)

lemma esc_point_printable: "set (esc_point n) \<subseteq> printable"
proof -
  have h: "set (hex4 m) \<subseteq> printable" for m by (simp add: hex4_def hexdigit_printable)
  have b: "CHR 0x5C \<in> printable" "CHR ''u'' \<in> printable" by (simp_all add: printable_def)
  have "set (esc_char c) \<subseteq> printable" if c: "of_char c < (127::nat)" for c
  proof -
    have "of_char c div 16 < (16::nat)" using of_char_lt [of c] by (simp add: less_mult_imp_div_less)
    then have "set (hex_byte c) \<subseteq> printable" by (simp add: hex_byte_def hexdigit_printable)
    moreover have "c \<in> printable" if "\<not> of_char c < (32::nat)" using that c by (simp add: printable_def)
    ultimately show ?thesis by (auto simp: esc_char_eq printable_def)
  qed
  then show ?thesis using h b by (auto simp: esc_point_def Let_def)
qed

lemma quote_ascii_printable: "set (quote_ascii s) \<subseteq> printable"
  using esc_point_printable by (fastforce simp: quote_ascii_def printable_def)

lemma newline_printable: "set (newline_indent i l) \<subseteq> printable"
  by (auto simp: newline_indent_def printable_def)

lemma sep_by_printable: "list_all2 (\<lambda>x t. set t \<subseteq> printable) xs ts \<Longrightarrow> set s \<subseteq> printable \<Longrightarrow> set (sep_by s ts) \<subseteq> printable"
proof (induction rule: list_all2_induct)
  case (Cons x xs t ts)
  then show ?case by (cases ts) simp_all
qed simp

lemma sbom_quote [simp]: "js_quote sbom_style = quote_ascii" "js_sort sbom_style"
  by (simp_all add: sbom_style_def)

lemma punct_printable:
  "CHR ''['' \<in> printable" "CHR '']'' \<in> printable" "CHR ''{'' \<in> printable" "CHR ''}'' \<in> printable" "CHR '','' \<in> printable"
  "CHR '':'' \<in> printable" "CHR '' '' \<in> printable"
  by (simp_all add: printable_def)

lemma emit_printable:
  "texts_only v \<Longrightarrow> \<exists>t. emit sbom_style i l v s = (Inr (), s @ t) \<and> set t \<subseteq> printable"
proof (induction v arbitrary: l s)
  case (VStr x)
  then show ?case by (simp add: fh_write_def quote_ascii_printable)
next
  case (VList xs)
  show ?case
  proof (cases "xs = []")
    case False
    have "\<exists>t. emit sbom_style i (Suc l) x s = (Inr (), s @ t) \<and> set t \<subseteq> printable" if "x \<in> set xs" for x s
      using VList.IH [OF that] VList.prems that by (simp add: list_all_iff)
    from emit_list [OF False this, of s] obtain ts where ts: "list_all2 (\<lambda>x t. set t \<subseteq> printable) xs ts"
      and e: "emit sbom_style i l (VList xs) s = (Inr (), s @ ''['' @ newline_indent i (Suc l) @
        sep_by ('','' @ newline_indent i (Suc l)) ts @ newline_indent i l @ '']'')" by blast
    from sep_by_printable [OF ts, of "'','' @ newline_indent i (Suc l)"] e show ?thesis
      by (simp add: newline_printable punct_printable)
  qed (simp add: fh_write_def punct_printable)
next
  case (VDict d)
  show ?case
  proof (cases "d = []")
    case False
    have "\<exists>t. emit sbom_style i (Suc l) (snd p) s = (Inr (), s @ t) \<and> set t \<subseteq> printable" if "p \<in> set d" for p s
      using VDict.IH [of p "snd p" "Suc l" s] VDict.prems that by (auto simp: list_all_iff snds.simps)
    from emit_dict [OF False this, of s] obtain ts where
      ts: "list_all2 (\<lambda>p u. \<exists>t. u = quote_ascii (fst p) @ '':'' @ '' '' @ t \<and> set t \<subseteq> printable) (sort_key fst d) ts"
      and e: "emit sbom_style i l (VDict d) s = (Inr (), s @ ''{'' @ newline_indent i (Suc l) @
        sep_by ('','' @ newline_indent i (Suc l)) ts @ newline_indent i l @ ''}'')" by auto
    have "list_all2 (\<lambda>p u. set u \<subseteq> printable) (sort_key fst d) ts"
      using ts by (rule list.rel_mono_strong) (auto simp: punct_printable dest: subsetD [OF quote_ascii_printable] subsetD)
    from sep_by_printable [OF this, of "'','' @ newline_indent i (Suc l)"] e show ?thesis
      by (simp add: newline_printable punct_printable)
  qed (simp add: fh_write_def punct_printable)
qed simp_all

lemma printable_reads: "set t \<subseteq> printable \<Longrightarrow> utf8_ok t \<and> universal_newlines t = t"
proof
  show "set t \<subseteq> printable \<Longrightarrow> utf8_ok t" by (rule utf8_ok_ascii) (auto simp: printable_def)
  show "set t \<subseteq> printable \<Longrightarrow> universal_newlines t = t" by (induction t) (auto simp: printable_def)
qed

section \<open>Properties\<close>

text \<open>
  The bill of materials lists the declared dependencies and checks itself.  When every requirement is
  pinned, the bill is rendered; its components are sorted by ecosystem and name and are, as a
  multiset, the requirements of all groups with the name and the version around their first equality,
  and the npm dependencies of both sections; and a bill that was written to a file passes the check on
  the same inputs, as does every file whose text is the rendered one up to its line ends, and no
  other.
\<close>

theorem sbom_lists_and_checks:
  assumes "list_all pinned (deps @ concat (map snd groups))"
    and "S = \<lparr>si_pyproject = pyproject_of deps groups, si_package = npm_document a b, si_lock = lock_document a' b',
      si_pyproject_bytes = t1, si_constraints_bytes = t2, si_package_bytes = t3, si_lock_bytes = t4\<rparr>"
  shows "\<exists>payload cs text. build_sbom sha256 S = Inr payload \<and>
    map_of payload ''components'' = Some (VList (map VDict cs)) \<and> sorted (map component_key cs) \<and>
    mset (map component_of cs) =
      mset (map required_component (deps @ concat (map snd groups)) @ map (\<lambda>(n, v). (''npm'', n, v)) (a @ b)) \<and>
    render_sbom sha256 S = Inr text \<and>
    (\<forall>F. sbom_main sha256 S (Some p) None F = (Inr 0, F(p \<mapsto> text)) \<and>
       sbom_main sha256 S None (Some p) (F(p \<mapsto> text)) = (Inr 0, F(p \<mapsto> text)) \<and>
       (fst (sbom_main sha256 S None (Some p) F) = Inr 0 \<longleftrightarrow>
          (case F p of None \<Rightarrow> False | Some raw \<Rightarrow> utf8_ok raw \<and> universal_newlines raw = text)))"
proof -
  obtain x where x: "python_components (pyproject_of deps groups) = Inr x"
    "map component_of x = map required_component (deps @ concat (map snd groups))" "list_all (\<lambda>c. texts_only (VDict c)) x"
    by (rule python_components_Inr [OF assms(1)])
  obtain y where y: "npm_components (npm_document a b) (lock_document a' b') = Inr y"
    "map component_of y = map (\<lambda>(n, v). (''npm'', n, v)) (a @ b)" "list_all (\<lambda>c. texts_only (VDict c)) y"
    by (rule npm_components_Inr)
  let ?cs = "sort_key component_key (x @ y)"
  obtain payload where payload: "build_sbom sha256 S = Inr payload" "map_of payload ''components'' = Some (VList (map VDict ?cs))"
    "texts_only (VDict payload)"
    using x(1,3) y(1,3) by (simp add: build_sbom_def assms(2) list_all_iff comp_def ball_Un)
  obtain t where t: "emit sbom_style 2 0 (VDict payload) [] = (Inr (), t)" "set t \<subseteq> printable"
    using emit_printable [OF payload(3), of 2 0 "[]"] by auto
  let ?text = "t @ [CHR 0x0A]"
  have r: "render_sbom sha256 S = Inr ?text" by (simp add: render_sbom_def payload(1) t(1) del: emit.simps)
  have "set ?text \<subseteq> printable" using t(2) by (simp add: printable_def)
  from printable_reads [OF this] have "utf8_ok ?text" "universal_newlines ?text = ?text" by simp_all
  moreover have "mset (map component_of ?cs) = mset (map component_of x @ map component_of y)" by simp
  ultimately show ?thesis
    using payload(1,2) r x(2) y(2)
    by (intro exI [of _ payload] exI [of _ ?cs] exI [of _ ?text]) (auto simp: sbom_main_def Let_def split: option.split)
qed

end
