(* ===== verification/CloudConfig.thy ===== *)
theory CloudConfig
  imports DependencyPolicy
begin

text \<open>
  \<open>src/scripts/validate_cloud_config.py\<close>, the release check of the deployment files.  Its regular
  expressions are matchers on code points, each proved equal to the expression read as a
  description of the texts that it matches.  The texts of the files are arguments, as they are read.
\<close>

section \<open>Regular expressions\<close>

abbreviation white :: "nat \<Rightarrow> bool" where
  "white c \<equiv> c \<in> white_points"

definition points :: "string \<Rightarrow> nat list" where
  "points s = map of_char s"

text \<open>\<open>re.search\<close> tries every position; with \<open>MULTILINE\<close>, \<open>^\<close> matches at the start and after a newline.\<close>

fun search :: "(nat list \<Rightarrow> bool) \<Rightarrow> nat list \<Rightarrow> bool" where
  "search p [] = p []"
| "search p (c # r) = (p (c # r) \<or> search p r)"

fun search_lines :: "(nat list \<Rightarrow> bool) \<Rightarrow> bool \<Rightarrow> nat list \<Rightarrow> bool" where
  "search_lines p start [] = (start \<and> p [])"
| "search_lines p start (c # r) = (start \<and> p (c # r) \<or> search_lines p (c = 10) r)"

definition after :: "string \<Rightarrow> nat list \<Rightarrow> nat list option" where
  "after k ps = (if take (length k) ps = points k then Some (drop (length k) ps) else None)"

text \<open>\<open>(TOKEN|SECRET|PASSWORD|PRIVATE_KEY)\s*=\s*[^$\n]+\<close>\<close>

definition secret_words :: "string list" where
  "secret_words = [''TOKEN'', ''SECRET'', ''PASSWORD'', ''PRIVATE_KEY'']"

definition secret_value :: "nat list \<Rightarrow> bool" where
  "secret_value r \<longleftrightarrow>
     list_ex (\<lambda>c. c \<noteq> 10) (takeWhile white r) \<or>
     (case dropWhile white r of [] \<Rightarrow> False | c # _ \<Rightarrow> c \<noteq> 36)"

definition secret_here :: "nat list \<Rightarrow> bool" where
  "secret_here ps \<longleftrightarrow> list_ex (\<lambda>k.
     case after k ps of
       None \<Rightarrow> False
     | Some r \<Rightarrow> (case dropWhile white r of [] \<Rightarrow> False | c # r' \<Rightarrow> c = 61 \<and> secret_value r')) secret_words"

text \<open>\<open>^FROM\s+\S+:latest\<close> and \<open>^USER\s+[^\s]+\<close>\<close>

definition from_latest_here :: "nat list \<Rightarrow> bool" where
  "from_latest_here ps \<longleftrightarrow>
     (case after ''FROM'' ps of
        None \<Rightarrow> False
      | Some r \<Rightarrow>
          let word = takeWhile (\<lambda>c. \<not> white c) (dropWhile white r) in
          takeWhile white r \<noteq> [] \<and> word \<noteq> [] \<and> search (\<lambda>q. after '':latest'' q \<noteq> None) (tl word))"

definition user_here :: "nat list \<Rightarrow> bool" where
  "user_here ps \<longleftrightarrow>
     (case after ''USER'' ps of None \<Rightarrow> False | Some r \<Rightarrow> takeWhile white r \<noteq> [] \<and> dropWhile white r \<noteq> [])"

text \<open>\<open>ACTION_PIN_RE\<close> on a line: name characters contain neither a slash nor an at sign.\<close>

definition name_point :: "nat \<Rightarrow> bool" where
  "name_point n \<longleftrightarrow> 48 \<le> n \<and> n \<le> 57 \<or> 65 \<le> n \<and> n \<le> 90 \<or> 97 \<le> n \<and> n \<le> 122 \<or> n \<in> {45, 46, 95}"

definition hex_point :: "nat \<Rightarrow> bool" where
  "hex_point n \<longleftrightarrow> 48 \<le> n \<and> n \<le> 57 \<or> 97 \<le> n \<and> n \<le> 102"

definition names_until :: "nat \<Rightarrow> nat list \<Rightarrow> nat list option" where
  "names_until stop ps =
     (if takeWhile name_point ps = [] then None
      else case dropWhile name_point ps of [] \<Rightarrow> None | c # r \<Rightarrow> if c = stop then Some r else None)"

definition ACTION_PIN_RE :: "nat list \<Rightarrow> bool" where
  "ACTION_PIN_RE line \<longleftrightarrow>
     (let s = dropWhile white line;
          s = (case after ''-'' s of
                 None \<Rightarrow> s
               | Some r \<Rightarrow> if takeWhile white r = [] then s else dropWhile white r) in
      case after ''uses:'' s of
        None \<Rightarrow> False
      | Some r \<Rightarrow>
          takeWhile white r \<noteq> [] \<and>
          (case names_until 47 (dropWhile white r) of
             None \<Rightarrow> False
           | Some r \<Rightarrow>
               (case names_until 64 r of
                  None \<Rightarrow> False
                | Some r \<Rightarrow> length (take 40 r) = 40 \<and> list_all hex_point (take 40 r) \<and> list_all white (drop 40 r))))"

section \<open>The checks\<close>

definition require :: "bool \<Rightarrow> string \<Rightarrow> unit res" where
  "require condition message = guardE condition (ValueError message)"

definition validate_compose :: "string \<Rightarrow> unit res" where
  "validate_compose text =
     bindE (require (\<not> contains_text '':latest'' text) ''compose must not use floating :latest image tags'') (\<lambda>_.
     bindE (require (contains_text ''read_only: true'' text) ''compose service must keep read_only root filesystem'') (\<lambda>_.
     bindE (require (contains_text ''no-new-privileges:true'' text) ''compose service must set no-new-privileges'') (\<lambda>_.
     bindE (require (contains_text ''SIA_OFFLINE=1'' text) ''compose must enforce offline mode by default'') (\<lambda>_.
     bindE (require (contains_text ''internal: true'' text) ''compose network must be marked internal'') (\<lambda>_.
     bindE (require (contains_text ''networks:'' text) ''compose must define explicit networks'') (\<lambda>_.
     bindE (require (contains_text ''user:'' text) ''compose must declare non-root runtime user'') (\<lambda>_.
       require (\<not> search secret_here (utf8_points text)) ''compose contains plaintext secret-like environment values'')))))))"

definition validate_dockerfile :: "string \<Rightarrow> unit res" where
  "validate_dockerfile text =
     bindE (require (\<not> search_lines from_latest_here True (utf8_points text)) ''docker base image must not use :latest'') (\<lambda>_.
       require (search_lines user_here True (utf8_points text)) ''dockerfile must set non-root USER'')"

definition validate_nginx :: "string \<Rightarrow> unit res" where
  "validate_nginx text =
     bindE (require (contains_text ''listen 9898;'' text) ''nginx must listen on approved frontend port'') (\<lambda>_.
     bindE (require (contains_text (''connect-src '' @ CHR 0x27 # ''none'' @ [CHR 0x27]) text)
       ''nginx CSP must fail closed for outbound connections'') (\<lambda>_.
     bindE (require (\<not> contains_text ''Access-Control-Allow-Origin *'' text \<and>
         \<not> contains_text (''add_header Access-Control-Allow-Origin '' @ CHR 0x22 # ''*'' @ [CHR 0x22]) text)
       ''nginx must not allow wildcard CORS'') (\<lambda>_.
       require (\<not> contains_text ''ssl_protocols TLSv1 '' text \<and> \<not> contains_text ''ssl_protocols TLSv1.1'' text)
         ''insecure TLS protocols are forbidden'')))"

definition validate_workflow :: "string \<times> string \<Rightarrow> unit res" where
  "validate_workflow w =
     (let (name, text) = w in
      bindE (require (\<not> contains_text ''pull_request_target:'' text) (name @ '': pull_request_target is not allowed'')) (\<lambda>_.
      bindE (require (contains_text ''permissions:'' text \<and> contains_text ''contents: read'' text)
        (name @ '': permissions must be read-only'')) (\<lambda>_.
      bindE (mapE (\<lambda>line.
          if \<not> search (\<lambda>q. after ''uses:'' q \<noteq> None) line then Inr ()
          else require (ACTION_PIN_RE line) (name @ '': third-party actions must be pinned by full commit SHA''))
        (split_points [] (utf8_points text))) (\<lambda>_. Inr ()))))"

definition validate_workflows :: "(string \<times> string) list \<Rightarrow> unit res" where
  "validate_workflows workflows = bindE (mapE validate_workflow workflows) (\<lambda>_. Inr ())"

definition cloud_main :: "string \<Rightarrow> string \<Rightarrow> string \<Rightarrow> (string \<times> string) list \<Rightarrow> int res" where
  "cloud_main compose dockerfile nginx workflows =
     bindE (validate_compose compose) (\<lambda>_.
     bindE (validate_dockerfile dockerfile) (\<lambda>_.
     bindE (validate_nginx nginx) (\<lambda>_.
     bindE (validate_workflows workflows) (\<lambda>_. Inr 0))))"

section \<open>The expressions as descriptions\<close>

lemma search_iff: "search p ps \<longleftrightarrow> (\<exists>a b. ps = a @ b \<and> p b)"
proof (induction ps)
  case (Cons c r)
  then show ?case by (auto simp: Cons_eq_append_conv)
qed simp

lemma append_Cons_ex:
  "(\<exists>a b. c # r = a @ b \<and> Q a \<and> p b) \<longleftrightarrow> Q [] \<and> p (c # r) \<or> (\<exists>a b. r = a @ b \<and> Q (c # a) \<and> p b)"
  by (auto simp: Cons_eq_append_conv)

lemma search_lines_iff:
  "search_lines p start ps \<longleftrightarrow> (\<exists>a b. ps = a @ b \<and> (if a = [] then start else last a = 10) \<and> p b)"
proof (induction ps arbitrary: start)
  case (Cons c r)
  show ?case
    unfolding search_lines.simps Cons.IH append_Cons_ex [where Q = "\<lambda>a. if a = [] then start else last a = 10"] by simp
qed auto

lemma after_Some: "after k ps = Some r \<longleftrightarrow> ps = points k @ r"
proof
  assume "after k ps = Some r"
  then have "take (length k) ps = points k" "r = drop (length k) ps" by (simp_all add: after_def split: if_splits)
  then show "ps = points k @ r" by (metis append_take_drop_id)
qed (simp add: after_def points_def)

lemma white_ascii [simp]: "\<not> white 61" "\<not> white 45" "\<not> white 117" "\<not> white 36" "white 10"
  by (auto simp: white_points_def)

text \<open>White space up to something else.\<close>

lemma white_split: "dropWhile white ps = c # r \<longleftrightarrow> (\<exists>w. ps = w @ c # r \<and> set w \<subseteq> white_points) \<and> \<not> white c"
proof
  assume "dropWhile white ps = c # r"
  then show "(\<exists>w. ps = w @ c # r \<and> set w \<subseteq> white_points) \<and> \<not> white c"
    by (metis dropWhile_eq_Cons_conv set_takeWhileD subsetI takeWhile_dropWhile_id)
next
  assume "(\<exists>w. ps = w @ c # r \<and> set w \<subseteq> white_points) \<and> \<not> white c"
  then show "dropWhile white ps = c # r" by (auto simp: dropWhile_append)
qed

definition assigns_secret :: "nat list \<Rightarrow> bool" where
  "assigns_secret ps \<longleftrightarrow>
     (\<exists>a k w v c b. ps = a @ points k @ w @ 61 # v @ c # b \<and> k \<in> set secret_words \<and> set w \<subseteq> white_points \<and>
        set v \<subseteq> white_points \<and> c \<notin> {36, 10})"

lemma secret_value_iff: "secret_value r \<longleftrightarrow> (\<exists>v c b. r = v @ c # b \<and> set v \<subseteq> white_points \<and> c \<notin> {36, 10})"
proof
  assume "secret_value r"
  then consider (blank) c where "c \<in> set (takeWhile white r)" "c \<noteq> 10"
    | (other) c b where "dropWhile white r = c # b" "c \<noteq> 36"
    by (auto simp: secret_value_def list_ex_iff split: list.splits)
  then show "\<exists>v c b. r = v @ c # b \<and> set v \<subseteq> white_points \<and> c \<notin> {36, 10}"
  proof cases
    case blank
    then obtain v b where v: "takeWhile white r = v @ c # b" by (meson split_list)
    then have "r = v @ c # (b @ dropWhile white r)" by (metis append.assoc append_Cons takeWhile_dropWhile_id)
    moreover have "set (v @ c # b) \<subseteq> white_points" using v set_takeWhileD by (metis subsetI)
    ultimately show ?thesis using blank(2) white_ascii(4) by (intro exI conjI) auto
  next
    case other
    then show ?thesis unfolding white_split using white_ascii(5) by (metis insertE empty_iff)
  qed
next
  assume "\<exists>v c b. r = v @ c # b \<and> set v \<subseteq> white_points \<and> c \<notin> {36, 10}"
  then obtain v c b where r: "r = v @ c # b" "set v \<subseteq> white_points" "c \<noteq> 36" "c \<noteq> 10" by auto
  then have "takeWhile white r = v @ takeWhile white (c # b)" "dropWhile white r = dropWhile white (c # b)"
    by (auto simp: takeWhile_append dropWhile_append)
  with r(3,4) show "secret_value r" by (cases "white c") (auto simp: secret_value_def)
qed

lemma secret_search: "search secret_here ps \<longleftrightarrow> assigns_secret ps"
proof -
  have here: "secret_here qs \<longleftrightarrow> (\<exists>k w v c b. qs = points k @ w @ 61 # v @ c # b \<and> k \<in> set secret_words \<and>
      set w \<subseteq> white_points \<and> set v \<subseteq> white_points \<and> c \<notin> {36, 10})" for qs
  proof -
    have each: "(case after k qs of None \<Rightarrow> False
        | Some r \<Rightarrow> (case dropWhile white r of [] \<Rightarrow> False | c # r' \<Rightarrow> c = 61 \<and> secret_value r')) \<longleftrightarrow>
      (\<exists>r r'. after k qs = Some r \<and> dropWhile white r = 61 # r' \<and> secret_value r')" for k
      by (cases "after k qs"; cases "dropWhile white (the (after k qs))") (simp_all del: dropWhile_eq_Nil_conv)
    have "(\<exists>r r'. after k qs = Some r \<and> dropWhile white r = 61 # r' \<and> secret_value r') \<longleftrightarrow>
      (\<exists>w v c b. qs = points k @ w @ 61 # v @ c # b \<and> set w \<subseteq> white_points \<and> set v \<subseteq> white_points \<and> c \<notin> {36, 10})" for k
      unfolding after_Some white_split secret_value_iff using white_ascii(1) by blast
    then show ?thesis unfolding secret_here_def list_ex_iff each by blast
  qed
  show ?thesis unfolding search_iff assigns_secret_def here by blast
qed

text \<open>A line that uses an action by the full hash of a commit.\<close>

definition uses_pinned :: "nat list \<Rightarrow> bool" where
  "uses_pinned line \<longleftrightarrow>
     (\<exists>w d u owner repo sha z. line = w @ d @ points ''uses:'' @ u @ owner @ 47 # repo @ 64 # sha @ z \<and>
        set w \<subseteq> white_points \<and> (d = [] \<or> (\<exists>x. d = 45 # x \<and> x \<noteq> [] \<and> set x \<subseteq> white_points)) \<and>
        u \<noteq> [] \<and> set u \<subseteq> white_points \<and> owner \<noteq> [] \<and> list_all name_point owner \<and> repo \<noteq> [] \<and> list_all name_point repo \<and>
        length sha = 40 \<and> list_all hex_point sha \<and> set z \<subseteq> white_points)"

lemma names_until_Some:
  "\<not> name_point stop \<Longrightarrow>
   names_until stop ps = Some r \<longleftrightarrow> (\<exists>x. ps = x @ stop # r \<and> x \<noteq> [] \<and> list_all name_point x)"
proof
  assume "\<not> name_point stop" "\<exists>x. ps = x @ stop # r \<and> x \<noteq> [] \<and> list_all name_point x"
  then show "names_until stop ps = Some r" by (auto simp: names_until_def list_all_iff takeWhile_append dropWhile_append)
next
  assume "names_until stop ps = Some r"
  then have "takeWhile name_point ps \<noteq> []" "dropWhile name_point ps = stop # r"
    by (auto simp: names_until_def split: if_splits list.splits)
  moreover have "ps = takeWhile name_point ps @ dropWhile name_point ps" by simp
  ultimately show "\<exists>x. ps = x @ stop # r \<and> x \<noteq> [] \<and> list_all name_point x"
    by (metis list_all_iff set_takeWhileD)
qed

lemma white_run:
  "set w \<subseteq> white_points \<Longrightarrow> \<not> white c \<Longrightarrow> takeWhile white (w @ c # r) = w \<and> dropWhile white (w @ c # r) = c # r"
  by (auto simp: takeWhile_append dropWhile_append)

lemma white_parts: "ps = takeWhile white ps @ dropWhile white ps \<and> set (takeWhile white ps) \<subseteq> white_points"
  by (auto dest: set_takeWhileD)

text \<open>What follows \<open>uses:\<close>.\<close>

definition pinned_reference :: "nat list \<Rightarrow> bool" where
  "pinned_reference r \<longleftrightarrow> takeWhile white r \<noteq> [] \<and>
     (\<exists>q q'. names_until 47 (dropWhile white r) = Some q \<and> names_until 64 q = Some q' \<and>
        length (take 40 q') = 40 \<and> list_all hex_point (take 40 q') \<and> list_all white (drop 40 q'))"

lemma names_white: "name_point c \<Longrightarrow> \<not> white c"
  by (auto simp: name_point_def white_points_def)

lemma pinned_reference_iff:
  "pinned_reference r \<longleftrightarrow>
     (\<exists>u owner repo sha z. r = u @ owner @ 47 # repo @ 64 # sha @ z \<and> u \<noteq> [] \<and> set u \<subseteq> white_points \<and> owner \<noteq> [] \<and>
        list_all name_point owner \<and> repo \<noteq> [] \<and> list_all name_point repo \<and> length sha = 40 \<and> list_all hex_point sha \<and>
        set z \<subseteq> white_points)" (is "_ \<longleftrightarrow> ?R")
proof
  have np: "\<not> name_point 47" "\<not> name_point 64" by (simp_all add: name_point_def)
  show "pinned_reference r \<Longrightarrow> ?R"
  proof -
    assume "pinned_reference r"
    then obtain q q' where q: "takeWhile white r \<noteq> []" "names_until 47 (dropWhile white r) = Some q" "names_until 64 q = Some q'"
      "length (take 40 q') = 40" "list_all hex_point (take 40 q')" "list_all white (drop 40 q')"
      unfolding pinned_reference_def by blast
    from q(2,3) obtain owner repo where o: "dropWhile white r = owner @ 47 # q" "owner \<noteq> []" "list_all name_point owner"
      "q = repo @ 64 # q'" "repo \<noteq> []" "list_all name_point repo"
      unfolding names_until_Some [OF np(1)] names_until_Some [OF np(2)] by blast
    have "r = takeWhile white r @ owner @ 47 # repo @ 64 # take 40 q' @ drop 40 q'"
      using o(1,4) takeWhile_dropWhile_id [of white r] by (simp del: takeWhile_dropWhile_id)
    moreover have "set (takeWhile white r) \<subseteq> white_points" using white_parts by blast
    moreover have "set (drop 40 q') \<subseteq> white_points" using q(6) by (auto simp: list_all_iff)
    ultimately show ?R using q(1,4,5) o(2,3,5,6) by blast
  qed
  assume ?R
  then obtain u owner repo sha z where r: "r = u @ owner @ 47 # repo @ 64 # sha @ z" "u \<noteq> []" "set u \<subseteq> white_points"
    "owner \<noteq> []" "list_all name_point owner" "repo \<noteq> []" "list_all name_point repo" "length sha = 40" "list_all hex_point sha"
    "set z \<subseteq> white_points" by blast
  obtain c cs where c: "owner = c # cs" "\<not> white c" using r(4,5) names_white by (cases owner) auto
  from white_run [OF r(3) c(2), of "cs @ 47 # repo @ 64 # sha @ z"] have
    w: "takeWhile white r = u" "dropWhile white r = owner @ 47 # repo @ 64 # sha @ z" using r(1) c(1) by simp_all
  have n: "names_until 47 (dropWhile white r) = Some (repo @ 64 # sha @ z)" "names_until 64 (repo @ 64 # sha @ z) = Some (sha @ z)"
    unfolding names_until_Some [OF np(1)] names_until_Some [OF np(2)] w(2) using r(4-7) by blast+
  have "length (take 40 (sha @ z)) = 40" "take 40 (sha @ z) = sha" "drop 40 (sha @ z) = z" using r(8) by simp_all
  moreover have "list_all white z" using r(10) by (auto simp: list_all_iff)
  ultimately show "pinned_reference r" unfolding pinned_reference_def w(1) using r(2,9) n by metis
qed

text \<open>The optional dash of a list item.\<close>

definition list_item :: "nat list \<Rightarrow> bool" where
  "list_item d \<longleftrightarrow> d = [] \<or> (\<exists>x. d = 45 # x \<and> x \<noteq> [] \<and> set x \<subseteq> white_points)"

definition skip_dash :: "nat list \<Rightarrow> nat list" where
  "skip_dash s = (case after ''-'' s of None \<Rightarrow> s | Some r \<Rightarrow> if takeWhile white r = [] then s else dropWhile white r)"

lemma skip_dash_parts:
  obtains d where "s = d @ skip_dash s" "list_item d"
proof (cases "skip_dash s = s")
  case True
  then show ?thesis by (intro that [of "[]"]) (simp_all add: list_item_def)
next
  case False
  then obtain q where q: "s = points ''-'' @ q" "takeWhile white q \<noteq> []" "skip_dash s = dropWhile white q"
    by (auto simp: skip_dash_def after_Some split: option.splits if_splits)
  show ?thesis
  proof (rule that)
    show "s = (45 # takeWhile white q) @ skip_dash s" using q(1,3) by (simp add: points_def)
    show "list_item (45 # takeWhile white q)" using q(2) white_parts [of q] unfolding list_item_def by blast
  qed
qed

lemma skip_dash_run:
  assumes "list_item d" "c \<noteq> 45" "\<not> white c"
  shows "skip_dash (d @ c # r) = c # r"
  using assms(1) unfolding list_item_def
proof
  assume "d = []"
  then show ?thesis using assms(2) by (simp add: skip_dash_def after_def points_def)
next
  assume "\<exists>x. d = 45 # x \<and> x \<noteq> [] \<and> set x \<subseteq> white_points"
  then obtain x where x: "d = 45 # x" "x \<noteq> []" "set x \<subseteq> white_points" by blast
  then have "after ''-'' (d @ c # r) = Some (x @ c # r)" by (simp add: after_def points_def)
  with white_run [OF x(3) assms(3), of r] x(2) show ?thesis by (simp add: skip_dash_def)
qed

lemma action_pin: "ACTION_PIN_RE line \<longleftrightarrow> uses_pinned line"
proof -
  let ?s = "skip_dash (dropWhile white line)"
  have re: "ACTION_PIN_RE line \<longleftrightarrow> (\<exists>r. ?s = points ''uses:'' @ r \<and> pinned_reference r)"
    unfolding ACTION_PIN_RE_def Let_def pinned_reference_def after_Some [symmetric] skip_dash_def
    by (auto split: option.split)
  obtain us where us: "points ''uses:'' = 117 # us" by (simp add: points_def)
  have item: "?s = points ''uses:'' @ r \<longleftrightarrow> (\<exists>w d. line = w @ d @ points ''uses:'' @ r \<and> set w \<subseteq> white_points \<and> list_item d)" for r
  proof
    assume s: "?s = points ''uses:'' @ r"
    obtain d where "dropWhile white line = d @ ?s" "list_item d" by (rule skip_dash_parts)
    then have "line = takeWhile white line @ d @ points ''uses:'' @ r"
      using s takeWhile_dropWhile_id [of white line] by (simp del: takeWhile_dropWhile_id)
    with \<open>list_item d\<close> white_parts show "\<exists>w d. line = w @ d @ points ''uses:'' @ r \<and> set w \<subseteq> white_points \<and> list_item d" by blast
  next
    assume "\<exists>w d. line = w @ d @ points ''uses:'' @ r \<and> set w \<subseteq> white_points \<and> list_item d"
    then obtain w d where l: "line = w @ d @ 117 # us @ r" "set w \<subseteq> white_points" "list_item d" unfolding us by auto
    obtain c q where c: "d @ 117 # us @ r = c # q" "\<not> white c"
      using l(3) by (cases d) (auto simp: list_item_def)
    have "dropWhile white line = d @ 117 # us @ r" using white_run [OF l(2) c(2), of q] l(1) c(1) by simp
    with skip_dash_run [OF l(3), of 117 "us @ r"] show "?s = points ''uses:'' @ r" unfolding us by simp
  qed
  have "uses_pinned line \<longleftrightarrow>
      (\<exists>w d r. line = w @ d @ points ''uses:'' @ r \<and> set w \<subseteq> white_points \<and> list_item d \<and> pinned_reference r)"
    unfolding pinned_reference_iff uses_pinned_def list_item_def by blast
  then show ?thesis unfolding re item by blast
qed

section \<open>Properties\<close>

text \<open>
  The cloud check passes exactly when the compose file has the required settings, no floating tag and
  no assignment of a value that does not start with a dollar sign to a name that ends with a secret
  word; the Dockerfile names no image with \<open>:latest\<close> after \<open>FROM\<close> at the start of a line and names a user
  at the start of a line; the nginx file listens on the port, closes outbound connections and has
  neither wildcard CORS nor the named old protocols; and every workflow has its permissions, no
  \<open>pull_request_target\<close>, and every line with \<open>uses:\<close> is a use of an action by a full commit hash.
\<close>

theorem cloud_check_passes_exactly:
  "cloud_main compose dockerfile nginx workflows = Inr 0 \<longleftrightarrow>
     list_all (\<lambda>s. contains_text s compose)
       [''read_only: true'', ''no-new-privileges:true'', ''SIA_OFFLINE=1'', ''internal: true'', ''networks:'', ''user:''] \<and>
     \<not> contains_text '':latest'' compose \<and> \<not> assigns_secret (utf8_points compose) \<and>
     \<not> (\<exists>a b. utf8_points dockerfile = a @ b \<and> (a = [] \<or> last a = 10) \<and> from_latest_here b) \<and>
     (\<exists>a b. utf8_points dockerfile = a @ b \<and> (a = [] \<or> last a = 10) \<and> user_here b) \<and>
     validate_nginx nginx = Inr () \<and>
     list_all (\<lambda>(name, text). \<not> contains_text ''pull_request_target:'' text \<and> contains_text ''permissions:'' text \<and>
       contains_text ''contents: read'' text \<and>
       list_all (\<lambda>line. uses_pinned line \<or> \<not> (\<exists>a b. line = a @ points ''uses:'' @ b)) (split_points [] (utf8_points text))) workflows"
proof -
  have lines: "search_lines p True ps \<longleftrightarrow> (\<exists>a b. ps = a @ b \<and> (a = [] \<or> last a = 10) \<and> p b)" for p ps
    unfolding search_lines_iff by (simp add: if_bool_eq_disj) blast
  have uses: "search (\<lambda>q. after ''uses:'' q \<noteq> None) line \<longleftrightarrow> (\<exists>a b. line = a @ points ''uses:'' @ b)" for line
    unfolding search_iff not_None_eq after_Some by blast
  have "(\<exists>us. mapE (\<lambda>line. if \<not> search (\<lambda>q. after ''uses:'' q \<noteq> None) line then Inr ()
      else require (ACTION_PIN_RE line) m) ls = Inr us) \<longleftrightarrow>
      list_all (\<lambda>line. uses_pinned line \<or> \<not> (\<exists>a b. line = a @ points ''uses:'' @ b)) ls" for m ls
    unfolding uses action_pin by (induction ls) (auto simp: res_simps require_def)
  then have workflow: "validate_workflow (name, body) = Inr () \<longleftrightarrow>
      \<not> contains_text ''pull_request_target:'' body \<and> contains_text ''permissions:'' body \<and> contains_text ''contents: read'' body \<and>
      list_all (\<lambda>line. uses_pinned line \<or> \<not> (\<exists>a b. line = a @ points ''uses:'' @ b)) (split_points [] (utf8_points body))" for name body
    unfolding validate_workflow_def Let_def prod.case by (simp add: res_simps require_def)
  have "validate_workflows ws = Inr () \<longleftrightarrow> list_all (\<lambda>(name, body).
      \<not> contains_text ''pull_request_target:'' body \<and> contains_text ''permissions:'' body \<and> contains_text ''contents: read'' body \<and>
      list_all (\<lambda>line. uses_pinned line \<or> \<not> (\<exists>a b. line = a @ points ''uses:'' @ b)) (split_points [] (utf8_points body))) ws" for ws
    unfolding validate_workflows_def
    by (induction ws) (simp_all add: res_simps workflow split: prod.split)
  then show ?thesis
    unfolding cloud_main_def validate_compose_def validate_dockerfile_def require_def lines secret_search
    by (simp add: res_simps conj_assoc) blast
qed

text \<open>
  Two gaps.  A workflow that names \<open>contents: read\<close> may grant write permissions next to it, and a version
  list that ends with TLS 1.0 is not recognised as one.
\<close>

lemma split_no_lines: "set ps \<inter> line_points = {} \<Longrightarrow> ps \<noteq> [] \<Longrightarrow> split_points cur ps = [cur @ ps]"
proof (induction ps arbitrary: cur)
  case (Cons c ps)
  then show ?case by (cases "ps = []") auto
qed simp

lemma workflow_passesI:
  "\<not> contains_text ''pull_request_target:'' body \<Longrightarrow> contains_text ''permissions:'' body \<Longrightarrow>
   contains_text ''contents: read'' body \<Longrightarrow> split_points [] (utf8_points body) = [line] \<Longrightarrow>
   \<not> search (\<lambda>q. after ''uses:'' q \<noteq> None) line \<Longrightarrow> validate_workflow (name, body) = Inr ()"
  by (simp add: validate_workflow_def require_def)

lemma write_permissions_pass: "validate_workflow (''w'', ''permissions: {contents: read, packages: write}'') = Inr ()"
proof -
  let ?t = "''permissions: {contents: read, packages: write}''"
  have u: "utf8_points ?t = map of_char ?t" by (rule utf8_points_ascii) simp
  have "split_points [] (map of_char ?t) = [map of_char ?t :: nat list]"
    by (subst split_no_lines) (simp_all add: line_points_def)
  then have l: "split_points [] (utf8_points ?t) = [map of_char ?t]" unfolding u .
  have s: "\<not> search (\<lambda>q. after ''uses:'' q \<noteq> None) (map of_char ?t)" by (simp add: after_def points_def)
  show ?thesis by (rule workflow_passesI [OF _ _ _ l s]) code_simp+
qed

lemma old_tls_passes: "validate_nginx (''listen 9898; connect-src '' @ CHR 0x27 # ''none'' @ CHR 0x27 # ''; ssl_protocols TLSv1;'') = Inr ()"
  by code_simp

end
