(* ===== verification/Spec2Isabelle.thy ===== *)
theory Spec2Isabelle
  imports AuditRecorder Scar Identity CapabilityManager CapabilityRefinement Policy Records AuthorityLife
    MerkleReference SbpCodec SbpAudit SbpObject SbpProtocol Egress GateOne MemoryStore GovernedDrivers BundleWire
    Mcp McpServer Conformance Quota DependencyPolicy Sbom CloudConfig
begin

text \<open>
  A verification library for the Python program of this repository: the SIA authority, the SBP protocol
  and Gate.one.  Every theory models the source files that its own header names.

  \<^bold>\<open>The program.\<close>  \<open>SovereignAuthority\<close> (\<open>src/sia/authority.py\<close>) is the one place where anything
  happens.  A governed call (memory, import, export, tool, provider) is an \<open>OperationRequest\<close> with an
  identity and a capability; the authority gate verifies identity, capability and policy in this order
  and records the decision as an event of the device-signed SCAR ledger.  An allowed provider call gets
  an \<open>AuthorizedContextPacket\<close> from the memory firewall and runs one of the HTTP drivers; an allowed tool
  call gets an execution context for the playground executor; each writes its lifecycle into the
  authority's audit ledger.  The MCP adapter and its stdio server turn tool calls of a client into such
  operations on a workspace.  Beside it stand the capability manager over delegation tokens, the Merkle
  tree over logs, the memory chain of the vault, the encrypted memory files of the providers, export and
  import bundles, cloud egress envelopes, the weekly quota and the conformance harness.  The SBP packages
  give offline roots, branches, sealed objects and replication; Gate.one verifies attestations of devices.
  Three scripts (\<open>src/scripts/\<close>) check a release: its dependencies, its bill of materials, its deployment.

  \<^bold>\<open>How the model corresponds to the code.\<close>
    \<^item> A class is a \<open>record\<close> with one field per attribute, an enumeration a \<open>datatype\<close>, a method an
      operation that takes the object and returns the result with the object after it.
    \<^item> An exception is a value of \<open>pyexc\<close> (\<open>Prelude\<close>); \<open>'a res\<close> is \<open>pyexc + 'a\<close>.  An operation that raises
      keeps what it changed before (\<open>StateOps\<close>).  Message texts that are built from values are left out.
    \<^item> A \<open>str\<close> is the list of its UTF-8 bytes, a \<open>dict\<close> an association list in insertion order, a JSON-like
      value a \<open>pyval\<close> (\<open>Canonical\<close>).  Python's integers are \<open>int\<close>; no arithmetic of the program wraps.
    \<^item> Clock readings, \<open>uuid4\<close> and \<open>os.urandom\<close> are arguments.  A call of the authority may read the clock
      several times: \<open>ce_at e i\<close> is the \<open>i\<close>-th reading of its environment.
    \<^item> Delegation tokens are mutable objects that the authorizer and the grants share: they live in a heap
      (\<open>Delegation\<close>, \<open>CapabilityManager\<close>).
    \<^item> Code outside the repository is a parameter with its documented law as a named hypothesis: the digest,
      NFC and ISO formatting (\<open>runtime\<close>), Ed25519 (\<open>ed25519\<close>), AES-GCM (\<open>aesgcm\<close>), the egress ciphers
      (\<open>egress_crypto\<close>), Fernet (\<open>fernet\<close>), liboqs and \<open>tpm2_checkquote\<close> (\<open>GateOne\<close>), subprocesses, the
      network and the file system.  A hash statement says what equal hashes show when the digest is
      injective on the finitely many byte strings that were hashed.
    \<^item> The standard library is modelled where the sources depend on it: \<open>json.dumps\<close> (\<open>Canonical\<close>),
      \<open>json.loads\<close> (\<open>JsonRead\<close>; \<open>JsonGrammar\<close> is the grammar of the texts it accepts), indented JSON and JSON
      files (\<open>JsonFiles\<close>), \<open>base64\<close> as of Python 3.12 (\<open>Base64\<close>), \<open>str.strip\<close> and UTF-8 (\<open>PyText\<close>).

  \<^bold>\<open>Theories.\<close>
    \<^item> Foundations: \<open>Errors\<close>, \<open>Prelude\<close>, \<open>StateOps\<close> (operations and the \<open>keeps\<close> rules for invariants),
      \<open>StateLogic\<close> (weakest preconditions of operations), \<open>Canonical\<close> (canonical values and bytes; they
      determine each other), \<open>JsonRead\<close>, \<open>JsonGrammar\<close> (every text that the writer makes is one of the
      grammar, and every text of the grammar is read as its value), \<open>JsonFiles\<close>, \<open>PyText\<close>, \<open>Base64\<close>.
    \<^item> Logs: \<open>HashChain\<close> is the locale of a hash-chained log (append law, closure under prefixes, the head
      commits to the content), interpreted by \<open>AuditLedger\<close>, \<open>MemoryChain\<close>, \<open>Scar\<close> and \<open>SbpAudit\<close>;
      \<open>AuditRecorder\<close> writes typed entries; \<open>Merkle\<close> and \<open>MerkleReference\<close> hold inclusion proofs, their
      completeness and soundness, and the equality with a recursive reference.
    \<^item> Trust: \<open>TrustRoot\<close> (the locale of a signing backend), \<open>Identity\<close>, \<open>Capability\<close>, \<open>Delegation\<close>,
      \<open>CapabilityManager\<close>, \<open>CapabilityRefinement\<close> (the manager refines a table of immutable rights), \<open>Policy\<close>.
    \<^item> The authority: \<open>Gate\<close> (the locale of evidence recorders), \<open>GateAdapters\<close> (its interpretation, which
      requests are allowed, the firewall), \<open>Records\<close>, \<open>Tools\<close>, \<open>Authority\<close> (every method, its invariant),
      \<open>AuthorityLife\<close> (histories of calls, denied calls, governed calls), \<open>Lifecycle\<close> (the state machine of a
      provider call, which \<open>call_provider_authorized\<close> refines).
    \<^item> Outer interfaces: \<open>McpWorkspace\<close> (confinement), \<open>Mcp\<close>, \<open>McpServer\<close> (sessions), \<open>Providers\<close> (registry
      and drivers), \<open>GovernedDrivers\<close> (the drivers as providers of governed calls), \<open>MemoryStore\<close>,
      \<open>BundleWire\<close>, \<open>Egress\<close>, \<open>Quota\<close>, \<open>Conformance\<close>.
    \<^item> SBP: \<open>SbpRoot\<close>, \<open>SbpCodec\<close>, \<open>SbpAudit\<close>, \<open>SbpObject\<close>, \<open>SbpProtocol\<close>.  Gate.one: \<open>GateOne\<close>.
    \<^item> Release checks: \<open>DependencyPolicy\<close>, \<open>Sbom\<close>, \<open>CloudConfig\<close>.  Each ends with a theorem that says exactly
      when the check passes (\<open>dependency_check_passes_exactly\<close>, \<open>sbom_lists_and_checks\<close>,
      \<open>cloud_check_passes_exactly\<close>) and with inputs that pass against its own messages.

  \<^bold>\<open>What the properties show.\<close>  Each stands at the end of the theory of its component, after a text that
  names it.  Invariants: the logs of an authority verify after every history of calls and every MCP
  session.  Functional statements: exactly which requests the gate allows, what Gate.one decides, which
  delegations verify, what the quota counts.  Safety: what a denied call leaves behind, what the firewall
  releases and what a driver posts in a governed call, that the executor and the workspace tools stay
  within their limits, that a revoked capability stays denied.  Refinements: the capability manager
  refines a table of rights, and a provider call the state machine of its events.  Round trips: stored
  memory, provider files, sealed envelopes and manifests, branch records, the tool audit file.  The rest
  is an equivalence and a termination bound (Merkle tree), a typing of canonical documents, the exact
  length of derived keys, the errors before initialization, and the events that an allowed provider call
  always leaves.  Further theorems (the admitted provider ids, the JSON helpers, the release checks) are
  not numbered.

  \<^bold>\<open>Bounds.\<close>  The JSON reader recurses with fuel \<open>2 * length s + 2\<close> (\<open>json_fuel\<close>): each level consumes a
  character of the text at the latest every second step, and \<open>json_loads_written\<close> shows it to be enough
  for every text that \<open>json.dumps\<close> writes.  All other recursions are structural or have a measure.

  \<^bold>\<open>Not modelled.\<close>  The warning that an adapter prints to \<open>stderr\<close> and what the scripts print; TOML and the
  Python parser, whose results are arguments; thread locks; recursion limits and the digit limit of
  \<open>int\<close>; \<open>str.lower\<close> outside ASCII in the registry, which cannot match a banned prefix; lists returned by
  reference that a caller could mutate (the guidance lists of the quota).  Modules that only re-export
  names and the browser dashboard (JavaScript) are not part of the program that is modelled.
\<close>

end
